(* ===== verification/Prelude.thy ===== *)
theory Prelude
  imports Main "HOL-Library.Word"
begin

text \<open>
  What every theory of the development shares: the fact collections, byte strings with the
  operations of Go's package \<open>strings\<close> the exporter calls, and the generic lemmas on them.

  A Go \<open>string\<close> (and a \<open>[]byte\<close>) is a list of bytes, and an Isabelle \<^typ>\<open>char\<close> is one byte,
  so both are \<^typ>\<open>string\<close> here. \<open>strings.ToLower\<close> and \<open>strings.TrimSpace\<close> are written for the
  ASCII range; bytes of a multi-byte rune are left as they are.
\<close>

section \<open>Fact collections\<close>

named_theorems go_string \<open>equations of the string operations\<close>
named_theorems wf_emit \<open>well-formedness of emitted metrics\<close>
named_theorems desc_arity \<open>number of variable labels of a descriptor\<close>
named_theorems desc_def \<open>definitions of the metric descriptors\<close>

type_synonym u8 = "8 word"
type_synonym u32 = "32 word"
type_synonym u64 = "64 word"

section \<open>Characters\<close>

definition is_digit :: "char \<Rightarrow> bool" where
  "is_digit c \<longleftrightarrow> 48 \<le> (of_char c :: nat) \<and> (of_char c :: nat) \<le> 57"

definition digit_val :: "char \<Rightarrow> int" where
  "digit_val c = (of_char c :: int) - 48"

definition is_upper :: "char \<Rightarrow> bool" where
  "is_upper c \<longleftrightarrow> 65 \<le> (of_char c :: nat) \<and> (of_char c :: nat) \<le> 90"

definition is_lower :: "char \<Rightarrow> bool" where
  "is_lower c \<longleftrightarrow> 97 \<le> (of_char c :: nat) \<and> (of_char c :: nat) \<le> 122"

definition lower_char :: "char \<Rightarrow> char" where
  "lower_char c = (if is_upper c then char_of ((of_char c :: nat) + 32) else c)"

definition digit_char :: "int \<Rightarrow> char" where
  "digit_char d = char_of (d + 48)"


lemma of_char_nat_int: "(of_char c :: int) = int (of_char c :: nat)"
  by (simp add: of_nat_of_char)

lemma digit_val_bounds: "is_digit c \<Longrightarrow> 0 \<le> digit_val c \<and> digit_val c \<le> 9"
  by (auto simp: is_digit_def digit_val_def of_char_nat_int)

lemma is_digit_digit_char: "0 \<le> d \<Longrightarrow> d \<le> 9 \<Longrightarrow> is_digit (digit_char d)"
  and digit_val_digit_char: "0 \<le> d \<Longrightarrow> d \<le> 9 \<Longrightarrow> digit_val (digit_char d) = d"
proof -
  have "of_char (digit_char d :: char) = (d + 48) mod 256"
    by (simp add: digit_char_def of_char_of)
  moreover assume "0 \<le> d" "d \<le> 9"
  ultimately have *: "of_char (digit_char d :: char) = d + 48" by simp
  then show "digit_val (digit_char d) = d" by (simp add: digit_val_def)
  from * \<open>0 \<le> d\<close> \<open>d \<le> 9\<close> show "is_digit (digit_char d)"
    by (auto simp: is_digit_def of_char_nat_int)
qed

section \<open>Package strings\<close>

definition strings_HasPrefix :: "string \<Rightarrow> string \<Rightarrow> bool" where
  "strings_HasPrefix s p \<longleftrightarrow> take (length p) s = p"

definition strings_TrimPrefix :: "string \<Rightarrow> string \<Rightarrow> string" where
  "strings_TrimPrefix s p = (if strings_HasPrefix s p then drop (length p) s else s)"

text \<open>\<open>strings.Cut\<close>: the text before and after the first occurrence of the separator.\<close>

fun strings_Cut :: "string \<Rightarrow> string \<Rightarrow> (string \<times> string) option" where
  "strings_Cut [] sep = (if sep = [] then Some ([], []) else None)"
| "strings_Cut (c # s) sep =
     (if strings_HasPrefix (c # s) sep then Some ([], drop (length sep) (c # s))
      else map_option (\<lambda>(a, b). (c # a, b)) (strings_Cut s sep))"

definition strings_Contains :: "string \<Rightarrow> string \<Rightarrow> bool" where
  "strings_Contains s sub \<longleftrightarrow> strings_Cut s sub \<noteq> None"

text \<open>
  \<open>strings.Split\<close> for a non-empty separator, the only use in the exporter (Go's special case
  for the empty one is not reached, and the guard gives \<open>[s]\<close> there).
\<close>

fun strings_Split :: "string \<Rightarrow> string \<Rightarrow> string list" where
  "strings_Split s sep =
     (case strings_Cut s sep of
        None \<Rightarrow> [s]
      | Some (a, b) \<Rightarrow> if length b < length s then a # strings_Split b sep else [s])"

declare strings_Split.simps [simp del]

definition strings_SplitN2 :: "string \<Rightarrow> string \<Rightarrow> string list" where
  "strings_SplitN2 s sep = (case strings_Cut s sep of None \<Rightarrow> [s] | Some (a, b) \<Rightarrow> [a, b])"

fun strings_Join :: "string list \<Rightarrow> string \<Rightarrow> string" where
  "strings_Join [] sep = []"
| "strings_Join [x] sep = x"
| "strings_Join (x # y # ys) sep = x @ sep @ strings_Join (y # ys) sep"

definition strings_ReplaceAll :: "string \<Rightarrow> string \<Rightarrow> string \<Rightarrow> string" where
  "strings_ReplaceAll s old new = strings_Join (strings_Split s old) new"

definition strings_ToLower :: "string \<Rightarrow> string" where
  "strings_ToLower s = map lower_char s"

definition is_space :: "char \<Rightarrow> bool" where
  "is_space c \<longleftrightarrow> c \<in> {CHR 0x09, CHR 0x0A, CHR 0x0B, CHR 0x0C, CHR 0x0D, CHR 0x20}"

definition strings_TrimSpace :: "string \<Rightarrow> string" where
  "strings_TrimSpace s = rev (dropWhile is_space (rev (dropWhile is_space s)))"

subsection \<open>Laws\<close>

lemma strings_Cut_Some:
  "strings_Cut s sep = Some (a, b) \<Longrightarrow> s = a @ sep @ b"
proof (induction s sep arbitrary: a b rule: strings_Cut.induct)
  case (1 sep)
  then show ?case by (auto split: if_splits)
next
  case (2 c s sep)
  then show ?case
    by (auto simp: strings_HasPrefix_def split: if_splits) (metis append_take_drop_id)
qed

lemma strings_Cut_shorter:
  "strings_Cut s sep = Some (a, b) \<Longrightarrow> sep \<noteq> [] \<Longrightarrow> length b < length s"
  by (auto dest!: strings_Cut_Some)

lemma strings_Split_ne [simp]: "strings_Split s sep \<noteq> []"
  by (subst strings_Split.simps) (auto split: option.splits)

lemma strings_Join_Cons:
  "xs \<noteq> [] \<Longrightarrow> strings_Join (x # xs) sep = x @ sep @ strings_Join xs sep"
  by (cases xs) auto

text \<open>Splitting loses nothing: joining with the separator gives the text back.\<close>

lemma strings_Join_Split: "strings_Join (strings_Split s sep) sep = s"
proof (induction s sep rule: strings_Split.induct)
  case (1 s sep)
  show ?case
  proof (cases "strings_Cut s sep")
    case None
    then show ?thesis by (simp add: strings_Split.simps [of s])
  next
    case (Some ab)
    then obtain a b where ab: "strings_Cut s sep = Some (a, b)" by (cases ab) auto
    with "1.IH" [OF ab refl] show ?thesis
      by (auto simp: strings_Split.simps [of s] strings_Join_Cons dest: strings_Cut_Some)
  qed
qed

lemma HasPrefix_append [simp]: "strings_HasPrefix (p @ s) p"
  by (simp add: strings_HasPrefix_def)

lemma strings_HasPrefix_iff: "strings_HasPrefix s p \<longleftrightarrow> (\<exists>r. s = p @ r)"
  by (auto simp: strings_HasPrefix_def) (metis append_take_drop_id)

lemma strings_TrimPrefix_append [simp]: "strings_TrimPrefix (p @ s) p = s"
  by (simp add: strings_TrimPrefix_def)

text \<open>Replacing a single byte is a map over the text.\<close>

lemma strings_Cut_single:
  "strings_Cut s [c] =
     (if c \<in> set s then Some (takeWhile (\<lambda>x. x \<noteq> c) s, tl (dropWhile (\<lambda>x. x \<noteq> c) s)) else None)"
  by (induction s) (auto simp: strings_HasPrefix_def)

lemma strings_ReplaceAll_single:
  "strings_ReplaceAll s [c] new = concat (map (\<lambda>x. if x = c then new else [x]) s)"
proof (induction s "[c]" rule: strings_Split.induct)
  case (1 s)
  show ?case
  proof (cases "strings_Cut s [c]")
    case None
    then have "c \<notin> set s" by (auto simp: strings_Cut_single split: if_splits)
    then have "concat (map (\<lambda>x. if x = c then new else [x]) s) = s" by (induction s) auto
    with None show ?thesis
      by (simp add: strings_ReplaceAll_def strings_Split.simps [of s])
  next
    case (Some ab)
    then obtain a b where ab: "strings_Cut s [c] = Some (a, b)" by (cases ab) auto
    then have s: "s = a @ c # b" by (auto dest: strings_Cut_Some)
    from ab have "c \<notin> set a"
      by (auto simp: strings_Cut_single split: if_splits dest: set_takeWhileD)
    then have a: "concat (map (\<lambda>x. if x = c then new else [x]) a) = a"
      by (induction a) auto
    from "1" [OF ab refl] s have
      "strings_ReplaceAll b [c] new = concat (map (\<lambda>x. if x = c then new else [x]) b)" by simp
    with ab s a show ?thesis
      by (simp add: strings_ReplaceAll_def strings_Split.simps [of "a @ c # b"] strings_Join_Cons)
  qed
qed

lemma strings_ToLower_length [simp]: "length (strings_ToLower s) = length s"
  by (simp add: strings_ToLower_def)

text \<open>Splitting at a single byte undoes joining with it.\<close>

lemma strings_Cut_single_append:
  "c \<notin> set a \<Longrightarrow> strings_Cut (a @ c # b) [c] = Some (a, b)"
  by (induction a) (auto simp: strings_HasPrefix_def)

lemma strings_Split_single_none: "c \<notin> set a \<Longrightarrow> strings_Split a [c] = [a]"
  by (simp add: strings_Split.simps [of a] strings_Cut_single)

lemma strings_Split_single_cons: "c \<notin> set a \<Longrightarrow> strings_Split (a @ c # b) [c] = a # strings_Split b [c]"
  by (simp add: strings_Split.simps [of "a @ c # b"] strings_Cut_single_append)

lemma strings_Split_Join_single:
  "xs \<noteq> [] \<Longrightarrow> \<forall>x \<in> set xs. c \<notin> set x \<Longrightarrow> strings_Split (strings_Join xs [c]) [c] = xs"
proof (induction xs "[c]" rule: strings_Join.induct)
  case (3 x y ys)
  then show ?case
    by (simp add: strings_Split.simps [of "x @ c # strings_Join (y # ys) [c]"] strings_Cut_single_append)
qed (simp_all add: strings_Split_single_none)

lemma dropWhile_hd: "s = [] \<or> \<not> P (hd s) \<Longrightarrow> dropWhile P s = s"
  by (cases s) auto

lemma strings_TrimSpace_id:
  "s = [] \<or> \<not> is_space (hd s) \<and> \<not> is_space (last s) \<Longrightarrow> strings_TrimSpace s = s"
  by (auto simp: strings_TrimSpace_def dropWhile_hd hd_rev)

end
