(* ===== verification/GoFloat.thy ===== *)
theory GoFloat
  imports Prelude Complex_Main
begin

text \<open>
  Go's \<open>float64\<close>: IEEE 754 binary64 with round to nearest, ties to even. A finite value is a
  sign, an integer significand and a binary exponent; \<open>canonical\<close> says which triples are
  the values of the format. Every operation computes the exact rational result and rounds it
  once with \<open>round_frac\<close>. The payload and sign of a NaN are not kept: the exporter never
  looks at them.
\<close>

datatype float64 = NaN | FInf bool | Fin bool int int
  \<comment> \<open>\<open>Fin s m e\<close> is \<open>m * 2 ^ e\<close>, negated when \<open>s\<close>\<close>

definition min_exp :: int where "min_exp = -1074"
definition max_exp :: int where "max_exp = 971"

definition canonical :: "float64 \<Rightarrow> bool" where
  "canonical x = (case x of
      NaN \<Rightarrow> True
    | FInf s \<Rightarrow> True
    | Fin s m e \<Rightarrow> 0 \<le> m \<and> m < 2 ^ 53 \<and> min_exp \<le> e \<and> e \<le> max_exp \<and>
                  (2 ^ 52 \<le> m \<or> e = min_exp))"

definition fval :: "float64 \<Rightarrow> real" where
  "fval x = (case x of Fin s m e \<Rightarrow> (if s then - 1 else 1) * of_int m * 2 powi e | _ \<Rightarrow> 0)"

definition is_finite :: "float64 \<Rightarrow> bool" where
  "is_finite x = (case x of Fin s m e \<Rightarrow> True | _ \<Rightarrow> False)"

section \<open>Rounding a rational\<close>

fun flog2 :: "int \<Rightarrow> int" where
  "flog2 n = (if n \<le> 1 then 0 else 1 + flog2 (n div 2))"

declare flog2.simps [simp del]

text \<open>The quotient \<open>n / d\<close> rounded to the nearest integer, ties to even.\<close>

definition round_div :: "int \<Rightarrow> int \<Rightarrow> int" where
  "round_div n d =
     (let q = n div d; r = n mod d
      in if 2 * r < d then q else if 2 * r > d then q + 1 else if even q then q else q + 1)"

text \<open>The largest \<open>k\<close> with \<open>2 ^ k \<le> n / d\<close>.\<close>

definition frac_log2 :: "int \<Rightarrow> int \<Rightarrow> int" where
  "frac_log2 n d =
     (let k = flog2 n - flog2 d
      in if d * 2 ^ nat k \<le> n * 2 ^ nat (- k) then k else k - 1)"

text \<open>
  The float nearest to \<open>n / d\<close> with sign \<open>s\<close> (for \<open>0 \<le> n\<close>, \<open>0 < d\<close>): the exponent is
  chosen so that the significand has 53 bits, or is \<open>min_exp\<close> for subnormals.
\<close>

definition round_frac :: "bool \<Rightarrow> int \<Rightarrow> int \<Rightarrow> float64" where
  "round_frac s n d =
     (if n = 0 then Fin s 0 min_exp
      else let e = max (frac_log2 n d - 52) min_exp;
               m = round_div (n * 2 ^ nat (- e)) (d * 2 ^ nat e);
               (m', e') = (if m = 2 ^ 53 then (2 ^ 52, e + 1) else (m, e))
           in if e' > max_exp then FInf s else Fin s m' e')"

section \<open>Conversions and constants\<close>

definition f_of_int :: "int \<Rightarrow> float64" where
  "f_of_int i = round_frac (i < 0) \<bar>i\<bar> 1"

definition f_of_u64 :: "u64 \<Rightarrow> float64" where
  "f_of_u64 w = f_of_int (uint w)"

definition f_of_u32 :: "u32 \<Rightarrow> float64" where
  "f_of_u32 w = f_of_int (uint w)"

definition f_of_u8 :: "u8 \<Rightarrow> float64" where
  "f_of_u8 w = f_of_int (uint w)"

definition f_of_i64 :: "u64 \<Rightarrow> float64" where
  "f_of_i64 w = f_of_int (sint w)"

text \<open>\<open>f_lit n k\<close> is the untyped constant \<open>n / 10 ^ k\<close> of the source, e.g. \<open>5.6\<close> is \<open>f_lit 56 1\<close>.\<close>

definition f_lit :: "int \<Rightarrow> nat \<Rightarrow> float64" where
  "f_lit n k = round_frac (n < 0) \<bar>n\<bar> (10 ^ k)"

abbreviation f_zero :: float64 where "f_zero \<equiv> f_of_int 0"
abbreviation f_one :: float64 where "f_one \<equiv> f_of_int 1"

section \<open>Comparison and arithmetic\<close>

text \<open>A finite float as a numerator over a power of two, at a common exponent.\<close>

definition signed :: "bool \<Rightarrow> int \<Rightarrow> int" where
  "signed s m = (if s then - m else m)"

definition shift_to :: "int \<Rightarrow> int \<Rightarrow> int \<Rightarrow> int" where
  "shift_to m e e0 = m * 2 ^ nat (e - e0)"

definition f_lt :: "float64 \<Rightarrow> float64 \<Rightarrow> bool" where
  "f_lt x y = (case (x, y) of
      (NaN, _) \<Rightarrow> False
    | (_, NaN) \<Rightarrow> False
    | (FInf s, FInf t) \<Rightarrow> s \<and> \<not> t
    | (FInf s, Fin _ _ _) \<Rightarrow> s
    | (Fin _ _ _, FInf t) \<Rightarrow> \<not> t
    | (Fin s m e, Fin t n f) \<Rightarrow>
        (let g = min e f in shift_to (signed s m) e g < shift_to (signed t n) f g))"

definition f_eq :: "float64 \<Rightarrow> float64 \<Rightarrow> bool" where
  "f_eq x y = (case (x, y) of
      (NaN, _) \<Rightarrow> False
    | (_, NaN) \<Rightarrow> False
    | (FInf s, FInf t) \<Rightarrow> s = t
    | (FInf s, Fin _ _ _) \<Rightarrow> False
    | (Fin _ _ _, FInf t) \<Rightarrow> False
    | (Fin s m e, Fin t n f) \<Rightarrow>
        (let g = min e f in shift_to (signed s m) e g = shift_to (signed t n) f g))"

definition f_le :: "float64 \<Rightarrow> float64 \<Rightarrow> bool" where
  "f_le x y \<longleftrightarrow> f_lt x y \<or> f_eq x y"

definition f_neg :: "float64 \<Rightarrow> float64" where
  "f_neg x = (case x of NaN \<Rightarrow> NaN | FInf s \<Rightarrow> FInf (\<not> s) | Fin s m e \<Rightarrow> Fin (\<not> s) m e)"

text \<open>Round \<open>i * 2 ^ e\<close>, with \<open>z\<close> the sign of an exact zero.\<close>

definition round_scaled :: "bool \<Rightarrow> int \<Rightarrow> int \<Rightarrow> float64" where
  "round_scaled z i e =
     round_frac (if i = 0 then z else i < 0) (\<bar>i\<bar> * 2 ^ nat e) (2 ^ nat (- e))"

definition f_add :: "float64 \<Rightarrow> float64 \<Rightarrow> float64" where
  "f_add x y = (case (x, y) of
      (NaN, _) \<Rightarrow> NaN
    | (_, NaN) \<Rightarrow> NaN
    | (FInf s, FInf t) \<Rightarrow> if s = t then FInf s else NaN
    | (FInf s, Fin _ _ _) \<Rightarrow> FInf s
    | (Fin _ _ _, FInf t) \<Rightarrow> FInf t
    | (Fin s m e, Fin t n f) \<Rightarrow>
        (let g = min e f
         in round_scaled (s \<and> t) (shift_to (signed s m) e g + shift_to (signed t n) f g) g))"

definition f_sub :: "float64 \<Rightarrow> float64 \<Rightarrow> float64" where
  "f_sub x y = f_add x (f_neg y)"

definition f_mul :: "float64 \<Rightarrow> float64 \<Rightarrow> float64" where
  "f_mul x y = (case (x, y) of
      (NaN, _) \<Rightarrow> NaN
    | (_, NaN) \<Rightarrow> NaN
    | (FInf s, FInf t) \<Rightarrow> FInf (s \<noteq> t)
    | (FInf s, Fin t n _) \<Rightarrow> if n = 0 then NaN else FInf (s \<noteq> t)
    | (Fin s m _, FInf t) \<Rightarrow> if m = 0 then NaN else FInf (s \<noteq> t)
    | (Fin s m e, Fin t n f) \<Rightarrow>
        round_frac (s \<noteq> t) (m * n * 2 ^ nat (e + f)) (2 ^ nat (- (e + f))))"

definition f_div :: "float64 \<Rightarrow> float64 \<Rightarrow> float64" where
  "f_div x y = (case (x, y) of
      (NaN, _) \<Rightarrow> NaN
    | (_, NaN) \<Rightarrow> NaN
    | (FInf s, FInf t) \<Rightarrow> NaN
    | (FInf s, Fin t n _) \<Rightarrow> FInf (s \<noteq> t)
    | (Fin s m _, FInf t) \<Rightarrow> Fin (s \<noteq> t) 0 min_exp
    | (Fin s m e, Fin t n f) \<Rightarrow>
        if n = 0 then (if m = 0 then NaN else FInf (s \<noteq> t))
        else round_frac (s \<noteq> t) (m * 2 ^ nat (e - f)) (n * 2 ^ nat (f - e)))"

section \<open>Correctness of rounding\<close>

lemma flog2_bounds: "1 \<le> n \<Longrightarrow> 0 \<le> flog2 n \<and> 2 ^ nat (flog2 n) \<le> n \<and> n < 2 * 2 ^ nat (flog2 n)"
proof (induction n rule: flog2.induct)
  case (1 n)
  show ?case
  proof (cases "n \<le> 1")
    case True
    with "1.prems" show ?thesis by (simp add: flog2.simps)
  next
    case False
    then have IH: "0 \<le> flog2 (n div 2)" "2 ^ nat (flog2 (n div 2)) \<le> n div 2"
      "n div 2 < 2 * 2 ^ nat (flog2 (n div 2))"
      using "1.IH" by auto
    from False have f: "flog2 n = 1 + flog2 (n div 2)" by (simp add: flog2.simps [of n])
    from IH(1) f have p: "2 ^ nat (flog2 n) = (2::int) * 2 ^ nat (flog2 (n div 2))"
      by (simp add: nat_add_distrib)
    from IH(1) f have "0 \<le> flog2 n" by simp
    with IH(2,3) p show ?thesis by linarith
  qed
qed

lemma round_div_dist:
  assumes "0 < d"
  shows "\<bar>real_of_int (round_div n d) - n / d\<bar> \<le> 1 / 2"
proof -
  define q r where "q = n div d" and "r = n mod d"
  have n: "n = q * d + r" and r: "0 \<le> r" "r < d"
    using assms by (simp_all add: q_def r_def)
  have x: "real_of_int n / d = q + r / d"
    using assms by (simp add: n add_divide_distrib)
  have "round_div n d = (if 2 * r < d then q else if 2 * r > d then q + 1
          else if even q then q else q + 1)"
    by (simp add: round_div_def q_def r_def Let_def)
  moreover have "0 \<le> r / d" using r assms by simp
  moreover have "2 * r \<le> d \<Longrightarrow> r / d \<le> 1 / 2" and "2 * r \<ge> d \<Longrightarrow> r / d \<ge> 1 / 2" and "r / d \<le> 1"
    using r assms by (auto simp: field_simps)
  ultimately show ?thesis
    unfolding x by (auto simp: abs_le_iff split: if_splits)
qed

lemma powi_split: "(2::real) ^ nat (- e) / 2 ^ nat e = 2 powi (- e)"
  by (cases "0 \<le> e") (auto simp: power_int_def field_simps)

lemma flog2_powi:
  assumes "1 \<le> n"
  shows "2 powi flog2 n \<le> real_of_int n" "real_of_int n < 2 powi (flog2 n + 1)"
proof -
  from flog2_bounds [OF assms] have b: "0 \<le> flog2 n" "2 ^ nat (flog2 n) \<le> n" "n < 2 * 2 ^ nat (flog2 n)"
    by auto
  have "2 powi flog2 n = real_of_int (2 ^ nat (flog2 n))" using b(1) by (simp add: power_int_def)
  with b(2) show "2 powi flog2 n \<le> real_of_int n" by linarith
  have "2 powi (flog2 n + 1) = real_of_int (2 * 2 ^ nat (flog2 n))"
    using b(1) by (simp add: power_int_def nat_add_distrib)
  with b(3) show "real_of_int n < 2 powi (flog2 n + 1)" by linarith
qed

lemma frac_log2_bounds:
  assumes n: "1 \<le> n" and d: "1 \<le> d"
  shows "2 powi frac_log2 n d \<le> real_of_int n / d" "real_of_int n / d < 2 powi (frac_log2 n d + 1)"
proof -
  define k where "k = flog2 n - flog2 d"
  have up: "real_of_int n / d < 2 powi (k + 1)"
  proof -
    have "real_of_int n < 2 powi (flog2 n + 1)" using n by (rule flog2_powi)
    also have "\<dots> = 2 powi (k + 1) * 2 powi flog2 d"
      by (simp add: k_def flip: power_int_add)
    also have "\<dots> \<le> 2 powi (k + 1) * d" using flog2_powi(1) [OF d] by simp
    finally show ?thesis using d by (simp add: field_simps)
  qed
  have low: "2 powi (k - 1) \<le> real_of_int n / d"
  proof -
    have "2 powi (k - 1) * d \<le> 2 powi (k - 1) * 2 powi (flog2 d + 1)"
      using flog2_powi(2) [OF d] by simp
    also have "\<dots> = 2 powi flog2 n"  by (simp add: k_def flip: power_int_add)
    also have "\<dots> \<le> n" using n by (rule flog2_powi)
    finally show ?thesis using d by (simp add: field_simps)
  qed
  have test: "d * 2 ^ nat k \<le> n * 2 ^ nat (- k) \<longleftrightarrow> 2 powi k \<le> real_of_int n / d"
  proof -
    have "d * 2 ^ nat k \<le> n * 2 ^ nat (- k) \<longleftrightarrow> real_of_int d * 2 ^ nat k \<le> n * 2 ^ nat (- k)"
      by (metis (mono_tags) of_int_le_iff of_int_mult of_int_numeral of_int_power)
    also have "\<dots> \<longleftrightarrow> 2 powi k \<le> real_of_int n / d"
      using d by (cases "0 \<le> k") (auto simp: power_int_def field_simps)
    finally show ?thesis .
  qed
  show "2 powi frac_log2 n d \<le> real_of_int n / d" "real_of_int n / d < 2 powi (frac_log2 n d + 1)"
    using test up low unfolding frac_log2_def k_def [symmetric] Let_def by auto
qed

text \<open>The significand and exponent \<^const>\<open>round_frac\<close> starts from.\<close>

definition rf_exp :: "int \<Rightarrow> int \<Rightarrow> int" where
  "rf_exp n d = max (frac_log2 n d - 52) min_exp"

definition rf_man :: "int \<Rightarrow> int \<Rightarrow> int" where
  "rf_man n d = round_div (n * 2 ^ nat (- rf_exp n d)) (d * 2 ^ nat (rf_exp n d))"

lemma round_frac_rf:
  "n \<noteq> 0 \<Longrightarrow> round_frac s n d =
     (if rf_man n d = 2 ^ 53
      then (if rf_exp n d + 1 > max_exp then FInf s else Fin s (2 ^ 52) (rf_exp n d + 1))
      else (if rf_exp n d > max_exp then FInf s else Fin s (rf_man n d) (rf_exp n d)))"
  by (simp add: round_frac_def Let_def flip: rf_exp_def rf_man_def)

lemma rf_man_dist:
  assumes "1 \<le> n" "1 \<le> d"
  shows "\<bar>real_of_int (rf_man n d) - n / d * 2 powi (- rf_exp n d)\<bar> \<le> 1 / 2"
proof -
  have "real_of_int (n * 2 ^ nat (- rf_exp n d)) / real_of_int (d * 2 ^ nat (rf_exp n d))
      = n / d * 2 powi (- rf_exp n d)"
    by (simp flip: powi_split)
  with round_div_dist [of "d * 2 ^ nat (rf_exp n d)" "n * 2 ^ nat (- rf_exp n d)"] assms
  show ?thesis by (simp add: rf_man_def)
qed

lemma rf_man_bounds:
  assumes n: "1 \<le> n" and d: "1 \<le> d"
  shows "0 \<le> rf_man n d" "rf_man n d \<le> 2 ^ 53" "rf_exp n d = min_exp \<or> 2 ^ 52 \<le> rf_man n d"
    "min_exp \<le> rf_exp n d"
proof -
  define x where "x = real_of_int n / d * 2 powi (- rf_exp n d)"
  have dist: "\<bar>real_of_int (rf_man n d) - x\<bar> \<le> 1 / 2"
    unfolding x_def by (rule rf_man_dist [OF n d])
  have e: "frac_log2 n d - 52 \<le> rf_exp n d" by (simp add: rf_exp_def)
  have x0: "0 < x" using n d by (simp add: x_def)
  have "x < 2 powi (frac_log2 n d + 1) * 2 powi (- rf_exp n d)"
    unfolding x_def using frac_log2_bounds(2) [OF n d] by (intro mult_strict_right_mono) auto
  also have "\<dots> = 2 powi (frac_log2 n d + 1 - rf_exp n d)" by (simp flip: power_int_add)
  also have "\<dots> \<le> 2 powi 53" using e by (intro power_int_increasing) auto
  finally have "x < 2 ^ 53" by (simp add: power_int_def)
  with dist have "real_of_int (rf_man n d) < 2 ^ 53 + 1" by linarith
  then have "rf_man n d < 2 ^ 53 + 1" by simp
  then show "rf_man n d \<le> 2 ^ 53" by simp
  from dist x0 show "0 \<le> rf_man n d" by linarith
  show "min_exp \<le> rf_exp n d" by (simp add: rf_exp_def)
  show "rf_exp n d = min_exp \<or> 2 ^ 52 \<le> rf_man n d"
  proof (cases "rf_exp n d = min_exp")
    case False
    then have "rf_exp n d = frac_log2 n d - 52" by (auto simp: rf_exp_def max_def split: if_splits)
    then have "(2::real) powi 52 = 2 powi frac_log2 n d * 2 powi (- rf_exp n d)"
      by (simp flip: power_int_add)
    also have "\<dots> \<le> x"
      unfolding x_def using frac_log2_bounds(1) [OF n d] by (intro mult_right_mono) auto
    finally have "2 ^ 52 \<le> x" by (simp add: power_int_def)
    with dist have "2 ^ 52 - 1 < real_of_int (rf_man n d)" by linarith
    then have "2 ^ 52 - 1 < rf_man n d" by simp
    then show ?thesis by simp
  qed simp
qed

lemma round_frac_canonical: "0 \<le> n \<Longrightarrow> 1 \<le> d \<Longrightarrow> canonical (round_frac s n d)"
proof (cases "n = 0")
  case False
  moreover assume "0 \<le> n" "1 \<le> d"
  ultimately have b: "0 \<le> rf_man n d" "rf_man n d \<le> 2 ^ 53"
      "rf_exp n d = min_exp \<or> 2 ^ 52 \<le> rf_man n d" "min_exp \<le> rf_exp n d"
    using rf_man_bounds [of n d] by auto
  from b(4) False show ?thesis
    using b(1-3) unfolding round_frac_rf [OF False]
    by (auto simp: canonical_def max_exp_def min_exp_def)
qed (simp add: round_frac_def canonical_def min_exp_def max_exp_def)

text \<open>A finite result is within half a unit in the last place of the exact quotient.\<close>

lemma round_frac_error:
  assumes n: "1 \<le> n" and d: "1 \<le> d" and fin: "is_finite (round_frac s n d)"
  shows "\<bar>fval (round_frac s n d) - (if s then - (n / d) else n / d)\<bar> \<le> 2 powi (rf_exp n d - 1)"
proof -
  let ?e = "rf_exp n d" and ?m = "rf_man n d"
  have a: "\<bar>real_of_int ?m - n / d * 2 powi (- ?e)\<bar> * 2 powi ?e \<le> 1 / 2 * 2 powi ?e"
    by (rule mult_right_mono [OF rf_man_dist [OF n d]]) simp
  have b: "\<bar>real_of_int ?m - n / d * 2 powi (- ?e)\<bar> * 2 powi ?e = \<bar>?m * 2 powi ?e - n / d\<bar>"
  proof -
    have "\<bar>real_of_int ?m - n / d * 2 powi (- ?e)\<bar> * 2 powi ?e
        = \<bar>(real_of_int ?m - n / d * 2 powi (- ?e)) * 2 powi ?e\<bar>" by (simp add: abs_mult)
    also have "(real_of_int ?m - n / d * 2 powi (- ?e)) * 2 powi ?e
        = ?m * 2 powi ?e - n / d * (2 powi (- ?e) * 2 powi ?e)" by (simp add: algebra_simps)
    also have "(2::real) powi (- ?e) * 2 powi ?e = 1" by (simp flip: power_int_add)
    finally show ?thesis by simp
  qed
  have c: "1 / 2 * 2 powi ?e = (2::real) powi (?e - 1)" by (simp add: power_int_diff)
  have err: "\<bar>?m * 2 powi ?e - n / d\<bar> \<le> 2 powi (?e - 1)" by (rule a [unfolded b c])
  have "fval (round_frac s n d) = (if s then - 1 else 1) * (?m * 2 powi ?e)"
    using n fin by (auto simp: round_frac_rf fval_def is_finite_def power_int_add split: if_splits)
  with err show ?thesis by (auto simp: abs_minus_commute)
qed

section \<open>Integers\<close>

lemma flog2_1 [simp]: "flog2 1 = 0" by (simp add: flog2.simps)

lemma frac_log2_int: "1 \<le> n \<Longrightarrow> frac_log2 n 1 = flog2 n"
  using flog2_bounds [of n] by (simp add: frac_log2_def)

lemma flog2_le: "1 \<le> n \<Longrightarrow> n < 2 ^ k \<Longrightarrow> flog2 n < int k"
proof -
  assume "1 \<le> n" "n < 2 ^ k"
  then have "(2::int) ^ nat (flog2 n) < 2 ^ k" "0 \<le> flog2 n"
    using flog2_bounds [of n] le_less_trans by blast+
  then show ?thesis by (simp add: nat_less_iff)
qed

text \<open>Integers up to \<open>2 ^ 53\<close> are converted exactly, and no 64-bit integer overflows.\<close>

lemma f_of_nat_exact:
  assumes "0 \<le> n" "n < 2 ^ 53"
  shows "fval (round_frac s n 1) = (if s then - of_int n else of_int n)"
proof (cases "n = 0")
  case False
  with assms have n: "1 \<le> n" by simp
  let ?k = "flog2 n"
  have k: "0 \<le> ?k" "?k \<le> 52" "n < 2 * 2 ^ nat ?k"
    using flog2_bounds [OF n] flog2_le [OF n assms(2)] by auto
  then have e: "rf_exp n 1 = ?k - 52" by (simp add: rf_exp_def frac_log2_int [OF n] min_exp_def)
  have m: "rf_man n 1 = n * 2 ^ nat (52 - ?k)" using k by (simp add: rf_man_def e round_div_def)
  have "rf_man n 1 < 2 * 2 ^ nat ?k * 2 ^ nat (52 - ?k)"
    unfolding m by (intro mult_strict_right_mono k) simp
  also have "\<dots> = 2 ^ (1 + nat ?k + nat (52 - ?k))" by (simp add: power_add)
  also have "1 + nat ?k + nat (52 - ?k) = 53" using k by simp
  finally have "rf_man n 1 \<noteq> 2 ^ 53" by simp
  moreover have "rf_exp n 1 \<le> max_exp" using e k by (simp add: max_exp_def)
  ultimately have "round_frac s n 1 = Fin s (n * 2 ^ nat (52 - ?k)) (?k - 52)"
    using False by (simp add: round_frac_rf m e)
  moreover have "real_of_int (n * 2 ^ nat (52 - ?k)) * 2 powi (?k - 52) = n"
  proof -
    have "(2::real) ^ nat (52 - ?k) = 2 powi (52 - ?k)" using k by (simp add: power_int_def)
    then have "real_of_int (n * 2 ^ nat (52 - ?k)) * 2 powi (?k - 52)
        = n * (2 powi (52 - ?k) * 2 powi (?k - 52))" by simp
    also have "(2::real) powi (52 - ?k) * 2 powi (?k - 52) = 1" by (simp flip: power_int_add)
    finally show ?thesis by simp
  qed
  ultimately show ?thesis by (simp add: fval_def)
qed (simp add: round_frac_def fval_def)

lemma f_of_int_exact: "\<bar>i\<bar> < 2 ^ 53 \<Longrightarrow> fval (f_of_int i) = of_int i"
  unfolding f_of_int_def by (subst f_of_nat_exact) auto

lemma f_of_int_finite: "\<bar>i\<bar> < 2 ^ 64 \<Longrightarrow> is_finite (f_of_int i)"
proof (cases "i = 0")
  case False
  assume i: "\<bar>i\<bar> < 2 ^ 64"
  have "frac_log2 \<bar>i\<bar> 1 < 64" using flog2_le [of "\<bar>i\<bar>" 64] frac_log2_int [of "\<bar>i\<bar>"] False i by simp
  then have "rf_exp \<bar>i\<bar> 1 \<le> 11" by (simp add: rf_exp_def min_exp_def)
  with False show ?thesis by (simp add: f_of_int_def round_frac_rf max_exp_def is_finite_def)
qed (simp add: f_of_int_def round_frac_def is_finite_def)

lemma f_of_u64_finite: "is_finite (f_of_u64 w)"
  using uint_lt2p [of w] by (simp add: f_of_u64_def f_of_int_finite)

lemma f_of_u64_exact: "uint w < 2 ^ 53 \<Longrightarrow> fval (f_of_u64 w) = of_int (uint w)"
  unfolding f_of_u64_def by (rule f_of_int_exact) simp

lemma f_of_u8_exact: "fval (f_of_u8 w) = of_int (uint w)"
  unfolding f_of_u8_def using uint_lt2p [of w] by (intro f_of_int_exact) simp

lemma f_of_u32_exact: "fval (f_of_u32 w) = of_int (uint w)"
  unfolding f_of_u32_def using uint_lt2p [of w] by (intro f_of_int_exact) simp

section \<open>Laws of comparison\<close>

lemma powi_shift: "e0 \<le> e \<Longrightarrow> (2::real) powi e = 2 ^ nat (e - e0) * 2 powi e0"
proof -
  assume "e0 \<le> e"
  then have "(2::real) powi e = 2 powi (int (nat (e - e0)) + e0)" by simp
  also have "\<dots> = 2 powi int (nat (e - e0)) * 2 powi e0" by (rule power_int_add) simp
  finally show ?thesis by (simp only: power_int_of_nat)
qed

lemma fval_shift: "g \<le> e \<Longrightarrow> fval (Fin s m e) = of_int (shift_to (signed s m) e g) * 2 powi g"
  by (simp add: fval_def shift_to_def signed_def powi_shift [of g e])

lemma f_eq_Fin: "f_eq (Fin s m e) (Fin t n f) \<longleftrightarrow> fval (Fin s m e) = fval (Fin t n f)"
  by (simp add: f_eq_def Let_def fval_shift [of "min e f"])

lemma f_lt_Fin: "f_lt (Fin s m e) (Fin t n f) \<longleftrightarrow> fval (Fin s m e) < fval (Fin t n f)"
  by (simp add: f_lt_def Let_def fval_shift [of "min e f"])

lemma f_eq_iff:
  "f_eq x y \<longleftrightarrow> (is_finite x \<and> is_finite y \<and> fval x = fval y) \<or> (\<exists>s. x = FInf s \<and> y = FInf s)"
  by (cases x; cases y) (auto simp: f_eq_Fin is_finite_def, auto simp: f_eq_def)

lemma f_eq_sym: "f_eq x y \<Longrightarrow> f_eq y x"
  by (auto simp: f_eq_iff)

lemma f_eq_trans: "f_eq x y \<Longrightarrow> f_eq y z \<Longrightarrow> f_eq x z"
  by (auto simp: f_eq_iff is_finite_def)

lemma f_eq_refl [simp]: "f_eq x x \<longleftrightarrow> x \<noteq> NaN"
  by (cases x) (auto simp: f_eq_iff is_finite_def)

lemma f_eq_cong: "f_eq x y \<Longrightarrow> f_eq z x \<longleftrightarrow> f_eq z y"
  using f_eq_trans f_eq_sym by blast

lemma f_of_int_f_eq:
  "\<bar>i\<bar> < 2 ^ 53 \<Longrightarrow> \<bar>j\<bar> < 2 ^ 53 \<Longrightarrow> f_eq (f_of_int i) (f_of_int j) \<longleftrightarrow> i = j"
proof -
  assume "\<bar>i\<bar> < 2 ^ 53" "\<bar>j\<bar> < 2 ^ 53"
  then have "is_finite (f_of_int i)" "is_finite (f_of_int j)" "fval (f_of_int i) = of_int i"
    "fval (f_of_int j) = of_int j" by (simp_all add: f_of_int_exact f_of_int_finite)
  then show ?thesis by (auto simp: f_eq_iff is_finite_def)
qed

section \<open>Error bounds\<close>

lemma round_frac_close:
  assumes n: "0 \<le> n" and d: "1 \<le> d" and k: "n / d < 2 powi k" "-1000 \<le> k" "k \<le> 1000"
  shows "is_finite (round_frac s n d)"
    and "\<bar>fval (round_frac s n d) - (if s then - (n / d) else n / d)\<bar> \<le> 2 powi (k - 54)"
proof -
  have "is_finite (round_frac s n d) \<and>
    \<bar>fval (round_frac s n d) - (if s then - (n / d) else n / d)\<bar> \<le> 2 powi (k - 54)"
  proof (cases "n = 0")
    case True
    then show ?thesis by (simp add: round_frac_def is_finite_def fval_def)
  next
    case False
    with n have n1: "1 \<le> n" by simp
    have "(2::real) powi frac_log2 n d < 2 powi k" using frac_log2_bounds(1) [OF n1 d] k(1) by linarith
    then have "frac_log2 n d < k" using power_int_increasing [of k "frac_log2 n d" "2::real"] by force
    with k(2) have e: "rf_exp n d \<le> k - 53" by (simp add: rf_exp_def min_exp_def)
    with k(3) have fin: "is_finite (round_frac s n d)"
      by (auto simp: round_frac_rf False is_finite_def max_exp_def)
    moreover have "(2::real) powi (rf_exp n d - 1) \<le> 2 powi (k - 54)" using e by (simp add: power_int_increasing)
    ultimately show ?thesis using round_frac_error [OF n1 d fin] by linarith
  qed
  then show "is_finite (round_frac s n d)"
    and "\<bar>fval (round_frac s n d) - (if s then - (n / d) else n / d)\<bar> \<le> 2 powi (k - 54)" by blast+
qed

lemma f_of_int_close:
  assumes "\<bar>i\<bar> < 2 ^ k" "k \<le> 1000"
  shows "is_finite (f_of_int i)" "\<bar>fval (f_of_int i) - i\<bar> \<le> 2 powi (int k - 54)"
proof -
  have "real_of_int \<bar>i\<bar> < real_of_int (2 ^ k)" using assms(1) by (simp only: of_int_less_iff)
  then have "real_of_int \<bar>i\<bar> / real_of_int 1 < 2 powi int k" by (simp add: power_int_of_nat)
  from round_frac_close [OF abs_ge_zero _ this, of "i < 0"] assms(2)
  show "is_finite (f_of_int i)" "\<bar>fval (f_of_int i) - i\<bar> \<le> 2 powi (int k - 54)"
    by (auto simp: f_of_int_def split: if_splits)
qed

lemma f_of_int_canonical: "canonical (f_of_int i)"
  unfolding f_of_int_def by (rule round_frac_canonical) simp_all

lemma f_div_close:
  assumes fin: "is_finite x" "is_finite y" and can: "canonical x" "canonical y" and y: "fval y \<noteq> 0"
    and k: "\<bar>fval x / fval y\<bar> < 2 powi k" "-1000 \<le> k" "k \<le> 1000"
  shows "is_finite (f_div x y)" "\<bar>fval (f_div x y) - fval x / fval y\<bar> \<le> 2 powi (k - 54)"
proof -
  obtain s m e where x: "x = Fin s m e" using fin(1) by (cases x) (auto simp: is_finite_def)
  obtain t n f where yy: "y = Fin t n f" using fin(2) by (cases y) (auto simp: is_finite_def)
  have m: "0 \<le> m" and n: "0 \<le> n" "n \<noteq> 0" using can y by (auto simp: canonical_def x yy fval_def)
  let ?a = "m * 2 ^ nat (e - f)" and ?b = "n * 2 ^ nat (f - e)"
  have "0 < ?b" using n by simp
  then have b: "1 \<le> ?b" by linarith
  have "real_of_int ?a / real_of_int ?b = real_of_int m / real_of_int n * (2 ^ nat (e - f) / 2 ^ nat (f - e))" by simp
  also have "(2::real) ^ nat (e - f) / 2 ^ nat (f - e) = 2 powi (e - f)" using powi_split [of "f - e"] by simp
  also have "\<dots> = 2 powi e / 2 powi f" by (rule power_int_diff) simp
  finally have q: "fval x / fval y = (if s \<noteq> t then - (real_of_int ?a / real_of_int ?b) else real_of_int ?a / real_of_int ?b)"
    by (simp add: fval_def x yy)
  define r where "r = real_of_int ?a / real_of_int ?b"
  have "0 \<le> r" using m n by (simp add: r_def)
  moreover have "\<bar>if s \<noteq> t then - r else r\<bar> < 2 powi k" using k(1) unfolding q r_def .
  ultimately have "real_of_int ?a / real_of_int ?b < 2 powi k" unfolding r_def [symmetric] by (auto split: if_splits)
  from round_frac_close [OF _ b this k(2,3), of "s \<noteq> t"] m
  show "is_finite (f_div x y)" "\<bar>fval (f_div x y) - fval x / fval y\<bar> \<le> 2 powi (k - 54)"
    unfolding q by (simp_all add: f_div_def x yy n)
qed

end
