(* ===== verification/GoStrconv.thy ===== *)
theory GoStrconv
  imports GoFloat
begin

text \<open>
  Package \<open>strconv\<close>: \<open>ParseUint\<close>, \<open>ParseInt\<close>, \<open>ParseFloat\<close> in base 10 as the exporter
  calls them, and decimal printing (\<open>Itoa\<close>, \<open>fmt\<close>'s \<open>%d\<close>). A parse error is one of the two
  errors the package documents, \<open>ErrSyntax\<close> or \<open>ErrRange\<close>.
\<close>

datatype num_error = ErrSyntax | ErrRange

section \<open>Integers\<close>

text \<open>The digit loop of \<open>ParseUint\<close>; \<open>bnd\<close> is \<open>2 ^ bitSize\<close>.\<close>

fun parse_uint_loop :: "int \<Rightarrow> int \<Rightarrow> string \<Rightarrow> num_error + int" where
  "parse_uint_loop bnd n [] = Inr n"
| "parse_uint_loop bnd n (c # s) =
     (if \<not> is_digit c then Inl ErrSyntax
      else if bnd \<le> n * 10 + digit_val c then Inl ErrRange
      else parse_uint_loop bnd (n * 10 + digit_val c) s)"

definition strconv_ParseUint :: "string \<Rightarrow> nat \<Rightarrow> num_error + int" where
  "strconv_ParseUint s bits = (if s = [] then Inl ErrSyntax else parse_uint_loop (2 ^ bits) 0 s)"

definition strconv_ParseInt :: "string \<Rightarrow> nat \<Rightarrow> num_error + int" where
  "strconv_ParseInt s bits =
     (case s of
        [] \<Rightarrow> Inl ErrSyntax
      | c # t \<Rightarrow>
         (let neg = (c = CHR ''-''); body = (if c = CHR ''-'' \<or> c = CHR ''+'' then t else s)
          in case strconv_ParseUint body bits of
               Inl e \<Rightarrow> Inl e
             | Inr un \<Rightarrow>
                 if \<not> neg \<and> 2 ^ (bits - 1) \<le> un then Inl ErrRange
                 else if neg \<and> 2 ^ (bits - 1) < un then Inl ErrRange
                 else Inr (if neg then - un else un)))"

fun show_uint :: "int \<Rightarrow> string" where
  "show_uint n = (if n < 10 then [digit_char n] else show_uint (n div 10) @ [digit_char (n mod 10)])"

declare show_uint.simps [simp del]

definition strconv_Itoa :: "int \<Rightarrow> string" where
  "strconv_Itoa i = (if i < 0 then CHR ''-'' # show_uint (- i) else show_uint i)"

section \<open>ParseFloat\<close>

definition is_hex_letter :: "char \<Rightarrow> bool" where
  "is_hex_letter c \<longleftrightarrow> lower_char c \<in> {CHR ''a'', CHR ''b'', CHR ''c'', CHR ''d'', CHR ''e'', CHR ''f''}"

definition hex_val :: "char \<Rightarrow> int" where
  "hex_val c = (of_char (lower_char c) :: int) - 97 + 10"

text \<open>
  The significand loop of \<open>readFloat\<close>: from the text, whether a dot and a digit were seen,
  the significand and the number of digits after the dot; it returns the last three and the
  text it stopped at.
\<close>

fun scan_mant :: "bool \<Rightarrow> string \<Rightarrow> bool \<Rightarrow> bool \<Rightarrow> int \<Rightarrow> int \<Rightarrow> bool \<times> int \<times> int \<times> string" where
  "scan_mant hex [] dot dig m fr = (dig, m, fr, [])"
| "scan_mant hex (c # s) dot dig m fr =
     (if c = CHR ''_'' then scan_mant hex s dot dig m fr
      else if c = CHR ''.'' then
        (if dot then (dig, m, fr, c # s) else scan_mant hex s True dig m fr)
      else if is_digit c then
        scan_mant hex s dot True (m * (if hex then 16 else 10) + digit_val c) (if dot then fr + 1 else fr)
      else if hex \<and> is_hex_letter c then
        scan_mant hex s dot True (m * 16 + hex_val c) (if dot then fr + 1 else fr)
      else (dig, m, fr, c # s))"

text \<open>The exponent's digits; Go stops accumulating at 10000.\<close>

fun scan_exp :: "string \<Rightarrow> int \<Rightarrow> int \<times> string" where
  "scan_exp [] e = (e, [])"
| "scan_exp (c # s) e =
     (if is_digit c then scan_exp s (if e < 10000 then e * 10 + digit_val c else e)
      else if c = CHR ''_'' then scan_exp s e
      else (e, c # s))"

text \<open>The optional exponent: \<open>None\<close> is a malformed one.\<close>

definition read_exp :: "bool \<Rightarrow> string \<Rightarrow> (int \<times> string) option" where
  "read_exp hex s =
     (case s of
        [] \<Rightarrow> if hex then None else Some (0, [])
      | c # t \<Rightarrow>
         if lower_char c \<noteq> (if hex then CHR ''p'' else CHR ''e'')
         then (if hex then None else Some (0, s))
         else case t of
             [] \<Rightarrow> None
           | d # u \<Rightarrow>
              let neg = (d = CHR ''-''); body = (if d = CHR ''+'' \<or> d = CHR ''-'' then u else t)
              in case body of
                   [] \<Rightarrow> None
                 | x # _ \<Rightarrow>
                    if \<not> is_digit x then None
                    else let (e, rest) = scan_exp body 0 in Some (if neg then - e else e, rest))"

text \<open>\<open>underscoreOK\<close>: the character class of the last character is \<open>^\<close>, \<open>0\<close>, \<open>_\<close> or \<open>!\<close>.\<close>

fun underscore_loop :: "bool \<Rightarrow> string \<Rightarrow> char \<Rightarrow> bool" where
  "underscore_loop hex [] i = (i \<noteq> CHR ''_'')"
| "underscore_loop hex (c # s) i =
     (if is_digit c \<or> (hex \<and> is_hex_letter c) then underscore_loop hex s (CHR ''0'')
      else if c = CHR ''_'' then (if i \<noteq> CHR ''0'' then False else underscore_loop hex s (CHR ''_''))
      else if i = CHR ''_'' then False
      else underscore_loop hex s (CHR ''!''))"

definition strip_sign :: "string \<Rightarrow> bool \<times> string" where
  "strip_sign s = (case s of
      [] \<Rightarrow> (False, [])
    | c # t \<Rightarrow> if c = CHR ''+'' then (False, t) else if c = CHR ''-'' then (True, t) else (False, s))"

definition underscoreOK :: "string \<Rightarrow> bool" where
  "underscoreOK s =
     (let t = snd (strip_sign s) in
      case t of
        z # b # r \<Rightarrow>
          if z = CHR ''0'' \<and> lower_char b \<in> {CHR ''b'', CHR ''o'', CHR ''x''}
          then underscore_loop (lower_char b = CHR ''x'') r (CHR ''0'')
          else underscore_loop False t (CHR ''^'')
      | _ \<Rightarrow> underscore_loop False t (CHR ''^''))"

text \<open>The names of the non-finite values, and the numbers.\<close>

definition special_float :: "string \<Rightarrow> float64 option" where
  "special_float s =
     (let (neg, t) = strip_sign s; l = strings_ToLower t
      in if l = ''inf'' \<or> l = ''infinity'' then Some (FInf neg)
         else if strings_ToLower s = ''nan'' then Some NaN else None)"

definition hex_prefix :: "string \<Rightarrow> bool" where
  "hex_prefix t = (case t of z # x # _ # _ \<Rightarrow> z = CHR ''0'' \<and> lower_char x = CHR ''x'' | _ \<Rightarrow> False)"

definition scale_float :: "bool \<Rightarrow> int \<Rightarrow> int \<Rightarrow> int \<Rightarrow> float64" where
  "scale_float neg m b e = round_frac neg (m * b ^ nat e) (b ^ nat (- e))"

definition parse_number :: "string \<Rightarrow> float64 option" where
  "parse_number s =
     (let (neg, t) = strip_sign s;
          hex = hex_prefix t;
          (dig, m, fr, rest) = scan_mant hex (if hex then drop 2 t else t) False False 0 0
      in if \<not> dig then None
         else case read_exp hex rest of
             None \<Rightarrow> None
           | Some (e, rest') \<Rightarrow>
               if rest' \<noteq> [] then None
               else if CHR ''_'' \<in> set s \<and> \<not> underscoreOK s then None
               else Some (if hex then scale_float neg m 2 (e - 4 * fr)
                          else scale_float neg m 10 (e - fr)))"

definition strconv_ParseFloat :: "string \<Rightarrow> float64 \<times> num_error option" where
  "strconv_ParseFloat s =
     (case special_float s of
        Some x \<Rightarrow> (x, None)
      | None \<Rightarrow>
         case parse_number s of
           None \<Rightarrow> (f_zero, Some ErrSyntax)
         | Some (FInf n) \<Rightarrow> (FInf n, Some ErrRange)
         | Some x \<Rightarrow> (x, None))"

section \<open>Decimal digits: printing and parsing agree\<close>

definition dec_from :: "int \<Rightarrow> string \<Rightarrow> int" where
  "dec_from n s = foldl (\<lambda>n c. n * 10 + digit_val c) n s"

lemma dec_from_simps [simp]:
  "dec_from n [] = n"
  "dec_from n (c # s) = dec_from (n * 10 + digit_val c) s"
  "dec_from n (s @ t) = dec_from (dec_from n s) t"
  by (simp_all add: dec_from_def)

lemma dec_from_ge: "list_all is_digit s \<Longrightarrow> 0 \<le> n \<Longrightarrow> n \<le> dec_from n s"
proof (induction s arbitrary: n)
  case (Cons c s)
  then have "0 \<le> digit_val c" by (auto dest: digit_val_bounds)
  with Cons.prems have "0 \<le> n * 10 + digit_val c" "n \<le> n * 10 + digit_val c" by auto
  with Cons.IH [of "n * 10 + digit_val c"] Cons.prems(1) show ?case by simp
qed simp

lemma show_uint_digits: "0 \<le> n \<Longrightarrow> list_all is_digit (show_uint n)"
proof (induction n rule: show_uint.induct)
  case (1 n)
  then show ?case
    by (auto simp: show_uint.simps [of n] intro: is_digit_digit_char)
qed

lemma show_uint_ne [simp]: "show_uint n \<noteq> []"
  by (subst show_uint.simps) simp

lemma dec_from_show_uint: "0 \<le> n \<Longrightarrow> dec_from 0 (show_uint n) = n"
proof (induction n rule: show_uint.induct)
  case (1 n)
  show ?case
  proof (cases "n < 10")
    case True
    with "1.prems" show ?thesis by (simp add: show_uint.simps [of n] digit_val_digit_char)
  next
    case False
    with "1.IH" have "dec_from 0 (show_uint (n div 10)) = n div 10" by simp
    with False show ?thesis by (simp add: show_uint.simps [of n] digit_val_digit_char)
  qed
qed

lemma parse_uint_loop_dec:
  "list_all is_digit s \<Longrightarrow> 0 \<le> n \<Longrightarrow> n < bnd \<Longrightarrow>
   parse_uint_loop bnd n s = (if dec_from n s < bnd then Inr (dec_from n s) else Inl ErrRange)"
proof (induction s arbitrary: n)
  case (Cons c s)
  then have c: "0 \<le> digit_val c" by (auto dest: digit_val_bounds)
  have "n * 10 + digit_val c \<le> dec_from n (c # s)"
    using Cons.prems c dec_from_ge [of s "n * 10 + digit_val c"] by simp
  with Cons c show ?case by auto
qed simp

lemma parse_uint_loop_Inr:
  "parse_uint_loop bnd n s = Inr v \<Longrightarrow> list_all is_digit s \<and> v = dec_from n s"
  by (induction bnd n s rule: parse_uint_loop.induct) (auto split: if_splits)

lemma parse_uint_loop_bound:
  "parse_uint_loop bnd n s = Inr v \<Longrightarrow> 0 \<le> n \<Longrightarrow> n < bnd \<Longrightarrow> 0 \<le> v \<and> v < bnd"
  by (induction bnd n s rule: parse_uint_loop.induct) (auto split: if_splits dest: digit_val_bounds)

text \<open>\<open>ParseUint\<close> accepts exactly the non-empty digit strings whose value fits.\<close>

lemma ParseUint_iff:
  "strconv_ParseUint s bits = Inr v \<longleftrightarrow>
     s \<noteq> [] \<and> list_all is_digit s \<and> v = dec_from 0 s \<and> dec_from 0 s < 2 ^ bits"
proof
  assume "strconv_ParseUint s bits = Inr v"
  then have s: "s \<noteq> []" and l: "parse_uint_loop (2 ^ bits) 0 s = Inr v"
    by (auto simp: strconv_ParseUint_def split: if_splits)
  from parse_uint_loop_Inr [OF l] parse_uint_loop_bound [OF l] s
  show "s \<noteq> [] \<and> list_all is_digit s \<and> v = dec_from 0 s \<and> dec_from 0 s < 2 ^ bits" by simp
qed (simp add: strconv_ParseUint_def parse_uint_loop_dec)

lemma ParseUint_show: "0 \<le> n \<Longrightarrow> n < 2 ^ bits \<Longrightarrow> strconv_ParseUint (show_uint n) bits = Inr n"
  by (simp add: ParseUint_iff show_uint_digits dec_from_show_uint)

lemma ParseUint_bound: "strconv_ParseUint s bits = Inr v \<Longrightarrow> 0 \<le> v \<and> v < 2 ^ bits"
  by (auto simp: ParseUint_iff intro: dec_from_ge)

lemma digit_not_special:
  assumes "is_digit c"
  shows "c \<noteq> CHR ''_''" "c \<noteq> CHR ''.''" "c \<noteq> CHR ''-''" "c \<noteq> CHR ''+''" "lower_char c = c"
    "c \<noteq> CHR ''e''" "c \<noteq> CHR ''i''" "c \<noteq> CHR ''n''" "c \<noteq> CHR ''x''" "c \<noteq> CHR ''p''"
  using assms by (auto simp: is_digit_def lower_char_def is_upper_def)

lemma scan_mant_digits:
  "list_all is_digit ds \<Longrightarrow>
   scan_mant False (ds @ r) dot dig m fr =
   scan_mant False r dot (dig \<or> ds \<noteq> []) (dec_from m ds) (if dot then fr + int (length ds) else fr)"
  by (induction ds arbitrary: dig m fr) (auto simp: digit_not_special add.assoc)

lemma no_underscore: "list_all is_digit ds \<Longrightarrow> CHR ''_'' \<notin> set ds"
  by (auto simp: list_all_iff dest: digit_not_special)

text \<open>A number that starts with a digit is none of the special names.\<close>

lemma special_digits: "list_all is_digit ds \<Longrightarrow> ds \<noteq> [] \<Longrightarrow> special_float (ds @ r) = None"
  by (cases ds) (auto simp: special_float_def strip_sign_def strings_ToLower_def digit_not_special)

lemma strip_sign_digits: "list_all is_digit ds \<Longrightarrow> ds \<noteq> [] \<Longrightarrow> strip_sign (ds @ r) = (False, ds @ r)"
  by (cases ds) (auto simp: strip_sign_def digit_not_special)

lemma lower_char_dot [simp]: "lower_char CHR ''.'' = CHR ''.''"
  by (simp add: lower_char_def is_upper_def)

lemma hex_prefix_digits:
  "list_all is_digit ds \<Longrightarrow> ds \<noteq> [] \<Longrightarrow> r = [] \<or> hd r = CHR ''.'' \<Longrightarrow> \<not> hex_prefix (ds @ r)"
  by (cases ds; cases "tl ds"; cases r)
     (auto simp: hex_prefix_def digit_not_special split: list.splits)

lemma parse_number_decimal:
  assumes "list_all is_digit a" "a \<noteq> []" "list_all is_digit b"
  shows "parse_number (a @ CHR ''.'' # b) =
           Some (scale_float False (dec_from (dec_from 0 a) b) 10 (- int (length b)))"
  using assms scan_mant_digits [of b "[]" True]
  by (simp add: parse_number_def strip_sign_digits hex_prefix_digits scan_mant_digits read_exp_def
      no_underscore)

lemma parse_number_int:
  assumes "list_all is_digit a" "a \<noteq> []"
  shows "parse_number a = Some (scale_float False (dec_from 0 a) 10 0)"
  using assms strip_sign_digits [of a "[]"] hex_prefix_digits [of a "[]"]
    scan_mant_digits [of a "[]" False]
  by (simp add: parse_number_def read_exp_def no_underscore)

lemma ParseFloat_finite:
  "special_float s = None \<Longrightarrow> parse_number s = Some x \<Longrightarrow> is_finite x \<Longrightarrow> strconv_ParseFloat s = (x, None)"
  by (auto simp: strconv_ParseFloat_def is_finite_def split: float64.splits)

text \<open>Parsing a printed 64-bit integer gives the float the conversion would give.\<close>

lemma ParseFloat_show_uint:
  assumes "0 \<le> n" "n < 2 ^ 64"
  shows "strconv_ParseFloat (show_uint n) = (f_of_int n, None)"
proof (rule ParseFloat_finite)
  show "special_float (show_uint n) = None"
    using special_digits [of "show_uint n" "[]"] assms(1) by (simp add: show_uint_digits)
  have "scale_float False n 10 0 = f_of_int n"
    using assms(1) by (simp add: scale_float_def f_of_int_def)
  then show "parse_number (show_uint n) = Some (f_of_int n)"
    using assms(1) by (simp add: parse_number_int show_uint_digits dec_from_show_uint)
  show "is_finite (f_of_int n)" using assms by (intro f_of_int_finite) simp
qed

text \<open>Printing and reading a signed integer.\<close>

lemma show_uint_hd: "0 \<le> n \<Longrightarrow> \<exists>c t. show_uint n = c # t \<and> is_digit c"
  using show_uint_digits [of n] by (cases "show_uint n") auto

lemma ParseInt_Itoa:
  assumes "0 < bits" "- (2 ^ (bits - 1)) \<le> i" "i < 2 ^ (bits - 1)"
  shows "strconv_ParseInt (strconv_Itoa i) bits = Inr i"
proof -
  have b: "(2::int) ^ bits = 2 * 2 ^ (bits - 1)" using assms(1) by (cases bits) simp_all
  show ?thesis
  proof (cases "i < 0")
    case True
    with assms b have "strconv_ParseUint (show_uint (- i)) bits = Inr (- i)" by (intro ParseUint_show) simp_all
    with True assms show ?thesis by (simp add: strconv_ParseInt_def strconv_Itoa_def Let_def)
  next
    case False
    then obtain c t where c: "show_uint i = c # t" "is_digit c" using show_uint_hd [of i] by auto
    from False assms b have "strconv_ParseUint (show_uint i) bits = Inr i" by (intro ParseUint_show) simp_all
    with False assms c show ?thesis
      by (auto simp: strconv_ParseInt_def strconv_Itoa_def Let_def digit_not_special)
  qed
qed

end
