(* ===== verification/GoTime.thy ===== *)
theory GoTime
  imports GoStrconv
begin

text \<open>
  Package \<open>time\<close>: \<open>time.Parse\<close> for the elements the exporter's layouts use, and \<open>Time.Unix\<close>.
  A layout is the list of its elements. The machine's time zone, which decides what an
  abbreviation such as \<open>CET\<close> means, is the parameter \<open>tz\<close>: from the abbreviation and the
  instant to its offset in seconds, when the local zone knows it.
\<close>

type_synonym zone_db = "string \<Rightarrow> int \<Rightarrow> int option"

datatype layout_elem =
    LLit string      \<comment> \<open>literal text, blanks included\<close>
  | LYear            \<comment> \<open>\<open>2006\<close>\<close>
  | LMonthName       \<comment> \<open>\<open>Jan\<close>\<close>
  | LMonthNum        \<comment> \<open>\<open>01\<close>\<close>
  | LDay             \<comment> \<open>\<open>02\<close>\<close>
  | LUnderDay        \<comment> \<open>\<open>_2\<close>\<close>
  | LHour            \<comment> \<open>\<open>15\<close>\<close>
  | LMinute          \<comment> \<open>\<open>04\<close>\<close>
  | LSecond          \<comment> \<open>\<open>05\<close>\<close>
  | LSecondMicro     \<comment> \<open>\<open>05.000000\<close>\<close>
  | LZone            \<comment> \<open>\<open>MST\<close>\<close>

record time_fields =
  tf_year :: int
  tf_month :: int
  tf_day :: int
  tf_hour :: int
  tf_min :: int
  tf_sec :: int
  tf_nsec :: int
  tf_utc :: bool
  tf_zone :: string

definition tf_init :: time_fields where
  "tf_init = \<lparr>tf_year = 0, tf_month = -1, tf_day = -1, tf_hour = 0, tf_min = 0, tf_sec = 0, tf_nsec = 0,
              tf_utc = False, tf_zone = []\<rparr>"

section \<open>Scanning the elements\<close>

definition cutspace :: "string \<Rightarrow> string" where
  "cutspace s = dropWhile (\<lambda>c. c = CHR '' '') s"

text \<open>\<open>skip\<close>: a blank of the layout matches any run of blanks, or the end of the value.\<close>

function skip_lit :: "string \<Rightarrow> string \<Rightarrow> string option" where
  "skip_lit v [] = Some v"
| "skip_lit v (p # ps) =
     (if p = CHR '' '' then
        (if v \<noteq> [] \<and> hd v \<noteq> CHR '' '' then None else skip_lit (cutspace v) (cutspace (p # ps)))
      else if v = [] \<or> hd v \<noteq> p then None else skip_lit (tl v) ps)"
  by pat_completeness auto
termination
proof (relation "measure (\<lambda>(v, p). length p)", goal_cases)
  case (2 v p ps)
  then show ?case by (simp add: cutspace_def less_Suc_eq_le length_dropWhile_le)
qed auto

definition getnum :: "bool \<Rightarrow> string \<Rightarrow> (int \<times> string) option" where
  "getnum fixed s = (case s of
      [] \<Rightarrow> None
    | a # t \<Rightarrow>
       if \<not> is_digit a then None
       else case t of
           [] \<Rightarrow> if fixed then None else Some (digit_val a, [])
         | b # u \<Rightarrow> if is_digit b then Some (digit_val a * 10 + digit_val b, u)
                    else if fixed then None else Some (digit_val a, t))"

definition month_names :: "string list" where
  "month_names = [''jan'', ''feb'', ''mar'', ''apr'', ''may'', ''jun'', ''jul'', ''aug'', ''sep'',
                  ''oct'', ''nov'', ''dec'']"

fun index_of :: "'a \<Rightarrow> 'a list \<Rightarrow> int \<Rightarrow> int option" where
  "index_of x [] i = None"
| "index_of x (y # ys) i = (if x = y then Some i else index_of x ys (i + 1))"

definition lookup_month :: "string \<Rightarrow> (int \<times> string) option" where
  "lookup_month s =
     (if length s < 3 then None
      else map_option (\<lambda>i. (i, drop 3 s)) (index_of (strings_ToLower (take 3 s)) month_names 1))"

definition leading_digits :: "string \<Rightarrow> string" where
  "leading_digits s = takeWhile is_digit s"

definition parse_signed_offset :: "string \<Rightarrow> nat" where
  "parse_signed_offset s = (case s of
      [] \<Rightarrow> 0
    | c # t \<Rightarrow>
       if c \<noteq> CHR ''-'' \<and> c \<noteq> CHR ''+'' then 0
       else let ds = leading_digits t
            in if ds = [] \<or> 23 < dec_from 0 ds then 0 else Suc (length ds))"

text \<open>\<open>parseTimeZone\<close>: the length of the abbreviation at the front, \<open>None\<close> if there is none.\<close>

definition parse_time_zone :: "string \<Rightarrow> nat option" where
  "parse_time_zone v =
     (let n = length (takeWhile is_upper (take 6 v))
      in if length v < 3 then None
         else if take 4 v = ''ChST'' \<or> take 4 v = ''MeST'' then Some 4
         else if take 3 v = ''GMT'' then Some (3 + parse_signed_offset (drop 3 v))
         else if hd v = CHR ''+'' \<or> hd v = CHR ''-'' then
           (let k = parse_signed_offset v in if 0 < k then Some k else None)
         else if n = 3 then Some 3
         else if n = 4 \<and> (v ! 3 = CHR ''T'' \<or> take 4 v = ''WITA'') then Some 4
         else if n = 5 \<and> v ! 4 = CHR ''T'' then Some 5
         else None)"

text \<open>A fraction of a second the layout does not mention is read and dropped.\<close>

definition drop_fraction :: "string \<Rightarrow> string" where
  "drop_fraction v = (case v of
      p # d # r \<Rightarrow> if (p = CHR ''.'' \<or> p = CHR '','') \<and> is_digit d then dropWhile is_digit (d # r) else v
    | _ \<Rightarrow> v)"

text \<open>
  \<open>parseNanoseconds\<close> for a fraction of exactly six digits: a point or comma, and six characters
  for \<open>atoi\<close>, which also takes a sign.
\<close>

definition parse_micros :: "string \<Rightarrow> int option" where
  "parse_micros v =
     (let body = take 6 (tl v);
          neg = (hd body = CHR ''-'');
          digits = (if hd body = CHR ''-'' \<or> hd body = CHR ''+'' then tl body else body);
          x = dec_from 0 digits
      in if length v < 7 \<or> (hd v \<noteq> CHR ''.'' \<and> hd v \<noteq> CHR '','') \<or> \<not> list_all is_digit digits \<or> (neg \<and> 0 < x)
         then None else Some (x * 1000))"

fun scan_elem :: "layout_elem \<Rightarrow> string \<Rightarrow> time_fields \<Rightarrow> (string \<times> time_fields) option" where
  "scan_elem (LLit l) v t = map_option (\<lambda>v'. (v', t)) (skip_lit v l)"
| "scan_elem LYear v t =
     (if length v < 4 \<or> \<not> list_all is_digit (take 4 v) then None
      else Some (drop 4 v, t\<lparr>tf_year := dec_from 0 (take 4 v)\<rparr>))"
| "scan_elem LMonthName v t = map_option (\<lambda>(m, v'). (v', t\<lparr>tf_month := m\<rparr>)) (lookup_month v)"
| "scan_elem LMonthNum v t =
     (case getnum True v of
        None \<Rightarrow> None
      | Some (m, v') \<Rightarrow> if m \<le> 0 \<or> 12 < m then None else Some (v', t\<lparr>tf_month := m\<rparr>))"
| "scan_elem LDay v t = map_option (\<lambda>(d, v'). (v', t\<lparr>tf_day := d\<rparr>)) (getnum True v)"
| "scan_elem LUnderDay v t =
     map_option (\<lambda>(d, v'). (v', t\<lparr>tf_day := d\<rparr>))
       (getnum False (if v \<noteq> [] \<and> hd v = CHR '' '' then tl v else v))"
| "scan_elem LHour v t =
     (case getnum False v of
        None \<Rightarrow> None
      | Some (h, v') \<Rightarrow> if 24 \<le> h then None else Some (v', t\<lparr>tf_hour := h\<rparr>))"
| "scan_elem LMinute v t =
     (case getnum True v of
        None \<Rightarrow> None
      | Some (m, v') \<Rightarrow> if 60 \<le> m then None else Some (v', t\<lparr>tf_min := m\<rparr>))"
| "scan_elem LSecond v t =
     (case getnum True v of
        None \<Rightarrow> None
      | Some (s, v') \<Rightarrow> if 60 \<le> s then None else Some (drop_fraction v', t\<lparr>tf_sec := s\<rparr>))"
| "scan_elem LSecondMicro v t =
     (case getnum True v of
        None \<Rightarrow> None
      | Some (s, v') \<Rightarrow>
          if 60 \<le> s then None
          else map_option (\<lambda>ns. (drop 7 v', t\<lparr>tf_sec := s, tf_nsec := ns\<rparr>)) (parse_micros v'))"
| "scan_elem LZone v t =
     (if take 3 v = ''UTC'' then Some (drop 3 v, t\<lparr>tf_utc := True\<rparr>)
      else map_option (\<lambda>n. (drop n v, t\<lparr>tf_zone := take n v\<rparr>)) (parse_time_zone v))"

fun scan_layout :: "layout_elem list \<Rightarrow> string \<Rightarrow> time_fields \<Rightarrow> time_fields option" where
  "scan_layout [] v t = (if v = [] then Some t else None)"
| "scan_layout (e # es) v t =
     (case scan_elem e v t of None \<Rightarrow> None | Some (v', t') \<Rightarrow> scan_layout es v' t')"

section \<open>Calendar\<close>

definition is_leap :: "int \<Rightarrow> bool" where
  "is_leap y \<longleftrightarrow> y mod 4 = 0 \<and> (y mod 100 \<noteq> 0 \<or> y mod 400 = 0)"

definition days_in :: "int \<Rightarrow> int \<Rightarrow> int" where
  "days_in m y = (if m = 2 then (if is_leap y then 29 else 28)
                  else if m \<in> {4, 6, 9, 11} then 30 else 31)"

definition days_before_year :: "int \<Rightarrow> int" where
  "days_before_year y = 365 * (y - 1) + (y - 1) div 4 - (y - 1) div 100 + (y - 1) div 400"

definition days_before_month :: "int \<Rightarrow> int \<Rightarrow> int" where
  "days_before_month m y = (\<Sum>k\<leftarrow>[1..m - 1]. days_in k y)"

text \<open>Days since 1970-01-01 in the proleptic Gregorian calendar.\<close>

definition unix_days :: "int \<Rightarrow> int \<Rightarrow> int \<Rightarrow> int" where
  "unix_days y m d = days_before_year y + days_before_month m y + (d - 1) - 719162"

definition unix_secs :: "time_fields \<Rightarrow> int" where
  "unix_secs t = unix_days (tf_year t) (tf_month t) (tf_day t) * 86400
     + tf_hour t * 3600 + tf_min t * 60 + tf_sec t"

text \<open>\<open>time.Parse\<close> followed by \<open>Unix\<close>: the seconds since the epoch, \<open>None\<close> for an error.\<close>

definition time_Parse :: "zone_db \<Rightarrow> layout_elem list \<Rightarrow> string \<Rightarrow> int option" where
  "time_Parse tz layout v =
     (case scan_layout layout v tf_init of
        None \<Rightarrow> None
      | Some t0 \<Rightarrow>
         (let t = t0\<lparr>tf_month := if tf_month t0 < 0 then 1 else tf_month t0,
                     tf_day := if tf_day t0 < 0 then 1 else tf_day t0\<rparr>
          in if tf_day t < 1 \<or> days_in (tf_month t) (tf_year t) < tf_day t then None
             else if tf_utc t \<or> tf_zone t = [] then Some (unix_secs t)
             else case tz (tf_zone t) (unix_secs t) of
                 Some off \<Rightarrow> Some (unix_secs t - off)
               | None \<Rightarrow> Some (unix_secs t)))"

text \<open>The same with the nanoseconds, for \<open>UnixNano\<close>.\<close>

definition time_ParseNano :: "zone_db \<Rightarrow> layout_elem list \<Rightarrow> string \<Rightarrow> (int \<times> int) option" where
  "time_ParseNano tz layout v =
     (case scan_layout layout v tf_init of
        None \<Rightarrow> None
      | Some t \<Rightarrow> map_option (\<lambda>s. (s, tf_nsec t)) (time_Parse tz layout v))"

text \<open>The layouts of the source.\<close>

definition layout_ssl_date :: "layout_elem list" where
  \<comment> \<open>\<open>"Jan _2 15:04:05 2006 MST"\<close>\<close>
  "layout_ssl_date =
     [LMonthName, LLit '' '', LUnderDay, LLit '' '', LHour, LLit '':'', LMinute, LLit '':'', LSecond,
      LLit '' '', LYear, LLit '' '', LZone]"

definition layout_DateTime :: "layout_elem list" where
  \<comment> \<open>\<open>time.DateTime = "2006-01-02 15:04:05"\<close>\<close>
  "layout_DateTime =
     [LYear, LLit ''-'', LMonthNum, LLit ''-'', LDay, LLit '' '', LHour, LLit '':'', LMinute, LLit '':'',
      LSecond]"

definition layout_cert_date :: "layout_elem list" where
  \<comment> \<open>\<open>"02-Jan-2006"\<close>\<close>
  "layout_cert_date = [LDay, LLit ''-'', LMonthName, LLit ''-'', LYear]"

definition layout_micros :: "layout_elem list" where
  \<comment> \<open>\<open>"2006-01-02 15:04:05.000000"\<close>\<close>
  "layout_micros =
     [LYear, LLit ''-'', LMonthNum, LLit ''-'', LDay, LLit '' '', LHour, LLit '':'', LMinute, LLit '':'',
      LSecondMicro]"

end
