(* ===== verification/GoRegexp.thy ===== *)
theory GoRegexp
  imports Prelude
begin

text \<open>
  Package \<open>regexp\<close>: the syntax the exporter's patterns use and a backtracking matcher that
  lists every match at a position in Go's preference order (leftmost-first: alternatives left
  to right, repetition greedy). \<open>re_find\<close> is \<open>FindStringSubmatch\<close>: the first match at the
  first position that has one. Matching is on bytes, which is Go's result for ASCII text.
\<close>

datatype re =
    Cls "char \<Rightarrow> bool"      \<comment> \<open>one character of a class\<close>
  | Lit string
  | Seq re re
  | Alt re re
  | Star re
  | Opt re
  | Cap nat re             \<comment> \<open>numbered group\<close>
  | Bol                    \<comment> \<open>\<open>^\<close>\<close>
  | Eol                    \<comment> \<open>\<open>$\<close>\<close>

abbreviation Plus :: "re \<Rightarrow> re" where "Plus r \<equiv> Seq r (Star r)"
abbreviation DotC :: re where "DotC \<equiv> Cls (\<lambda>c. c \<noteq> CHR 0x0A)"
abbreviation DigitC :: re where "DigitC \<equiv> Cls is_digit"

fun seqs :: "re list \<Rightarrow> re" where
  "seqs [] = Lit []"
| "seqs [r] = r"
| "seqs (r # s # rs) = Seq r (seqs (s # rs))"

text \<open>A way to match: the text consumed, the text left, and the groups set, in order.\<close>

type_synonym way = "string \<times> string \<times> (nat \<times> string) list"

fun star_ways :: "(bool \<Rightarrow> string \<Rightarrow> way list) \<Rightarrow> nat \<Rightarrow> bool \<Rightarrow> string \<Rightarrow> way list" where
  "star_ways f 0 b s = [([], s, [])]"
| "star_ways f (Suc n) b s =
     concat (map (\<lambda>(c, s', g).
        if c = [] then []
        else map (\<lambda>(c', s'', g'). (c @ c', s'', g @ g')) (star_ways f n False s')) (f b s))
     @ [([], s, [])]"

text \<open>
  All ways to match at the front of \<open>s\<close>; \<open>b\<close> says whether this is the start of the text. A
  repetition consumes at least one character per round, so \<open>length s\<close> rounds are enough.
\<close>

primrec ways :: "re \<Rightarrow> bool \<Rightarrow> string \<Rightarrow> way list" where
  "ways (Cls p) b s = (case s of [] \<Rightarrow> [] | c # t \<Rightarrow> if p c then [([c], t, [])] else [])"
| "ways (Lit l) b s = (if strings_HasPrefix s l then [(l, drop (length l) s, [])] else [])"
| "ways (Seq r1 r2) b s =
     concat (map (\<lambda>(c, s', g). map (\<lambda>(c', s'', g'). (c @ c', s'', g @ g')) (ways r2 (b \<and> c = []) s'))
       (ways r1 b s))"
| "ways (Alt r1 r2) b s = ways r1 b s @ ways r2 b s"
| "ways (Star r) b s = star_ways (ways r) (length s) b s"
| "ways (Opt r) b s = ways r b s @ [([], s, [])]"
| "ways (Cap i r) b s = map (\<lambda>(c, s', g). (c, s', g @ [(i, c)])) (ways r b s)"
| "ways Bol b s = (if b then [([], s, [])] else [])"
| "ways Eol b s = (if s = [] then [([], s, [])] else [])"

fun find_from :: "re \<Rightarrow> bool \<Rightarrow> string \<Rightarrow> way option" where
  "find_from r b [] = (case ways r b [] of [] \<Rightarrow> None | w # _ \<Rightarrow> Some w)"
| "find_from r b (c # s) =
     (case ways r b (c # s) of [] \<Rightarrow> find_from r False s | w # _ \<Rightarrow> Some w)"

text \<open>The submatch \<open>i\<close> of a match: group \<open>i\<close>, or the whole match for \<open>0\<close>; an unset group is empty.\<close>

definition submatch :: "way \<Rightarrow> nat \<Rightarrow> string" where
  "submatch w i = (case w of (c, _, g) \<Rightarrow>
     if i = 0 then c else case map_of (rev g) i of None \<Rightarrow> [] | Some t \<Rightarrow> t)"

definition re_find :: "re \<Rightarrow> string \<Rightarrow> way option" where
  "re_find r s = find_from r True s"

definition re_matches :: "re \<Rightarrow> string \<Rightarrow> bool" where
  "re_matches r s \<longleftrightarrow> re_find r s \<noteq> None"

section \<open>The matcher against the language of a pattern\<close>

text \<open>\<open>in_re r b c t\<close>: \<open>r\<close> can consume \<open>c\<close> with \<open>t\<close> left, \<open>b\<close> saying whether it starts the text.\<close>

inductive in_re :: "re \<Rightarrow> bool \<Rightarrow> string \<Rightarrow> string \<Rightarrow> bool" where
  Cls: "p c \<Longrightarrow> in_re (Cls p) b [c] t"
| Lit: "in_re (Lit l) b l t"
| Seq: "in_re r1 b c1 (c2 @ t) \<Longrightarrow> in_re r2 (b \<and> c1 = []) c2 t \<Longrightarrow> in_re (Seq r1 r2) b (c1 @ c2) t"
| Alt1: "in_re r1 b c t \<Longrightarrow> in_re (Alt r1 r2) b c t"
| Alt2: "in_re r2 b c t \<Longrightarrow> in_re (Alt r1 r2) b c t"
| Star_nil: "in_re (Star r) b [] t"
| Star_step: "in_re r b c1 (c2 @ t) \<Longrightarrow> c1 \<noteq> [] \<Longrightarrow> in_re (Star r) False c2 t \<Longrightarrow>
     in_re (Star r) b (c1 @ c2) t"
| Opt_some: "in_re r b c t \<Longrightarrow> in_re (Opt r) b c t"
| Opt_none: "in_re (Opt r) b [] t"
| Cap: "in_re r b c t \<Longrightarrow> in_re (Cap i r) b c t"
| Bol: "in_re Bol True [] t"
| Eol: "in_re Eol b [] []"

inductive_cases in_re_ClsE: "in_re (Cls p) b c t"
inductive_cases in_re_LitE: "in_re (Lit l) b c t"
inductive_cases in_re_SeqE: "in_re (Seq r1 r2) b c t"
inductive_cases in_re_AltE: "in_re (Alt r1 r2) b c t"
inductive_cases in_re_StarE: "in_re (Star r) b c t"
inductive_cases in_re_OptE: "in_re (Opt r) b c t"
inductive_cases in_re_CapE: "in_re (Cap i r) b c t"
inductive_cases in_re_BolE: "in_re Bol b c t"
inductive_cases in_re_EolE: "in_re Eol b c t"

lemmas in_re_elims =
  in_re_ClsE in_re_LitE in_re_SeqE in_re_AltE in_re_OptE in_re_CapE in_re_BolE in_re_EolE

lemma star_ways_sound:
  assumes f: "\<And>b s c t g. (c, t, g) \<in> set (f b s) \<Longrightarrow> s = c @ t \<and> in_re r b c t"
  shows "(c, t, g) \<in> set (star_ways f n b s) \<Longrightarrow> s = c @ t \<and> in_re (Star r) b c t"
proof (induction n arbitrary: b s c t g)
  case (Suc n)
  then consider "c = []" "t = s"
    | c1 s' g1 c2 g2 where "(c1, s', g1) \<in> set (f b s)" "c1 \<noteq> []"
        "(c2, t, g2) \<in> set (star_ways f n False s')" "c = c1 @ c2"
    by (auto split: if_splits)
  then show ?case
  proof cases
    case 2
    from f [OF 2(1)] Suc.IH [OF 2(3)] 2(2,4) show ?thesis by (auto intro: in_re.Star_step)
  qed (simp add: in_re.Star_nil)
qed (simp add: in_re.Star_nil)

lemma star_ways_step:
  "(c1, s', g1) \<in> set (f b s) \<Longrightarrow> c1 \<noteq> [] \<Longrightarrow> (c2, t, g2) \<in> set (star_ways f n False s') \<Longrightarrow>
   (c1 @ c2, t, g1 @ g2) \<in> set (star_ways f (Suc n) b s)"
  by (force intro!: bexI [of _ "(c1, s', g1)"])

lemma ways_SeqI:
  "(c1, s', g1) \<in> set (ways r1 b s) \<Longrightarrow> (c2, t, g2) \<in> set (ways r2 (b \<and> c1 = []) s') \<Longrightarrow>
   (c1 @ c2, t, g1 @ g2) \<in> set (ways (Seq r1 r2) b s)"
  by (force intro!: bexI [of _ "(c1, s', g1)"])

lemma ways_sound: "(c, t, g) \<in> set (ways r b s) \<Longrightarrow> s = c @ t \<and> in_re r b c t"
proof (induction r arbitrary: b s c t g)
  case (Star r)
  then have "(c, t, g) \<in> set (star_ways (ways r) (length s) b s)" by simp
  then show ?case by (rule star_ways_sound [rotated]) (rule Star.IH)
next
  case (Seq r1 r2)
  then show ?case by (fastforce intro: in_re.Seq)
qed (auto simp: strings_HasPrefix_iff intro: in_re.intros split: list.splits if_splits)

lemma star_ways_complete:
  assumes f: "\<And>b c t. in_re r b c t \<Longrightarrow> \<exists>g. (c, t, g) \<in> set (f b (c @ t))"
  shows "in_re (Star r) b c t \<Longrightarrow> length c \<le> n \<Longrightarrow> \<exists>g. (c, t, g) \<in> set (star_ways f n b (c @ t))"
proof (induction n arbitrary: b c)
  case (Suc n)
  from Suc.prems(1) consider "c = []"
    | c1 c2 where "c = c1 @ c2" "in_re r b c1 (c2 @ t)" "c1 \<noteq> []" "in_re (Star r) False c2 t"
    by (rule in_re_StarE)
  then show ?case
  proof cases
    case 1
    then show ?thesis by (intro exI [of _ "[]"]) simp
  next
    case (2 c1 c2)
    then have "length c2 \<le> n" using Suc.prems(2) by (cases c1) auto
    with Suc.IH 2(4) obtain g2 where "(c2, t, g2) \<in> set (star_ways f n False (c2 @ t))" by blast
    moreover from f [OF 2(2)] obtain g1 where "(c1, c2 @ t, g1) \<in> set (f b (c1 @ c2 @ t))" by auto
    ultimately have "(c1 @ c2, t, g1 @ g2) \<in> set (star_ways f (Suc n) b (c1 @ c2 @ t))"
      using 2(3) by (intro star_ways_step)
    then show ?thesis unfolding 2(1) append_assoc by blast
  qed
qed simp

lemma ways_complete: "in_re r b c t \<Longrightarrow> \<exists>g. (c, t, g) \<in> set (ways r b (c @ t))"
proof (induction r arbitrary: b c t)
  case (Star r)
  from star_ways_complete [of r "ways r", OF Star.IH Star.prems] show ?case by simp
next
  case (Seq r1 r2)
  from Seq.prems obtain c1 c2 where c: "c = c1 @ c2" "in_re r1 b c1 (c2 @ t)" "in_re r2 (b \<and> c1 = []) c2 t"
    by (auto elim: in_re_SeqE)
  from Seq.IH(1) [OF c(2)] obtain g1 where g1: "(c1, c2 @ t, g1) \<in> set (ways r1 b (c1 @ c2 @ t))" by auto
  from Seq.IH(2) [OF c(3)] obtain g2 where "(c2, t, g2) \<in> set (ways r2 (b \<and> c1 = []) (c2 @ t))" by auto
  with g1 have "(c1 @ c2, t, g1 @ g2) \<in> set (ways (Seq r1 r2) b (c1 @ c2 @ t))" by (rule ways_SeqI)
  then show ?case unfolding c(1) append_assoc by blast
next
  case (Cap i r)
  from Cap.prems have "in_re r b c t" by (rule in_re_CapE)
  from Cap.IH [OF this] obtain g where "(c, t, g) \<in> set (ways r b (c @ t))" by blast
  then have "(c, t, g @ [(i, c)]) \<in> set (ways (Cap i r) b (c @ t))" by force
  then show ?case by blast
next
  case (Alt r1 r2)
  from Alt.prems have "in_re r1 b c t \<or> in_re r2 b c t" by (auto elim: in_re_AltE)
  then show ?case using Alt.IH [of b c t] by auto
next
  case (Opt r)
  from Opt.prems have "in_re r b c t \<or> c = []" by (auto elim: in_re_OptE)
  then show ?case using Opt.IH [of b c t] by auto
qed (auto elim!: in_re_elims)

text \<open>The matcher finds a match at a position exactly when the language has one.\<close>

lemma ways_iff: "(\<exists>g. (c, t, g) \<in> set (ways r b s)) \<longleftrightarrow> s = c @ t \<and> in_re r b c t"
  using ways_sound ways_complete by blast

lemma find_from_sound:
  "find_from r b s = Some (c, t, g) \<Longrightarrow> \<exists>p. s = p @ c @ t \<and> in_re r (b \<and> p = []) c t"
proof (induction r b s rule: find_from.induct)
  case (1 r b)
  then have "(c, t, g) \<in> set (ways r b [])" by (auto split: list.splits)
  from ways_sound [OF this] show ?case by auto
next
  case (2 r b x s)
  show ?case
  proof (cases "ways r b (x # s)")
    case Nil
    with "2.IH" "2.prems" obtain p where "s = p @ c @ t" "in_re r False c t" by auto
    then show ?thesis by (intro exI [of _ "x # p"]) auto
  next
    case (Cons w ws)
    with "2.prems" have "(c, t, g) \<in> set (ways r b (x # s))" by auto
    from ways_sound [OF this] show ?thesis by (intro exI [of _ "[]"]) auto
  qed
qed

lemma find_from_None:
  "find_from r b s = None \<Longrightarrow> s = p @ c @ t \<Longrightarrow> \<not> in_re r (b \<and> p = []) c t"
proof (induction r b s arbitrary: p rule: find_from.induct)
  case (1 r b)
  then show ?case using ways_complete [of r b "[]" "[]"] by (auto split: list.splits)
next
  case (2 r b x s)
  from "2.prems"(1) have n: "ways r b (x # s) = []" and m: "find_from r False s = None"
    by (auto split: list.splits)
  show ?case
  proof (cases p)
    case Nil
    with n "2.prems"(2) show ?thesis using ways_complete [of r b c t] by auto
  next
    case (Cons y q)
    with "2.IH" [OF n m, of q] "2.prems"(2) show ?thesis by simp
  qed
qed

text \<open>\<open>FindStringSubmatch\<close> returns nil exactly when no part of the text is in the language.\<close>

lemma re_matches_iff:
  "re_matches r s \<longleftrightarrow> (\<exists>p c t. s = p @ c @ t \<and> in_re r (p = []) c t)"
proof
  assume "re_matches r s"
  then obtain c t g where "find_from r True s = Some (c, t, g)" by (auto simp: re_matches_def re_find_def)
  from find_from_sound [OF this] show "\<exists>p c t. s = p @ c @ t \<and> in_re r (p = []) c t" by auto
next
  assume "\<exists>p c t. s = p @ c @ t \<and> in_re r (p = []) c t"
  then obtain p c t where "s = p @ c @ t" "in_re r (True \<and> p = []) c t" by auto
  then have "find_from r True s \<noteq> None" using find_from_None by blast
  then show "re_matches r s" by (simp add: re_matches_def re_find_def)
qed

section \<open>Runs of a character class\<close>

lemma in_re_Star_Cls: "in_re (Star (Cls p)) b c t \<longleftrightarrow> list_all p c"
proof
  show "in_re (Star (Cls p)) b c t \<Longrightarrow> list_all p c"
  proof (induction c arbitrary: b rule: length_induct)
    case (1 c)
    from "1.prems" consider "c = []"
      | c1 c2 where "c = c1 @ c2" "in_re (Cls p) b c1 (c2 @ t)" "c1 \<noteq> []" "in_re (Star (Cls p)) False c2 t"
      by (rule in_re_StarE)
    then show ?case
    proof cases
      case (2 c1 c2)
      then have "length c2 < length c" by simp
      with "1.IH" 2(4) have "list_all p c2" by blast
      with 2(1,2) show ?thesis by (auto elim: in_re_ClsE)
    qed simp
  qed
  show "list_all p c \<Longrightarrow> in_re (Star (Cls p)) b c t"
  proof (induction c arbitrary: b)
    case (Cons x c)
    then have "in_re (Star (Cls p)) b ([x] @ c) t"
      by (intro in_re.Star_step) (auto intro: in_re.Cls)
    then show ?case by simp
  qed (simp add: in_re.Star_nil)
qed

lemma in_re_Plus_Cls: "in_re (Plus (Cls p)) b c t \<longleftrightarrow> c \<noteq> [] \<and> list_all p c"
proof
  assume "in_re (Plus (Cls p)) b c t"
  then show "c \<noteq> [] \<and> list_all p c"
    by (auto elim!: in_re_SeqE in_re_ClsE simp: in_re_Star_Cls)
next
  assume "c \<noteq> [] \<and> list_all p c"
  then obtain x d where c: "c = [x] @ d" "p x" "list_all p d" by (cases c) auto
  have "in_re (Plus (Cls p)) b ([x] @ d) t"
    by (rule in_re.Seq) (auto simp: in_re_Star_Cls c intro: in_re.Cls)
  with c show "in_re (Plus (Cls p)) b c t" by simp
qed

lemma in_re_Seq_iff:
  "in_re (Seq r1 r2) b c t \<longleftrightarrow> (\<exists>c1 c2. c = c1 @ c2 \<and> in_re r1 b c1 (c2 @ t) \<and> in_re r2 (b \<and> c1 = []) c2 t)"
proof
  assume "in_re (Seq r1 r2) b c t"
  then show "\<exists>c1 c2. c = c1 @ c2 \<and> in_re r1 b c1 (c2 @ t) \<and> in_re r2 (b \<and> c1 = []) c2 t"
    by (rule in_re_SeqE) blast
qed (auto intro: in_re.Seq)

lemma in_re_Lit_iff: "in_re (Lit l) b c t \<longleftrightarrow> c = l"
  by (auto elim: in_re_LitE intro: in_re.Lit)

lemma in_re_Cap_iff: "in_re (Cap i r) b c t \<longleftrightarrow> in_re r b c t"
  by (auto elim: in_re_CapE intro: in_re.Cap)

lemma in_re_Eol_iff: "in_re Eol b c t \<longleftrightarrow> c = [] \<and> t = []"
  by (auto elim: in_re_EolE intro: in_re.Eol)

lemma in_re_Bol_iff: "in_re Bol b c t \<longleftrightarrow> c = [] \<and> b"
  by (cases b) (auto elim: in_re_BolE intro: in_re.Bol)

lemma in_re_Alt_iff: "in_re (Alt r1 r2) b c t \<longleftrightarrow> in_re r1 b c t \<or> in_re r2 b c t"
  by (auto elim: in_re_AltE intro: in_re.Alt1 in_re.Alt2)

lemmas in_re_iffs =
  in_re_Seq_iff in_re_Lit_iff in_re_Cap_iff in_re_Eol_iff in_re_Bol_iff in_re_Alt_iff

text \<open>A pattern that matches at the front of the text is found there.\<close>

lemma find_from_front:
  "in_re r b c t \<Longrightarrow> \<exists>c' t' g. find_from r b (c @ t) = Some (c', t', g) \<and> c @ t = c' @ t' \<and> in_re r b c' t'"
proof -
  assume "in_re r b c t"
  then have "ways r b (c @ t) \<noteq> []" using ways_complete by fastforce
  then obtain w ws where w: "ways r b (c @ t) = w # ws" by (cases "ways r b (c @ t)") auto
  obtain c' t' g where w': "w = (c', t', g)" by (cases w) auto
  have "find_from r b (c @ t) = Some w" using w by (cases "c @ t") auto
  moreover have "(c', t', g) \<in> set (ways r b (c @ t))" using w w' by simp
  ultimately show ?thesis using ways_sound w' by blast
qed

section \<open>Patterns of the form \<open>^...(.*)$\<close>\<close>

text \<open>The ways of a repeated class: the prefixes of the longest run, the longest first.\<close>

lemma star_ways_Cls:
  "length s \<le> n \<Longrightarrow> star_ways (ways (Cls p)) n b s =
     map (\<lambda>k. (take k s, drop k s, [])) (rev [0..<Suc (length (takeWhile p s))])"
proof (induction n arbitrary: b s)
  case (Suc n)
  show ?case
  proof (cases s)
    case (Cons c t)
    with Suc.IH [of t False] Suc.prems show ?thesis
      by (auto simp: case_prod_unfold comp_def map_Suc_upt [symmetric] rev_map simp del: upt_Suc map_Suc_upt
          simp: upt_conv_Cons)
  qed simp
qed simp

lemma concat_map_only_last:
  "k < n \<Longrightarrow> (\<And>i. i < n \<Longrightarrow> i \<noteq> k \<Longrightarrow> f i = []) \<Longrightarrow> concat (map f (rev [0..<n])) = f k"
  by (induction n) (auto simp: less_Suc_eq_le order_le_less)

lemma ways_rest_of_text:
  "ways (Seq (Cap i (Star (Cls p))) Eol) b s = (if list_all p s then [(s, [], [(i, s)])] else [])"
proof -
  let ?w = "length (takeWhile p s)"
  have eq: "ways (Seq (Cap i (Star (Cls p))) Eol) b s =
    concat (map (\<lambda>k. if length s \<le> k then [(take k s, [], [(i, take k s)])] else []) (rev [0..<Suc ?w]))"
    by (simp add: star_ways_Cls [OF order_refl] comp_def del: star_ways.simps upt_Suc)
      (rule arg_cong [where f = concat], rule map_cong, simp_all)
  show ?thesis
  proof (cases "list_all p s")
    case True
    then have "takeWhile p s = s" by (simp add: list_all_iff takeWhile_eq_all_conv)
    then have w: "?w = length s" by (rule arg_cong)
    have "concat (map (\<lambda>k. if length s \<le> k then [(take k s, [], [(i, take k s)])] else []) (rev [0..<Suc ?w])) =
      [(take (length s) s, [], [(i, take (length s) s)])]"
      by (subst concat_map_only_last [where k = "length s"]) (simp_all add: w)
    with eq True show ?thesis by simp
  next
    case False
    then have "takeWhile p s \<noteq> s" by (auto simp: list_all_iff takeWhile_eq_all_conv)
    then have "?w < length s"
      by (metis length_takeWhile_le nat_less_le takeWhile_eq_take take_all_iff order_refl)
    then show ?thesis using eq False by simp
  qed
qed

lemma ways_Lit_Seq:
  "ways (Seq (Lit l) r) b s =
     (if strings_HasPrefix s l
      then map (\<lambda>(c, t, g). (l @ c, t, g)) (ways r (b \<and> l = []) (drop (length l) s)) else [])"
  by (simp add: case_prod_unfold)

text \<open>An anchored pattern is looked for at the front only.\<close>

lemma find_from_Bol_False: "find_from (Seq Bol r) False s = None"
  by (induction s) simp_all

lemma re_find_Bol:
  "re_find (Seq Bol r) s = (case ways r True s of [] \<Rightarrow> None | w # _ \<Rightarrow> Some w)"
  by (cases s) (auto simp: re_find_def find_from_Bol_False split: list.splits)

lemma ways_Cap_Lit: "ways (Cap i (Lit l)) b s = (if strings_HasPrefix s l then [(l, drop (length l) s, [(i, l)])] else [])"
  by simp

text \<open>Alternatives of words, and patterns \<open>^p(w1|w2|...)_(.*)$\<close>.\<close>

fun alts :: "string list \<Rightarrow> re" where
  "alts [] = Cls (\<lambda>c. False)"
| "alts [w] = Lit w"
| "alts (w # v # ws) = Alt (Lit w) (alts (v # ws))"

lemma ways_alts: "ways (alts ws) b s = map (\<lambda>w. (w, drop (length w) s, [])) (filter (strings_HasPrefix s) ws)"
  by (induction ws rule: alts.induct) (auto split: list.splits)

definition word_rest_re :: "string \<Rightarrow> string list \<Rightarrow> re" where
  "word_rest_re p ws = seqs [Bol, Lit p, Cap 1 (alts ws), Lit ''_'', Cap 2 (Star DotC), Eol]"

definition word_rest_ok :: "string \<Rightarrow> string \<Rightarrow> string \<Rightarrow> bool" where
  "word_rest_ok p s w \<longleftrightarrow> strings_HasPrefix s (p @ w @ ''_'') \<and> CHR 0x0A \<notin> set (drop (length (p @ w @ ''_'')) s)"

lemma HasPrefix_append_iff:
  "strings_HasPrefix s (p @ q) \<longleftrightarrow> strings_HasPrefix s p \<and> strings_HasPrefix (drop (length p) s) q"
  by (auto simp: strings_HasPrefix_iff)

lemma ways_Lit_rest_of_text:
  "ways (Seq (Lit u) (Seq (Cap i (Star (Cls q))) Eol)) b s =
     (if strings_HasPrefix s u \<and> list_all q (drop (length u) s) then [(s, [], [(i, drop (length u) s)])] else [])"
  unfolding ways_Lit_Seq ways_rest_of_text by (auto simp: strings_HasPrefix_iff)

lemma ways_word_rest:
  "ways (seqs [Lit p, Cap 1 (alts ws), Lit ''_'', Cap 2 (Star DotC), Eol]) b s =
     map (\<lambda>w. (s, [], [(1, w), (2, drop (length (p @ w @ ''_'')) s)])) (filter (word_rest_ok p s) ws)"
proof (cases "strings_HasPrefix s p")
  case True
  then obtain t where s: "s = p @ t" by (auto simp: strings_HasPrefix_iff)
  let ?rest = "Seq (Lit ''_'') (Seq (Cap 2 (Star DotC)) Eol)"
  have rest: "map (\<lambda>(c', s'', g'). (w @ c', s'', (1, w) # g')) (ways ?rest b' (drop (length w) t)) =
      (if word_rest_ok p s w then [(t, [], [(1, w), (2, drop (length (p @ w @ ''_'')) s)])] else [])"
    if "strings_HasPrefix t w" for w b'
  proof -
    from that obtain u where t: "t = w @ u" by (auto simp: strings_HasPrefix_iff)
    have "word_rest_ok p s w \<longleftrightarrow> strings_HasPrefix u ''_'' \<and> list_all (\<lambda>c. c \<noteq> CHR 0x0A) (drop 1 u)"
      by (auto simp: word_rest_ok_def s t HasPrefix_append_iff list_all_iff)
    then show ?thesis unfolding ways_Lit_rest_of_text by (simp add: s t)
  qed
  have "ways (Seq (Cap 1 (alts ws)) ?rest) b' t =
      concat (map (\<lambda>w. map (\<lambda>(c', s'', g'). (w @ c', s'', (1, w) # g')) (ways ?rest (b' \<and> w = []) (drop (length w) t)))
        (filter (strings_HasPrefix t) ws))" for b'
    by (subst ways.simps(3)) (simp add: ways_alts comp_def del: ways.simps(3))
  also have "\<dots> b' = concat (map (\<lambda>w. if word_rest_ok p s w then [(t, [], [(1, w), (2, drop (length (p @ w @ ''_'')) s)])] else [])
        (filter (strings_HasPrefix t) ws))" for b'
    by (rule arg_cong [where f = concat], rule map_cong [OF refl], rule rest) simp
  also have "\<dots> = map (\<lambda>w. (t, [], [(1, w), (2, drop (length (p @ w @ ''_'')) s)])) (filter (word_rest_ok p s) ws)"
    by (induction ws) (auto simp: word_rest_ok_def s HasPrefix_append_iff)
  finally show ?thesis using True by (simp add: ways_Lit_Seq s comp_def del: ways.simps)
next
  case False
  then have "filter (word_rest_ok p s) ws = []" by (auto simp: word_rest_ok_def HasPrefix_append_iff filter_empty_conv)
  with False show ?thesis by (simp add: ways_Lit_Seq del: ways.simps)
qed

text \<open>The first word in the order of the pattern that fits, and the rest of the text.\<close>

lemma re_find_word_rest:
  "re_find (word_rest_re p ws) s =
     map_option (\<lambda>w. (s, [], [(1, w), (2, drop (length (p @ w @ ''_'')) s)])) (find (word_rest_ok p s) ws)"
proof -
  have "re_find (word_rest_re p ws) s =
      (case map (\<lambda>w. (s, [], [(1, w), (2, drop (length (p @ w @ ''_'')) s)])) (filter (word_rest_ok p s) ws) of
         [] \<Rightarrow> None | w # _ \<Rightarrow> Some w)"
    unfolding word_rest_re_def seqs.simps(3) [of Bol] re_find_Bol ways_word_rest by (rule refl)
  also have "\<dots> = map_option (\<lambda>w. (s, [], [(1, w), (2, drop (length (p @ w @ ''_'')) s)])) (find (word_rest_ok p s) ws)"
    by (induction ws) simp_all
  finally show ?thesis .
qed

lemma submatch_word_rest [simp]:
  "submatch (s, [], [(1, w), (2, r)]) 1 = w" "submatch (s, [], [(1, w), (2, r)]) 2 = r"
  "submatch (s, [], [(Suc 0, w), (2, r)]) (Suc 0) = w" "submatch (s, [], [(Suc 0, w), (2, r)]) 2 = r"
  by (simp_all add: submatch_def)

text \<open>The same with the rest of the text as a value.\<close>

definition after_prefix :: "string \<Rightarrow> string \<Rightarrow> string option" where
  "after_prefix p s =
     (if strings_HasPrefix s p \<and> CHR 0x0A \<notin> set (drop (length p) s) then Some (drop (length p) s) else None)"

fun word_rest :: "string \<Rightarrow> string \<Rightarrow> string list \<Rightarrow> (string \<times> string) option" where
  "word_rest p s [] = None"
| "word_rest p s (w # ws) =
     (case after_prefix (p @ w @ ''_'') s of Some r \<Rightarrow> Some (w, r) | None \<Rightarrow> word_rest p s ws)"

lemma re_find_words:
  "re_find (word_rest_re p ws) s = map_option (\<lambda>(w, r). (s, [], [(1, w), (2, r)])) (word_rest p s ws)"
  unfolding re_find_word_rest
  by (induction ws) (simp_all add: word_rest_ok_def after_prefix_def del: length_append)

end
