(* ===== verification/GoSql.thy ===== *)
theory GoSql
  imports GoStrconv
begin

text \<open>
  Package \<open>database/sql\<close> as the scrapers use it. A query sent to the server answers with an
  error or with a row set; the answer is the parameter \<open>db\<close> of every scraper, a function of
  the number of the call within the scrape, the query text and its arguments, so it may change
  from call to call. \<open>scan\<close> is \<open>Rows.Scan\<close>: it checks the number of destinations and
  converts each column as \<open>convertAssign\<close> does.
\<close>

datatype go_err =
    EMySQL nat string     \<comment> \<open>a \<open>*mysql.MySQLError\<close> with its number\<close>
  | EDriver string        \<comment> \<open>any other error of the driver or the connection\<close>
  | EScan                 \<comment> \<open>\<open>Rows.Scan\<close> could not convert a column, or the count differs\<close>
  | ENoRows               \<comment> \<open>\<open>sql.ErrNoRows\<close>\<close>
  | EParse                \<comment> \<open>a value of the row does not parse\<close>
  | EMsg string           \<comment> \<open>an error made by the scraper itself\<close>
  | EWrap string go_err   \<comment> \<open>\<open>fmt.Errorf("...: %w", err)\<close>\<close>

text \<open>
  A column value as the driver hands it over. A float carries the text
  \<open>strconv.FormatFloat(x, 'g', -1, _)\<close> gives for it, which is what a text destination gets.
\<close>

datatype cell = CNull | CBytes string | CInt int | CFloat float64 string

text \<open>The types of the destinations the scrapers pass, and the values they then hold.\<close>

datatype dest = DStr | DRaw | DU8 | DU32 | DU64 | DI64 | DF64 | DNullU64

datatype gval =
    GStr string | GRaw string | GU8 u8 | GU32 u32 | GU64 u64 | GI64 u64 | GF64 float64
  | GNullU64 "u64 option"

fun as_string :: "cell \<Rightarrow> string" where
  "as_string CNull = []"
| "as_string (CBytes s) = s"
| "as_string (CInt i) = strconv_Itoa i"
| "as_string (CFloat x s) = s"

definition conv_uint :: "nat \<Rightarrow> cell \<Rightarrow> go_err + int" where
  "conv_uint bits c =
     (if c = CNull then Inl EScan
      else case strconv_ParseUint (as_string c) bits of Inl e \<Rightarrow> Inl EScan | Inr n \<Rightarrow> Inr n)"

fun convert_assign :: "dest \<Rightarrow> cell \<Rightarrow> go_err + gval" where
  "convert_assign DStr c = (if c = CNull then Inl EScan else Inr (GStr (as_string c)))"
| "convert_assign DRaw c = Inr (GRaw (as_string c))"
| "convert_assign DU8 c = (case conv_uint 8 c of Inl e \<Rightarrow> Inl e | Inr n \<Rightarrow> Inr (GU8 (word_of_int n)))"
| "convert_assign DU32 c = (case conv_uint 32 c of Inl e \<Rightarrow> Inl e | Inr n \<Rightarrow> Inr (GU32 (word_of_int n)))"
| "convert_assign DU64 c = (case conv_uint 64 c of Inl e \<Rightarrow> Inl e | Inr n \<Rightarrow> Inr (GU64 (word_of_int n)))"
| "convert_assign DI64 c =
     (if c = CNull then Inl EScan
      else case strconv_ParseInt (as_string c) 64 of
             Inl e \<Rightarrow> Inl EScan | Inr n \<Rightarrow> Inr (GI64 (word_of_int n)))"
| "convert_assign DF64 c =
     (case c of
        CNull \<Rightarrow> Inl EScan
      | CFloat x s \<Rightarrow> Inr (GF64 x)
      | _ \<Rightarrow> (case strconv_ParseFloat (as_string c) of
               (x, None) \<Rightarrow> Inr (GF64 x) | (x, Some e) \<Rightarrow> Inl EScan))"
| "convert_assign DNullU64 c =
     (if c = CNull then Inr (GNullU64 None)
      else case conv_uint 64 c of Inl e \<Rightarrow> Inl e | Inr n \<Rightarrow> Inr (GNullU64 (Some (word_of_int n))))"

fun convert_all :: "dest list \<Rightarrow> cell list \<Rightarrow> go_err + gval list" where
  "convert_all (d # ds) (c # cs) =
     (case convert_assign d c of
        Inl e \<Rightarrow> Inl e
      | Inr v \<Rightarrow> (case convert_all ds cs of Inl e \<Rightarrow> Inl e | Inr vs \<Rightarrow> Inr (v # vs)))"
| "convert_all _ _ = Inr []"

definition scan :: "dest list \<Rightarrow> cell list \<Rightarrow> go_err + gval list" where
  "scan ds cs = (if length ds \<noteq> length cs then Inl EScan else convert_all ds cs)"

text \<open>Reading the scanned variables; \<open>scan_typed\<close> below says which reader fits which column.\<close>

fun g_str :: "gval \<Rightarrow> string" where "g_str (GStr s) = s" | "g_str (GRaw s) = s" | "g_str _ = []"
fun g_u8 :: "gval \<Rightarrow> u8" where "g_u8 (GU8 w) = w" | "g_u8 _ = 0"
fun g_u32 :: "gval \<Rightarrow> u32" where "g_u32 (GU32 w) = w" | "g_u32 _ = 0"
fun g_u64 :: "gval \<Rightarrow> u64" where "g_u64 (GU64 w) = w" | "g_u64 _ = 0"
fun g_i64 :: "gval \<Rightarrow> u64" where "g_i64 (GI64 w) = w" | "g_i64 _ = 0"
fun g_f64 :: "gval \<Rightarrow> float64" where "g_f64 (GF64 x) = x" | "g_f64 _ = f_zero"
fun g_null :: "gval \<Rightarrow> u64 option" where "g_null (GNullU64 v) = v" | "g_null _ = None"

section \<open>Queries\<close>

record rowset =
  rs_cols :: "go_err + string list"    \<comment> \<open>\<open>Rows.Columns\<close>\<close>
  rs_rows :: "cell list list"          \<comment> \<open>the rows \<open>Next\<close> steps over\<close>
  rs_err :: "go_err option"            \<comment> \<open>\<open>Rows.Err\<close> after the last of them\<close>

type_synonym database = "nat \<Rightarrow> string \<Rightarrow> string list \<Rightarrow> go_err + rowset"

text \<open>\<open>QueryRowContext(...).Scan(...)\<close>.\<close>

definition query_row :: "database \<Rightarrow> nat \<Rightarrow> string \<Rightarrow> dest list \<Rightarrow> go_err + gval list" where
  "query_row db i q ds =
     (case db i q [] of
        Inl e \<Rightarrow> Inl e
      | Inr rs \<Rightarrow>
         (case rs_rows rs of
            [] \<Rightarrow> (case rs_err rs of Some e \<Rightarrow> Inl e | None \<Rightarrow> Inl ENoRows)
          | r # _ \<Rightarrow> scan ds r))"

section \<open>Laws of scanning\<close>

fun dest_of :: "gval \<Rightarrow> dest" where
  "dest_of (GStr _) = DStr"
| "dest_of (GRaw _) = DRaw"
| "dest_of (GU8 _) = DU8"
| "dest_of (GU32 _) = DU32"
| "dest_of (GU64 _) = DU64"
| "dest_of (GI64 _) = DI64"
| "dest_of (GF64 _) = DF64"
| "dest_of (GNullU64 _) = DNullU64"

lemma convert_assign_typed: "convert_assign d c = Inr v \<Longrightarrow> dest_of v = d"
  by (cases d) (auto split: sum.splits if_splits cell.splits option.splits prod.splits)

lemma convert_all_typed:
  "convert_all ds cs = Inr vs \<Longrightarrow> length ds = length cs \<Longrightarrow> map dest_of vs = ds"
proof (induction ds cs arbitrary: vs rule: convert_all.induct)
  case (1 d ds c cs)
  then show ?case by (auto split: sum.splits dest: convert_assign_typed)
qed auto

text \<open>A successful scan fills every destination with a value of its own type.\<close>

lemma scan_typed: "scan ds cs = Inr vs \<Longrightarrow> map dest_of vs = ds"
  by (auto simp: scan_def convert_all_typed split: if_splits)

lemma scan_length: "scan ds cs = Inr vs \<Longrightarrow> length vs = length ds \<and> length cs = length ds"
proof
  assume s: "scan ds cs = Inr vs"
  then show "length cs = length ds" by (auto simp: scan_def split: if_splits)
  from scan_typed [OF s] show "length vs = length ds" by auto
qed

lemma scan_count_mismatch: "length ds \<noteq> length cs \<Longrightarrow> scan ds cs = Inl EScan"
  by (simp add: scan_def)

text \<open>A printed unsigned integer that fits is scanned back; one that does not fit is an error.\<close>

lemma conv_uint_CInt: "0 \<le> n \<Longrightarrow> n < 2 ^ bits \<Longrightarrow> conv_uint bits (CInt n) = Inr n"
  by (simp add: conv_uint_def strconv_Itoa_def ParseUint_show)

lemma conv_uint_bound: "conv_uint bits c = Inr n \<Longrightarrow> 0 \<le> n \<and> n < 2 ^ bits"
  by (auto simp: conv_uint_def split: if_splits sum.splits dest: ParseUint_bound)

lemma convert_DU64_CInt:
  "0 \<le> n \<Longrightarrow> n < 2 ^ 64 \<Longrightarrow> convert_assign DU64 (CInt n) = Inr (GU64 (word_of_int n))"
  by (simp add: conv_uint_CInt)

end
