(* ===== verification/Scraper.thy ===== *)
theory Scraper
  imports GoSql
begin

text \<open>
  The interface \<open>Scraper\<close> (\<open>collector/scraper.go\<close>), the metrics a scraper sends over its
  channel, and the loop every scraper is built from: run a query, scan each row, send the
  metrics of the row.

  The arguments the code passes to the Prometheus library are kept as they are: a metric is the
  call that made it. Of the library only one documented behaviour is used: the \<open>MustNew...\<close>
  constructors panic when the number of label values differs from the number of variable
  labels of the descriptor (\<open>metric_ok\<close>).
\<close>

section \<open>Metrics\<close>

datatype fq_name = BuildFQName string string string  \<comment> \<open>namespace, subsystem, name\<close>

datatype value_type = CounterValue | GaugeValue | UntypedValue

record desc =
  fq :: fq_name
  help_text :: string
  var_labels :: "string list"

definition NewDesc :: "fq_name \<Rightarrow> string \<Rightarrow> string list \<Rightarrow> desc" where
  "NewDesc n h ls = \<lparr>fq = n, help_text = h, var_labels = ls\<rparr>"

datatype metric =
    ConstMetric desc value_type float64 "string list"
  | ConstHistogram desc u64 float64 "(float64 \<times> u64) list" "string list"
  | ConstSummary desc u64 float64 "(float64 \<times> float64) list" "string list"

fun metric_desc :: "metric \<Rightarrow> desc" where
  "metric_desc (ConstMetric d _ _ _) = d"
| "metric_desc (ConstHistogram d _ _ _ _) = d"
| "metric_desc (ConstSummary d _ _ _ _) = d"

fun metric_labels :: "metric \<Rightarrow> string list" where
  "metric_labels (ConstMetric _ _ _ ls) = ls"
| "metric_labels (ConstHistogram _ _ _ _ ls) = ls"
| "metric_labels (ConstSummary _ _ _ _ ls) = ls"

definition metric_ok :: "metric \<Rightarrow> bool" where
  "metric_ok m \<longleftrightarrow> length (metric_labels m) = length (var_labels (metric_desc m))"

lemma var_labels_NewDesc [simp]: "var_labels (NewDesc n h ls) = ls"
  by (simp add: NewDesc_def)

lemma fq_NewDesc [simp]: "fq (NewDesc n h ls) = n"
  by (simp add: NewDesc_def)

lemma metric_ok_Const [wf_emit]:
  "metric_ok (ConstMetric d t v ls) \<longleftrightarrow> length ls = length (var_labels d)"
  "metric_ok (ConstHistogram d c s b ls) \<longleftrightarrow> length ls = length (var_labels d)"
  "metric_ok (ConstSummary d c s q ls) \<longleftrightarrow> length ls = length (var_labels d)"
  by (simp_all add: metric_ok_def)

section \<open>Scraping\<close>

text \<open>How \<open>Scrape\<close> ends: returns nil, returns an error, or panics.\<close>

datatype scrape_end = Done | Failed go_err | Panicked

text \<open>What was sent over the channel, in order, and how the call ended.\<close>

type_synonym scrape_out = "metric list \<times> scrape_end"

fun send_all :: "metric list \<Rightarrow> scrape_out" where
  "send_all [] = ([], Done)"
| "send_all (m # ms) =
     (if metric_ok m then (case send_all ms of (xs, r) \<Rightarrow> (m # xs, r)) else ([], Panicked))"

text \<open>Sequencing: the second part runs only when the first one returned normally.\<close>

definition and_then :: "scrape_out \<Rightarrow> scrape_out \<Rightarrow> scrape_out" where
  "and_then a b = (case a of (ms, Done) \<Rightarrow> (ms @ fst b, snd b) | _ \<Rightarrow> a)"

text \<open>
  \<open>for rows.Next() { if err := rows.Scan(...); err != nil { return err }; ... }\<close>, with the
  variables that live across rounds as the state \<open>st\<close>.
\<close>

fun row_loop ::
    "dest list \<Rightarrow> ('s \<Rightarrow> gval list \<Rightarrow> 's \<times> scrape_out) \<Rightarrow> 's \<Rightarrow> cell list list \<Rightarrow> 's \<times> scrape_out" where
  "row_loop ds step st [] = (st, [], Done)"
| "row_loop ds step st (r # rs) =
     (case scan ds r of
        Inl e \<Rightarrow> (st, [], Failed e)
      | Inr vs \<Rightarrow>
         (case step st vs of
            (st', ms, Done) \<Rightarrow> (case row_loop ds step st' rs of (st'', o') \<Rightarrow> (st'', and_then (ms, Done) o'))
          | (st', o') \<Rightarrow> (st', o')))"

text \<open>The common case: no state, and a row only sends metrics.\<close>

definition each_row :: "dest list \<Rightarrow> (gval list \<Rightarrow> metric list) \<Rightarrow> cell list list \<Rightarrow> scrape_out" where
  "each_row ds emit rows = snd (row_loop ds (\<lambda>_ vs. ((), send_all (emit vs))) () rows)"

text \<open>\<open>rows, err := db.QueryContext(...); if err != nil { return err }\<close>.\<close>

definition with_query ::
    "database \<Rightarrow> nat \<Rightarrow> string \<Rightarrow> string list \<Rightarrow> (rowset \<Rightarrow> scrape_out) \<Rightarrow> scrape_out" where
  "with_query db i q args k = (case db i q args of Inl e \<Rightarrow> ([], Failed e) | Inr rs \<Rightarrow> k rs)"

text \<open>The whole of a scraper that is one query and one loop without state.\<close>

definition table_scrape :: "string \<Rightarrow> dest list \<Rightarrow> (gval list \<Rightarrow> metric list) \<Rightarrow> database \<Rightarrow> scrape_out" where
  "table_scrape q ds emit db = with_query db 0 q [] (\<lambda>rs. each_row ds emit (rs_rows rs))"

section \<open>Laws of the loop\<close>

lemma send_all_ok: "list_all metric_ok ms \<Longrightarrow> send_all ms = (ms, Done)"
  by (induction ms) auto

lemma send_all_wf: "list_all metric_ok (fst (send_all ms))"
  by (induction ms) (auto split: prod.splits)

lemma send_all_end: "snd (send_all ms) \<noteq> Failed e"
  by (induction ms) (auto split: prod.splits)

lemma and_then_Done [simp]: "and_then (ms, Done) b = (ms @ fst b, snd b)"
  by (simp add: and_then_def)

lemma and_then_other [simp]:
  "and_then (ms, Failed e) b = (ms, Failed e)" "and_then (ms, Panicked) b = (ms, Panicked)"
  by (simp_all add: and_then_def)

lemma and_then_cases:
  "and_then a b = (if snd a = Done then (fst a @ fst b, snd b) else a)"
  by (cases a; cases "snd a") (auto simp: and_then_def)

lemma each_row_Nil [simp]: "each_row ds emit [] = ([], Done)"
  by (simp add: each_row_def)

lemma each_row_Cons:
  "each_row ds emit (r # rs) =
     (case scan ds r of
        Inl e \<Rightarrow> ([], Failed e)
      | Inr vs \<Rightarrow> and_then (send_all (emit vs)) (each_row ds emit rs))"
  by (auto simp: each_row_def and_then_cases split: sum.splits prod.splits scrape_end.splits)

text \<open>The rows scanned before the first one that cannot be.\<close>

fun good_rows :: "dest list \<Rightarrow> cell list list \<Rightarrow> gval list list" where
  "good_rows ds [] = []"
| "good_rows ds (r # rs) = (case scan ds r of Inl e \<Rightarrow> [] | Inr vs \<Rightarrow> vs # good_rows ds rs)"

fun first_scan_error :: "dest list \<Rightarrow> cell list list \<Rightarrow> go_err option" where
  "first_scan_error ds [] = None"
| "first_scan_error ds (r # rs) =
     (case scan ds r of Inl e \<Rightarrow> Some e | Inr vs \<Rightarrow> first_scan_error ds rs)"

lemma good_rows_typed: "vs \<in> set (good_rows ds rows) \<Longrightarrow> map dest_of vs = ds"
proof (induction ds rows rule: good_rows.induct)
  case (2 ds r rs)
  then show ?case by (cases "scan ds r") (auto dest: scan_typed)
qed simp

lemma good_rows_all: "first_scan_error ds rows = None \<Longrightarrow> length (good_rows ds rows) = length rows"
  by (induction ds rows rule: good_rows.induct) (auto split: sum.splits)

section \<open>The contract of a scraper\<close>

text \<open>
  What \<open>Exporter.scrape\<close> needs of a scraper: every metric it sends is accepted by the library,
  and it does not panic. A panic of one scraper ends the whole process, since the goroutines
  of \<open>scrape\<close> do not recover.
\<close>

locale safe_scraper =
  fixes scrape :: "database \<Rightarrow> scrape_out"
  assumes sent_ok: "list_all metric_ok (fst (scrape db))"
    and no_panic: "snd (scrape db) \<noteq> Panicked"
begin

lemma ends: "snd (scrape db) = Done \<or> (\<exists>e. snd (scrape db) = Failed e)"
  using no_panic by (cases "snd (scrape db)") auto

end

text \<open>A scraper of one table: its rows are scanned with \<open>ds\<close> and each sends \<open>emit\<close> of the row.\<close>

locale table_scraper =
  fixes q :: string
    and ds :: "dest list"
    and emit :: "gval list \<Rightarrow> metric list"
  assumes emit_ok: "map dest_of vs = ds \<Longrightarrow> list_all metric_ok (emit vs)"
begin

lemma each_row_eq:
  "each_row ds emit rows =
     (concat (map emit (good_rows ds rows)),
      case first_scan_error ds rows of None \<Rightarrow> Done | Some e \<Rightarrow> Failed e)"
proof (induction rows)
  case (Cons r rs)
  show ?case
  proof (cases "scan ds r")
    case (Inr vs)
    then have "send_all (emit vs) = (emit vs, Done)"
      by (intro send_all_ok emit_ok scan_typed)
    with Inr Cons show ?thesis by (simp add: each_row_Cons)
  qed (simp add: each_row_Cons)
qed simp

lemma scrape_eq:
  "table_scrape q ds emit db =
     (case db 0 q [] of
        Inl e \<Rightarrow> ([], Failed e)
      | Inr rs \<Rightarrow>
         (concat (map emit (good_rows ds (rs_rows rs))),
          case first_scan_error ds (rs_rows rs) of None \<Rightarrow> Done | Some e \<Rightarrow> Failed e))"
  by (simp add: table_scrape_def with_query_def each_row_eq split: sum.splits)

lemma emitted_ok: "vs \<in> set (good_rows ds rows) \<Longrightarrow> list_all metric_ok (emit vs)"
  by (rule emit_ok) (rule good_rows_typed)

lemma scrape_sent_ok: "list_all metric_ok (fst (table_scrape q ds emit db))"
  using emitted_ok by (fastforce simp: scrape_eq list_all_iff split: sum.splits)

lemma scrape_no_panic: "snd (table_scrape q ds emit db) \<noteq> Panicked"
  by (auto simp: scrape_eq split: sum.splits option.splits)

text \<open>The iteration error of the row set is never looked at.\<close>

lemma rows_err_ignored:
  "db 0 q [] = Inr rs \<Longrightarrow> db' 0 q [] = Inr (rs\<lparr>rs_err := e\<rparr>) \<Longrightarrow>
   table_scrape q ds emit db' = table_scrape q ds emit db"
  by (simp add: scrape_eq)

end

sublocale table_scraper \<subseteq> safe_scraper "table_scrape q ds emit"
  by unfold_locales (rule scrape_sent_ok, rule scrape_no_panic)

section \<open>Loops with state\<close>

text \<open>A step that never fails, whose metrics do not depend on the state.\<close>

lemma row_loop_pure:
  assumes "\<And>st vs. map dest_of vs = ds \<Longrightarrow> step st vs = (nxt st vs, emit vs, Done)"
  shows "row_loop ds step st rows =
    (foldl nxt st (good_rows ds rows), concat (map emit (good_rows ds rows)),
     case first_scan_error ds rows of None \<Rightarrow> Done | Some e \<Rightarrow> Failed e)"
proof (induction rows arbitrary: st)
  case (Cons r rs)
  then show ?case by (cases "scan ds r") (simp_all add: assms scan_typed)
qed simp

text \<open>A step that keeps an invariant of the state, sends well-formed metrics and does not panic.\<close>

locale loop_scraper =
  fixes ds :: "dest list"
    and step :: "'s \<Rightarrow> gval list \<Rightarrow> 's \<times> scrape_out"
    and inv :: "'s \<Rightarrow> bool"
  assumes step_inv: "inv st \<Longrightarrow> map dest_of vs = ds \<Longrightarrow> inv (fst (step st vs))"
    and step_ok: "inv st \<Longrightarrow> map dest_of vs = ds \<Longrightarrow> list_all metric_ok (fst (snd (step st vs)))"
    and step_no_panic: "inv st \<Longrightarrow> map dest_of vs = ds \<Longrightarrow> snd (snd (step st vs)) \<noteq> Panicked"
begin

lemma loop_safe:
  "inv st \<Longrightarrow> inv (fst (row_loop ds step st rows)) \<and>
     list_all metric_ok (fst (snd (row_loop ds step st rows))) \<and>
     snd (snd (row_loop ds step st rows)) \<noteq> Panicked"
proof (induction rows arbitrary: st)
  case (Cons r rs)
  show ?case
  proof (cases "scan ds r")
    case (Inr vs)
    obtain st' ms res where s: "step st vs = (st', ms, res)" by (cases "step st vs") auto
    have "inv st'" "list_all metric_ok ms" "res \<noteq> Panicked"
      using step_inv [OF Cons.prems scan_typed [OF Inr]] step_ok [OF Cons.prems scan_typed [OF Inr]]
        step_no_panic [OF Cons.prems scan_typed [OF Inr]] s by simp_all
    with Cons.IH [of st'] s Inr show ?thesis by (cases res) (auto split: prod.splits)
  qed (simp add: Cons.prems)
qed simp

end

text \<open>What runs after the loop: the rest of the scraper, given the state the loop left.\<close>

definition loop_scrape ::
    "string \<Rightarrow> dest list \<Rightarrow> ('s \<Rightarrow> gval list \<Rightarrow> 's \<times> scrape_out) \<Rightarrow> 's \<Rightarrow> ('s \<Rightarrow> scrape_out) \<Rightarrow> database \<Rightarrow> scrape_out" where
  "loop_scrape q ds step st0 finish db =
     with_query db 0 q [] (\<lambda>rs.
       case row_loop ds step st0 (rs_rows rs) of (st, out) \<Rightarrow> and_then out (finish st))"

lemma loop_scrape_eq:
  assumes "db 0 q [] = Inr rs"
    and "\<And>st vs. map dest_of vs = ds \<Longrightarrow> step st vs = (nxt st vs, emit vs, Done)"
  shows "loop_scrape q ds step st0 fin db =
     and_then (concat (map emit (good_rows ds (rs_rows rs))),
               case first_scan_error ds (rs_rows rs) of None \<Rightarrow> Done | Some e \<Rightarrow> Failed e)
       (fin (foldl nxt st0 (good_rows ds (rs_rows rs))))"
  using assms(1) by (simp add: loop_scrape_def with_query_def row_loop_pure [OF assms(2)])

locale finishing_scraper = loop_scraper ds step inv
  for ds and step :: "'s \<Rightarrow> gval list \<Rightarrow> 's \<times> scrape_out" and inv +
  fixes q :: string and st0 :: 's and finish :: "'s \<Rightarrow> scrape_out"
  assumes inv_init: "inv st0"
    and finish_ok: "inv st \<Longrightarrow> list_all metric_ok (fst (finish st))"
    and finish_no_panic: "inv st \<Longrightarrow> snd (finish st) \<noteq> Panicked"
begin

lemma scrape_safe:
  "list_all metric_ok (fst (loop_scrape q ds step st0 finish db)) \<and>
   snd (loop_scrape q ds step st0 finish db) \<noteq> Panicked"
proof (cases "db 0 q []")
  case (Inr rs)
  obtain st ms res where r: "row_loop ds step st0 (rs_rows rs) = (st, ms, res)"
    by (cases "row_loop ds step st0 (rs_rows rs)") auto
  with loop_safe [OF inv_init, of "rs_rows rs"]
  have "inv st" "list_all metric_ok ms" "res \<noteq> Panicked" by simp_all
  then show ?thesis using Inr r finish_ok finish_no_panic
    by (cases res) (auto simp: loop_scrape_def with_query_def)
qed (simp add: loop_scrape_def with_query_def)

end

sublocale finishing_scraper \<subseteq> safe_scraper "loop_scrape q ds step st0 finish"
  by unfold_locales (simp_all add: scrape_safe)

end
