(* ===== verification/Collector.thy ===== *)
theory Collector
  imports GoTime GoRegexp Scraper
begin

text \<open>
  \<open>collector/collector.go\<close>: the namespace, \<open>newDesc\<close>, and the two conversions of raw column
  values, \<open>parseStatus\<close> and \<open>parsePrivilege\<close>; \<open>collector/instance.go\<close>: the connection of one
  scrape and the server version. The machine's time zone is the parameter \<open>tz\<close>, and
  \<open>semver.ParseTolerant\<close> the parameter \<open>parse_tolerant\<close>.
\<close>

section \<open>collector.go\<close>

definition namespace :: string where "namespace = ''mysql''"

text \<open>The subsystems of \<open>perf_schema.go\<close>, \<open>info_schema.go\<close> and \<open>sys.go\<close>.\<close>

definition performanceSchema :: string where "performanceSchema = ''perf_schema''"
definition informationSchema :: string where "informationSchema = ''info_schema''"
definition sysSchema :: string where "sysSchema = ''sys''"

text \<open>\<open>picoSeconds = 1e12\<close>\<close>

definition picoSeconds :: float64 where "picoSeconds = f_lit 1000000000000 0"

definition userstatCheckQuery :: string where
  "userstatCheckQuery = ''SHOW GLOBAL VARIABLES WHERE Variable_Name='userstat'
		OR Variable_Name='userstat_running'' @ [CHR 0x27]"

definition logRE :: re where
  "logRE = seqs [Plus DotC, Lit ''.'', Cap 1 (Plus DigitC), Eol]"

definition newDesc :: "string \<Rightarrow> string \<Rightarrow> string \<Rightarrow> desc" where
  "newDesc subsystem name help = NewDesc (BuildFQName namespace subsystem name) help []"

definition ok_float :: "float64 \<times> num_error option \<Rightarrow> float64 \<times> bool" where
  "ok_float r = (fst r, snd r = None)"

definition parseStatus :: "zone_db \<Rightarrow> string \<Rightarrow> float64 \<times> bool" where
  "parseStatus tz data =
     (let dataString = strings_ToLower data in
      if dataString \<in> {''yes'', ''on''} then (f_one, True)
      else if dataString \<in> {''no'', ''off'', ''disabled''} then (f_zero, True)
      else if dataString = ''connecting'' then (f_zero, True)
      else if dataString = ''primary'' then (f_one, True)
      else if dataString \<in> {''non-primary'', ''disconnected''} then (f_zero, True)
      else case time_Parse tz layout_ssl_date data of
        Some ts \<Rightarrow> (f_of_int ts, True)
      | None \<Rightarrow>
          case time_Parse tz layout_DateTime data of
            Some ts \<Rightarrow> (f_of_int ts, True)
          | None \<Rightarrow>
              case re_find logRE data of
                Some logNum \<Rightarrow> ok_float (strconv_ParseFloat (submatch logNum 0))
              | None \<Rightarrow> ok_float (strconv_ParseFloat data))"

definition parsePrivilege :: "string \<Rightarrow> float64 \<times> bool" where
  "parsePrivilege data =
     (if data = ''Y'' then (f_one, True)
      else if data = ''N'' then (f_zero, True)
      else (f_of_int (-1), False))"

section \<open>instance.go\<close>

definition FlavorMySQL :: string where "FlavorMySQL = ''mysql''"
definition FlavorMariaDB :: string where "FlavorMariaDB = ''mariadb''"

record version =
  v_major :: int
  v_minor :: int
  v_patch :: int

definition version_GTE :: "version \<Rightarrow> version \<Rightarrow> bool" where
  "version_GTE v w \<longleftrightarrow>
     v_major v > v_major w \<or> (v_major v = v_major w \<and>
       (v_minor v > v_minor w \<or> (v_minor v = v_minor w \<and> v_patch v \<ge> v_patch w)))"

type_synonym semver_parser = "string \<Rightarrow> version option"

text \<open>
  The connection of a scrape; \<open>inst_db\<close> stands for the pool \<open>db\<close>, \<open>inst_maxconns\<close> for the
  limits set on it.
\<close>

record instance_state =
  inst_db :: database
  inst_maxconns :: int
  inst_flavor :: string
  inst_version :: version
  inst_versionMajorMinor :: float64
  inst_dsn :: string

definition versionRegex :: re where
  "versionRegex = Seq Bol (Cap 1 (seqs [Cap 2 (Plus DigitC), Cap 3 (Seq (Lit ''.'') (Plus DigitC)),
                                          Cap 4 (Seq (Lit ''.'') (Plus DigitC))]))"

definition versionQuery :: string where "versionQuery = ''SELECT @@version;''"

definition queryVersion :: "semver_parser \<Rightarrow> database \<Rightarrow> go_err + version \<times> string" where
  "queryVersion parse_tolerant db =
     (case query_row db 0 versionQuery [DStr] of
        Inl e \<Rightarrow> Inl e
      | Inr vs \<Rightarrow>
         (let version = g_str (vs ! 0) in
          case re_find versionRegex version of
            None \<Rightarrow> Inl (EMsg ''could not parse version'')
          | Some m \<Rightarrow>
             (case parse_tolerant (submatch m 1) of
                None \<Rightarrow> Inl (EMsg ''could not parse version'')
              | Some v \<Rightarrow> Inr (v, version))))"

text \<open>\<open>fmt.Sprintf("%d.%d", Major, Minor)\<close>\<close>

definition major_minor_string :: "version \<Rightarrow> string" where
  "major_minor_string v = strconv_Itoa (v_major v) @ CHR ''.'' # strconv_Itoa (v_minor v)"

text \<open>
  \<open>newInstance\<close>. The driver's \<open>sql.Open\<close> is the parameter \<open>sql_open\<close>. The second component says
  whether a pool opened here is still open on return.
\<close>

definition newInstance ::
    "(string \<Rightarrow> go_err + database) \<Rightarrow> semver_parser \<Rightarrow> string \<Rightarrow> int \<Rightarrow> (go_err + instance_state) \<times> bool" where
  "newInstance sql_open parse_tolerant dsn maxOpenConns =
     (case sql_open dsn of
        Inl e \<Rightarrow> (Inl e, False)
      | Inr db \<Rightarrow>
         (case queryVersion parse_tolerant db of
            Inl e \<Rightarrow> (Inl e, False)
          | Inr (v, versionString) \<Rightarrow>
             (case strconv_ParseFloat (major_minor_string v) of
                (_, Some e) \<Rightarrow> (Inl EParse, False)
              | (mm, None) \<Rightarrow>
                 (Inr \<lparr>inst_db = db, inst_maxconns = maxOpenConns,
                       inst_flavor = (if strings_Contains (strings_ToLower versionString) ''mariadb''
                                      then FlavorMariaDB else FlavorMySQL),
                       inst_version = v, inst_versionMajorMinor = mm, inst_dsn = dsn\<rparr>, True))))"

definition getDSN :: "instance_state \<Rightarrow> string" where
  "getDSN i = inst_dsn i"

section \<open>Laws of parseStatus\<close>

lemma logRE_iff:
  "in_re logRE b c t \<longleftrightarrow>
     t = [] \<and> (\<exists>x ds. c = x @ CHR ''.'' # ds \<and> x \<noteq> [] \<and> CHR 0x0A \<notin> set x \<and> ds \<noteq> [] \<and> list_all is_digit ds)"
  (is "?L \<longleftrightarrow> ?R")
proof
  assume ?L
  then have "in_re (Seq (Plus DotC) (Seq (Lit ''.'') (Seq (Cap 1 (Plus DigitC)) Eol))) b c t"
    by (simp only: logRE_def seqs.simps)
  then obtain x y where c: "c = x @ y" and x: "in_re (Plus DotC) b x (y @ t)"
    and y: "in_re (Seq (Lit ''.'') (Seq (Cap 1 (Plus DigitC)) Eol)) (b \<and> x = []) y t"
    by (rule in_re_SeqE)
  from y obtain z b' where y': "y = ''.'' @ z" and "in_re (Seq (Cap 1 (Plus DigitC)) Eol) b' z t"
    by (rule in_re_SeqE) (auto simp: in_re_Lit_iff)
  then obtain ds e b1 b2 where z: "z = ds @ e" and ds: "in_re (Cap 1 (Plus DigitC)) b1 ds (e @ t)"
    and e: "in_re Eol b2 e t" by (blast elim: in_re_SeqE)
  from ds have "ds \<noteq> [] \<and> list_all is_digit ds" by (simp add: in_re_Cap_iff in_re_Plus_Cls)
  moreover from x have "x \<noteq> [] \<and> CHR 0x0A \<notin> set x" by (auto simp: in_re_Plus_Cls list_all_iff)
  ultimately show ?R using c y' z e by (auto simp: in_re_Eol_iff)
next
  assume ?R
  then obtain x ds where t: "t = []" and c: "c = x @ CHR ''.'' # ds" and x: "x \<noteq> []" "CHR 0x0A \<notin> set x"
    and ds: "ds \<noteq> []" "list_all is_digit ds" by auto
  have "in_re (Plus DotC) b x (([CHR ''.''] @ ds @ []) @ [])"
    using x by (auto simp: in_re_Plus_Cls list_all_iff)
  moreover have "in_re (Plus DigitC) b' ds ([] @ [])" for b' using ds by (simp add: in_re_Plus_Cls)
  ultimately have "in_re logRE b (x @ [CHR ''.''] @ ds @ []) []"
    unfolding logRE_def seqs.simps
    by (intro in_re.Seq in_re.Lit in_re.Cap in_re.Eol) auto
  with t c show ?L by simp
qed

text \<open>On a one-line value \<open>logRE\<close> matches the whole value or nothing.\<close>

lemma logRE_whole:
  assumes "CHR 0x0A \<notin> set s" "re_find logRE s = Some w"
  shows "submatch w 0 = s"
proof -
  obtain c t g where w: "w = (c, t, g)" by (cases w) auto
  from assms(2) w have "find_from logRE True s = Some (c, t, g)" by (simp add: re_find_def)
  from find_from_sound [OF this] obtain p where s: "s = p @ c @ t" and "in_re logRE (True \<and> p = []) c t" by auto
  then obtain x ds where "t = []" "c = x @ CHR ''.'' # ds" "x \<noteq> []" "ds \<noteq> []" "list_all is_digit ds"
    by (auto simp: logRE_iff)
  with s assms(1) have "in_re logRE True s []"
    unfolding logRE_iff by (intro conjI exI [of _ "p @ x"] exI [of _ ds]) auto
  from find_from_front [OF this] obtain c' t' g' where
    "find_from logRE True s = Some (c', t', g')" "s = c' @ t'" "in_re logRE True c' t'" by auto
  with assms(2) w show ?thesis by (auto simp: re_find_def submatch_def logRE_iff)
qed

definition status_words :: "string set" where
  "status_words = {''yes'', ''on'', ''no'', ''off'', ''disabled'', ''connecting'', ''primary'',
                   ''non-primary'', ''disconnected''}"

lemma parseStatus_number:
  assumes "CHR 0x0A \<notin> set data" "strings_ToLower data \<notin> status_words"
    "time_Parse tz layout_ssl_date data = None" "time_Parse tz layout_DateTime data = None"
  shows "parseStatus tz data = ok_float (strconv_ParseFloat data)"
  using assms logRE_whole [OF assms(1)]
  by (auto simp: parseStatus_def status_words_def split: option.splits)


lemma skip_lit_char: "p \<noteq> CHR '' '' \<Longrightarrow> skip_lit v [p] = (if v = [] \<or> hd v \<noteq> p then None else Some (tl v))"
  by simp

lemma lower_digits: "list_all is_digit s \<Longrightarrow> strings_ToLower s = s"
  by (induction s) (auto simp: strings_ToLower_def digit_not_special)

lemma digits_take: "list_all is_digit s \<Longrightarrow> list_all is_digit (take n s)"
  by (auto simp: list_all_iff dest: in_set_takeD)

lemma index_of_None: "x \<notin> set ys \<Longrightarrow> index_of x ys i = None"
  by (induction ys arbitrary: i) auto

lemma month_names_no_digit: "m \<in> set month_names \<Longrightarrow> \<not> is_digit (hd m)"
  by (auto simp: month_names_def is_digit_def)

lemma ssl_date_digits:
  assumes "list_all is_digit s"
  shows "time_Parse tz layout_ssl_date s = None"
proof -
  have "index_of (take 3 s) month_names 1 = None" if "3 \<le> length s"
  proof -
    from that assms obtain c r where "take 3 s = c # r" "is_digit c" by (cases s) auto
    then have "take 3 s \<notin> set month_names" using month_names_no_digit [of "take 3 s"] by auto
    then show ?thesis by (rule index_of_None)
  qed
  then have "lookup_month s = None"
    using lower_digits [OF digits_take [OF assms]] by (simp add: lookup_month_def)
  then show ?thesis by (simp add: time_Parse_def layout_ssl_date_def)
qed

lemma DateTime_digits:
  assumes "list_all is_digit s"
  shows "time_Parse tz layout_DateTime s = None"
proof -
  have "drop 4 s = [] \<or> hd (drop 4 s) \<noteq> CHR ''-''"
  proof (cases "drop 4 s")
    case (Cons c r)
    then have "c \<in> set s" by (metis in_set_dropD list.set_intros(1))
    with assms have "is_digit c" by (auto simp: list_all_iff)
    with Cons show ?thesis by (auto dest: digit_not_special)
  qed simp
  then have "skip_lit (drop 4 s) ''-'' = None" by (simp add: skip_lit_char)
  then show ?thesis by (simp add: time_Parse_def layout_DateTime_def)
qed

lemma digits_not_status_word:
  assumes "list_all is_digit s" "s \<noteq> []"
  shows "strings_ToLower s \<notin> status_words"
proof -
  from assms obtain c r where "s = c # r" "is_digit c" by (cases s) auto
  with lower_digits [OF assms(1)] show ?thesis by (auto simp: status_words_def is_digit_def)
qed

lemma digits_no_newline: "list_all is_digit s \<Longrightarrow> CHR 0x0A \<notin> set s"
  by (auto simp: list_all_iff is_digit_def)

text \<open>A printed 64-bit counter is read back as its float.\<close>

lemma parseStatus_uint:
  assumes "0 \<le> n" "n < 2 ^ 64"
  shows "parseStatus tz (show_uint n) = (f_of_int n, True)"
proof -
  have d: "list_all is_digit (show_uint n)" using assms(1) by (rule show_uint_digits)
  have "parseStatus tz (show_uint n) = ok_float (strconv_ParseFloat (show_uint n))"
    using d by (intro parseStatus_number digits_no_newline digits_not_status_word ssl_date_digits
        DateTime_digits) simp_all
  with ParseFloat_show_uint [OF assms] show ?thesis by (simp add: ok_float_def)
qed

text \<open>The words, in any capitalisation.\<close>

lemma parseStatus_words:
  "strings_ToLower s \<in> {''yes'', ''on'', ''primary''} \<Longrightarrow> parseStatus tz s = (f_one, True)"
  "strings_ToLower s \<in> {''no'', ''off'', ''disabled'', ''connecting'', ''non-primary'', ''disconnected''} \<Longrightarrow>
     parseStatus tz s = (f_zero, True)"
  by (auto simp: parseStatus_def)

end
