(* ===== verification/Exporter.thy ===== *)
theory Exporter
  imports Collector "HOL-Library.Multiset"
begin

text \<open>
  \<open>collector/exporter.go\<close>: the options and the DSN of an exporter, and one collection. The
  goroutines a collection starts are threads that send their metrics one by one; \<open>collect_step\<close>
  is any interleaving of them with the loop that starts them.
\<close>

section \<open>Descriptors\<close>

definition exporter_subsystem :: string where "exporter_subsystem = ''exporter''"

definition sessionSettingsParam :: string where
  "sessionSettingsParam = ''log_slow_filter=%27tmp_table_on_disk,filesort_on_disk%27''"

text \<open>\<open>fmt.Sprintf(timeoutParam, t)\<close>\<close>

definition timeoutParam :: "int \<Rightarrow> string" where
  "timeoutParam t = ''lock_wait_timeout='' @ strconv_Itoa t"

definition mysqlUp :: desc where
  "mysqlUp = NewDesc (BuildFQName namespace [] ''up'') ''Whether the MySQL server is up.'' []"

definition mysqlScrapeCollectorSuccess :: desc where
  "mysqlScrapeCollectorSuccess = NewDesc (BuildFQName namespace exporter_subsystem ''collector_success'')
     ''mysqld_exporter: Whether a collector succeeded.'' [''collector'']"

definition mysqlScrapeDurationSeconds :: desc where
  "mysqlScrapeDurationSeconds = NewDesc (BuildFQName namespace exporter_subsystem ''collector_duration_seconds'')
     ''Collector time duration.'' [''collector'']"

lemmas exporter_descs = mysqlUp_def mysqlScrapeCollectorSuccess_def mysqlScrapeDurationSeconds_def NewDesc_def

section \<open>The exporter\<close>

text \<open>The interface \<open>Scraper\<close>: its methods.\<close>

record scraper =
  sc_name :: string
  sc_help :: string
  sc_version :: float64
  sc_scrape :: "instance_state \<Rightarrow> database \<Rightarrow> scrape_out"

text \<open>Of \<open>Exporter\<close>, all but the context and the logger. Durations are in nanoseconds.\<close>

record exporter =
  e_dsn :: string
  e_scrapers :: "scraper list"
  e_enableLockWaitTimeout :: bool
  e_lockWaitTimeout :: int
  e_slowLogFilter :: bool
  e_queryTimeout :: int
  e_maxOpenConns :: int

type_synonym exporter_opt = "exporter \<Rightarrow> exporter"

definition EnableLockWaitTimeout :: "bool \<Rightarrow> exporter_opt" where
  "EnableLockWaitTimeout b e = e\<lparr>e_enableLockWaitTimeout := b\<rparr>"

definition SetLockWaitTimeout :: "int \<Rightarrow> exporter_opt" where
  "SetLockWaitTimeout timeout e = e\<lparr>e_lockWaitTimeout := timeout\<rparr>"

definition SetSlowLogFilter :: "bool \<Rightarrow> exporter_opt" where
  "SetSlowLogFilter b e = e\<lparr>e_slowLogFilter := b\<rparr>"

definition SetQueryTimeout :: "int \<Rightarrow> exporter_opt" where
  "SetQueryTimeout timeout e = e\<lparr>e_queryTimeout := timeout\<rparr>"

definition SetMaxOpenConns :: "int \<Rightarrow> exporter_opt" where
  "SetMaxOpenConns n e = e\<lparr>e_maxOpenConns := n\<rparr>"

text \<open>
  \<open>withQueryTimeoutContext\<close>: a context is its deadline, if it has one; \<open>context.WithTimeout\<close>
  keeps the parent's when that is earlier.
\<close>

definition withQueryTimeoutContext :: "exporter \<Rightarrow> int \<Rightarrow> int option \<Rightarrow> int option" where
  "withQueryTimeoutContext e now ctx =
     (if e_queryTimeout e > 0
      then Some (case ctx of None \<Rightarrow> now + e_queryTimeout e | Some d \<Rightarrow> min d (now + e_queryTimeout e))
      else ctx)"

definition New :: "string \<Rightarrow> scraper list \<Rightarrow> exporter_opt list \<Rightarrow> exporter" where
  "New dsn0 scrapers opts =
     (let e0 = \<lparr>e_dsn = [], e_scrapers = scrapers, e_enableLockWaitTimeout = False, e_lockWaitTimeout = 0,
               e_slowLogFilter = False, e_queryTimeout = 0, e_maxOpenConns = 2\<rparr>;
          e = foldl (\<lambda>e opt. opt e) e0 opts;
          dsnParams = (if e_enableLockWaitTimeout e then [timeoutParam (e_lockWaitTimeout e)] else []) @
                      (if e_slowLogFilter e then [sessionSettingsParam] else []);
          dsn1 = (if strings_Contains dsn0 ''?'' then dsn0 @ ''&'' else dsn0 @ ''?'')
      in e\<lparr>e_dsn := dsn1 @ strings_Join dsnParams ''&''\<rparr>)"

definition Describe :: "exporter \<Rightarrow> desc list" where
  "Describe e = [mysqlUp, mysqlScrapeDurationSeconds, mysqlScrapeCollectorSuccess]"

section \<open>One collection\<close>

text \<open>
  What a collection meets outside: \<open>sql.Open\<close>, the version parser, the result of \<open>Ping\<close>, and
  for the scraper number \<open>i\<close> of the exporter the answers to its queries and the seconds it took.
\<close>

record environment =
  env_open :: "string \<Rightarrow> go_err + database"
  env_semver :: semver_parser
  env_ping :: "go_err option"
  env_conn_secs :: float64
  env_db :: "nat \<Rightarrow> database"
  env_secs :: "nat \<Rightarrow> float64"

text \<open>
  A goroutine: the metrics it has still to send, and whether it panics after the last of them.
  The label of a scraper is \<open>collect.\<close> and its name.
\<close>

record thread =
  th_sends :: "metric list"
  th_panics :: bool

definition collect_label :: "scraper \<Rightarrow> string" where
  "collect_label sc = ''collect.'' @ sc_name sc"

definition success_metric :: "scraper \<Rightarrow> bool \<Rightarrow> metric" where
  "success_metric sc ok =
     ConstMetric mysqlScrapeCollectorSuccess GaugeValue (if ok then f_one else f_zero) [collect_label sc]"

definition duration_metric :: "float64 \<Rightarrow> string \<Rightarrow> metric" where
  "duration_metric secs label = ConstMetric mysqlScrapeDurationSeconds GaugeValue secs [label]"

definition scraper_thread :: "instance_state \<Rightarrow> environment \<Rightarrow> nat \<Rightarrow> scraper \<Rightarrow> thread" where
  "scraper_thread inst env i sc =
     (case sc_scrape sc inst (env_db env i) of
        (ms, Panicked) \<Rightarrow> \<lparr>th_sends = ms, th_panics = True\<rparr>
      | (ms, r) \<Rightarrow> \<lparr>th_sends = ms @ [success_metric sc (r = Done), duration_metric (env_secs env i) (collect_label sc)],
                     th_panics = False\<rparr>)"

text \<open>
  The state of a running collection: the scrapers the loop has not come to, with their numbers;
  the goroutines started; and what has gone over the channel. \<open>cs_crashed\<close> is the end of the
  process: nothing recovers a panic of these goroutines.
\<close>

record collect_state =
  cs_loop :: "(nat \<times> scraper) list"
  cs_threads :: "thread list"
  cs_channel :: "metric list"
  cs_crashed :: bool

inductive collect_step :: "instance_state \<Rightarrow> environment \<Rightarrow> collect_state \<Rightarrow> collect_state \<Rightarrow> bool"
  for inst env where
  skip: "\<not> cs_crashed s \<Longrightarrow> cs_loop s = (i, sc) # rest \<Longrightarrow> f_lt (inst_versionMajorMinor inst) (sc_version sc) \<Longrightarrow>
    collect_step inst env s (s\<lparr>cs_loop := rest\<rparr>)"
| spawn: "\<not> cs_crashed s \<Longrightarrow> cs_loop s = (i, sc) # rest \<Longrightarrow> \<not> f_lt (inst_versionMajorMinor inst) (sc_version sc) \<Longrightarrow>
    collect_step inst env s (s\<lparr>cs_loop := rest, cs_threads := cs_threads s @ [scraper_thread inst env i sc]\<rparr>)"
| send: "\<not> cs_crashed s \<Longrightarrow> t < length (cs_threads s) \<Longrightarrow> th_sends (cs_threads s ! t) = m # ms \<Longrightarrow>
    collect_step inst env s
      (s\<lparr>cs_threads := (cs_threads s)[t := (cs_threads s ! t)\<lparr>th_sends := ms\<rparr>], cs_channel := cs_channel s @ [m]\<rparr>)"
| panic: "\<not> cs_crashed s \<Longrightarrow> t < length (cs_threads s) \<Longrightarrow> cs_threads s ! t = \<lparr>th_sends = [], th_panics = True\<rparr> \<Longrightarrow>
    collect_step inst env s (s\<lparr>cs_crashed := True\<rparr>)"

inductive_cases collect_stepE: "collect_step inst env s s'"

definition collect_init :: "exporter \<Rightarrow> environment \<Rightarrow> collect_state" where
  "collect_init e env = \<lparr>cs_loop = zip [0..<length (e_scrapers e)] (e_scrapers e), cs_threads = [],
     cs_channel = [duration_metric (env_conn_secs env) ''connection''], cs_crashed = False\<rparr>"

text \<open>The loop is over and \<open>wg.Wait\<close> returns.\<close>

definition collect_done :: "collect_state \<Rightarrow> bool" where
  "collect_done s \<longleftrightarrow> \<not> cs_crashed s \<and> cs_loop s = [] \<and>
     list_all (\<lambda>t. th_sends t = [] \<and> \<not> th_panics t) (cs_threads s)"

definition up_metric :: "float64 \<Rightarrow> metric" where
  "up_metric up = ConstMetric mysqlUp GaugeValue up []"

text \<open>
  \<open>Collect\<close>, with \<open>scrape\<close>: the metrics it can have sent when it returns. A crash has no such
  list.
\<close>

inductive Collect :: "exporter \<Rightarrow> environment \<Rightarrow> metric list \<Rightarrow> bool" where
  no_connection: "newInstance (env_open env) (env_semver env) (e_dsn e) (e_maxOpenConns e) = (Inl err, b) \<Longrightarrow>
    Collect e env [up_metric f_zero]"
| no_ping: "newInstance (env_open env) (env_semver env) (e_dsn e) (e_maxOpenConns e) = (Inr inst, b) \<Longrightarrow>
    env_ping env = Some err \<Longrightarrow> Collect e env [up_metric f_zero]"
| scraped: "newInstance (env_open env) (env_semver env) (e_dsn e) (e_maxOpenConns e) = (Inr inst, b) \<Longrightarrow>
    env_ping env = None \<Longrightarrow> (collect_step inst env)\<^sup>*\<^sup>* (collect_init e env) s \<Longrightarrow> collect_done s \<Longrightarrow>
    Collect e env (cs_channel s @ [up_metric f_one])"

inductive_cases CollectE: "Collect e env ms"

section \<open>The interleavings\<close>

text \<open>What a scraper of the loop will send, and what a state still has to send.\<close>

definition planned :: "instance_state \<Rightarrow> environment \<Rightarrow> nat \<times> scraper \<Rightarrow> metric list" where
  "planned inst env x =
     (if f_lt (inst_versionMajorMinor inst) (sc_version (snd x)) then []
      else th_sends (scraper_thread inst env (fst x) (snd x)))"

definition owed :: "instance_state \<Rightarrow> environment \<Rightarrow> collect_state \<Rightarrow> metric multiset" where
  "owed inst env s = mset (concat (map th_sends (cs_threads s))) + mset (concat (map (planned inst env) (cs_loop s)))"

definition weight :: "instance_state \<Rightarrow> environment \<Rightarrow> collect_state \<Rightarrow> nat" where
  "weight inst env s =
     (if cs_crashed s then 0
      else 1 + sum_list (map (\<lambda>t. length (th_sends t)) (cs_threads s)) +
           sum_list (map (\<lambda>x. 1 + length (planned inst env x)) (cs_loop s)))"

lemma concat_update_mset:
  assumes "t < length ts" "f (ts ! t) = m # f y"
  shows "mset (concat (map f (ts[t := y]))) + {#m#} = mset (concat (map f ts))"
proof -
  have "mset (map f (ts[t := y])) = add_mset (f y) (mset (map f ts) - {#f (ts ! t)#})"
    using assms(1) by (simp add: map_update mset_update)
  moreover have "f (ts ! t) \<in># mset (map f ts)" using assms(1) by simp
  ultimately have "add_mset (f (ts ! t)) (mset (map f (ts[t := y]))) = add_mset (f y) (mset (map f ts))"
    by (metis add_mset_commute insert_DiffM)
  then have "mset (concat (map f (ts[t := y]))) + mset (f (ts ! t)) = mset (concat (map f ts)) + mset (f y)"
    by (metis (no_types) add.commute mset_concat sum_mset.insert image_mset_add_mset mset_map sum_mset_sum_list)
  then show ?thesis using assms(2) by simp
qed

lemma sum_list_update_nat:
  "t < length ts \<Longrightarrow> f (ts ! t) = Suc (f y) \<Longrightarrow> Suc (sum_list (map f (ts[t := y]))) = sum_list (map (f :: _ \<Rightarrow> nat) ts)"
  by (induction ts arbitrary: t) (auto split: nat.splits simp: nth_Cons)

lemma step_owed:
  "collect_step inst env s s' \<Longrightarrow> mset (cs_channel s') + owed inst env s' = mset (cs_channel s) + owed inst env s"
proof (induction rule: collect_step.induct)
  case (send s t m ms)
  have "mset (concat (map th_sends ((cs_threads s)[t := (cs_threads s ! t)\<lparr>th_sends := ms\<rparr>]))) + {#m#} =
      mset (concat (map th_sends (cs_threads s)))"
    using send by (intro concat_update_mset) simp_all
  then show ?case by (simp add: owed_def)
qed (simp_all add: owed_def planned_def)

lemma step_weight: "collect_step inst env s s' \<Longrightarrow> weight inst env s' < weight inst env s"
proof (induction rule: collect_step.induct)
  case (send s t m ms)
  have "Suc (sum_list (map (\<lambda>t. length (th_sends t)) ((cs_threads s)[t := (cs_threads s ! t)\<lparr>th_sends := ms\<rparr>]))) =
      sum_list (map (\<lambda>t. length (th_sends t)) (cs_threads s))"
    using send by (intro sum_list_update_nat) simp_all
  with send show ?case by (simp add: weight_def)
qed (simp_all add: weight_def planned_def)

lemma step_crash: "collect_step inst env s s' \<Longrightarrow> \<not> cs_crashed s"
  by (auto elim: collect_step.cases)

lemma run_owed:
  "(collect_step inst env)\<^sup>*\<^sup>* s s' \<Longrightarrow>
   mset (cs_channel s') + owed inst env s' = mset (cs_channel s) + owed inst env s"
  by (induction rule: rtranclp_induct) (simp_all add: step_owed)

text \<open>A collection that is not over can go on: nothing waits for anything but its own turn.\<close>

lemma collect_progress:
  assumes "\<not> cs_crashed s" "\<not> collect_done s"
  shows "\<exists>s'. collect_step inst env s s'"
proof (cases "cs_loop s")
  case (Cons x rest)
  obtain i sc where x: "x = (i, sc)" by fastforce
  show ?thesis
  proof (cases "f_lt (inst_versionMajorMinor inst) (sc_version sc)")
    case True
    from collect_step.skip [OF assms(1) Cons [unfolded x] True] show ?thesis ..
  next
    case False
    from collect_step.spawn [OF assms(1) Cons [unfolded x] False] show ?thesis ..
  qed
next
  case Nil
  with assms obtain t where t: "t < length (cs_threads s)"
    and busy: "\<not> (th_sends (cs_threads s ! t) = [] \<and> \<not> th_panics (cs_threads s ! t))"
    unfolding collect_done_def list_all_length by blast
  show ?thesis
  proof (cases "th_sends (cs_threads s ! t)")
    case Nil
    with busy have "cs_threads s ! t = \<lparr>th_sends = [], th_panics = True\<rparr>" by simp
    from collect_step.panic [OF assms(1) t this] show ?thesis ..
  next
    case (Cons m ms)
    from collect_step.send [OF assms(1) t Cons] show ?thesis ..
  qed
qed

definition harmless :: "instance_state \<Rightarrow> environment \<Rightarrow> nat \<times> scraper \<Rightarrow> bool" where
  "harmless inst env x \<longleftrightarrow> snd (sc_scrape (snd x) inst (env_db env (fst x))) \<noteq> Panicked"

lemma harmless_thread: "harmless inst env (i, sc) \<Longrightarrow> \<not> th_panics (scraper_thread inst env i sc)"
  by (auto simp: harmless_def scraper_thread_def split: prod.splits scrape_end.splits)

definition calm :: "instance_state \<Rightarrow> environment \<Rightarrow> collect_state \<Rightarrow> bool" where
  "calm inst env s \<longleftrightarrow> \<not> cs_crashed s \<and> list_all (\<lambda>t. \<not> th_panics t) (cs_threads s) \<and>
     list_all (harmless inst env) (cs_loop s)"

lemma calm_step: "collect_step inst env s s' \<Longrightarrow> calm inst env s \<Longrightarrow> calm inst env s'"
proof (induction rule: collect_step.induct)
  case (send s t m ms)
  then show ?case by (auto simp: calm_def list_all_length nth_list_update)
next
  case (panic s t)
  then show ?case by (auto simp: calm_def list_all_length)
qed (auto simp: calm_def harmless_thread)

lemma calm_run: "(collect_step inst env)\<^sup>*\<^sup>* s s' \<Longrightarrow> calm inst env s \<Longrightarrow> calm inst env s'"
  by (induction rule: rtranclp_induct) (auto dest: calm_step)

lemma calm_finishes: "calm inst env s \<Longrightarrow> \<exists>s'. (collect_step inst env)\<^sup>*\<^sup>* s s' \<and> collect_done s'"
proof (induction "weight inst env s" arbitrary: s rule: less_induct)
  case less
  show ?case
  proof (cases "collect_done s")
    case False
    from less.prems have "\<not> cs_crashed s" by (simp add: calm_def)
    from collect_progress [OF this False] obtain s1 where s1: "collect_step inst env s s1" by blast
    from less.hyps [OF step_weight [OF s1] calm_step [OF s1 less.prems]] s1 show ?thesis
      by (meson converse_rtranclp_into_rtranclp)
  qed blast
qed

text \<open>The scrapers of an exporter with their numbers, and those the server is new enough for.\<close>

definition numbered :: "exporter \<Rightarrow> (nat \<times> scraper) list" where
  "numbered e = zip [0..<length (e_scrapers e)] (e_scrapers e)"

definition eligible :: "instance_state \<Rightarrow> exporter \<Rightarrow> (nat \<times> scraper) list" where
  "eligible inst e = filter (\<lambda>x. \<not> f_lt (inst_versionMajorMinor inst) (sc_version (snd x))) (numbered e)"

lemma planned_filter:
  "concat (map (planned inst env) xs) =
     concat (map (\<lambda>x. th_sends (scraper_thread inst env (fst x) (snd x)))
       (filter (\<lambda>x. \<not> f_lt (inst_versionMajorMinor inst) (sc_version (snd x))) xs))"
  by (induction xs) (simp_all add: planned_def)

lemma collect_init_calm:
  "list_all (harmless inst env) (numbered e) \<Longrightarrow> calm inst env (collect_init e env)"
  by (simp add: calm_def collect_init_def numbered_def)

lemma done_owed: "collect_done s \<Longrightarrow> owed inst env s = {#}"
  by (auto simp: collect_done_def owed_def list_all_iff)

lemma done_channel:
  assumes "(collect_step inst env)\<^sup>*\<^sup>* (collect_init e env) s" "collect_done s"
  shows "mset (cs_channel s) = add_mset (duration_metric (env_conn_secs env) ''connection'')
    (mset (concat (map (\<lambda>x. th_sends (scraper_thread inst env (fst x) (snd x))) (eligible inst e))))"
proof -
  have "mset (cs_channel s) = mset (cs_channel (collect_init e env)) + owed inst env (collect_init e env)"
    using run_owed [OF assms(1)] done_owed [OF assms(2), of inst env] by simp
  then show ?thesis
    by (simp add: owed_def collect_init_def planned_filter eligible_def numbered_def)
qed

text \<open>A panic to come is not lost.\<close>

definition doomed :: "instance_state \<Rightarrow> environment \<Rightarrow> collect_state \<Rightarrow> bool" where
  "doomed inst env s \<longleftrightarrow> cs_crashed s \<or> (\<exists>t \<in> set (cs_threads s). th_panics t) \<or>
     (\<exists>x \<in> set (cs_loop s). \<not> f_lt (inst_versionMajorMinor inst) (sc_version (snd x)) \<and> \<not> harmless inst env x)"

lemma harmful_thread: "\<not> harmless inst env (i, sc) \<Longrightarrow> th_panics (scraper_thread inst env i sc)"
  by (auto simp: harmless_def scraper_thread_def split: prod.splits)

lemma panics_update:
  assumes "th_panics (ts ! t) = th_panics y"
  shows "(\<exists>x \<in> set (ts[t := y]). th_panics x) \<longleftrightarrow> (\<exists>x \<in> set ts. th_panics x)"
proof -
  have "map th_panics (ts[t := y]) = map th_panics ts"
    using assms by (cases "t < length ts") (simp_all add: map_update list_update_same_conv list_update_beyond)
  then have "True \<in> set (map th_panics (ts[t := y])) \<longleftrightarrow> True \<in> set (map th_panics ts)" by simp
  then show ?thesis by (auto simp: image_iff)
qed

lemma doomed_step: "collect_step inst env s s' \<Longrightarrow> doomed inst env s \<Longrightarrow> doomed inst env s'"
proof (induction rule: collect_step.induct)
  case (send s t m ms)
  then show ?case by (simp add: doomed_def panics_update)
qed (auto simp: doomed_def harmful_thread)

lemma doomed_run: "(collect_step inst env)\<^sup>*\<^sup>* s s' \<Longrightarrow> doomed inst env s \<Longrightarrow> doomed inst env s'"
  by (induction rule: rtranclp_induct) (auto dest: doomed_step)

lemma doomed_crashes: "doomed inst env s \<Longrightarrow> \<exists>s'. (collect_step inst env)\<^sup>*\<^sup>* s s' \<and> cs_crashed s'"
proof (induction "weight inst env s" arbitrary: s rule: less_induct)
  case less
  show ?case
  proof (cases "cs_crashed s")
    case False
    with less.prems have "\<not> collect_done s" by (auto simp: doomed_def collect_done_def list_all_iff)
    from collect_progress [OF False this] obtain s1 where s1: "collect_step inst env s s1" by blast
    from less.hyps [OF step_weight [OF s1] doomed_step [OF s1 less.prems]] s1 show ?thesis
      by (meson converse_rtranclp_into_rtranclp)
  qed blast
qed

lemma doomed_init:
  "x \<in> set (eligible inst e) \<Longrightarrow> \<not> harmless inst env x \<Longrightarrow> doomed inst env (collect_init e env)"
  by (auto simp: doomed_def collect_init_def eligible_def numbered_def)

section \<open>Properties\<close>

text \<open>The connection of a collection: the instance, when opening and pinging it succeeded.\<close>

definition connected :: "exporter \<Rightarrow> environment \<Rightarrow> instance_state option" where
  "connected e env =
     (case newInstance (env_open env) (env_semver env) (e_dsn e) (e_maxOpenConns e) of
        (Inr inst, _) \<Rightarrow> (if env_ping env = None then Some inst else None) | _ \<Rightarrow> None)"


lemma collect_mset:
  assumes "Collect e env ms" "connected e env = Some inst"
  shows "mset ms = {#duration_metric (env_conn_secs env) ''connection'', up_metric f_one#} +
    mset (concat (map (\<lambda>x. th_sends (scraper_thread inst env (fst x) (snd x))) (eligible inst e)))"
  using assms by (cases rule: Collect.cases) (auto simp: connected_def done_channel split: if_splits)

lemma collect_no_panic:
  assumes "Collect e env ms" "connected e env = Some inst" "x \<in> set (eligible inst e)"
  shows "harmless inst env x"
proof (rule ccontr)
  assume bad: "\<not> harmless inst env x"
  obtain s where "(collect_step inst env)\<^sup>*\<^sup>* (collect_init e env) s" "collect_done s"
    using assms(1,2) by (cases rule: Collect.cases) (auto simp: connected_def split: if_splits)
  from doomed_run [OF this(1) doomed_init [OF assms(3) bad]] this(2) show False
    by (auto simp: doomed_def collect_done_def list_all_iff)
qed

lemma collect_exists:
  assumes "list_all (harmless inst env) (numbered e)" "connected e env = Some inst"
  shows "\<exists>ms. Collect e env ms"
proof -
  from calm_finishes [OF collect_init_calm [OF assms(1)]] obtain s where
    s: "(collect_step inst env)\<^sup>*\<^sup>* (collect_init e env) s" "collect_done s" by blast
  obtain b where "newInstance (env_open env) (env_semver env) (e_dsn e) (e_maxOpenConns e) = (Inr inst, b)"
    "env_ping env = None"
    using assms(2) by (auto simp: connected_def split: prod.splits sum.splits if_splits)
  from Collect.scraped [OF this s] show ?thesis ..
qed

text \<open>A server and an exporter to apply the properties to.\<close>

definition sample_scraper :: "string \<Rightarrow> float64 \<Rightarrow> scraper" where
  "sample_scraper n v = \<lparr>sc_name = n, sc_help = [], sc_version = v, sc_scrape = (\<lambda>inst.
     table_scrape ''SELECT 1'' [DU64]
       (\<lambda>vs. [ConstMetric (NewDesc (BuildFQName namespace [] n) [] []) GaugeValue (f_of_u64 (g_u64 (vs ! 0))) []]))\<rparr>"

definition sample_exporter :: exporter where
  "sample_exporter = New ''root@/'' [sample_scraper ''old'' (f_lit 51 1), sample_scraper ''new'' (f_lit 90 1)] []"

definition sample_db :: database where
  "sample_db i q args = Inr \<lparr>rs_cols = Inr [],
     rs_rows = [[CBytes (if q = versionQuery then ''8.0.36'' else ''1'')]], rs_err = None\<rparr>"

definition sample_env :: environment where
  "sample_env = \<lparr>env_open = (\<lambda>dsn. Inr sample_db),
     env_semver = (\<lambda>s. if s = ''8.0.36'' then Some \<lparr>v_major = 8, v_minor = 0, v_patch = 36\<rparr> else None),
     env_ping = None, env_conn_secs = f_one, env_db = (\<lambda>i. sample_db), env_secs = (\<lambda>i. f_one)\<rparr>"

definition sample_inst :: instance_state where
  "sample_inst = the (connected sample_exporter sample_env)"

lemma sample_connected: "connected sample_exporter sample_env = Some sample_inst"
proof -
  have "\<not> Option.is_none (connected sample_exporter sample_env)" by code_simp
  then show ?thesis by (auto simp: sample_inst_def Option.is_none_def)
qed

lemma sample_eligible: "map fst (eligible sample_inst sample_exporter) = [0]"
  by code_simp

lemma sample_sends:
  "map (\<lambda>x. th_sends (scraper_thread sample_inst sample_env (fst x) (snd x))) (eligible sample_inst sample_exporter) =
     [[ConstMetric (NewDesc (BuildFQName namespace [] ''old'') [] []) GaugeValue f_one [],
       success_metric (sample_scraper ''old'' (f_lit 51 1)) True, duration_metric f_one ''collect.old'']]"
  by code_simp

lemma sample_scraper_safe: "snd (sc_scrape (sample_scraper n v) inst db) \<noteq> Panicked"
proof -
  have "table_scraper [DU64]
      (\<lambda>vs. [ConstMetric (NewDesc (BuildFQName namespace [] n) [] []) GaugeValue (f_of_u64 (g_u64 (vs ! 0))) []])"
    by unfold_locales (simp add: metric_ok_Const)
  then show ?thesis by (simp add: sample_scraper_def table_scraper.scrape_no_panic)
qed

lemma sample_harmless: "list_all (harmless sample_inst sample_env) (numbered sample_exporter)"
proof -
  have "list_all (harmless sample_inst sample_env) (zip [0..<2] [sample_scraper n v, sample_scraper n' v'])" for n v n' v'
    using sample_scraper_safe by (simp add: harmless_def upt_rec)
  then show ?thesis by (simp add: numbered_def sample_exporter_def New_def Let_def numeral_2_eq_2)
qed

lemma sample_collects: "\<exists>ms. Collect sample_exporter sample_env ms"
  by (rule collect_exists [OF sample_harmless sample_connected])


text \<open>
  C2: what a collection sends does not depend on how its goroutines interleave: it is the
  connection time, what each scraper the server is new enough for sends, each followed by its
  success and duration metrics, and \<open>up\<close>; the older ones send nothing.
\<close>

theorem collection_interleaving_independent:
  assumes "Collect e env ms" "connected e env = Some inst"
  shows "mset ms = {#duration_metric (env_conn_secs env) ''connection'', up_metric f_one#} +
    mset (concat (map (\<lambda>x. th_sends (scraper_thread inst env (fst x) (snd x))) (eligible inst e)))"
  by (rule collect_mset [OF assms])

theorem collection_interleaving_independent_witness:
  "\<exists>ms. Collect sample_exporter sample_env ms \<and> mset ms =
     {#duration_metric f_one ''connection'', up_metric f_one,
       ConstMetric (NewDesc (BuildFQName namespace [] ''old'') [] []) GaugeValue f_one [],
       success_metric (sample_scraper ''old'' (f_lit 51 1)) True, duration_metric f_one ''collect.old''#}"
proof -
  obtain ms where ms: "Collect sample_exporter sample_env ms" using sample_collects ..
  have "env_conn_secs sample_env = f_one" by (simp add: sample_env_def)
  with collection_interleaving_independent [OF ms sample_connected] ms show ?thesis
    by (auto simp: sample_sends)
qed


text \<open>
  The panic of one scraper is the end of the process: when one the server is new enough for
  panics, the collection never returns, and from wherever it is it runs into the crash.
\<close>

theorem scraper_panic_kills:
  assumes "connected e env = Some inst" "x \<in> set (eligible inst e)"
    and "snd (sc_scrape (snd x) inst (env_db env (fst x))) = Panicked"
  shows "(\<nexists>ms. Collect e env ms) \<and>
    (\<forall>s. (collect_step inst env)\<^sup>*\<^sup>* (collect_init e env) s \<longrightarrow>
         (\<exists>s'. (collect_step inst env)\<^sup>*\<^sup>* s s' \<and> cs_crashed s'))"
proof -
  have doom: "doomed inst env (collect_init e env)"
    using assms(2,3) by (intro doomed_init) (simp_all add: harmless_def)
  have "\<not> harmless inst env x" using assms(3) by (simp add: harmless_def)
  then have "\<not> Collect e env ms" for ms using collect_no_panic assms(1,2) by blast
  with doomed_crashes doomed_run [OF _ doom] show ?thesis by blast
qed

definition bad_scraper :: scraper where
  "bad_scraper = sample_scraper ''bad'' (f_lit 51 1) \<lparr>sc_scrape := (\<lambda>inst db. ([], Panicked))\<rparr>"

theorem scraper_panic_kills_witness:
  "\<nexists>ms. Collect (sample_exporter\<lparr>e_scrapers := [bad_scraper]\<rparr>) sample_env ms"
proof -
  let ?e = "sample_exporter\<lparr>e_scrapers := [bad_scraper]\<rparr>"
  have c: "connected ?e sample_env = Some sample_inst"
    using sample_connected by (simp add: connected_def)
  have v: "\<not> f_lt (inst_versionMajorMinor sample_inst) (f_lit 51 1)" by code_simp
  have x: "(0, bad_scraper) \<in> set (eligible sample_inst ?e)"
    using v by (simp add: eligible_def numbered_def bad_scraper_def sample_scraper_def)
  have p: "snd (sc_scrape (snd (0::nat, bad_scraper)) sample_inst (env_db sample_env (fst (0::nat, bad_scraper)))) = Panicked"
    by (simp add: bad_scraper_def)
  show ?thesis using scraper_panic_kills [OF c x p] by (rule conjunct1)
qed


lemma thread_success:
  assumes "harmless inst env x"
    and "\<forall>m \<in> set (fst (sc_scrape (snd x) inst (env_db env (fst x)))). metric_desc m \<noteq> mysqlScrapeCollectorSuccess"
  shows "filter (\<lambda>m. metric_desc m = mysqlScrapeCollectorSuccess) (th_sends (scraper_thread inst env (fst x) (snd x))) =
    [success_metric (snd x) (snd (sc_scrape (snd x) inst (env_db env (fst x))) = Done)]"
  using assms
  by (auto simp: harmless_def scraper_thread_def success_metric_def duration_metric_def exporter_descs
      filter_empty_conv split: prod.splits scrape_end.splits)

lemma concat_filter_singletons:
  "\<forall>x \<in> set xs. filter P (f x) = [g x] \<Longrightarrow> filter P (concat (map f xs)) = map g xs"
  by (induction xs) simp_all

text \<open>
  C14: a collection sends exactly one \<open>collector_success\<close> metric for every scraper the server is
  new enough for, and it is 1 exactly when the scraper returned no error.
\<close>

theorem success_iff_nil:
  assumes "Collect e env ms" "connected e env = Some inst"
    and "\<forall>x \<in> set (eligible inst e). \<forall>m \<in> set (fst (sc_scrape (snd x) inst (env_db env (fst x)))).
           metric_desc m \<noteq> mysqlScrapeCollectorSuccess"
  shows "filter_mset (\<lambda>m. metric_desc m = mysqlScrapeCollectorSuccess) (mset ms) =
    mset (map (\<lambda>x. success_metric (snd x) (snd (sc_scrape (snd x) inst (env_db env (fst x))) = Done)) (eligible inst e))"
proof -
  let ?P = "\<lambda>m. metric_desc m = mysqlScrapeCollectorSuccess"
  have "filter ?P (concat (map (\<lambda>x. th_sends (scraper_thread inst env (fst x) (snd x))) (eligible inst e))) =
      map (\<lambda>x. success_metric (snd x) (snd (sc_scrape (snd x) inst (env_db env (fst x))) = Done)) (eligible inst e)"
    using assms(3) collect_no_panic [OF assms(1,2)] by (intro concat_filter_singletons) (simp add: thread_success)
  moreover have "\<not> ?P (duration_metric s l)" "\<not> ?P (up_metric u)" for s l u
    by (simp_all add: duration_metric_def up_metric_def exporter_descs)
  ultimately show ?thesis
    unfolding collect_mset [OF assms(1,2)] by (simp add: filter_mset_add_mset mset_filter [symmetric] del: mset_concat)
qed

theorem success_iff_nil_witness:
  "\<exists>ms. Collect sample_exporter sample_env ms \<and>
     filter_mset (\<lambda>m. metric_desc m = mysqlScrapeCollectorSuccess) (mset ms) =
       {#success_metric (sample_scraper ''old'' (f_lit 51 1)) True#}"
proof -
  obtain ms where ms: "Collect sample_exporter sample_env ms" using sample_collects ..
  have d: "\<forall>x \<in> set (eligible sample_inst sample_exporter).
      \<forall>m \<in> set (fst (sc_scrape (snd x) sample_inst (env_db sample_env (fst x)))). metric_desc m \<noteq> mysqlScrapeCollectorSuccess"
    by code_simp
  have r: "map (\<lambda>x. success_metric (snd x) (snd (sc_scrape (snd x) sample_inst (env_db sample_env (fst x))) = Done))
      (eligible sample_inst sample_exporter) = [success_metric (sample_scraper ''old'' (f_lit 51 1)) True]"
    by code_simp
  from success_iff_nil [OF ms sample_connected d] ms show ?thesis by (auto simp: r)
qed

section \<open>The DSN\<close>

lemma strings_Contains_single: "strings_Contains s [c] \<longleftrightarrow> c \<in> set s"
  by (simp add: strings_Contains_def strings_Cut_single)

text \<open>
  With the options the handlers pass, the DSN of a new exporter is the one given, a separator,
  \<open>&\<close> when the DSN has a question mark already, and the session parameters that are enabled, in
  order; the other options are the fields of the exporter.
\<close>

theorem new_dsn:
  "New dsn scrapers [EnableLockWaitTimeout b, SetLockWaitTimeout t, SetSlowLogFilter f, SetQueryTimeout q,
      SetMaxOpenConns n] =
   \<lparr>e_dsn = dsn @ (if CHR ''?'' \<in> set dsn then ''&'' else ''?'') @
      (if b then ''lock_wait_timeout='' @ strconv_Itoa t else []) @ (if b \<and> f then ''&'' else []) @
      (if f then sessionSettingsParam else []),
    e_scrapers = scrapers, e_enableLockWaitTimeout = b, e_lockWaitTimeout = t, e_slowLogFilter = f,
    e_queryTimeout = q, e_maxOpenConns = n\<rparr>"
  by (simp add: New_def Let_def strings_Contains_single timeoutParam_def EnableLockWaitTimeout_def
      SetLockWaitTimeout_def SetSlowLogFilter_def SetQueryTimeout_def SetMaxOpenConns_def)

text \<open>
  The separator is chosen by a question mark anywhere in the DSN, so a question mark in the
  password makes the session parameter part of the database name.
\<close>

theorem question_mark_in_password:
  assumes "CHR ''?'' \<in> set cred"
  shows "e_dsn (New (cred @ ''@tcp(localhost:3306)/'') scrapers [EnableLockWaitTimeout True, SetLockWaitTimeout t]) =
    cred @ ''@tcp(localhost:3306)/&lock_wait_timeout='' @ strconv_Itoa t"
  using assms by (simp add: New_def Let_def strings_Contains_single timeoutParam_def EnableLockWaitTimeout_def
      SetLockWaitTimeout_def)

theorem question_mark_in_password_witness:
  "e_dsn (New (''root:what?'' @ ''@tcp(localhost:3306)/'') [] [EnableLockWaitTimeout True, SetLockWaitTimeout 2]) =
     ''root:what?'' @ ''@tcp(localhost:3306)/&lock_wait_timeout='' @ strconv_Itoa 2"
  by (rule question_mark_in_password) simp

text \<open>
  A query timeout only ever shortens: the deadline of a scraper's context is the request's when
  the option is off, and never later than the request's or than the timeout from now when it is on.
\<close>

lemma query_timeout_shortens:
  "(e_queryTimeout e \<le> 0 \<and> withQueryTimeoutContext e now ctx = ctx) \<or>
   (0 < e_queryTimeout e \<and> (\<exists>d. withQueryTimeoutContext e now ctx = Some d \<and> d \<le> now + e_queryTimeout e \<and>
      (case ctx of None \<Rightarrow> d = now + e_queryTimeout e | Some d0 \<Rightarrow> d = d0 \<or> d = now + e_queryTimeout e \<and> d \<le> d0)))"
  by (auto simp: withQueryTimeoutContext_def min_def split: option.splits)

end
