(* ===== verification/GoMap.thy ===== *)
theory GoMap
  imports GoFloat "HOL-Library.Multiset"
begin

text \<open>
  Go maps as association lists. \<open>go_map\<close> is the contract, stated for any key comparison
  because \<open>==\<close> on \<open>float64\<close> keys is not the equality of HOL (a NaN equals nothing, the two
  zeros are one key).
\<close>

section \<open>Maps\<close>

locale go_map =
  fixes keq :: "'k \<Rightarrow> 'k \<Rightarrow> bool"
    and get :: "'k \<Rightarrow> 'm \<Rightarrow> 'v"
    and put :: "'k \<Rightarrow> 'v \<Rightarrow> 'm \<Rightarrow> 'm"
    and valid :: "'k \<Rightarrow> bool"
  assumes get_put: "get k (put k' v m) = (if keq k k' then v else get k m)"
    and keq_refl: "valid k \<Longrightarrow> keq k k"
begin

lemma get_put_same: "valid k \<Longrightarrow> get k (put k v m) = v"
  by (simp add: get_put keq_refl)

lemma get_puts_other:
  "\<forall>p \<in> set ps. \<not> keq k (fst p) \<Longrightarrow> get k (foldl (\<lambda>m p. put (fst p) (snd p) m) m ps) = get k m"
  by (induction ps arbitrary: m) (simp_all add: get_put)

text \<open>The last write to a key is the one read.\<close>

lemma get_puts_last:
  assumes "valid k" "\<forall>p \<in> set ps. \<not> keq k (fst p)"
  shows "get k (foldl (\<lambda>m p. put (fst p) (snd p) m) m (qs @ (k, v) # ps)) = v"
  using assms by (simp add: get_puts_other get_put_same)

end

type_synonym bucket = "(float64 \<times> u64) list"

fun bucket_get :: "float64 \<Rightarrow> bucket \<Rightarrow> u64" where
  "bucket_get k [] = 0"
| "bucket_get k ((k', v) # b) = (if f_eq k k' then v else bucket_get k b)"

fun bucket_put :: "float64 \<Rightarrow> u64 \<Rightarrow> bucket \<Rightarrow> bucket" where
  "bucket_put k v [] = [(k, v)]"
| "bucket_put k v ((k', w) # b) = (if f_eq k k' then (k', v) # b else (k', w) # bucket_put k v b)"

interpretation bkt: go_map f_eq bucket_get bucket_put "\<lambda>k. k \<noteq> NaN"
proof
  show "bucket_get k (bucket_put k' v m) = (if f_eq k k' then v else bucket_get k m)" for k k' v m
    by (induction k' v m rule: bucket_put.induct) (auto dest: f_eq_trans f_eq_sym)
qed simp

text \<open>A map whose keys compare with HOL's equality (strings and structs of strings), with \<open>z\<close> the zero value a missing key reads.\<close>

fun smap_get :: "'v \<Rightarrow> 'k \<Rightarrow> ('k \<times> 'v) list \<Rightarrow> 'v" where
  "smap_get z k [] = z"
| "smap_get z k ((k', v) # m) = (if k = k' then v else smap_get z k m)"

fun smap_put :: "'k \<Rightarrow> 'v \<Rightarrow> ('k \<times> 'v) list \<Rightarrow> ('k \<times> 'v) list" where
  "smap_put k v [] = [(k, v)]"
| "smap_put k v ((k', w) # m) = (if k = k' then (k', v) # m else (k', w) # smap_put k v m)"

interpretation smap: go_map "(=)" "smap_get z" smap_put "\<lambda>k. True"
proof
  show "smap_get z k (smap_put k' v m) = (if k = k' then v else smap_get z k m)" for k k' v m
    by (induction k' v m rule: smap_put.induct) auto
qed simp

lemma smap_put_keys: "set (map fst (smap_put k v m)) = insert k (set (map fst m))"
  by (induction k v m rule: smap_put.induct) auto

lemma smap_put_distinct: "distinct (map fst m) \<Longrightarrow> distinct (map fst (smap_put k v m))"
proof (induction k v m rule: smap_put.induct)
  case (2 k v k' w m)
  then show ?case using smap_put_keys [of k v m] by (auto simp del: set_map)
qed simp

text \<open>
  The order \<open>range\<close> visits a map in is chosen anew each time: the model takes it as an
  argument, any function that only permutes.
\<close>

type_synonym 'k range_order = "nat \<Rightarrow> 'k list \<Rightarrow> 'k list"

definition is_range_order :: "'k range_order \<Rightarrow> bool" where
  "is_range_order ord \<longleftrightarrow> (\<forall>n ks. mset (ord n ks) = mset ks)"

lemma range_order_set: "is_range_order ord \<Longrightarrow> set (ord n ks) = set ks"
  by (metis is_range_order_def set_mset_mset)

lemma mset_range: "is_range_order ord \<Longrightarrow> mset (map f (ord n ks)) = mset (map f ks)"
  by (simp add: is_range_order_def)

end
