(* ===== verification/Config.thy ===== *)
theory Config
  imports GoMap GoSql
begin

text \<open>
  \<open>config/config.go\<close>: reading the configuration file, validating its sections, and forming the
  DSN of a connection. Of the standard library, \<open>net.SplitHostPort\<close>, \<open>net.JoinHostPort\<close> and
  \<open>os.Expand\<close> are modelled; the \<open>ini\<close> package, the driver's \<open>FormatDSN\<close> and what is on disk are
  arguments. The variables of the package that a call changes are the record \<open>config_state\<close>.
\<close>

section \<open>Standard library\<close>

text \<open>\<open>net.SplitHostPort\<close>; which of its errors it is does not matter to the code.\<close>

definition last_colon :: "string \<Rightarrow> (string \<times> string) option" where
  \<comment> \<open>the parts before and after the last colon\<close>
  "last_colon s =
     (if CHR '':'' \<in> set s
      then Some (rev (tl (dropWhile (\<lambda>c. c \<noteq> CHR '':'') (rev s))), rev (takeWhile (\<lambda>c. c \<noteq> CHR '':'') (rev s)))
      else None)"

definition net_SplitHostPort :: "string \<Rightarrow> (string \<times> string) option" where
  "net_SplitHostPort hostport =
     (case last_colon hostport of
        None \<Rightarrow> None
      | Some (before, port) \<Rightarrow>
         (if hostport \<noteq> [] \<and> hd hostport = CHR ''['' then
            (case strings_Cut hostport '']'' of
               None \<Rightarrow> None
             | Some (h, rest) \<Rightarrow>
                (if h @ '']'' \<noteq> before then None
                 else if CHR ''['' \<in> set (tl hostport) then None
                 else if CHR '']'' \<in> set rest then None
                 else Some (tl h, port)))
          else if CHR '':'' \<in> set before then None
          else if CHR ''['' \<in> set hostport \<or> CHR '']'' \<in> set hostport then None
          else Some (before, port)))"

definition net_JoinHostPort :: "string \<Rightarrow> string \<Rightarrow> string" where
  "net_JoinHostPort host port =
     (if CHR '':'' \<in> set host then ''['' @ host @ '']:'' @ port else host @ '':'' @ port)"

text \<open>\<open>os.Expand\<close>: the name behind a dollar sign and the number of bytes it takes.\<close>

definition isShellSpecialVar :: "char \<Rightarrow> bool" where
  "isShellSpecialVar c \<longleftrightarrow> c \<in> set ''*#$@!?-'' \<or> is_digit c"

definition isAlphaNum :: "char \<Rightarrow> bool" where
  "isAlphaNum c \<longleftrightarrow> c = CHR ''_'' \<or> is_digit c \<or> is_upper c \<or> is_lower c"

definition getShellName :: "string \<Rightarrow> string \<times> nat" where
  "getShellName s =
     (if hd s = CHR ''{'' then
        (if length s > 2 \<and> isShellSpecialVar (s ! 1) \<and> s ! 2 = CHR ''}'' then ([s ! 1], 3)
         else case strings_Cut (tl s) ''}'' of
                Some (name, _) \<Rightarrow> (if name = [] then ([], 2) else (name, length name + 2))
              | None \<Rightarrow> ([], 1))
      else if isShellSpecialVar (hd s) then ([hd s], 1)
      else (takeWhile isAlphaNum s, length (takeWhile isAlphaNum s)))"

function os_Expand :: "(string \<Rightarrow> string) \<Rightarrow> string \<Rightarrow> string" where
  "os_Expand mapping [] = []"
| "os_Expand mapping (c # s) =
     (if c = CHR ''$'' \<and> s \<noteq> [] then
        (let (name, w) = getShellName s in
         (if name = [] \<and> w > 0 then []
          else if name = [] then ''$''
          else mapping name) @ os_Expand mapping (drop w s))
      else c # os_Expand mapping s)"
  by pat_completeness auto

termination by (relation "measure (\<lambda>(m, s). length s)") auto

section \<open>Types\<close>

record mysql_config =
  mc_User :: string
  mc_Password :: string
  mc_Host :: string
  mc_Port :: int
  mc_Socket :: string
  mc_EnableCleartextPlugin :: bool
  mc_SslCa :: string
  mc_SslCert :: string
  mc_SslKey :: string
  mc_TlsInsecureSkipVerify :: bool
  mc_Tls :: string
  mc_TlsMinVersion :: string
  mc_TlsMaxVersion :: string
  mc_TlsServerName :: string

text \<open>\<open>Config\<close>: its sections by name.\<close>

type_synonym sections = "(string \<times> mysql_config) list"

text \<open>The fields of the driver's \<open>mysql.Config\<close> that are set here.\<close>

record dsn_config =
  dc_User :: string
  dc_Passwd :: string
  dc_Net :: string
  dc_Addr :: string
  dc_TLSConfig :: string
  dc_AllowCleartextPasswords :: bool

record tls_config =
  tc_RootCAs :: "string option"
  tc_Certificates :: "(string \<times> string) option"
  tc_MinVersion :: int
  tc_MaxVersion :: int
  tc_ServerName :: string
  tc_InsecureSkipVerify :: bool

text \<open>
  The package variable \<open>err\<close>, the gauges, the configuration of the handler, and the TLS
  configurations registered with the driver.
\<close>

record config_state =
  cf_err :: "go_err option"
  cf_reload_success :: float64
  cf_reload_seconds :: int
  cf_sections :: sections
  cf_tls :: "(string \<times> tls_config) list"

definition tlsVersions :: "(string \<times> int) list" where
  "tlsVersions = [(''TLSv1.0'', 769), (''TLSv1.1'', 770), (''TLSv1.2'', 771), (''TLSv1.3'', 772)]"

section \<open>Validation\<close>

text \<open>\<open>None\<close> is nil.\<close>

definition validateConfig :: "mysql_config \<Rightarrow> go_err option" where
  "validateConfig m =
     (if mc_User m = [] then Some (EMsg ''no user specified in section or parent'')
      else if map_of tlsVersions (mc_TlsMinVersion m) = None \<and> mc_TlsMinVersion m \<noteq> []
        then Some (EMsg ''tls-min-version is not allowed'')
      else if map_of tlsVersions (mc_TlsMaxVersion m) = None \<and> mc_TlsMaxVersion m \<noteq> []
        then Some (EMsg ''tls-max-version is not allowed'')
      else if mc_TlsMinVersion m \<noteq> [] \<and> mc_TlsMaxVersion m \<noteq> [] \<and>
              smap_get 0 (mc_TlsMinVersion m) tlsVersions > smap_get 0 (mc_TlsMaxVersion m) tlsVersions
        then Some (EMsg ''tls-min-version must not be higher than tls-max-version'')
      else None)"

section \<open>TLS\<close>

text \<open>What is on disk: \<open>os.ReadFile\<close>, \<open>AppendCertsFromPEM\<close> and \<open>tls.LoadX509KeyPair\<close>.\<close>

record files =
  read_file :: "string \<Rightarrow> go_err + string"
  pem_ok :: "string \<Rightarrow> bool"
  key_pair :: "string \<Rightarrow> string \<Rightarrow> go_err option"

definition empty_tls :: tls_config where
  "empty_tls = \<lparr>tc_RootCAs = None, tc_Certificates = None, tc_MinVersion = 0, tc_MaxVersion = 0,
                tc_ServerName = [], tc_InsecureSkipVerify = False\<rparr>"

definition load_tls_files :: "files \<Rightarrow> mysql_config \<Rightarrow> go_err + tls_config" where
  "load_tls_files fs m =
     (if mc_SslCa m = [] then Inr empty_tls
      else case read_file fs (mc_SslCa m) of
             Inl e \<Rightarrow> Inl e
           | Inr pemCA \<Rightarrow>
              (if \<not> pem_ok fs pemCA then Inl (EMsg ''failed parse pem-encoded CA certificates'')
               else if mc_SslCert m \<noteq> [] \<and> mc_SslKey m \<noteq> [] then
                 (case key_pair fs (mc_SslCert m) (mc_SslKey m) of
                    Some e \<Rightarrow> Inl (EWrap ''failed to parse pem-encoded SSL cert or SSL key'' e)
                  | None \<Rightarrow> Inr (empty_tls\<lparr>tc_RootCAs := Some pemCA,
                                          tc_Certificates := Some (mc_SslCert m, mc_SslKey m)\<rparr>))
               else Inr (empty_tls\<lparr>tc_RootCAs := Some pemCA\<rparr>)))"

definition CustomizeTLS :: "files \<Rightarrow> mysql_config \<Rightarrow> string \<Rightarrow> config_state \<Rightarrow> go_err option \<times> config_state" where
  "CustomizeTLS fs m configSectionName s =
     (case load_tls_files fs m of
        Inl e \<Rightarrow> (Some e, s)
      | Inr tlsCfg \<Rightarrow>
         (let tlsCfg1 = (if mc_TlsMinVersion m \<noteq> []
                         then tlsCfg\<lparr>tc_MinVersion := smap_get 0 (mc_TlsMinVersion m) tlsVersions\<rparr> else tlsCfg);
              tlsCfg2 = (if mc_TlsMaxVersion m \<noteq> []
                         then tlsCfg1\<lparr>tc_MaxVersion := smap_get 0 (mc_TlsMaxVersion m) tlsVersions\<rparr> else tlsCfg1);
              tlsCfg3 = (if mc_TlsServerName m \<noteq> [] then tlsCfg2\<lparr>tc_ServerName := mc_TlsServerName m\<rparr> else tlsCfg2);
              tlsCfg4 = tlsCfg3\<lparr>tc_InsecureSkipVerify := mc_TlsInsecureSkipVerify m\<rparr>
          in (None, s\<lparr>cf_tls := smap_put configSectionName tlsCfg4 (cf_tls s)\<rparr>)))"

section \<open>The DSN\<close>

definition hasCustomTLS :: "mysql_config \<Rightarrow> bool" where
  "hasCustomTLS m \<longleftrightarrow>
     mc_SslCa m \<noteq> [] \<or> mc_TlsMinVersion m \<noteq> [] \<or> mc_TlsMaxVersion m \<noteq> [] \<or> mc_TlsServerName m \<noteq> []"

text \<open>
  Network and address of a target, with the value the package variable \<open>err\<close> is left with.
\<close>

definition form_address ::
    "mysql_config \<Rightarrow> string \<Rightarrow> go_err option \<Rightarrow> (go_err + string \<times> string) \<times> go_err option" where
  "form_address m target err =
     (if target = [] then
        (if mc_Socket m = [] then
           (Inr (''tcp'', net_JoinHostPort (if mc_Host m \<noteq> [] then mc_Host m else ''127.0.0.1'')
                           (if mc_Port m \<noteq> 0 then strconv_Itoa (mc_Port m) else ''3306'')), err)
         else (Inr (''unix'', mc_Socket m), err))
      else if strings_HasPrefix target ''unix://'' then
        (Inr (''unix'', drop (length ''unix://'') target), err)
      else case net_SplitHostPort target of
             None \<Rightarrow> (let e = EMsg ''bad address'' in (Inl (EWrap ''failed to parse target'' e), Some e))
           | Some _ \<Rightarrow> (Inr (''tcp'', target), None))"

text \<open>\<open>FormatDSN\<close> of the driver is the argument \<open>format_dsn\<close>.\<close>

definition FormDSN ::
    "(dsn_config \<Rightarrow> string) \<Rightarrow> files \<Rightarrow> mysql_config \<Rightarrow> string \<Rightarrow> string \<Rightarrow> config_state \<Rightarrow>
     (go_err + string) \<times> config_state" where
  "FormDSN format_dsn fs m target configSectionName s0 =
     (case form_address m target (cf_err s0) of
        (Inl e, err) \<Rightarrow> (Inl e, s0\<lparr>cf_err := err\<rparr>)
      | (Inr (net, addr), err) \<Rightarrow>
         (let s1 = s0\<lparr>cf_err := err\<rparr>;
              config = \<lparr>dc_User = mc_User m, dc_Passwd = mc_Password m, dc_Net = net, dc_Addr = addr,
                        dc_TLSConfig = [], dc_AllowCleartextPasswords = mc_EnableCleartextPlugin m\<rparr>
          in if mc_TlsInsecureSkipVerify m then
               (Inr (format_dsn (config\<lparr>dc_TLSConfig := ''skip-verify''\<rparr>)), s1)
             else if hasCustomTLS m then
               (case CustomizeTLS fs m configSectionName s1 of
                  (Some e, s2) \<Rightarrow>
                    (Inl (EWrap ''failed to register a custom TLS configuration for mysql dsn: '' e), s2)
                | (None, s2) \<Rightarrow> (Inr (format_dsn (config\<lparr>dc_TLSConfig := configSectionName\<rparr>)), s2))
             else (Inr (format_dsn (config\<lparr>dc_TLSConfig := mc_Tls m\<rparr>)), s1)))"

section \<open>Reloading\<close>

text \<open>
  The operations of the \<open>ini\<close> package used here, on a file of type \<open>'f\<close>: \<open>LoadSources\<close> (with the
  source that sets the password of \<open>client\<close>), the string of a key, \<open>SetValue\<close>, the names of the
  sections in order, and \<open>StrictMapTo\<close>, which takes the value mapper and the preset
  \<open>TlsInsecureSkipVerify\<close>.
\<close>

record 'f ini_package =
  ini_load :: "string \<Rightarrow> go_err + 'f"
  ini_key :: "'f \<Rightarrow> string \<Rightarrow> string \<Rightarrow> string"
  ini_set :: "'f \<Rightarrow> string \<Rightarrow> string \<Rightarrow> string \<Rightarrow> 'f"
  ini_sections :: "'f \<Rightarrow> string list"
  ini_map_to :: "(string \<Rightarrow> string) \<Rightarrow> bool \<Rightarrow> 'f \<Rightarrow> string \<Rightarrow> go_err + mysql_config"

text \<open>\<open>if k := clientSection.Key(key); k.String() == "" { k.SetValue(value) }\<close>\<close>

definition set_default :: "'f ini_package \<Rightarrow> string \<Rightarrow> string \<Rightarrow> 'f \<Rightarrow> 'f" where
  "set_default ini key value f =
     (if ini_key ini f ''client'' key = [] then ini_set ini f ''client'' key value else f)"

definition client_defaults :: "'f ini_package \<Rightarrow> string \<Rightarrow> string \<Rightarrow> 'f \<Rightarrow> go_err + 'f" where
  "client_defaults ini mysqldAddress mysqldUser f =
     (case (if strings_HasPrefix mysqldAddress ''unix://''
            then Inr (set_default ini ''socket'' (drop (length ''unix://'') mysqldAddress) f)
            else case net_SplitHostPort mysqldAddress of
                   None \<Rightarrow> Inl (EWrap ''failed to parse address'' (EMsg ''bad address''))
                 | Some (host, port) \<Rightarrow> Inr (set_default ini ''port'' port (set_default ini ''host'' host f))) of
        Inl e \<Rightarrow> Inl e
      | Inr f1 \<Rightarrow> Inr (set_default ini ''user'' mysqldUser f1))"

text \<open>The value mapper.\<close>

definition expand_value :: "(string \<Rightarrow> string) \<Rightarrow> string \<Rightarrow> string" where
  "expand_value getenv val = os_Expand (\<lambda>name. if name = ''$'' then ''$'' else getenv name) val"

definition collect_section ::
    "'f ini_package \<Rightarrow> (string \<Rightarrow> string) \<Rightarrow> bool \<Rightarrow> 'f \<Rightarrow> sections \<Rightarrow> string \<Rightarrow> sections" where
  "collect_section ini getenv tlsInsecureSkipVerify f m sectionName =
     (if sectionName = ''DEFAULT'' then m
      else case ini_map_to ini (expand_value getenv) tlsInsecureSkipVerify f sectionName of
             Inl e \<Rightarrow> m
           | Inr mysqlcfg \<Rightarrow> (if validateConfig mysqlcfg \<noteq> None then m else smap_put sectionName mysqlcfg m))"

definition reload_body ::
    "'f ini_package \<Rightarrow> (string \<Rightarrow> string) \<Rightarrow> string \<Rightarrow> string \<Rightarrow> string \<Rightarrow> bool \<Rightarrow> config_state \<Rightarrow>
     go_err option \<times> config_state" where
  "reload_body ini getenv filename mysqldAddress mysqldUser tlsInsecureSkipVerify s =
     (case ini_load ini filename of
        Inl e \<Rightarrow> (Some (EWrap ''failed to load config'' e), s)
      | Inr f0 \<Rightarrow>
         (case client_defaults ini mysqldAddress mysqldUser f0 of
            Inl e \<Rightarrow> (Some e, s)
          | Inr f \<Rightarrow>
             (let m = foldl (collect_section ini getenv tlsInsecureSkipVerify f) [] (ini_sections ini f)
              in if m = [] then (Some (EMsg ''no configuration found''), s)
                 else (None, s\<lparr>cf_sections := m\<rparr>))))"

text \<open>
  \<open>ReloadConfig\<close>. Its body assigns a local \<open>err\<close>; the deferred function, written before that
  declaration, reads the variable \<open>err\<close> of the package.
\<close>

definition ReloadConfig ::
    "'f ini_package \<Rightarrow> (string \<Rightarrow> string) \<Rightarrow> int \<Rightarrow> string \<Rightarrow> string \<Rightarrow> string \<Rightarrow> bool \<Rightarrow> config_state \<Rightarrow>
     go_err option \<times> config_state" where
  "ReloadConfig ini getenv now filename mysqldAddress mysqldUser tlsInsecureSkipVerify s0 =
     (case reload_body ini getenv filename mysqldAddress mysqldUser tlsInsecureSkipVerify s0 of
        (res, s) \<Rightarrow>
          (res, if cf_err s \<noteq> None then s\<lparr>cf_reload_success := f_zero\<rparr>
                else s\<lparr>cf_reload_success := f_one, cf_reload_seconds := now\<rparr>))"

section \<open>Addresses\<close>

lemma last_colon_append: "CHR '':'' \<notin> set port \<Longrightarrow> last_colon (h @ CHR '':'' # port) = Some (h, port)"
proof -
  assume p: "CHR '':'' \<notin> set port"
  then have "takeWhile (\<lambda>c. c \<noteq> CHR '':'') (rev port @ CHR '':'' # rev h) = rev port"
    "dropWhile (\<lambda>c. c \<noteq> CHR '':'') (rev port @ CHR '':'' # rev h) = CHR '':'' # rev h"
    by (auto simp: takeWhile_append dropWhile_append takeWhile_eq_all_conv dropWhile_eq_Nil_conv)
  then show ?thesis by (simp add: last_colon_def)
qed

lemma split_join:
  assumes "CHR ''['' \<notin> set host" "CHR '']'' \<notin> set host" "CHR '':'' \<notin> set port" "CHR ''['' \<notin> set port"
    "CHR '']'' \<notin> set port"
  shows "net_SplitHostPort (net_JoinHostPort host port) = Some (host, port)"
proof (cases "CHR '':'' \<in> set host")
  case True
  then have "net_JoinHostPort host port = (''['' @ host @ '']'') @ CHR '':'' # port" by (simp add: net_JoinHostPort_def)
  moreover have "last_colon ((''['' @ host @ '']'') @ CHR '':'' # port) = Some (''['' @ host @ '']'', port)"
    using assms(3) by (rule last_colon_append)
  moreover have "strings_Cut ((''['' @ host) @ CHR '']'' # (CHR '':'' # port)) '']'' = Some (''['' @ host, CHR '':'' # port)"
    using assms(2) by (intro strings_Cut_single_append) simp
  ultimately show ?thesis using assms by (simp add: net_SplitHostPort_def)
next
  case False
  then have "net_JoinHostPort host port = host @ CHR '':'' # port" by (simp add: net_JoinHostPort_def)
  moreover have "\<not> (host @ CHR '':'' # port \<noteq> [] \<and> hd (host @ CHR '':'' # port) = CHR ''['')"
    using assms(1) by (cases host) auto
  ultimately show ?thesis
    using False assms last_colon_append [OF assms(3), of host] by (simp add: net_SplitHostPort_def)
qed

lemma Itoa_chars: "c \<in> set (strconv_Itoa i) \<Longrightarrow> is_digit c \<or> c = CHR ''-''"
  using show_uint_digits [of i] show_uint_digits [of "- i"]
  by (auto simp: strconv_Itoa_def list_all_iff split: if_splits)

lemma Itoa_no_separator:
  "CHR '':'' \<notin> set (strconv_Itoa i)" "CHR ''['' \<notin> set (strconv_Itoa i)" "CHR '']'' \<notin> set (strconv_Itoa i)"
  "CHR ''/'' \<notin> set (strconv_Itoa i)"
  using Itoa_chars [of "CHR '':''" i] Itoa_chars [of "CHR ''[''" i] Itoa_chars [of "CHR '']''" i]
    Itoa_chars [of "CHR ''/''" i]
  by (auto simp: is_digit_def)

lemma tcp_no_unix_prefix:
  assumes "CHR ''/'' \<notin> set port"
  shows "\<not> strings_HasPrefix (net_JoinHostPort host port) ''unix://''"
proof
  assume "strings_HasPrefix (net_JoinHostPort host port) ''unix://''"
  then obtain r where r: "net_JoinHostPort host port = ''unix'' @ CHR '':'' # ''//'' @ r"
    by (auto simp: strings_HasPrefix_iff)
  have colon: "CHR '':'' \<notin> set host"
    using r by (auto simp: net_JoinHostPort_def split: if_splits)
  have "dropWhile (\<lambda>c. c \<noteq> CHR '':'') (net_JoinHostPort host port) = CHR '':'' # port"
    using colon by (auto simp: net_JoinHostPort_def dropWhile_append3)
  then have "port = ''//'' @ r" by (simp add: r)
  with assms show False by simp
qed

text \<open>
  The address made from a section's host and port is itself a target: given as the target
  of a probe, under any section, it is the address of that probe, for every host without brackets
  (with or without colons), and every port; the separators are put where they are looked for.
\<close>

theorem section_address_is_target:
  assumes "mc_Socket m = []" "CHR ''['' \<notin> set (mc_Host m)" "CHR '']'' \<notin> set (mc_Host m)"
  shows "\<exists>addr. form_address m [] err = (Inr (''tcp'', addr), err) \<and>
    form_address m' addr err' = (Inr (''tcp'', addr), None)"
proof -
  let ?host = "if mc_Host m \<noteq> [] then mc_Host m else ''127.0.0.1''"
  let ?port = "if mc_Port m \<noteq> 0 then strconv_Itoa (mc_Port m) else ''3306''"
  have "net_SplitHostPort (net_JoinHostPort ?host ?port) = Some (?host, ?port)"
    using assms by (intro split_join) (simp_all add: Itoa_no_separator)
  moreover have "\<not> strings_HasPrefix (net_JoinHostPort ?host ?port) ''unix://''"
    by (intro tcp_no_unix_prefix) (simp add: Itoa_no_separator)
  moreover have "net_JoinHostPort ?host ?port \<noteq> []" by (simp add: net_JoinHostPort_def)
  ultimately show ?thesis using assms(1) by (simp add: form_address_def)
qed

section \<open>Expansion\<close>

lemma os_Expand_no_dollar: "CHR ''$'' \<notin> set s \<Longrightarrow> os_Expand f s = s"
  by (induction s) auto

lemma getShellName_dollar: "getShellName (CHR ''$'' # s) = (''$'', 1)"
  by (simp add: getShellName_def isShellSpecialVar_def)

text \<open>
  A value in which every dollar sign is doubled is read back as it was, and one without a
  dollar sign is not changed, so every password can be written in the file.
\<close>

theorem expand_escaped:
  "expand_value getenv (strings_ReplaceAll s ''$'' ''$$'') = s \<and>
   (CHR ''$'' \<in> set s \<or> expand_value getenv s = s)"
proof
  have "os_Expand (\<lambda>name. if name = ''$'' then ''$'' else getenv name)
      (concat (map (\<lambda>x. if x = CHR ''$'' then ''$$'' else [x]) s)) = s"
    by (induction s) (simp_all add: getShellName_dollar)
  then show "expand_value getenv (strings_ReplaceAll s ''$'' ''$$'') = s"
    by (simp add: expand_value_def strings_ReplaceAll_single)
  show "CHR ''$'' \<in> set s \<or> expand_value getenv s = s"
    using os_Expand_no_dollar by (auto simp: expand_value_def)
qed

section \<open>Validation and TLS\<close>

text \<open>A section is valid: it has a user, and TLS versions from the table, the minimum not above the maximum.\<close>

definition valid_section :: "mysql_config \<Rightarrow> bool" where
  "valid_section m \<longleftrightarrow> mc_User m \<noteq> [] \<and>
     mc_TlsMinVersion m \<in> insert [] (fst ` set tlsVersions) \<and> mc_TlsMaxVersion m \<in> insert [] (fst ` set tlsVersions) \<and>
     (mc_TlsMinVersion m = [] \<or> mc_TlsMaxVersion m = [] \<or>
      the (map_of tlsVersions (mc_TlsMinVersion m)) \<le> the (map_of tlsVersions (mc_TlsMaxVersion m)))"

lemma validateConfig_iff: "validateConfig m = None \<longleftrightarrow> valid_section m"
  by (auto simp: validateConfig_def valid_section_def tlsVersions_def)

text \<open>
  The TLS configuration registered for a valid section that names both versions has them in
  order, and both are versions of TLS; its certificate check is off exactly when the section says so.
\<close>

theorem registered_tls_versions:
  assumes "valid_section m" "CustomizeTLS fs m name s = (None, s')"
    and "mc_TlsMinVersion m \<noteq> []" "mc_TlsMaxVersion m \<noteq> []"
  shows "\<exists>t. cf_tls s' = smap_put name t (cf_tls s) \<and> tc_MinVersion t \<le> tc_MaxVersion t \<and>
    {tc_MinVersion t, tc_MaxVersion t} \<subseteq> snd ` set tlsVersions \<and>
    tc_InsecureSkipVerify t = mc_TlsInsecureSkipVerify m"
proof -
  let ?v = "\<lambda>x. smap_get 0 x tlsVersions"
  from assms(2) obtain tls where l: "load_tls_files fs m = Inr tls"
    by (auto simp: CustomizeTLS_def split: sum.splits)
  let ?t = "tls\<lparr>tc_MinVersion := ?v (mc_TlsMinVersion m), tc_MaxVersion := ?v (mc_TlsMaxVersion m),
      tc_ServerName := (if mc_TlsServerName m \<noteq> [] then mc_TlsServerName m else tc_ServerName tls),
      tc_InsecureSkipVerify := mc_TlsInsecureSkipVerify m\<rparr>"
  have "cf_tls s' = smap_put name ?t (cf_tls s)"
    using assms(2-4) l by (auto simp: CustomizeTLS_def Let_def)
  moreover have "?v (mc_TlsMinVersion m) \<le> ?v (mc_TlsMaxVersion m) \<and>
      {?v (mc_TlsMinVersion m), ?v (mc_TlsMaxVersion m)} \<subseteq> snd ` set tlsVersions"
    using assms(1,3,4) by (auto simp: valid_section_def tlsVersions_def)
  ultimately show ?thesis by (intro exI [of _ ?t]) simp
qed

definition sample_section :: mysql_config where
  "sample_section = \<lparr>mc_User = ''exporter'', mc_Password = ''pw'', mc_Host = [], mc_Port = 0, mc_Socket = [],
     mc_EnableCleartextPlugin = False, mc_SslCa = [], mc_SslCert = [], mc_SslKey = [],
     mc_TlsInsecureSkipVerify = False, mc_Tls = [], mc_TlsMinVersion = ''TLSv1.2'', mc_TlsMaxVersion = ''TLSv1.3'',
     mc_TlsServerName = []\<rparr>"

definition sample_state :: config_state where
  "sample_state = \<lparr>cf_err = None, cf_reload_success = f_zero, cf_reload_seconds = 0, cf_sections = [], cf_tls = []\<rparr>"

theorem section_address_is_target_witness:
  "\<exists>addr. form_address (sample_section\<lparr>mc_Socket := [], mc_Host := ''2001:db8::1''\<rparr>) [] None = (Inr (''tcp'', addr), None) \<and>
    form_address sample_section addr None = (Inr (''tcp'', addr), None)"
  by (rule section_address_is_target) simp_all

definition sample_files :: files where
  "sample_files = \<lparr>read_file = (\<lambda>_. Inl ENoRows), pem_ok = (\<lambda>_. False), key_pair = (\<lambda>_ _. None)\<rparr>"

theorem registered_tls_versions_witness:
  "\<exists>t. cf_tls (snd (CustomizeTLS sample_files sample_section ''client'' sample_state)) = [(''client'', t)] \<and>
     tc_MinVersion t \<le> tc_MaxVersion t"
proof -
  let ?r = "CustomizeTLS sample_files sample_section ''client'' sample_state"
  have v: "valid_section sample_section" by (simp add: valid_section_def sample_section_def tlsVersions_def)
  have r: "?r = (None, snd ?r)"
    by (simp add: CustomizeTLS_def load_tls_files_def sample_section_def Let_def)
  have n: "mc_TlsMinVersion sample_section \<noteq> []" "mc_TlsMaxVersion sample_section \<noteq> []"
    by (simp_all add: sample_section_def)
  have "cf_tls sample_state = []" by (simp add: sample_state_def)
  with registered_tls_versions [OF v r n] show ?thesis by auto
qed

section \<open>The DSN\<close>

definition dsn_of :: "mysql_config \<Rightarrow> string \<Rightarrow> string \<Rightarrow> string \<Rightarrow> dsn_config" where
  "dsn_of m net addr tls = \<lparr>dc_User = mc_User m, dc_Passwd = mc_Password m, dc_Net = net, dc_Addr = addr,
     dc_TLSConfig = tls, dc_AllowCleartextPasswords = mc_EnableCleartextPlugin m\<rparr>"

lemma FormDSN_dsn:
  assumes "FormDSN format_dsn fs m target name s = (Inr dsn, s')"
  shows "\<exists>net addr err. form_address m target (cf_err s) = (Inr (net, addr), err) \<and> dsn = format_dsn (dsn_of m net addr
      (if mc_TlsInsecureSkipVerify m then ''skip-verify'' else if hasCustomTLS m then name else mc_Tls m))"
proof -
  obtain r err where a: "form_address m target (cf_err s) = (r, err)" by fastforce
  with assms obtain net addr where "r = Inr (net, addr)"
    by (cases r) (auto simp: FormDSN_def)
  with assms a show ?thesis
    by (auto simp: FormDSN_def dsn_of_def Let_def split: if_splits prod.splits option.splits)
qed

text \<open>
  C13: when a DSN is formed, it has the user and the password of the section, and the address is:
  the target after \<open>unix://\<close>; a target that splits into host and port, as it is; without a
  target the socket of the section, or else its host and port, which default to 127.0.0.1 and 3306.
  The TLS configuration is \<open>skip-verify\<close> when the section says so, else the section's own name
  when it customises TLS, else its \<open>tls\<close> value.
\<close>

theorem form_dsn_result:
  assumes "FormDSN format_dsn fs m target name s = (Inr dsn, s')"
  shows "\<exists>net addr. dsn = format_dsn (dsn_of m net addr
      (if mc_TlsInsecureSkipVerify m then ''skip-verify'' else if hasCustomTLS m then name else mc_Tls m)) \<and>
    ((\<exists>path. target = ''unix://'' @ path \<and> net = ''unix'' \<and> addr = path) \<or>
     (net_SplitHostPort target \<noteq> None \<and> net = ''tcp'' \<and> addr = target) \<or>
     (target = [] \<and> mc_Socket m \<noteq> [] \<and> net = ''unix'' \<and> addr = mc_Socket m) \<or>
     (target = [] \<and> mc_Socket m = [] \<and> net = ''tcp'' \<and>
      addr = net_JoinHostPort (if mc_Host m = [] then ''127.0.0.1'' else mc_Host m)
               (if mc_Port m = 0 then ''3306'' else strconv_Itoa (mc_Port m))))"
proof -
  from FormDSN_dsn [OF assms] obtain net addr err where a: "form_address m target (cf_err s) = (Inr (net, addr), err)"
    and "dsn = format_dsn (dsn_of m net addr
      (if mc_TlsInsecureSkipVerify m then ''skip-verify'' else if hasCustomTLS m then name else mc_Tls m))" by blast
  moreover have "(\<exists>path. target = ''unix://'' @ path \<and> net = ''unix'' \<and> addr = path) \<or>
     (net_SplitHostPort target \<noteq> None \<and> net = ''tcp'' \<and> addr = target) \<or>
     (target = [] \<and> mc_Socket m \<noteq> [] \<and> net = ''unix'' \<and> addr = mc_Socket m) \<or>
     (target = [] \<and> mc_Socket m = [] \<and> net = ''tcp'' \<and>
      addr = net_JoinHostPort (if mc_Host m = [] then ''127.0.0.1'' else mc_Host m)
               (if mc_Port m = 0 then ''3306'' else strconv_Itoa (mc_Port m)))"
    using a by (auto simp: form_address_def Let_def strings_HasPrefix_iff split: if_splits option.splits)
  ultimately show ?thesis by blast
qed

theorem form_dsn_result_witness:
  "fst (FormDSN dc_Addr sample_files (sample_section\<lparr>mc_Port := 3307, mc_TlsMinVersion := [], mc_TlsMaxVersion := []\<rparr>)
     [] ''client'' sample_state) = Inr ''127.0.0.1:3307''"
proof -
  let ?m = "sample_section\<lparr>mc_Port := 3307, mc_TlsMinVersion := [], mc_TlsMaxVersion := []\<rparr>"
  obtain r s' where f: "FormDSN dc_Addr sample_files ?m [] ''client'' sample_state = (r, s')" by fastforce
  then obtain dsn where r: "r = Inr dsn"
    by (auto simp: FormDSN_def form_address_def sample_section_def Let_def hasCustomTLS_def)
  have j: "net_JoinHostPort ''127.0.0.1'' (strconv_Itoa 3307) = ''127.0.0.1:3307''" by code_simp
  have n: "net_SplitHostPort [] = None" by code_simp
  from form_dsn_result [OF f [unfolded r]] show ?thesis
    unfolding f r by (auto simp: n j dsn_of_def sample_section_def)
qed

section \<open>Reloading\<close>

text \<open>The section a name stands for in a file: mapped and valid, or left out.\<close>

definition loaded_section ::
    "'f ini_package \<Rightarrow> (string \<Rightarrow> string) \<Rightarrow> bool \<Rightarrow> 'f \<Rightarrow> string \<Rightarrow> mysql_config option" where
  "loaded_section ini getenv insecure f n =
     (if n = ''DEFAULT'' then None
      else case ini_map_to ini (expand_value getenv) insecure f n of
             Inl e \<Rightarrow> None | Inr m \<Rightarrow> if valid_section m then Some m else None)"

lemma map_of_smap_put: "map_of (smap_put k v m) = (map_of m)(k \<mapsto> v)"
  by (induction k v m rule: smap_put.induct) (auto simp: fun_upd_twist)

lemma collect_section_get:
  "map_of (collect_section ini getenv ins f m n) k =
     (if k = n \<and> loaded_section ini getenv ins f n \<noteq> None then loaded_section ini getenv ins f n else map_of m k)"
  by (auto simp: collect_section_def loaded_section_def validateConfig_iff map_of_smap_put
      simp flip: validateConfig_iff split: sum.splits)

lemma collect_sections_get:
  "map_of (foldl (collect_section ini getenv ins f) m ns) k =
     (if k \<in> set ns \<and> loaded_section ini getenv ins f k \<noteq> None then loaded_section ini getenv ins f k else map_of m k)"
  by (induction ns arbitrary: m) (auto simp: collect_section_get)

text \<open>
  C7: a reload that succeeds leaves exactly the sections of the file that map and are valid, other
  than \<open>DEFAULT\<close>, and at least one; a reload that fails leaves the configuration as it was.
\<close>

theorem reload_sections:
  "case ReloadConfig ini getenv now file addr user ins s of
     (Some e, s') \<Rightarrow> cf_sections s' = cf_sections s
   | (None, s') \<Rightarrow> cf_sections s' \<noteq> [] \<and>
       (\<exists>f0 f. ini_load ini file = Inr f0 \<and> client_defaults ini addr user f0 = Inr f \<and>
          (\<forall>n. map_of (cf_sections s') n =
             (if n \<in> set (ini_sections ini f) then loaded_section ini getenv ins f n else None)))"
  by (auto simp: ReloadConfig_def reload_body_def Let_def collect_sections_get split: sum.splits)

text \<open>
  C39: a reload that fails is reported as a success by the gauge: the deferred function tests the
  package's \<open>err\<close>, which the reload never sets, so the gauge is 1 unless an earlier target was bad.
\<close>

theorem failed_reload_reports_success:
  assumes "ini_load ini file = Inl e" "cf_err s = None"
  shows "\<exists>s'. ReloadConfig ini getenv now file addr user ins s = (Some (EWrap ''failed to load config'' e), s') \<and>
    cf_reload_success s' = f_one \<and> cf_reload_seconds s' = now"
  using assms by (simp add: ReloadConfig_def reload_body_def)

text \<open>An \<open>ini\<close> package to apply the properties to: files are a user and whether they load.\<close>

definition sample_ini :: "string ini_package" where
  "sample_ini = \<lparr>ini_load = (\<lambda>file. if file = ''missing'' then Inl (EDriver ''unreadable'') else Inr file),
     ini_key = (\<lambda>f sec key. if key = ''user'' then f else ''set''), ini_set = (\<lambda>f sec key v. v),
     ini_sections = (\<lambda>f. [''DEFAULT'', ''client'']),
     ini_map_to = (\<lambda>expand ins f sec. Inr (sample_section\<lparr>mc_User := f, mc_TlsInsecureSkipVerify := ins\<rparr>))\<rparr>"

theorem failed_reload_reports_success_witness:
  "cf_reload_success (snd (ReloadConfig sample_ini (\<lambda>_. []) 1700000000 ''missing'' ''localhost:3306'' ''root'' False
     sample_state)) = f_one"
proof -
  have l: "ini_load sample_ini ''missing'' = Inl (EDriver ''unreadable'')" by (simp add: sample_ini_def)
  have e: "cf_err sample_state = None" by (simp add: sample_state_def)
  from failed_reload_reports_success [OF l e, of "\<lambda>_. []" 1700000000 "''localhost:3306''" "''root''" False]
  show ?thesis by auto
qed

text \<open>
  The other way round, after a probe of a target that is no address, a reload that succeeds is
  reported as a failure.
\<close>

theorem bad_target_fails_reload_gauge:
  assumes "target \<noteq> []" "\<not> strings_HasPrefix target ''unix://''" "net_SplitHostPort target = None"
    and "snd (FormDSN format_dsn fs m target name s) = s1"
    and "ReloadConfig ini getenv now file addr user ins s1 = (None, s2)"
  shows "cf_reload_success s2 = f_zero"
proof -
  have "cf_err s1 \<noteq> None" using assms(1-4) by (auto simp: FormDSN_def form_address_def Let_def)
  moreover have "cf_err (snd (reload_body ini getenv file addr user ins s1)) = cf_err s1"
    by (auto simp: reload_body_def Let_def split: sum.splits)
  ultimately show ?thesis using assms(5) by (auto simp: ReloadConfig_def split: prod.splits)
qed

theorem bad_target_fails_reload_gauge_witness:
  "cf_reload_success (snd (ReloadConfig sample_ini (\<lambda>_. []) 1700000000 ''exporter'' ''localhost:3306'' ''root'' False
     (snd (FormDSN dc_Addr sample_files sample_section ''localhost'' ''client'' sample_state)))) = f_zero"
proof -
  let ?s1 = "snd (FormDSN dc_Addr sample_files sample_section ''localhost'' ''client'' sample_state)"
  let ?r = "ReloadConfig sample_ini (\<lambda>_. []) 1700000000 ''exporter'' ''localhost:3306'' ''root'' False ?s1"
  have t: "net_SplitHostPort ''localhost'' = None" "\<not> strings_HasPrefix ''localhost'' ''unix://''" by code_simp+
  have a: "net_SplitHostPort ''localhost:3306'' = Some (''localhost'', ''3306'')"
    "\<not> strings_HasPrefix ''localhost:3306'' ''unix://''" by code_simp+
  have v: "validateConfig (sample_section\<lparr>mc_User := ''exporter'', mc_TlsInsecureSkipVerify := False\<rparr>) = None"
    by code_simp
  have "fst ?r = None"
    using a v by (simp add: ReloadConfig_def reload_body_def client_defaults_def set_default_def sample_ini_def
        collect_section_def Let_def)
  then have r: "?r = (None, snd ?r)" by (cases ?r) simp
  show ?thesis
    by (rule bad_target_fails_reload_gauge [OF _ t(2) t(1) refl r]) simp
qed

end
