(* ===== verification/Handlers.thy ===== *)
theory Handlers
  imports Exporter Config "HOL-Library.List_Lexorder" "HOL-Library.Char_ord" "HOL-Library.Sublist"
begin

text \<open>
  The command: \<open>mysqld_exporter.go\<close> and \<open>probe.go\<close>. A handler is modelled up to the point where
  it hands over to the Prometheus library: which exporter it registers, the deadline it sets, and
  which error it answers with. The flags are the record \<open>flags\<close>.
\<close>

section \<open>Requests\<close>

record request =
  rq_query :: "string \<Rightarrow> string list"   \<comment> \<open>the values of a query parameter; none when it is absent\<close>
  rq_timeout :: string                   \<comment> \<open>header \<open>X-Prometheus-Scrape-Timeout-Seconds\<close>, empty when absent\<close>

definition query_Get :: "request \<Rightarrow> string \<Rightarrow> string" where
  "query_Get r k = (case rq_query r k of [] \<Rightarrow> [] | v # _ \<Rightarrow> v)"

record flags =
  fl_timeoutOffset :: float64
  fl_enableLockTimeout :: bool
  fl_lockTimeout :: int
  fl_slowLogFilter :: bool
  fl_queryTimeout :: int     \<comment> \<open>seconds\<close>
  fl_maxOpenConns :: int

section \<open>mysqld_exporter.go\<close>

definition filterScrapers :: "scraper list \<Rightarrow> string list \<Rightarrow> scraper list" where
  "filterScrapers scrapers collectParams =
     (let filteredScrapers =
            (if collectParams \<noteq> [] then filter (\<lambda>scraper. sc_name scraper \<in> set collectParams) scrapers else [])
      in if filteredScrapers = [] then scrapers else filteredScrapers)"

text \<open>The timeout, 0 when there is none, and the error.\<close>

definition getScrapeTimeoutSeconds :: "request \<Rightarrow> float64 \<Rightarrow> float64 \<times> go_err option" where
  "getScrapeTimeoutSeconds r offset =
     (case (if rq_timeout r \<noteq> [] then strconv_ParseFloat (rq_timeout r) else (f_zero, None)) of
        (_, Some e) \<Rightarrow> (f_zero, Some (EMsg ''failed to parse timeout from Prometheus header''))
      | (timeoutSeconds, None) \<Rightarrow>
          (if f_eq timeoutSeconds f_zero then (f_zero, None)
           else if f_lt timeoutSeconds f_zero
             then (f_zero, Some (EMsg ''timeout value from Prometheus header is invalid''))
           else if f_le timeoutSeconds offset
             then (f_zero, Some (EMsg ''timeout offset should be lower than prometheus scrape timeout''))
           else (f_sub timeoutSeconds offset, None)))"

text \<open>
  \<open>if timeoutSeconds > 0 { context.WithTimeout(ctx, time.Duration(timeoutSeconds*float64(time.Second))) }\<close>.
  The conversion to \<open>time.Duration\<close> truncates; out of its range Go leaves the result to the
  implementation, which is the argument \<open>wild\<close>.
\<close>

definition f_trunc :: "float64 \<Rightarrow> int option" where
  "f_trunc x = (case x of Fin s m e \<Rightarrow>
     Some (signed s (if 0 \<le> e then m * 2 ^ nat e else m div 2 ^ nat (- e))) | _ \<Rightarrow> None)"

definition to_duration :: "(float64 \<Rightarrow> int) \<Rightarrow> float64 \<Rightarrow> int" where
  "to_duration wild x =
     (case f_trunc x of Some n \<Rightarrow> if - (2 ^ 63) \<le> n \<and> n < 2 ^ 63 then n else wild x | None \<Rightarrow> wild x)"

definition request_timeout :: "(float64 \<Rightarrow> int) \<Rightarrow> float64 \<Rightarrow> int option" where
  "request_timeout wild timeoutSeconds =
     (if f_lt f_zero timeoutSeconds
      then Some (to_duration wild (f_mul timeoutSeconds (f_lit 1000000000 0))) else None)"

text \<open>The zero value of \<open>MySqlConfig\<close>, which a missing section reads as.\<close>

definition zero_section :: mysql_config where
  "zero_section = \<lparr>mc_User = [], mc_Password = [], mc_Host = [], mc_Port = 0, mc_Socket = [],
     mc_EnableCleartextPlugin = False, mc_SslCa = [], mc_SslCert = [], mc_SslKey = [],
     mc_TlsInsecureSkipVerify = False, mc_Tls = [], mc_TlsMinVersion = [], mc_TlsMaxVersion = [],
     mc_TlsServerName = []\<rparr>"

text \<open>The exporter both handlers register; \<open>time.Duration(queryTimeout)*time.Second\<close> is 64 bits wide.\<close>

definition handler_exporter :: "flags \<Rightarrow> string \<Rightarrow> scraper list \<Rightarrow> exporter" where
  "handler_exporter fl dsn scrapers =
     New dsn scrapers
       [EnableLockWaitTimeout (fl_enableLockTimeout fl),
        SetLockWaitTimeout (fl_lockTimeout fl),
        SetSlowLogFilter (fl_slowLogFilter fl),
        SetQueryTimeout (sint (word_of_int (fl_queryTimeout fl * 1000000000) :: u64)),
        SetMaxOpenConns (fl_maxOpenConns fl)]"

text \<open>
  What a handler does: an error answer, or serving the metrics of an exporter under a timeout in
  nanoseconds; \<open>with_default\<close> says that the metrics of the process are served too.
\<close>

datatype response =
    HttpError int string
  | Serve (served: exporter) (timeout: "int option") (with_default: bool)

definition newHandler ::
    "(dsn_config \<Rightarrow> string) \<Rightarrow> files \<Rightarrow> (float64 \<Rightarrow> int) \<Rightarrow> flags \<Rightarrow> scraper list \<Rightarrow> request \<Rightarrow> config_state \<Rightarrow>
     response \<times> config_state" where
  "newHandler format_dsn fs wild fl scrapers r s =
     (let authModule = ''client'';
          target = query_Get r ''target'';
          cfgsection = (case map_of (cf_sections s) authModule of Some m \<Rightarrow> m | None \<Rightarrow> zero_section);
          (res, s') = FormDSN format_dsn fs cfgsection target authModule s;
          dsn = (case res of Inl e \<Rightarrow> [] | Inr d \<Rightarrow> d);
          timeoutSeconds = fst (getScrapeTimeoutSeconds r (fl_timeoutOffset fl))
      in (Serve (handler_exporter fl dsn (filterScrapers scrapers (rq_query r ''collect[]'')))
            (request_timeout wild timeoutSeconds) True, s'))"

text \<open>\<open>None\<close> is nil.\<close>

definition validateExporterFlags :: "int \<Rightarrow> int \<Rightarrow> go_err option" where
  "validateExporterFlags maxOpenConns queryTimeout =
     (if maxOpenConns < 1 then Some (EMsg ''invalid value for --exporter.max_open_connections, must be >= 1'')
      else if queryTimeout < 0 then Some (EMsg ''invalid value for --exporter.query_timeout, must be >= 0'')
      else None)"

text \<open>
  \<open>main\<close> up to the registration of its handlers. The map \<open>scrapers\<close> is given as its keys in the
  order \<open>maps.Keys\<close> happens to yield them. \<open>flag\<close> is the parsed on/off flag of a name.
\<close>

datatype start = Exit int | Running (enabled: "scraper list") (routes: "string list")

definition sortedScrapers :: "scraper list \<Rightarrow> scraper list" where
  "sortedScrapers keys = sort_key sc_name keys"

definition main_start ::
    "'f ini_package \<Rightarrow> (string \<Rightarrow> string) \<Rightarrow> int \<Rightarrow> flags \<Rightarrow> string \<Rightarrow> string \<Rightarrow> string \<Rightarrow> bool \<Rightarrow> string \<Rightarrow>
     (string \<Rightarrow> bool) \<Rightarrow> scraper list \<Rightarrow> config_state \<Rightarrow> start \<times> config_state" where
  "main_start ini getenv now fl configMycnf mysqldAddress mysqldUser tlsInsecureSkipVerify metricsPath flag keys s =
     (if validateExporterFlags (fl_maxOpenConns fl) (fl_queryTimeout fl) \<noteq> None then (Exit 1, s)
      else case ReloadConfig ini getenv now configMycnf mysqldAddress mysqldUser tlsInsecureSkipVerify s of
             (Some e, s') \<Rightarrow> (Exit 1, s')
           | (None, s') \<Rightarrow>
               (Running (filter (\<lambda>scraper. flag (sc_name scraper)) (sortedScrapers keys))
                  ([metricsPath] @ (if metricsPath \<noteq> ''/'' \<and> metricsPath \<noteq> [] then [''/''] else []) @
                   [''/probe'', ''/-/reload'']), s'))"

section \<open>probe.go\<close>

definition handleProbe ::
    "(dsn_config \<Rightarrow> string) \<Rightarrow> files \<Rightarrow> (float64 \<Rightarrow> int) \<Rightarrow> flags \<Rightarrow> scraper list \<Rightarrow> request \<Rightarrow> config_state \<Rightarrow>
     response \<times> config_state" where
  "handleProbe format_dsn fs wild fl scrapers r s =
     (let target = query_Get r ''target'' in
      if target = [] then (HttpError 400 ''target is required'', s)
      else
        let authModule = (if query_Get r ''auth_module'' = [] then ''client'' else query_Get r ''auth_module'') in
        case map_of (cf_sections s) authModule of
          None \<Rightarrow> (HttpError 400 (''Could not find config section ['' @ authModule @ '']''), s)
        | Some cfgsection \<Rightarrow>
           (case FormDSN format_dsn fs cfgsection target authModule s of
              (Inl e, s') \<Rightarrow> (HttpError 400 (''Error forming dsn from config section ['' @ authModule @ '']''), s')
            | (Inr dsn, s') \<Rightarrow>
                (Serve (handler_exporter fl dsn (filterScrapers scrapers (rq_query r ''collect[]'')))
                   (request_timeout wild (fst (getScrapeTimeoutSeconds r (fl_timeoutOffset fl)))) False, s')))"

section \<open>Choosing scrapers\<close>

text \<open>
  C22: the \<open>collect[]\<close> parameters select, in the order of the scrapers, those they name; when they
  name none, whether there are parameters or not, every scraper is used.
\<close>

theorem filter_scrapers_spec:
  "subseq (filterScrapers scrapers params) scrapers \<and>
   set (filterScrapers scrapers params) =
     (if \<exists>sc \<in> set scrapers. sc_name sc \<in> set params
      then {sc \<in> set scrapers. sc_name sc \<in> set params} else set scrapers)"
proof -
  have "filter (\<lambda>sc. sc_name sc \<in> set params) scrapers = [] \<longleftrightarrow> \<not> (\<exists>sc \<in> set scrapers. sc_name sc \<in> set params)"
    by (simp add: filter_empty_conv)
  then show ?thesis by (auto simp: filterScrapers_def Let_def)
qed

text \<open>
  The scrapers \<open>main\<close> works with come out in one order, whatever order the map of scrapers is
  visited in.
\<close>

theorem sorted_scrapers_order_independent:
  assumes "distinct (map sc_name keys)" "mset keys = mset keys'"
  shows "sortedScrapers keys = sortedScrapers keys' \<and> sorted (map sc_name (sortedScrapers keys))"
proof
  have d: "distinct (map sc_name keys')"
    using assms by (metis mset_eq_imp_distinct_iff mset_map)
  have inj: "inj_on sc_name (set keys)" using assms(1) by (simp add: distinct_map)
  show "sortedScrapers keys = sortedScrapers keys'"
    unfolding sortedScrapers_def
    by (rule map_sorted_distinct_set_unique [where f = sc_name])
      (use assms d inj in \<open>auto simp: distinct_map mset_eq_setD [OF assms(2)]\<close>)
  show "sorted (map sc_name (sortedScrapers keys))" by (simp add: sortedScrapers_def)
qed

theorem sorted_scrapers_order_independent_witness:
  "sortedScrapers [sample_scraper ''b'' f_one, sample_scraper ''a'' f_one] =
     sortedScrapers [sample_scraper ''a'' f_one, sample_scraper ''b'' f_one]"
proof -
  have d: "distinct (map sc_name [sample_scraper ''b'' f_one, sample_scraper ''a'' f_one])"
    by (simp add: sample_scraper_def)
  have m: "mset [sample_scraper ''b'' f_one, sample_scraper ''a'' f_one] =
      mset [sample_scraper ''a'' f_one, sample_scraper ''b'' f_one]" by simp
  show ?thesis using sorted_scrapers_order_independent [OF d m] by (rule conjunct1)
qed

text \<open>
  C23: the exporter starts only with at least one connection per scrape, no negative query timeout
  and a configured section; otherwise it exits with status 1. What it then enables is the sorted
  scrapers whose flags are on.
\<close>

theorem main_start_spec:
  "case main_start ini getenv now fl file addr user ins path flag keys s of
     (Exit n, s') \<Rightarrow> n = 1 \<and> cf_sections s' = cf_sections s
   | (Running en rs, s') \<Rightarrow> fl_maxOpenConns fl \<ge> 1 \<and> fl_queryTimeout fl \<ge> 0 \<and> cf_sections s' \<noteq> [] \<and>
       sorted (map sc_name en) \<and> set en = {sc \<in> set keys. flag (sc_name sc)} \<and> {path, ''/probe'', ''/-/reload''} \<subseteq> set rs"
proof -
  obtain r s' where r: "ReloadConfig ini getenv now file addr user ins s = (r, s')" by fastforce
  have "case r of Some e \<Rightarrow> cf_sections s' = cf_sections s | None \<Rightarrow> cf_sections s' \<noteq> []"
    using r by (auto simp: ReloadConfig_def reload_body_def Let_def split: sum.splits if_splits prod.splits)
  with r show ?thesis
    by (auto simp: main_start_def validateExporterFlags_def sortedScrapers_def sorted_filter split: option.splits)
qed

section \<open>Timeouts\<close>

text \<open>
  An integral timeout header is the timeout less the offset when the offset leaves time, and
  an error, with no timeout, when it does not.
\<close>

theorem timeout_of_integer:
  assumes "0 < n" "n < 2 ^ 53" "rq_timeout r = show_uint n"
  shows "getScrapeTimeoutSeconds r offset =
    (if f_le (f_of_int n) offset
     then (f_zero, Some (EMsg ''timeout offset should be lower than prometheus scrape timeout''))
     else (f_sub (f_of_int n) offset, None))"
proof -
  have fin: "is_finite (f_of_int n)" "is_finite f_zero" "fval (f_of_int n) = of_int n" "fval f_zero = 0"
    using assms f_of_int_finite [of n] f_of_int_finite [of 0] f_of_int_exact [of n] f_of_int_exact [of 0] by simp_all
  obtain s m e where f: "f_of_int n = Fin s m e" using fin(1) by (cases "f_of_int n") (auto simp: is_finite_def)
  obtain t k g where z: "f_zero = Fin t k g" using fin(2) by (cases f_zero) (auto simp: is_finite_def)
  have "\<not> f_eq (f_of_int n) f_zero" "\<not> f_lt (f_of_int n) f_zero"
    using fin assms(1) by (simp_all add: f z f_eq_Fin f_lt_Fin)
  then show ?thesis
    using assms ParseFloat_show_uint [of n] by (simp add: getScrapeTimeoutSeconds_def)
qed

theorem timeout_of_integer_witness:
  "getScrapeTimeoutSeconds \<lparr>rq_query = (\<lambda>_. []), rq_timeout = show_uint 10\<rparr> (f_lit 25 2) = (f_lit 975 2, None)"
proof -
  have c: "f_le (f_of_int 10) (f_lit 25 2) = False" "f_sub (f_of_int 10) (f_lit 25 2) = f_lit 975 2" by code_simp+
  show ?thesis
    by (subst timeout_of_integer [of 10]) (simp_all add: c)
qed

section \<open>Handlers\<close>

lemma FormDSN_sections: "FormDSN format_dsn fs m t n s = (x, s') \<Longrightarrow> cf_sections s' = cf_sections s"
  by (auto simp: FormDSN_def CustomizeTLS_def Let_def split: sum.splits prod.splits option.splits if_splits)

lemma handler_exporter_fields:
  "e_scrapers (handler_exporter fl dsn scs) = scs"
  "e_maxOpenConns (handler_exporter fl dsn scs) = fl_maxOpenConns fl"
  "e_dsn (handler_exporter fl dsn scs) = dsn @ (if CHR ''?'' \<in> set dsn then ''&'' else ''?'') @
     (if fl_enableLockTimeout fl then ''lock_wait_timeout='' @ strconv_Itoa (fl_lockTimeout fl) else []) @
     (if fl_enableLockTimeout fl \<and> fl_slowLogFilter fl then ''&'' else []) @
     (if fl_slowLogFilter fl then sessionSettingsParam else [])"
  by (simp_all add: handler_exporter_def New_def Let_def strings_Contains_single timeoutParam_def
      EnableLockWaitTimeout_def SetLockWaitTimeout_def SetSlowLogFilter_def SetQueryTimeout_def SetMaxOpenConns_def)

text \<open>
  \<open>/metrics\<close> never answers with an error of its own: without a \<open>client\<close> section, or with a
  target that is no address, it serves an exporter all the same, and when no DSN can be formed
  that exporter's DSN is nothing but the session parameters.
\<close>

theorem metrics_always_served:
  "\<exists>e t s'. newHandler format_dsn fs wild fl scrapers r s = (Serve e t True, s') \<and>
     cf_sections s' = cf_sections s \<and> e_scrapers e = filterScrapers scrapers (rq_query r ''collect[]'') \<and>
     (let m = (case map_of (cf_sections s) ''client'' of Some m \<Rightarrow> m | None \<Rightarrow> zero_section)
      in case fst (FormDSN format_dsn fs m (query_Get r ''target'') ''client'' s) of
           Inl err \<Rightarrow> hd (e_dsn e) = CHR ''?''
         | Inr dsn \<Rightarrow> strings_HasPrefix (e_dsn e) dsn)"
  by (auto simp: newHandler_def Let_def handler_exporter_fields FormDSN_sections strings_HasPrefix_iff
      split: sum.splits prod.splits)

text \<open>
  C15: a probe is served exactly when it names a target, its \<open>auth_module\<close> (or \<open>client\<close>) is a
  configured section, and a DSN can be formed; otherwise the answer is 400, never another error.
  Either way the configured sections do not change.
\<close>

theorem probe_served_iff:
  "case handleProbe format_dsn fs wild fl scrapers r s of
     (HttpError n msg, s') \<Rightarrow> n = 400 \<and> cf_sections s' = cf_sections s \<and>
       (query_Get r ''target'' = [] \<or>
        (let sec = map_of (cf_sections s) (if query_Get r ''auth_module'' = [] then ''client'' else query_Get r ''auth_module'')
         in sec = None \<or> (\<exists>e. fst (FormDSN format_dsn fs (the sec) (query_Get r ''target'')
               (if query_Get r ''auth_module'' = [] then ''client'' else query_Get r ''auth_module'') s) = Inl e)))
   | (Serve e t d, s') \<Rightarrow> query_Get r ''target'' \<noteq> [] \<and> \<not> d \<and> cf_sections s' = cf_sections s \<and>
       (let name = (if query_Get r ''auth_module'' = [] then ''client'' else query_Get r ''auth_module'')
        in \<exists>m dsn. map_of (cf_sections s) name = Some m \<and>
             fst (FormDSN format_dsn fs m (query_Get r ''target'') name s) = Inr dsn \<and>
             e = handler_exporter fl dsn (filterScrapers scrapers (rq_query r ''collect[]'')))"
  by (auto simp: handleProbe_def Let_def handler_exporter_fields FormDSN_sections split: option.splits sum.splits prod.splits)

end
