(* ===== verification/Server.thy ===== *)
theory Server
  imports Handlers
begin

text \<open>
  The running process: what \<open>main\<close> (\<open>mysqld_exporter.go\<close>) leaves behind when its routes are
  registered. Requests come in on \<open>/metrics\<close>, \<open>/probe\<close> and \<open>/-/reload\<close>, each served by a goroutine
  of its own, so a configuration may be reloaded while a probe that has read the old one is on its
  way. \<open>process_step\<close> is one step of the process; a handler's call of \<open>GetConfig\<close>, and the rest of
  the handler, are a step each. \<open>spec_step\<close> is what the process promises: a configuration that
  changes only as a whole, and answers that depend on nothing but the request and the configuration
  it came in under.
\<close>

section \<open>The process\<close>

text \<open>The flags \<open>main\<close> reads, and the flag of each scraper.\<close>

record command =
  cmd_file :: string      \<comment> \<open>\<open>config.my-cnf\<close>\<close>
  cmd_address :: string   \<comment> \<open>\<open>mysqld.address\<close>\<close>
  cmd_user :: string      \<comment> \<open>\<open>mysqld.username\<close>\<close>
  cmd_insecure :: bool    \<comment> \<open>\<open>tls.insecure-skip-verify\<close>\<close>
  cmd_path :: string      \<comment> \<open>\<open>web.telemetry-path\<close>\<close>
  cmd_flags :: flags
  cmd_collect :: "string \<Rightarrow> bool"

text \<open>The package variables before \<open>main\<close> runs: an empty configuration, no error, gauges at 0.\<close>

definition boot :: config_state where
  "boot = \<lparr>cf_err = None, cf_reload_success = f_zero, cf_reload_seconds = 0, cf_sections = [], cf_tls = []\<rparr>"

datatype route = MetricsRoute | ProbeRoute

text \<open>A request on its way, with what \<open>GetConfig\<close> gave its handler: a pointer to sections that are never written again.\<close>

record pending =
  pd_route :: route
  pd_request :: request
  pd_sections :: sections

record process =
  ps_config :: config_state
  ps_pending :: "pending list"

text \<open>The handler of a request, run on the sections it has read and the other package variables as they are now.\<close>

definition answer_request ::
    "(dsn_config \<Rightarrow> string) \<Rightarrow> files \<Rightarrow> (float64 \<Rightarrow> int) \<Rightarrow> command \<Rightarrow> scraper list \<Rightarrow> pending \<Rightarrow> config_state \<Rightarrow>
     response \<times> config_state" where
  "answer_request format_dsn fs wild cmd scs p c =
     (let handle = (case pd_route p of MetricsRoute \<Rightarrow> newHandler | ProbeRoute \<Rightarrow> handleProbe);
          (res, c') = handle format_dsn fs wild (cmd_flags cmd) scs (pd_request p)
                        (c\<lparr>cf_sections := pd_sections p\<rparr>)
      in (res, c'\<lparr>cf_sections := cf_sections c\<rparr>))"

text \<open>
  The handler of \<open>/-/reload\<close>, and what it writes; it writes nothing when the reload fails, which
  the HTTP library answers with status 200 and no body.
\<close>

definition handleReload ::
    "'f ini_package \<Rightarrow> (string \<Rightarrow> string) \<Rightarrow> int \<Rightarrow> command \<Rightarrow> config_state \<Rightarrow> string \<times> config_state" where
  "handleReload ini getenv now cmd c =
     (case ReloadConfig ini getenv now (cmd_file cmd) (cmd_address cmd) (cmd_user cmd) (cmd_insecure cmd) c of
        (Some e, c') \<Rightarrow> ([], c')
      | (None, c') \<Rightarrow> (''ok'', c'))"

datatype label = Arrived route request | Answered pending response | Reloaded string

text \<open>The files change between steps: what \<open>ini\<close> loads is \<open>disk\<close>, what TLS reads is \<open>fs\<close>.\<close>

inductive process_step ::
    "'f ini_package \<Rightarrow> (dsn_config \<Rightarrow> string) \<Rightarrow> (float64 \<Rightarrow> int) \<Rightarrow> command \<Rightarrow> scraper list \<Rightarrow>
     process \<Rightarrow> label \<Rightarrow> process \<Rightarrow> bool"
  for ini format_dsn wild cmd scs where
  arrive: "process_step ini format_dsn wild cmd scs s (Arrived route r)
     (s\<lparr>ps_pending := ps_pending s @ [\<lparr>pd_route = route, pd_request = r, pd_sections = cf_sections (ps_config s)\<rparr>]\<rparr>)"
| answer: "ps_pending s = ps @ p # ps' \<Longrightarrow>
     answer_request format_dsn fs wild cmd scs p (ps_config s) = (res, c') \<Longrightarrow>
     process_step ini format_dsn wild cmd scs s (Answered p res) \<lparr>ps_config = c', ps_pending = ps @ ps'\<rparr>"
| reload: "handleReload (ini\<lparr>ini_load := disk\<rparr>) getenv now cmd (ps_config s) = (body, c') \<Longrightarrow>
     process_step ini format_dsn wild cmd scs s (Reloaded body) (s\<lparr>ps_config := c'\<rparr>)"

text \<open>A run: from the state \<open>main\<close> leaves, any number of steps, with their labels.\<close>

inductive process_run ::
    "'f ini_package \<Rightarrow> (dsn_config \<Rightarrow> string) \<Rightarrow> (float64 \<Rightarrow> int) \<Rightarrow> command \<Rightarrow> scraper list \<Rightarrow>
     label list \<Rightarrow> process \<Rightarrow> bool"
  for ini format_dsn wild cmd keys where
  start: "main_start (ini\<lparr>ini_load := disk\<rparr>) getenv now (cmd_flags cmd) (cmd_file cmd) (cmd_address cmd)
       (cmd_user cmd) (cmd_insecure cmd) (cmd_path cmd) (cmd_collect cmd) keys boot = (Running scs rs, c) \<Longrightarrow>
     process_run ini format_dsn wild cmd keys [] \<lparr>ps_config = c, ps_pending = []\<rparr>"
| step: "process_run ini format_dsn wild cmd keys ls s \<Longrightarrow>
     process_step ini format_dsn wild cmd (filter (\<lambda>sc. cmd_collect cmd (sc_name sc)) (sortedScrapers keys)) s l s' \<Longrightarrow>
     process_run ini format_dsn wild cmd keys (ls @ [l]) s'"

inductive_cases answerE: "process_step ini format_dsn wild cmd scs s (Answered p res) s'"

section \<open>What it promises\<close>

text \<open>The configuration a file gives, or the error; nothing of the process goes into it.\<close>

definition load_sections ::
    "'f ini_package \<Rightarrow> (string \<Rightarrow> string) \<Rightarrow> command \<Rightarrow> go_err + sections" where
  "load_sections ini getenv cmd =
     (case ReloadConfig ini getenv 0 (cmd_file cmd) (cmd_address cmd) (cmd_user cmd) (cmd_insecure cmd) boot of
        (Some e, _) \<Rightarrow> Inl e
      | (None, c) \<Rightarrow> Inr (cf_sections c))"

text \<open>The answer to a request, of the sections it came in under.\<close>

definition spec_answer ::
    "(dsn_config \<Rightarrow> string) \<Rightarrow> files \<Rightarrow> (float64 \<Rightarrow> int) \<Rightarrow> command \<Rightarrow> scraper list \<Rightarrow> pending \<Rightarrow> response" where
  "spec_answer format_dsn fs wild cmd scs p = fst (answer_request format_dsn fs wild cmd scs p boot)"

inductive spec_step ::
    "'f ini_package \<Rightarrow> (dsn_config \<Rightarrow> string) \<Rightarrow> (float64 \<Rightarrow> int) \<Rightarrow> command \<Rightarrow> scraper list \<Rightarrow>
     sections \<times> pending list \<Rightarrow> label \<Rightarrow> sections \<times> pending list \<Rightarrow> bool"
  for ini format_dsn wild cmd scs where
  arrive: "spec_step ini format_dsn wild cmd scs (secs, ps) (Arrived route r)
     (secs, ps @ [\<lparr>pd_route = route, pd_request = r, pd_sections = secs\<rparr>])"
| answer: "spec_step ini format_dsn wild cmd scs (secs, ps @ p # ps')
     (Answered p (spec_answer format_dsn fs wild cmd scs p)) (secs, ps @ ps')"
| reloaded: "load_sections (ini\<lparr>ini_load := disk\<rparr>) getenv cmd = Inr secs' \<Longrightarrow>
     spec_step ini format_dsn wild cmd scs (secs, ps) (Reloaded ''ok'') (secs', ps)"
| kept: "load_sections (ini\<lparr>ini_load := disk\<rparr>) getenv cmd = Inl e \<Longrightarrow>
     spec_step ini format_dsn wild cmd scs (secs, ps) (Reloaded []) (secs, ps)"

definition process_abs :: "process \<Rightarrow> sections \<times> pending list" where
  "process_abs s = (cf_sections (ps_config s), ps_pending s)"

section \<open>Answers and reloads as functions of what they read\<close>

lemma load_tls_independent: "fst (CustomizeTLS fs m n c) = fst (CustomizeTLS fs m n c')"
  by (simp add: CustomizeTLS_def Let_def split: sum.splits)

lemma form_address_independent: "fst (form_address m target err) = fst (form_address m target err')"
  by (simp add: form_address_def Let_def split: option.splits)

lemma FormDSN_independent: "fst (FormDSN format_dsn fs m target n c) = fst (FormDSN format_dsn fs m target n c')"
proof -
  obtain r e where f: "form_address m target (cf_err c) = (r, e)" by fastforce
  obtain e' where f': "form_address m target (cf_err c') = (r, e')"
    using form_address_independent [of m target "cf_err c" "cf_err c'"] f by (metis fst_conv surj_pair)
  obtain o1 d1 where t: "CustomizeTLS fs m n (c\<lparr>cf_err := e\<rparr>) = (o1, d1)" by fastforce
  obtain d2 where t': "CustomizeTLS fs m n (c'\<lparr>cf_err := e'\<rparr>) = (o1, d2)"
    using load_tls_independent [of fs m n "c\<lparr>cf_err := e\<rparr>" "c'\<lparr>cf_err := e'\<rparr>"] t by (metis fst_conv surj_pair)
  show ?thesis by (simp add: FormDSN_def f f' t t' Let_def split: sum.splits option.splits prod.splits)
qed

lemma newHandler_independent:
  assumes "cf_sections c = cf_sections c'"
  shows "fst (newHandler format_dsn fs wild fl scs r c) = fst (newHandler format_dsn fs wild fl scs r c')"
proof -
  have "fst (FormDSN format_dsn fs m t ''client'' c) = fst (FormDSN format_dsn fs m t ''client'' c')" for m t
    by (rule FormDSN_independent)
  then show ?thesis by (simp add: newHandler_def assms Let_def split_beta)
qed

lemma handleProbe_independent:
  assumes "cf_sections c = cf_sections c'"
  shows "fst (handleProbe format_dsn fs wild fl scs r c) = fst (handleProbe format_dsn fs wild fl scs r c')"
proof -
  let ?t = "query_Get r ''target''"
  let ?n = "if query_Get r ''auth_module'' = [] then ''client'' else query_Get r ''auth_module''"
  have "fst (handleProbe format_dsn fs wild fl scs r c) = (if ?t = [] then HttpError 400 ''target is required'' else
      case map_of (cf_sections c) ?n of
        None \<Rightarrow> HttpError 400 (''Could not find config section ['' @ ?n @ '']'')
      | Some m \<Rightarrow>
         (case fst (FormDSN format_dsn fs m ?t ?n c) of
            Inl e \<Rightarrow> HttpError 400 (''Error forming dsn from config section ['' @ ?n @ '']'')
          | Inr dsn \<Rightarrow> Serve (handler_exporter fl dsn (filterScrapers scs (rq_query r ''collect[]'')))
             (request_timeout wild (fst (getScrapeTimeoutSeconds r (fl_timeoutOffset fl)))) False))" for c
    by (simp add: handleProbe_def Let_def split: option.split sum.split prod.split)
  then show ?thesis
    using FormDSN_independent [of format_dsn fs _ ?t ?n c c'] by (simp only: assms)
qed

lemma answer_independent:
  "fst (answer_request format_dsn fs wild cmd scs p c) = spec_answer format_dsn fs wild cmd scs p"
proof -
  let ?at = "\<lambda>c. c\<lparr>cf_sections := pd_sections p\<rparr>"
  have "cf_sections (?at c) = cf_sections (?at boot)" by simp
  note newHandler_independent [OF this] handleProbe_independent [OF this]
  then show ?thesis
    by (cases "pd_route p") (simp_all add: spec_answer_def answer_request_def Let_def split_beta)
qed

lemma answer_sections: "cf_sections (snd (answer_request format_dsn fs wild cmd scs p c)) = cf_sections c"
  by (simp add: answer_request_def Let_def split_beta)

lemma answer_request_eq:
  "\<exists>c'. answer_request format_dsn fs wild cmd scs p c = (spec_answer format_dsn fs wild cmd scs p, c') \<and>
     cf_sections c' = cf_sections c"
  using answer_independent [of format_dsn fs wild cmd scs p c] answer_sections [of format_dsn fs wild cmd scs p c]
  by (metis prod.collapse)

lemma reload_eq:
  "\<exists>c'. handleReload ini getenv now cmd c =
     (case load_sections ini getenv cmd of Inl e \<Rightarrow> [] | Inr secs \<Rightarrow> ''ok'', c') \<and>
   cf_sections c' = (case load_sections ini getenv cmd of Inl e \<Rightarrow> cf_sections c | Inr secs \<Rightarrow> secs)"
  by (auto simp: handleReload_def load_sections_def ReloadConfig_def reload_body_def Let_def
      split: sum.splits prod.splits option.splits)

section \<open>What stays true\<close>

text \<open>A configuration in use: some sections, all of them valid, with distinct names, none \<open>DEFAULT\<close>.\<close>

definition sections_ok :: "sections \<Rightarrow> bool" where
  "sections_ok secs \<longleftrightarrow> secs \<noteq> [] \<and> (\<forall>(n, m) \<in> set secs. valid_section m \<and> n \<noteq> ''DEFAULT'') \<and> distinct (map fst secs)"

text \<open>A TLS configuration: its versions are of the table, or 0 when not set, and in order when both are set.\<close>

definition tls_in_order :: "tls_config \<Rightarrow> bool" where
  "tls_in_order t \<longleftrightarrow> {tc_MinVersion t, tc_MaxVersion t} \<subseteq> insert 0 (snd ` set tlsVersions) \<and>
     (tc_MinVersion t = 0 \<or> tc_MaxVersion t = 0 \<or> tc_MinVersion t \<le> tc_MaxVersion t)"

definition tls_ok :: "(string \<times> tls_config) list \<Rightarrow> bool" where
  "tls_ok tls \<longleftrightarrow> (\<forall>t \<in> snd ` set tls. tls_in_order t)"

definition process_ok :: "process \<Rightarrow> bool" where
  "process_ok s \<longleftrightarrow> sections_ok (cf_sections (ps_config s)) \<and>
     (\<forall>p \<in> set (ps_pending s). sections_ok (pd_sections p)) \<and>
     tls_ok (cf_tls (ps_config s))"

lemma smap_put_entry: "x \<in> set (smap_put k v m) \<Longrightarrow> x = (k, v) \<or> x \<in> set m"
  by (induction k v m rule: smap_put.induct) (auto split: if_splits)

lemma smap_put_nonempty: "smap_put k v m \<noteq> []"
  by (induction k v m rule: smap_put.induct) auto

lemma collect_section_ok:
  assumes "m = [] \<or> sections_ok m"
  shows "collect_section ini getenv ins f m n = [] \<or> sections_ok (collect_section ini getenv ins f m n)"
  using assms
  by (auto simp: collect_section_def sections_ok_def validateConfig_iff smap_put_distinct smap_put_nonempty
      split: sum.splits dest!: smap_put_entry)

lemma collect_sections_ok:
  "m = [] \<or> sections_ok m \<Longrightarrow>
   foldl (collect_section ini getenv ins f) m ns = [] \<or> sections_ok (foldl (collect_section ini getenv ins f) m ns)"
proof (induction ns arbitrary: m)
  case (Cons n ns)
  show ?case using Cons.IH [OF collect_section_ok [OF Cons.prems]] by simp
qed simp

lemma reload_ok: "ReloadConfig ini getenv now f a u i c = (None, c') \<Longrightarrow> sections_ok (cf_sections c')"
  using collect_sections_ok [of "[]" ini getenv i]
  by (fastforce simp: ReloadConfig_def reload_body_def Let_def split: sum.splits if_splits)

lemma reload_sections_kept:
  "fst (ReloadConfig ini getenv now f a u i c) = Some e \<Longrightarrow>
   cf_sections (snd (ReloadConfig ini getenv now f a u i c)) = cf_sections c"
  by (auto simp: ReloadConfig_def reload_body_def Let_def split: sum.splits prod.splits if_splits)

lemma reload_tls: "cf_tls (snd (ReloadConfig ini getenv now f a u i c)) = cf_tls c"
  by (auto simp: ReloadConfig_def reload_body_def Let_def split: sum.splits prod.splits)

lemma tls_ok_put: "tls_ok m \<Longrightarrow> tls_in_order t \<Longrightarrow> tls_ok (smap_put n t m)"
  by (auto simp: tls_ok_def dest!: smap_put_entry)

lemma load_tls_files_versions:
  "load_tls_files fs m = Inr t \<Longrightarrow> tc_MinVersion t = 0 \<and> tc_MaxVersion t = 0"
  by (auto simp: load_tls_files_def empty_tls_def split: if_splits sum.splits option.splits)

lemma CustomizeTLS_ok:
  assumes "valid_section m" "tls_ok (cf_tls c)"
  shows "tls_ok (cf_tls (snd (CustomizeTLS fs m name c)))"
proof (cases "load_tls_files fs m")
  case (Inr tls)
  let ?min = "if mc_TlsMinVersion m \<noteq> [] then smap_get 0 (mc_TlsMinVersion m) tlsVersions else 0"
  let ?max = "if mc_TlsMaxVersion m \<noteq> [] then smap_get 0 (mc_TlsMaxVersion m) tlsVersions else 0"
  have "{?min, ?max} \<subseteq> insert 0 (snd ` set tlsVersions) \<and> (?min = 0 \<or> ?max = 0 \<or> ?min \<le> ?max)"
    using assms(1) by (auto simp: valid_section_def tlsVersions_def)
  moreover have "\<exists>t. cf_tls (snd (CustomizeTLS fs m name c)) = smap_put name t (cf_tls c) \<and>
      tc_MinVersion t = ?min \<and> tc_MaxVersion t = ?max"
    unfolding CustomizeTLS_def Inr Let_def sum.case snd_conv
    using load_tls_files_versions [OF Inr]
    by (cases "mc_TlsMinVersion m = []"; cases "mc_TlsMaxVersion m = []"; cases "mc_TlsServerName m = []") auto
  ultimately show ?thesis using tls_ok_put [OF assms(2)] by (auto simp: tls_in_order_def simp del: insert_subset)
qed (use assms(2) in \<open>simp add: CustomizeTLS_def\<close>)

lemma FormDSN_ok:
  assumes "valid_section m \<or> m = zero_section" "tls_ok (cf_tls c)"
  shows "tls_ok (cf_tls (snd (FormDSN format_dsn fs m target name c)))"
proof -
  obtain r e where f: "form_address m target (cf_err c) = (r, e)" by fastforce
  have "tls_ok (cf_tls (snd (CustomizeTLS fs m name (c\<lparr>cf_err := e\<rparr>))))" if "hasCustomTLS m"
    using CustomizeTLS_ok [of m "c\<lparr>cf_err := e\<rparr>"] assms that by (auto simp: zero_section_def hasCustomTLS_def)
  then show ?thesis
    using assms(2) by (auto simp: FormDSN_def f Let_def split: sum.splits prod.splits option.splits)
qed

lemma section_of: "sections_ok secs \<Longrightarrow> map_of secs n = Some m \<Longrightarrow> valid_section m"
  by (auto simp: sections_ok_def dest!: map_of_SomeD)

lemma answer_ok:
  assumes "sections_ok (pd_sections p)" "tls_ok (cf_tls c)"
  shows "tls_ok (cf_tls (snd (answer_request format_dsn fs wild cmd scs p c)))"
proof -
  let ?c = "c\<lparr>cf_sections := pd_sections p\<rparr>"
  have t: "tls_ok (cf_tls ?c)" using assms(2) by simp
  have v: "valid_section m" if "map_of (pd_sections p) n = Some m" for n m
    using section_of [OF assms(1) that] .
  show ?thesis
  proof (cases "pd_route p")
    case MetricsRoute
    let ?m = "case map_of (pd_sections p) ''client'' of Some m \<Rightarrow> m | None \<Rightarrow> zero_section"
    have "valid_section ?m \<or> ?m = zero_section" using v by (auto split: option.split)
    from FormDSN_ok [OF this t] MetricsRoute show ?thesis
      by (simp add: answer_request_def newHandler_def Let_def split_beta)
  next
    case ProbeRoute
    have "tls_ok (cf_tls (snd (FormDSN format_dsn fs m u n' ?c)))"
      if "map_of (pd_sections p) n' = Some m" for m u n'
      using FormDSN_ok [OF _ t] v [OF that] by blast
    with ProbeRoute t show ?thesis
      by (fastforce simp: answer_request_def handleProbe_def Let_def split_beta split: option.splits sum.splits)
  qed
qed

lemma process_step_ok: "process_step ini format_dsn wild cmd scs s l s' \<Longrightarrow> process_ok s \<Longrightarrow> process_ok s'"
proof (induction rule: process_step.induct)
  case (answer s ps p ps' fs res c')
  then have "sections_ok (pd_sections p)" "tls_ok (cf_tls (ps_config s))"
    by (auto simp: process_ok_def)
  note tls = answer_ok [OF this, of format_dsn fs wild cmd scs]
  have "cf_sections c' = cf_sections (ps_config s)"
    using answer_sections [of format_dsn fs wild cmd scs p "ps_config s"] answer.hyps by simp
  with answer tls show ?case by (auto simp: process_ok_def)
next
  case (reload disk getenv now s body c')
  let ?r = "ReloadConfig (ini\<lparr>ini_load := disk\<rparr>) getenv now (cmd_file cmd) (cmd_address cmd) (cmd_user cmd) (cmd_insecure cmd)
    (ps_config s)"
  have c': "c' = snd ?r" using reload.hyps by (auto simp: handleReload_def split: prod.splits option.splits)
  have "cf_tls c' = cf_tls (ps_config s)" by (simp add: c' reload_tls)
  moreover have "cf_sections c' = cf_sections (ps_config s) \<or> sections_ok (cf_sections c')"
    using reload_ok [of "ini\<lparr>ini_load := disk\<rparr>" getenv now "cmd_file cmd" "cmd_address cmd" "cmd_user cmd" "cmd_insecure cmd"
        "ps_config s" c'] reload_sections_kept [of "ini\<lparr>ini_load := disk\<rparr>" getenv now "cmd_file cmd" "cmd_address cmd" "cmd_user cmd"
        "cmd_insecure cmd" "ps_config s"]
    by (cases "fst ?r") (auto simp: c' prod_eq_iff)
  ultimately show ?case using reload.prems by (auto simp: process_ok_def)
qed (auto simp: process_ok_def)

lemma process_run_ok: "process_run ini format_dsn wild cmd keys ls s \<Longrightarrow> process_ok s"
proof (induction rule: process_run.induct)
  case (start disk getenv now scs rs c)
  let ?r = "ReloadConfig (ini\<lparr>ini_load := disk\<rparr>) getenv now (cmd_file cmd) (cmd_address cmd) (cmd_user cmd) (cmd_insecure cmd) boot"
  have r: "?r = (None, c)"
    using start by (auto simp: main_start_def split: if_splits option.splits prod.splits)
  from reload_ok [OF this] have "sections_ok (cf_sections c)" .
  moreover have "cf_tls c = []"
    using reload_tls [of "ini\<lparr>ini_load := disk\<rparr>" getenv now "cmd_file cmd" "cmd_address cmd" "cmd_user cmd" "cmd_insecure cmd" boot] r
    by (simp add: boot_def)
  ultimately show ?case by (simp add: process_ok_def tls_ok_def)
next
  case (step ls s l s')
  then show ?case using process_step_ok by blast
qed

section \<open>Properties\<close>


definition sample_flags :: flags where
  "sample_flags = \<lparr>fl_timeoutOffset = f_lit 25 2, fl_enableLockTimeout = True, fl_lockTimeout = 2,
     fl_slowLogFilter = False, fl_queryTimeout = 0, fl_maxOpenConns = 2\<rparr>"

definition sample_request :: request where
  "sample_request = \<lparr>rq_query = (\<lambda>k. if k = ''target'' then [''db1:3306''] else []), rq_timeout = []\<rparr>"

lemma answered_ok:
  "process_run ini format_dsn wild cmd keys ls s \<Longrightarrow> Answered p res \<in> set ls \<Longrightarrow>
   sections_ok (pd_sections p) \<and> (\<exists>fs. res = spec_answer format_dsn fs wild cmd
     (filter (\<lambda>sc. cmd_collect cmd (sc_name sc)) (sortedScrapers keys)) p)"
proof (induction rule: process_run.induct)
  case (step ls s l s')
  show ?case
  proof (cases "Answered p res \<in> set ls")
    case True
    then show ?thesis by (rule step.IH)
  next
    case False
    with step.prems step.hyps(2) have "process_step ini format_dsn wild cmd
      (filter (\<lambda>sc. cmd_collect cmd (sc_name sc)) (sortedScrapers keys)) s (Answered p res) s'" by simp
    then obtain ps ps' fs c' where a: "ps_pending s = ps @ p # ps'"
        "answer_request format_dsn fs wild cmd (filter (\<lambda>sc. cmd_collect cmd (sc_name sc)) (sortedScrapers keys)) p
           (ps_config s) = (res, c')"
      by (elim answerE) blast
    have "sections_ok (pd_sections p)" using process_run_ok [OF step.hyps(1)] a(1) by (simp add: process_ok_def)
    moreover have "res = spec_answer format_dsn fs wild cmd
        (filter (\<lambda>sc. cmd_collect cmd (sc_name sc)) (sortedScrapers keys)) p"
      using a(2) answer_independent by (metis fst_conv)
    ultimately show ?thesis by blast
  qed
qed simp

lemma run_flags:
  "process_run ini format_dsn wild cmd keys ls s \<Longrightarrow>
   1 \<le> fl_maxOpenConns (cmd_flags cmd) \<and> 0 \<le> fl_queryTimeout (cmd_flags cmd)"
  by (induction rule: process_run.induct)
     (auto simp: main_start_def validateExporterFlags_def split: if_splits option.splits prod.splits)

lemma filterScrapers_set: "set (filterScrapers scs params) \<subseteq> set scs"
  by (auto simp: filterScrapers_def Let_def)

lemma answered_scrapers:
  assumes "process_run ini format_dsn wild cmd keys ls s" "Answered p (Serve e t d) \<in> set ls"
  shows "set (e_scrapers e) \<subseteq> {sc \<in> set keys. cmd_collect cmd (sc_name sc)}"
proof -
  let ?scs = "filter (\<lambda>sc. cmd_collect cmd (sc_name sc)) (sortedScrapers keys)"
  from answered_ok [OF assms] obtain fs where "spec_answer format_dsn fs wild cmd ?scs p = Serve e t d" by metis
  then have "\<exists>params. e_scrapers e = filterScrapers ?scs params"
    by (auto simp: spec_answer_def answer_request_def newHandler_def handleProbe_def handler_exporter_fields Let_def split_beta
        split: route.splits if_splits option.splits sum.splits)
  then show ?thesis using filterScrapers_set by (fastforce simp: sortedScrapers_def)
qed

text \<open>The section a probe names.\<close>

definition probe_section :: "request \<Rightarrow> string" where
  "probe_section r = (if query_Get r ''auth_module'' = [] then ''client'' else query_Get r ''auth_module'')"

lemma probe_serves:
  assumes "pd_route p = ProbeRoute" "spec_answer format_dsn fs wild cmd scs p = Serve e t d"
  shows "\<exists>m dsn s s'. map_of (pd_sections p) (probe_section (pd_request p)) = Some m \<and>
    FormDSN format_dsn fs m (query_Get (pd_request p) ''target'') (probe_section (pd_request p)) s = (Inr dsn, s') \<and>
    e = handler_exporter (cmd_flags cmd) dsn (filterScrapers scs (rq_query (pd_request p) ''collect[]''))"
  using assms
  by (auto simp: spec_answer_def answer_request_def handleProbe_def probe_section_def Let_def
      split: if_splits option.splits sum.splits prod.splits)

section \<open>A run\<close>

text \<open>A start, a probe that comes in, and its answer.\<close>

definition sample_command :: command where
  "sample_command = \<lparr>cmd_file = ''exporter'', cmd_address = ''localhost:3306'', cmd_user = ''root'', cmd_insecure = True,
     cmd_path = ''/metrics'', cmd_flags = sample_flags, cmd_collect = (\<lambda>n. n \<noteq> ''binlog_size'')\<rparr>"

definition pending_of :: "command \<Rightarrow> pending" where
  "pending_of cmd = \<lparr>pd_route = ProbeRoute, pd_request = sample_request,
     pd_sections = [(''client'', sample_section\<lparr>mc_User := cmd_file cmd, mc_TlsInsecureSkipVerify := cmd_insecure cmd\<rparr>)]\<rparr>"

abbreviation enabled_of :: "command \<Rightarrow> scraper list \<Rightarrow> scraper list" where
  "enabled_of cmd keys \<equiv> filter (\<lambda>sc. cmd_collect cmd (sc_name sc)) (sortedScrapers keys)"

abbreviation answer_of :: "command \<Rightarrow> scraper list \<Rightarrow> response" where
  "answer_of cmd keys \<equiv> spec_answer dc_Addr sample_files (\<lambda>_. 0) cmd (enabled_of cmd keys) (pending_of cmd)"

abbreviation trace_of :: "command \<Rightarrow> scraper list \<Rightarrow> label list" where
  "trace_of cmd keys \<equiv> [Arrived ProbeRoute sample_request, Answered (pending_of cmd) (answer_of cmd keys)]"

lemma start_of:
  assumes "1 \<le> fl_maxOpenConns (cmd_flags cmd)" "0 \<le> fl_queryTimeout (cmd_flags cmd)"
    and "cmd_file cmd \<noteq> ''missing''" "cmd_file cmd \<noteq> []" "cmd_address cmd = ''localhost:3306''"
  shows "\<exists>rs c. main_start (sample_ini\<lparr>ini_load := ini_load sample_ini\<rparr>) (\<lambda>_. []) 1700000000 (cmd_flags cmd)
     (cmd_file cmd) (cmd_address cmd) (cmd_user cmd) (cmd_insecure cmd)
     (cmd_path cmd) (cmd_collect cmd) keys boot = (Running (enabled_of cmd keys) rs, c) \<and>
   cf_sections c = pd_sections (pending_of cmd)"
proof -
  have a: "net_SplitHostPort ''localhost:3306'' = Some (''localhost'', ''3306'')"
    "\<not> strings_HasPrefix ''localhost:3306'' ''unix://''" by code_simp+
  have t: "map_of tlsVersions ''TLSv1.2'' = Some 771" "map_of tlsVersions ''TLSv1.3'' = Some 772"
    "smap_get 0 ''TLSv1.2'' tlsVersions = 771" "smap_get 0 ''TLSv1.3'' tlsVersions = 772" by code_simp+
  have v: "validateConfig (sample_section\<lparr>mc_User := cmd_file cmd, mc_TlsInsecureSkipVerify := cmd_insecure cmd\<rparr>) = None"
    using assms(4) by (simp add: validateConfig_def sample_section_def t)
  show ?thesis using assms
    by (simp add: main_start_def validateExporterFlags_def ReloadConfig_def
        reload_body_def client_defaults_def set_default_def sample_ini_def collect_section_def Let_def a v boot_def
        pending_of_def)
qed

lemma run_of:
  assumes "1 \<le> fl_maxOpenConns (cmd_flags cmd)" "0 \<le> fl_queryTimeout (cmd_flags cmd)"
    and "cmd_file cmd \<noteq> ''missing''" "cmd_file cmd \<noteq> []" "cmd_address cmd = ''localhost:3306''"
  shows "\<exists>s. process_run sample_ini dc_Addr (\<lambda>_. 0) cmd keys (trace_of cmd keys) s"
proof -
  from start_of [OF assms] obtain rs c where
    m: "main_start (sample_ini\<lparr>ini_load := ini_load sample_ini\<rparr>) (\<lambda>_. []) 1700000000 (cmd_flags cmd)
     (cmd_file cmd) (cmd_address cmd) (cmd_user cmd) (cmd_insecure cmd)
     (cmd_path cmd) (cmd_collect cmd) keys boot = (Running (enabled_of cmd keys) rs, c)"
    and c: "cf_sections c = pd_sections (pending_of cmd)" by blast
  have p: "\<lparr>pd_route = ProbeRoute, pd_request = sample_request, pd_sections = cf_sections c\<rparr> = pending_of cmd"
    by (simp add: c pending_of_def)
  let ?scs = "enabled_of cmd keys" and ?p = "pending_of cmd"
  let ?s1 = "\<lparr>ps_config = c, ps_pending = [?p]\<rparr>"
  from process_run.start [OF m] have "process_run sample_ini dc_Addr (\<lambda>_. 0) cmd keys [] \<lparr>ps_config = c, ps_pending = []\<rparr>" .
  moreover have "process_step sample_ini dc_Addr (\<lambda>_. 0) cmd ?scs \<lparr>ps_config = c, ps_pending = []\<rparr>
      (Arrived ProbeRoute sample_request) ?s1"
    using process_step.arrive [of sample_ini dc_Addr "\<lambda>_. 0" cmd ?scs "\<lparr>ps_config = c, ps_pending = []\<rparr>"
        ProbeRoute sample_request] by (simp add: p)
  ultimately have r: "process_run sample_ini dc_Addr (\<lambda>_. 0) cmd keys [Arrived ProbeRoute sample_request] ?s1"
    using process_run.step by fastforce
  obtain c' where "answer_request dc_Addr sample_files (\<lambda>_. 0) cmd ?scs ?p c =
      (spec_answer dc_Addr sample_files (\<lambda>_. 0) cmd ?scs ?p, c')"
    using answer_request_eq by blast
  then have "process_step sample_ini dc_Addr (\<lambda>_. 0) cmd ?scs ?s1
      (Answered ?p (spec_answer dc_Addr sample_files (\<lambda>_. 0) cmd ?scs ?p)) \<lparr>ps_config = c', ps_pending = []\<rparr>"
    using process_step.answer [of ?s1 "[]" ?p "[]"] by simp
  from process_run.step [OF r this] show ?thesis by auto
qed

lemma served_of: "\<exists>e t d. answer_of cmd keys = Serve e t d"
proof -
  have sp: "net_SplitHostPort ''db1:3306'' = Some (''db1'', ''3306'')" by code_simp
  show ?thesis
    using sp by (auto simp: spec_answer_def answer_request_def handleProbe_def pending_of_def sample_request_def
        query_Get_def FormDSN_def form_address_def Let_def strings_HasPrefix_def CustomizeTLS_def load_tls_files_def
        sample_section_def)
qed

abbreviation sample_pending :: pending where
  "sample_pending \<equiv> pending_of sample_command"

abbreviation sample_enabled :: "scraper list \<Rightarrow> scraper list" where
  "sample_enabled keys \<equiv> enabled_of sample_command keys"

abbreviation sample_answer :: "scraper list \<Rightarrow> response" where
  "sample_answer keys \<equiv> answer_of sample_command keys"

abbreviation sample_trace :: "scraper list \<Rightarrow> label list" where
  "sample_trace keys \<equiv> trace_of sample_command keys"

lemma sample_run: "\<exists>s. process_run sample_ini dc_Addr (\<lambda>_. 0) sample_command keys (sample_trace keys) s"
  by (rule run_of) (simp_all add: sample_command_def sample_flags_def)

lemma sample_served: "\<exists>e t d. sample_answer keys = Serve e t d"
  by (rule served_of)

section \<open>Properties of the running process\<close>

text \<open>
  C8: whatever requests and reloads the process serves, and whatever is in its files by then, the
  configuration in use, and each one a handler still holds, has sections, all of them valid, under
  distinct names other than \<open>DEFAULT\<close>; and each TLS configuration registered with the driver has
  versions of TLS, the minimum not above the maximum.
\<close>

theorem process_stays_ok:
  assumes "process_run ini format_dsn wild cmd keys ls s"
  shows "sections_ok (cf_sections (ps_config s)) \<and> (\<forall>p \<in> set (ps_pending s). sections_ok (pd_sections p)) \<and>
    (\<forall>(n, t) \<in> set (cf_tls (ps_config s)). tls_in_order t)"
  using process_run_ok [OF assms] by (auto simp: process_ok_def tls_ok_def)

theorem process_stays_ok_witness: "\<exists>s. process_run sample_ini dc_Addr (\<lambda>_. 0) sample_command [] (sample_trace []) s \<and>
  sections_ok (cf_sections (ps_config s))"
proof -
  from sample_run obtain s where s: "process_run sample_ini dc_Addr (\<lambda>_. 0) sample_command [] (sample_trace []) s" by blast
  from process_stays_ok [OF s] s show ?thesis by blast
qed

text \<open>
  C9: every probe the process has answered with metrics, in whatever order, was of a section its
  configuration had when the request came in; that section is valid, the DSN begins with that
  section's user and password at the address of the target, the connections are limited by a positive
  number, and the scrapers are some of those the flags enable.
\<close>

theorem probes_use_their_section:
  assumes "process_run ini format_dsn wild cmd keys ls s" "Answered p (Serve e t d) \<in> set ls" "pd_route p = ProbeRoute"
  shows "\<exists>m net addr tls err err'. map_of (pd_sections p) (probe_section (pd_request p)) = Some m \<and> valid_section m \<and>
    form_address m (query_Get (pd_request p) ''target'') err = (Inr (net, addr), err') \<and>
    strings_HasPrefix (e_dsn e) (format_dsn (dsn_of m net addr tls)) \<and> 1 \<le> e_maxOpenConns e \<and>
    set (e_scrapers e) \<subseteq> {sc \<in> set keys. cmd_collect cmd (sc_name sc)}"
proof -
  let ?scs = "filter (\<lambda>sc. cmd_collect cmd (sc_name sc)) (sortedScrapers keys)"
  from answered_ok [OF assms(1,2)] obtain fs where ok: "sections_ok (pd_sections p)"
    and "spec_answer format_dsn fs wild cmd ?scs p = Serve e t d" by metis
  from probe_serves [OF assms(3) this(2)] obtain m dsn c c' where
    m: "map_of (pd_sections p) (probe_section (pd_request p)) = Some m"
    and f: "FormDSN format_dsn fs m (query_Get (pd_request p) ''target'') (probe_section (pd_request p)) c = (Inr dsn, c')"
    and e: "e = handler_exporter (cmd_flags cmd) dsn (filterScrapers ?scs (rq_query (pd_request p) ''collect[]''))" by blast
  note answered_scrapers [OF assms(1,2)]
  moreover have "1 \<le> e_maxOpenConns e" using run_flags [OF assms(1)] by (simp add: e handler_exporter_fields)
  moreover have "strings_HasPrefix (e_dsn e) dsn" by (auto simp: e handler_exporter_fields strings_HasPrefix_iff)
  ultimately show ?thesis using m section_of [OF ok m] FormDSN_dsn [OF f] by blast
qed

theorem probes_use_their_section_witness:
  "\<exists>e t d. sample_answer [] = Serve e t d \<and>
     strings_HasPrefix (e_dsn e) ''db1:3306'' \<and> 1 \<le> e_maxOpenConns e \<and> e_scrapers e = []"
proof -
  from sample_run obtain s where s: "process_run sample_ini dc_Addr (\<lambda>_. 0) sample_command [] (sample_trace []) s" by blast
  obtain e t d where e: "sample_answer [] = Serve e t d"
    using sample_served by blast
  have a: "Answered sample_pending (Serve e t d) \<in> set (sample_trace [])" by (simp add: e)
  have r: "pd_route sample_pending = ProbeRoute" by (simp add: pending_of_def)
  have t: "query_Get (pd_request sample_pending) ''target'' = ''db1:3306''"
    by (simp add: pending_of_def sample_request_def query_Get_def)
  have n: "form_address m ''db1:3306'' err = (Inr (''tcp'', ''db1:3306''), None)" for m err
  proof -
    have "net_SplitHostPort ''db1:3306'' = Some (''db1'', ''3306'')" "\<not> strings_HasPrefix ''db1:3306'' ''unix://''"
      by code_simp+
    then show ?thesis by (simp add: form_address_def)
  qed
  from probes_use_their_section [OF s a r] e show ?thesis
    unfolding t n by (auto simp: dsn_of_def)
qed

end
