(* ===== verification/NdbBase.thy ===== *)
theory NdbBase
  imports Collector GoMap
begin

text \<open>
  \<open>collector/ndbinfo.go\<close>: what the NDB scrapers share, that is the histogram helper, the
  descriptors with several label lists, and \<open>unpackNullAsNaN\<close>.
\<close>

definition ndbInfo :: string where "ndbInfo = ''ndbinfo''"

definition sumSlice :: "('a::{zero,plus}) list \<Rightarrow> 'a" where
  "sumSlice xs = foldl (\<lambda>total value. total + value) 0 xs"

section \<open>Histograms\<close>

definition hist_GetLast :: "float64 list \<Rightarrow> float64" where
  "hist_GetLast upperBounds = upperBounds ! (length upperBounds - 1)"

definition hist_ArtificialSum :: "float64 list \<Rightarrow> bucket \<Rightarrow> float64" where
  "hist_ArtificialSum upperBounds bucket =
     snd (foldl (\<lambda>(prev, sum) bound.
            (bound, f_add sum (f_mul (f_div (f_add bound prev) (f_of_int 2)) (f_of_u64 (bucket_get bound bucket)))))
          (f_zero, f_zero) upperBounds)"

text \<open>The loop of \<open>MakeCumulative\<close>, with \<open>acc\<close> the code's \<open>sum\<close> as it stands before the bounds still to come.\<close>

fun cumulate :: "u64 \<Rightarrow> float64 list \<Rightarrow> bucket \<Rightarrow> bucket" where
  "cumulate acc [] bucket = bucket"
| "cumulate acc (bound # bounds) bucket =
     (let bucket' = bucket_put bound (bucket_get bound bucket + acc) bucket
      in cumulate (bucket_get bound bucket') bounds bucket')"

definition hist_MakeCumulative :: "float64 list \<Rightarrow> bucket \<Rightarrow> bucket" where
  "hist_MakeCumulative upperBounds bucket = cumulate 0 upperBounds bucket"

text \<open>Bounds as the code's tables have them: no NaN, no two equal.\<close>

fun distinct_bounds :: "float64 list \<Rightarrow> bool" where
  "distinct_bounds [] = True"
| "distinct_bounds (b # bs) \<longleftrightarrow> b \<noteq> NaN \<and> list_all (\<lambda>c. \<not> f_eq b c) bs \<and> distinct_bounds bs"

lemma cumulate_other:
  "list_all (\<lambda>c. \<not> f_eq k c) bs \<Longrightarrow> bucket_get k (cumulate s bs b) = bucket_get k b"
  by (induction bs arbitrary: s b) (simp_all add: Let_def bkt.get_put)

lemma cumulate_get:
  "distinct_bounds bs \<Longrightarrow> i < length bs \<Longrightarrow>
   bucket_get (bs ! i) (cumulate s bs b) = s + sum_list (map (\<lambda>k. bucket_get k b) (take (Suc i) bs))"
proof (induction bs arbitrary: s b i)
  case (Cons x bs)
  let ?b = "bucket_put x (bucket_get x b + s) b"
  have x: "x \<noteq> NaN" "list_all (\<lambda>c. \<not> f_eq x c) bs" using Cons.prems(1) by simp_all
  have keep: "bucket_get k (bucket_put x w b) = bucket_get k b" if "k \<in> set bs" for k w
    using that x(2) f_eq_sym by (auto simp: bkt.get_put list_all_iff)
  show ?case
  proof (cases i)
    case 0
    with x show ?thesis by (simp add: Let_def cumulate_other bkt.get_put_same add.commute)
  next
    case (Suc j)
    with Cons.prems have j: "j < length bs" and d: "distinct_bounds bs" by simp_all
    have "sum_list (map (\<lambda>k. bucket_get k (bucket_put x w b)) (take (Suc j) bs)) =
        sum_list (map (\<lambda>k. bucket_get k b) (take (Suc j) bs))" for w
      using keep by (intro arg_cong [where f = sum_list] map_cong) (auto dest: in_set_takeD)
    with Cons.IH [OF d j, of "bucket_get x ?b" ?b] Suc x(1) show ?thesis
      by (simp add: Let_def bkt.get_put_same ac_simps)
  qed
qed simp

section \<open>Descriptors with several label lists\<close>

record variable_desc =
  vd_fq :: fq_name
  vd_help :: string
  vd_type :: value_type
  vd_labels :: "string list list"

definition NewVariablePromDesc ::
    "fq_name \<Rightarrow> string \<Rightarrow> value_type \<Rightarrow> string list list \<Rightarrow> variable_desc" where
  "NewVariablePromDesc fqName hlp valueType possibleLabels =
     \<lparr>vd_fq = fqName, vd_help = hlp, vd_type = valueType, vd_labels = possibleLabels\<rparr>"

fun pick_labels :: "string list list \<Rightarrow> nat \<Rightarrow> string list" where
  "pick_labels [] n = []"
| "pick_labels (l # ls) n = (if length l = n then l else pick_labels ls n)"

definition variable_metric :: "variable_desc \<Rightarrow> float64 \<Rightarrow> string list \<Rightarrow> metric" where
  "variable_metric vDesc value labelValues =
     ConstMetric (NewDesc (vd_fq vDesc) (vd_help vDesc) (pick_labels (vd_labels vDesc) (length labelValues)))
       (vd_type vDesc) value labelValues"

lemma length_pick_labels:
  "length (pick_labels ls n) = (if n \<in> set (map length ls) then n else 0)"
  by (induction ls n rule: pick_labels.induct) auto

lemma pick_labels_first:
  "length l = n \<Longrightarrow> n \<notin> set (map length ls) \<Longrightarrow> pick_labels (ls @ l # ls') n = l"
  by (induction ls) auto

lemma metric_ok_variable [wf_emit]:
  "metric_ok (variable_metric d v ls) \<longleftrightarrow> ls = [] \<or> length ls \<in> set (map length (vd_labels d))"
  by (auto simp: variable_metric_def metric_ok_def length_pick_labels simp del: set_map)

definition unpackNullAsNaN :: "u64 option \<Rightarrow> float64" where
  "unpackNullAsNaN value = (case value of Some v \<Rightarrow> f_of_u64 v | None \<Rightarrow> NaN)"

lemma f_of_u64_not_NaN [simp]: "f_of_u64 w \<noteq> NaN"
  using f_of_u64_finite [of w] by (auto simp: is_finite_def)

lemma unpackNullAsNaN_NaN: "unpackNullAsNaN v = NaN \<longleftrightarrow> v = None"
  by (simp add: unpackNullAsNaN_def split: option.splits)

end
