(* ===== verification/NdbOperations.thy ===== *)
theory NdbOperations
  imports NdbBase
begin

text \<open>
  NDB scrapers that are one query and one loop: backups, configuration values, counters,
  cluster operations, resources and memory pools. The verbosity flag of a scraper is its
  argument.
\<close>

subsection \<open>ndbinfo_backup_id.go\<close>

definition ndbinfoBackupIDQuery :: string where
  "ndbinfoBackupIDQuery = ''
	SELECT
		id
	FROM ndbinfo.backup_id;
''"

definition ndbinfoBackupIDDesc :: desc where [desc_def]:
  "ndbinfoBackupIDDesc = NewDesc (BuildFQName namespace ndbInfo ''last_backup_id'')
     ''The ID of the most recently initiated backup for this cluster.'' []"

lemma arity_ndbinfo_backup_id [simp, desc_arity]:
  "length (var_labels ndbinfoBackupIDDesc) = 0"
  by (simp_all add: desc_def)

definition ScrapeNDBInfoBackupID_Name :: string where "ScrapeNDBInfoBackupID_Name = ndbInfo @ ''.backup_id''"

definition ScrapeNDBInfoBackupID_Help :: string where "ScrapeNDBInfoBackupID_Help = ''Collect metrics from ndbinfo.backup_id''"

definition ScrapeNDBInfoBackupID_Version :: float64 where "ScrapeNDBInfoBackupID_Version = f_lit 80 1"

definition ScrapeNDBInfoBackupID_dests :: "dest list" where
  "ScrapeNDBInfoBackupID_dests = [DU64]"

definition ScrapeNDBInfoBackupID_row :: "gval list \<Rightarrow> metric list" where
  "ScrapeNDBInfoBackupID_row vs =
     (let id = g_u64 (vs ! 0)
      in [ConstMetric ndbinfoBackupIDDesc GaugeValue (f_of_u64 id) []])"

definition ScrapeNDBInfoBackupID_Scrape :: "database \<Rightarrow> scrape_out" where
  "ScrapeNDBInfoBackupID_Scrape = table_scrape ndbinfoBackupIDQuery ScrapeNDBInfoBackupID_dests ScrapeNDBInfoBackupID_row"

interpretation tbl_backup_id: table_scraper ndbinfoBackupIDQuery ScrapeNDBInfoBackupID_dests ScrapeNDBInfoBackupID_row
  by unfold_locales (simp add: ScrapeNDBInfoBackupID_row_def Let_def wf_emit)

subsection \<open>ndbinfo_config_param_values.go\<close>

definition ndbinfoConfigValuesQuery :: string where
  "ndbinfoConfigValuesQuery = ''
	SELECT
		p.param_name AS name,
		v.node_id AS node_id,
		v.config_value AS value
	FROM ndbinfo.config_params AS p
	JOIN ndbinfo.config_values AS v
		ON p.param_number = v.config_param
	WHERE p.param_type in ('unsigned', 'bool', 'enum');
''"

definition ndbinfoConfigValuesDesc :: desc where [desc_def]:
  "ndbinfoConfigValuesDesc = NewDesc (BuildFQName namespace ndbInfo ''config_value'')
     ''Current state of node configuration parameter values.'' [''name'', ''node_id'']"

lemma arity_ndbinfo_config_param_values [simp, desc_arity]:
  "length (var_labels ndbinfoConfigValuesDesc) = 2"
  by (simp_all add: desc_def)

definition ScrapeNDBInfoConfigValues_Name :: string where "ScrapeNDBInfoConfigValues_Name = ndbInfo @ ''.config_values''"

definition ScrapeNDBInfoConfigValues_Help :: string where "ScrapeNDBInfoConfigValues_Help = ''Collect metrics from ndbinfo.config_params and ndbinfo.config_values''"

definition ScrapeNDBInfoConfigValues_Version :: float64 where "ScrapeNDBInfoConfigValues_Version = f_lit 57 1"

definition ScrapeNDBInfoConfigValues_dests :: "dest list" where
  "ScrapeNDBInfoConfigValues_dests = [DStr, DStr, DU64]"

definition ScrapeNDBInfoConfigValues_row :: "gval list \<Rightarrow> metric list" where
  "ScrapeNDBInfoConfigValues_row vs =
     (let name = g_str (vs ! 0);
          nodeID = g_str (vs ! 1);
          value = g_u64 (vs ! 2)
      in [ConstMetric ndbinfoConfigValuesDesc GaugeValue (f_of_u64 value) [name, nodeID]])"

definition ScrapeNDBInfoConfigValues_Scrape :: "database \<Rightarrow> scrape_out" where
  "ScrapeNDBInfoConfigValues_Scrape = table_scrape ndbinfoConfigValuesQuery ScrapeNDBInfoConfigValues_dests ScrapeNDBInfoConfigValues_row"

interpretation tbl_config_values: table_scraper ndbinfoConfigValuesQuery ScrapeNDBInfoConfigValues_dests ScrapeNDBInfoConfigValues_row
  by unfold_locales (simp add: ScrapeNDBInfoConfigValues_row_def Let_def wf_emit)

subsection \<open>ndbinfo_counters.go\<close>

definition ndbinfoCountersQuery :: string where
  "ndbinfoCountersQuery = ''
	SELECT
		node_id,
		block_name,
		counter_name,
		SUM(val) as val
	FROM ndbinfo.counters
	GROUP BY node_id, block_name, counter_name;
''"

definition ndbinfoCountersQueryFull :: string where
  "ndbinfoCountersQueryFull = ''
	SELECT
		node_id,
		block_name,
		block_instance,
		counter_name,
		val
	FROM ndbinfo.counters;
''"

definition ndbinfoCountersDesc :: variable_desc where [desc_def]:
  "ndbinfoCountersDesc = NewVariablePromDesc (BuildFQName namespace ndbInfo ''counters'')
     ''Running totals of events such as reads and writes for specific kernel blocks and data nodes.'' CounterValue
     [[''node_id'', ''block_name'', ''counter_name''], [''node_id'', ''block_name'', ''block_instance'', ''counter_name'']]"

lemma arity_var_ndbinfo_counters [simp, desc_arity]:
  "map length (vd_labels ndbinfoCountersDesc) = [3, 4]"
  by (simp_all add: NewVariablePromDesc_def desc_def)

definition ScrapeNDBInfoCounters_Name :: string where "ScrapeNDBInfoCounters_Name = ndbInfo @ ''.counters''"

definition ScrapeNDBInfoCounters_Help :: string where "ScrapeNDBInfoCounters_Help = ''Collect metrics from ndbinfo.counters''"

definition ScrapeNDBInfoCounters_Version :: float64 where "ScrapeNDBInfoCounters_Version = f_lit 56 1"

definition ScrapeNDBInfoCounters_Verbose0_dests :: "dest list" where
  "ScrapeNDBInfoCounters_Verbose0_dests = [DStr, DStr, DStr, DU64]"

definition ScrapeNDBInfoCounters_Verbose0_row :: "gval list \<Rightarrow> metric list" where
  "ScrapeNDBInfoCounters_Verbose0_row vs =
     (let nodeID = g_str (vs ! 0);
          blockName = g_str (vs ! 1);
          counterName = g_str (vs ! 2);
          val = g_u64 (vs ! 3)
      in [variable_metric ndbinfoCountersDesc (f_of_u64 val) [nodeID, blockName, counterName]])"

definition ScrapeNDBInfoCounters_ScrapeVerbose0 :: "database \<Rightarrow> scrape_out" where
  "ScrapeNDBInfoCounters_ScrapeVerbose0 = table_scrape ndbinfoCountersQuery ScrapeNDBInfoCounters_Verbose0_dests ScrapeNDBInfoCounters_Verbose0_row"

interpretation tbl_counters_v0: table_scraper ndbinfoCountersQuery ScrapeNDBInfoCounters_Verbose0_dests ScrapeNDBInfoCounters_Verbose0_row
  by unfold_locales (simp add: ScrapeNDBInfoCounters_Verbose0_row_def Let_def wf_emit)

definition ScrapeNDBInfoCounters_Verbose1_dests :: "dest list" where
  "ScrapeNDBInfoCounters_Verbose1_dests = [DStr, DStr, DStr, DStr, DU64]"

definition ScrapeNDBInfoCounters_Verbose1_row :: "gval list \<Rightarrow> metric list" where
  "ScrapeNDBInfoCounters_Verbose1_row vs =
     (let nodeID = g_str (vs ! 0);
          blockName = g_str (vs ! 1);
          blockInstance = g_str (vs ! 2);
          counterName = g_str (vs ! 3);
          val = g_u64 (vs ! 4)
      in [variable_metric ndbinfoCountersDesc (f_of_u64 val) [nodeID, blockName, blockInstance, counterName]])"

definition ScrapeNDBInfoCounters_ScrapeVerbose1 :: "database \<Rightarrow> scrape_out" where
  "ScrapeNDBInfoCounters_ScrapeVerbose1 = table_scrape ndbinfoCountersQueryFull ScrapeNDBInfoCounters_Verbose1_dests ScrapeNDBInfoCounters_Verbose1_row"

interpretation tbl_counters_v1: table_scraper ndbinfoCountersQueryFull ScrapeNDBInfoCounters_Verbose1_dests ScrapeNDBInfoCounters_Verbose1_row
  by unfold_locales (simp add: ScrapeNDBInfoCounters_Verbose1_row_def Let_def wf_emit)

definition ScrapeNDBInfoCounters_Scrape :: "string \<Rightarrow> database \<Rightarrow> scrape_out" where
  "ScrapeNDBInfoCounters_Scrape verbosity =
     (if verbosity = ''1'' then ScrapeNDBInfoCounters_ScrapeVerbose1
      else ScrapeNDBInfoCounters_ScrapeVerbose0)"

interpretation sw_counters: safe_scraper "ScrapeNDBInfoCounters_Scrape verbosity" for verbosity
  by unfold_locales
    (simp_all add: ScrapeNDBInfoCounters_Scrape_def ScrapeNDBInfoCounters_ScrapeVerbose1_def ScrapeNDBInfoCounters_ScrapeVerbose0_def
       tbl_counters_v1.sent_ok tbl_counters_v1.no_panic tbl_counters_v0.sent_ok tbl_counters_v0.no_panic)

subsection \<open>ndbinfo_cluster_operations.go\<close>

definition ndbinfoClusterOperationsQuery :: string where
  "ndbinfoClusterOperationsQuery = ''
	SELECT
		node_id,
		operation_type,
		IFNULL(state, '' @ [CHR 0x27, CHR 0x27] @ '') AS state,
		COUNT(*) AS count
	FROM ndbinfo.cluster_operations
	GROUP BY node_id, operation_type, state;
''"

definition ndbinfoClusterOperationsQueryFull :: string where
  "ndbinfoClusterOperationsQueryFull = ''
	SELECT
		node_id,
		operation_type,
		IFNULL(state, '' @ [CHR 0x27, CHR 0x27] @ '') AS state,
		tableid,
		COUNT(*) AS count
	FROM ndbinfo.cluster_operations
	GROUP BY node_id, operation_type, state, tableid;
''"

definition ndbinfoClusterOperationsDescCount :: variable_desc where [desc_def]:
  "ndbinfoClusterOperationsDescCount = NewVariablePromDesc (BuildFQName namespace ndbInfo ''cluster_operations_count'')
     ''Total count of current cluster operations.'' GaugeValue
     [[''node_id'', ''operation_type'', ''state''], [''node_id'', ''operation_type'', ''state'', ''tableid'']]"

lemma arity_var_ndbinfo_cluster_operations [simp, desc_arity]:
  "map length (vd_labels ndbinfoClusterOperationsDescCount) = [3, 4]"
  by (simp_all add: NewVariablePromDesc_def desc_def)

definition ScrapeNDBInfoClusterOperations_Name :: string where "ScrapeNDBInfoClusterOperations_Name = ndbInfo @ ''.cluster_operations''"

definition ScrapeNDBInfoClusterOperations_Help :: string where "ScrapeNDBInfoClusterOperations_Help = ''Collect metrics from ndbinfo.cluster_operations''"

definition ScrapeNDBInfoClusterOperations_Version :: float64 where "ScrapeNDBInfoClusterOperations_Version = f_lit 56 1"

definition ScrapeNDBInfoClusterOperations_Verbose0_dests :: "dest list" where
  "ScrapeNDBInfoClusterOperations_Verbose0_dests = [DStr, DStr, DStr, DU64]"

definition ScrapeNDBInfoClusterOperations_Verbose0_row :: "gval list \<Rightarrow> metric list" where
  "ScrapeNDBInfoClusterOperations_Verbose0_row vs =
     (let nodeID = g_str (vs ! 0);
          operationType = g_str (vs ! 1);
          state = g_str (vs ! 2);
          count = g_u64 (vs ! 3)
      in [variable_metric ndbinfoClusterOperationsDescCount (f_of_u64 count) [nodeID, operationType, state]])"

definition ScrapeNDBInfoClusterOperations_ScrapeVerbose0 :: "database \<Rightarrow> scrape_out" where
  "ScrapeNDBInfoClusterOperations_ScrapeVerbose0 = table_scrape ndbinfoClusterOperationsQuery ScrapeNDBInfoClusterOperations_Verbose0_dests ScrapeNDBInfoClusterOperations_Verbose0_row"

interpretation tbl_cluster_operations_v0: table_scraper ndbinfoClusterOperationsQuery ScrapeNDBInfoClusterOperations_Verbose0_dests ScrapeNDBInfoClusterOperations_Verbose0_row
  by unfold_locales (simp add: ScrapeNDBInfoClusterOperations_Verbose0_row_def Let_def wf_emit)

definition ScrapeNDBInfoClusterOperations_Verbose1_dests :: "dest list" where
  "ScrapeNDBInfoClusterOperations_Verbose1_dests = [DStr, DStr, DStr, DStr, DU64]"

definition ScrapeNDBInfoClusterOperations_Verbose1_row :: "gval list \<Rightarrow> metric list" where
  "ScrapeNDBInfoClusterOperations_Verbose1_row vs =
     (let nodeID = g_str (vs ! 0);
          operationType = g_str (vs ! 1);
          state = g_str (vs ! 2);
          tableID = g_str (vs ! 3);
          count = g_u64 (vs ! 4)
      in [variable_metric ndbinfoClusterOperationsDescCount (f_of_u64 count) [nodeID, operationType, state, tableID]])"

definition ScrapeNDBInfoClusterOperations_ScrapeVerbose1 :: "database \<Rightarrow> scrape_out" where
  "ScrapeNDBInfoClusterOperations_ScrapeVerbose1 = table_scrape ndbinfoClusterOperationsQueryFull ScrapeNDBInfoClusterOperations_Verbose1_dests ScrapeNDBInfoClusterOperations_Verbose1_row"

interpretation tbl_cluster_operations_v1: table_scraper ndbinfoClusterOperationsQueryFull ScrapeNDBInfoClusterOperations_Verbose1_dests ScrapeNDBInfoClusterOperations_Verbose1_row
  by unfold_locales (simp add: ScrapeNDBInfoClusterOperations_Verbose1_row_def Let_def wf_emit)

definition ScrapeNDBInfoClusterOperations_Scrape :: "string \<Rightarrow> database \<Rightarrow> scrape_out" where
  "ScrapeNDBInfoClusterOperations_Scrape verbosity =
     (if verbosity = ''1'' then ScrapeNDBInfoClusterOperations_ScrapeVerbose1
      else ScrapeNDBInfoClusterOperations_ScrapeVerbose0)"

interpretation sw_cluster_operations: safe_scraper "ScrapeNDBInfoClusterOperations_Scrape verbosity" for verbosity
  by unfold_locales
    (simp_all add: ScrapeNDBInfoClusterOperations_Scrape_def ScrapeNDBInfoClusterOperations_ScrapeVerbose1_def ScrapeNDBInfoClusterOperations_ScrapeVerbose0_def
       tbl_cluster_operations_v1.sent_ok tbl_cluster_operations_v1.no_panic tbl_cluster_operations_v0.sent_ok tbl_cluster_operations_v0.no_panic)

subsection \<open>ndbinfo_resources.go\<close>

definition ndbinfoResourcesQuery :: string where
  "ndbinfoResourcesQuery = ''
	SELECT
		node_id,
		resource_name,
		reserved,
		used,
		max
	FROM ndbinfo.resources;
''"

definition ndbinfoResourcesDescReserved :: desc where [desc_def]:
  "ndbinfoResourcesDescReserved = NewDesc (BuildFQName namespace ndbInfo ''resources_reserved'')
     ''The amount reserved for this resource, as a number of 32KB pages.'' [''node_id'', ''resource_name'']"

definition ndbinfoResourcesDescUsed :: desc where [desc_def]:
  "ndbinfoResourcesDescUsed = NewDesc (BuildFQName namespace ndbInfo ''resources_used'')
     ''The amount actually used by this resource, as a number of 32KB pages.'' [''node_id'', ''resource_name'']"

definition ndbinfoResourcesDescMax :: desc where [desc_def]:
  "ndbinfoResourcesDescMax = NewDesc (BuildFQName namespace ndbInfo ''resources_max'')
     ''The maximum amount (number of 32KB pages) of this resource that is available to this data node.'' [''node_id'', ''resource_name'']"

lemma arity_ndbinfo_resources [simp, desc_arity]:
  "length (var_labels ndbinfoResourcesDescReserved) = 2"
  "length (var_labels ndbinfoResourcesDescUsed) = 2"
  "length (var_labels ndbinfoResourcesDescMax) = 2"
  by (simp_all add: desc_def)

definition ScrapeNDBInfoResources_Name :: string where "ScrapeNDBInfoResources_Name = ndbInfo @ ''.resources''"

definition ScrapeNDBInfoResources_Help :: string where "ScrapeNDBInfoResources_Help = ''Collect metrics from ndbinfo.resources''"

definition ScrapeNDBInfoResources_Version :: float64 where "ScrapeNDBInfoResources_Version = f_lit 56 1"

definition ScrapeNDBInfoResources_dests :: "dest list" where
  "ScrapeNDBInfoResources_dests = [DStr, DStr, DU64, DU64, DU64]"

definition ScrapeNDBInfoResources_row :: "gval list \<Rightarrow> metric list" where
  "ScrapeNDBInfoResources_row vs =
     (let nodeID = g_str (vs ! 0);
          resourceName = g_str (vs ! 1);
          reserved = g_u64 (vs ! 2);
          used = g_u64 (vs ! 3);
          max = g_u64 (vs ! 4)
      in [ConstMetric ndbinfoResourcesDescReserved GaugeValue (f_of_u64 reserved) [nodeID, resourceName],
          ConstMetric ndbinfoResourcesDescUsed GaugeValue (f_of_u64 used) [nodeID, resourceName],
          ConstMetric ndbinfoResourcesDescMax GaugeValue (f_of_u64 max) [nodeID, resourceName]])"

definition ScrapeNDBInfoResources_Scrape :: "database \<Rightarrow> scrape_out" where
  "ScrapeNDBInfoResources_Scrape = table_scrape ndbinfoResourcesQuery ScrapeNDBInfoResources_dests ScrapeNDBInfoResources_row"

interpretation tbl_resources: table_scraper ndbinfoResourcesQuery ScrapeNDBInfoResources_dests ScrapeNDBInfoResources_row
  by unfold_locales (simp add: ScrapeNDBInfoResources_row_def Let_def wf_emit)

subsection \<open>ndbinfo_pools.go\<close>

definition ndbinfoPoolsQuery :: string where
  "ndbinfoPoolsQuery = ''
	SELECT
		pool_name,
		SUM(used * entry_size) AS used,
		SUM(total * entry_size) AS total
	FROM ndbinfo.ndb$pools
	GROUP BY pool_name;
''"

definition ndbinfoPoolsQueryAgg1 :: string where
  "ndbinfoPoolsQueryAgg1 = ''
	SELECT
		node_id,
		pool_name,
		SUM(used * entry_size) AS used,
		SUM(total * entry_size) AS total
	FROM ndbinfo.ndb$pools
	GROUP BY node_id, pool_name;
''"

definition ndbinfoPoolsQueryFull :: string where
  "ndbinfoPoolsQueryFull = ''
	SELECT
		p.node_id,
		b.block_name,
		p.block_instance,
		p.pool_name,
		p.used * p.entry_size AS used,
		p.total * p.entry_size AS total
	FROM ndbinfo.ndb$pools p
	LEFT JOIN ndbinfo.blocks b ON p.block_number = b.block_number;
''"

definition ndbinfoPoolsDescUsed :: variable_desc where [desc_def]:
  "ndbinfoPoolsDescUsed = NewVariablePromDesc (BuildFQName namespace ndbInfo ''pools_used'')
     ''Number of bytes currently used for this pool.'' GaugeValue
     [[''pool_name''], [''node_id'', ''pool_name''], [''node_id'', ''block_name'', ''block_instance'', ''pool_name'']]"

definition ndbinfoPoolsDescTotal :: variable_desc where [desc_def]:
  "ndbinfoPoolsDescTotal = NewVariablePromDesc (BuildFQName namespace ndbInfo ''pools_total'')
     ''Total number of bytes available for this pool.'' GaugeValue
     [[''pool_name''], [''node_id'', ''pool_name''], [''node_id'', ''block_name'', ''block_instance'', ''pool_name'']]"

lemma arity_var_ndbinfo_pools [simp, desc_arity]:
  "map length (vd_labels ndbinfoPoolsDescUsed) = [1, 2, 4]"
  "map length (vd_labels ndbinfoPoolsDescTotal) = [1, 2, 4]"
  by (simp_all add: NewVariablePromDesc_def desc_def)

definition ScrapeNDBInfoPools_Name :: string where "ScrapeNDBInfoPools_Name = ndbInfo @ ''.pools''"

definition ScrapeNDBInfoPools_Help :: string where "ScrapeNDBInfoPools_Help = ''Collect metrics from ndbinfo.ndb$pools''"

definition ScrapeNDBInfoPools_Version :: float64 where "ScrapeNDBInfoPools_Version = f_lit 56 1"

definition ScrapeNDBInfoPools_Verbose0_dests :: "dest list" where
  "ScrapeNDBInfoPools_Verbose0_dests = [DStr, DU64, DU64]"

definition ScrapeNDBInfoPools_Verbose0_row :: "gval list \<Rightarrow> metric list" where
  "ScrapeNDBInfoPools_Verbose0_row vs =
     (let poolName = g_str (vs ! 0);
          used = g_u64 (vs ! 1);
          total = g_u64 (vs ! 2)
      in [variable_metric ndbinfoPoolsDescUsed (f_of_u64 used) [poolName],
          variable_metric ndbinfoPoolsDescTotal (f_of_u64 total) [poolName]])"

definition ScrapeNDBInfoPools_ScrapeVerbose0 :: "database \<Rightarrow> scrape_out" where
  "ScrapeNDBInfoPools_ScrapeVerbose0 = table_scrape ndbinfoPoolsQuery ScrapeNDBInfoPools_Verbose0_dests ScrapeNDBInfoPools_Verbose0_row"

interpretation tbl_pools_v0: table_scraper ndbinfoPoolsQuery ScrapeNDBInfoPools_Verbose0_dests ScrapeNDBInfoPools_Verbose0_row
  by unfold_locales (simp add: ScrapeNDBInfoPools_Verbose0_row_def Let_def wf_emit)

definition ScrapeNDBInfoPools_Verbose1_dests :: "dest list" where
  "ScrapeNDBInfoPools_Verbose1_dests = [DStr, DStr, DU64, DU64]"

definition ScrapeNDBInfoPools_Verbose1_row :: "gval list \<Rightarrow> metric list" where
  "ScrapeNDBInfoPools_Verbose1_row vs =
     (let nodeID = g_str (vs ! 0);
          poolName = g_str (vs ! 1);
          used = g_u64 (vs ! 2);
          total = g_u64 (vs ! 3)
      in [variable_metric ndbinfoPoolsDescUsed (f_of_u64 used) [nodeID, poolName],
          variable_metric ndbinfoPoolsDescTotal (f_of_u64 total) [nodeID, poolName]])"

definition ScrapeNDBInfoPools_ScrapeVerbose1 :: "database \<Rightarrow> scrape_out" where
  "ScrapeNDBInfoPools_ScrapeVerbose1 = table_scrape ndbinfoPoolsQueryAgg1 ScrapeNDBInfoPools_Verbose1_dests ScrapeNDBInfoPools_Verbose1_row"

interpretation tbl_pools_v1: table_scraper ndbinfoPoolsQueryAgg1 ScrapeNDBInfoPools_Verbose1_dests ScrapeNDBInfoPools_Verbose1_row
  by unfold_locales (simp add: ScrapeNDBInfoPools_Verbose1_row_def Let_def wf_emit)

definition ScrapeNDBInfoPools_Verbose2_dests :: "dest list" where
  "ScrapeNDBInfoPools_Verbose2_dests = [DStr, DStr, DStr, DStr, DU64, DU64]"

definition ScrapeNDBInfoPools_Verbose2_row :: "gval list \<Rightarrow> metric list" where
  "ScrapeNDBInfoPools_Verbose2_row vs =
     (let nodeID = g_str (vs ! 0);
          blockName = g_str (vs ! 1);
          blockInstance = g_str (vs ! 2);
          poolName = g_str (vs ! 3);
          used = g_u64 (vs ! 4);
          total = g_u64 (vs ! 5)
      in [variable_metric ndbinfoPoolsDescUsed (f_of_u64 used) [nodeID, blockName, blockInstance, poolName],
          variable_metric ndbinfoPoolsDescTotal (f_of_u64 total) [nodeID, blockName, blockInstance, poolName]])"

definition ScrapeNDBInfoPools_ScrapeVerbose2 :: "database \<Rightarrow> scrape_out" where
  "ScrapeNDBInfoPools_ScrapeVerbose2 = table_scrape ndbinfoPoolsQueryFull ScrapeNDBInfoPools_Verbose2_dests ScrapeNDBInfoPools_Verbose2_row"

interpretation tbl_pools_v2: table_scraper ndbinfoPoolsQueryFull ScrapeNDBInfoPools_Verbose2_dests ScrapeNDBInfoPools_Verbose2_row
  by unfold_locales (simp add: ScrapeNDBInfoPools_Verbose2_row_def Let_def wf_emit)

definition ScrapeNDBInfoPools_Scrape :: "string \<Rightarrow> database \<Rightarrow> scrape_out" where
  "ScrapeNDBInfoPools_Scrape verbosity =
     (if verbosity = ''2'' then ScrapeNDBInfoPools_ScrapeVerbose2
      else if verbosity = ''1'' then ScrapeNDBInfoPools_ScrapeVerbose1
      else ScrapeNDBInfoPools_ScrapeVerbose0)"

interpretation sw_pools: safe_scraper "ScrapeNDBInfoPools_Scrape verbosity" for verbosity
  by unfold_locales
    (simp_all add: ScrapeNDBInfoPools_Scrape_def ScrapeNDBInfoPools_ScrapeVerbose2_def ScrapeNDBInfoPools_ScrapeVerbose1_def ScrapeNDBInfoPools_ScrapeVerbose0_def
       tbl_pools_v2.sent_ok tbl_pools_v2.no_panic tbl_pools_v1.sent_ok tbl_pools_v1.no_panic tbl_pools_v0.sent_ok tbl_pools_v0.no_panic)


end
