(* ===== verification/NdbDisk.thy ===== *)
theory NdbDisk
  imports NdbBase
begin

text \<open>
  NDB scrapers of the disk page buffer, the redo and undo logs and the memory usage, each one
  query and one loop.
\<close>

subsection \<open>ndbinfo_diskpagebuffer.go\<close>

definition ndbinfoDiskPageBufferQuery :: string where
  "ndbinfoDiskPageBufferQuery = ''
	SELECT
		node_id,
		SUM(pages_written) AS pages_written,
		SUM(pages_written_lcp) AS pages_written_lcp,
		SUM(pages_read) AS pages_read,
		SUM(log_waits) AS log_waits,
		SUM(page_requests_direct_return) AS page_requests_direct_return,
		SUM(page_requests_wait_queue) AS page_requests_wait_queue,
		SUM(page_requests_wait_io) AS page_requests_wait_io
	FROM ndbinfo.diskpagebuffer
	GROUP BY node_id;
''"

definition ndbinfoDiskPageBufferQueryFull :: string where
  "ndbinfoDiskPageBufferQueryFull = ''
	SELECT
		node_id,
		block_instance,
		pages_written,
		pages_written_lcp,
		pages_read,
		log_waits,
		page_requests_direct_return,
		page_requests_wait_queue,
		page_requests_wait_io
	FROM ndbinfo.diskpagebuffer;
''"

definition ndbinfoDiskPageBufferLabels :: "string list" where
  "ndbinfoDiskPageBufferLabels = [''node_id'']"

lemma length_ndbinfoDiskPageBufferLabels [simp]: "length ndbinfoDiskPageBufferLabels = 1"
  by (simp add: ndbinfoDiskPageBufferLabels_def)

definition ndbinfoDiskPageBufferLabelsFull :: "string list" where
  "ndbinfoDiskPageBufferLabelsFull = ndbinfoDiskPageBufferLabels @ [''block_instance'']"

lemma length_ndbinfoDiskPageBufferLabelsFull [simp]: "length ndbinfoDiskPageBufferLabelsFull = 2"
  by (simp add: ndbinfoDiskPageBufferLabelsFull_def)

definition ndbinfoDiskPageBufferDescPagesWritten :: variable_desc where [desc_def]:
  "ndbinfoDiskPageBufferDescPagesWritten = NewVariablePromDesc (BuildFQName namespace ndbInfo ''diskpagebuffer_pages_written'')
     ''Number of pages written to disk.'' CounterValue
     [ndbinfoDiskPageBufferLabels, ndbinfoDiskPageBufferLabelsFull]"

definition ndbinfoDiskPageBufferDescPagesWrittenLCP :: variable_desc where [desc_def]:
  "ndbinfoDiskPageBufferDescPagesWrittenLCP = NewVariablePromDesc (BuildFQName namespace ndbInfo ''diskpagebuffer_pages_written_lcp'')
     ''Number of pages written by local checkpoints.'' CounterValue
     [ndbinfoDiskPageBufferLabels, ndbinfoDiskPageBufferLabelsFull]"

definition ndbinfoDiskPageBufferDescPagesRead :: variable_desc where [desc_def]:
  "ndbinfoDiskPageBufferDescPagesRead = NewVariablePromDesc (BuildFQName namespace ndbInfo ''diskpagebuffer_pages_read'')
     ''Number of pages read from disk.'' CounterValue
     [ndbinfoDiskPageBufferLabels, ndbinfoDiskPageBufferLabelsFull]"

definition ndbinfoDiskPageBufferDescLogWaits :: variable_desc where [desc_def]:
  "ndbinfoDiskPageBufferDescLogWaits = NewVariablePromDesc (BuildFQName namespace ndbInfo ''diskpagebuffer_log_waits'')
     ''Number of page writes waiting for log to be written to disk.'' CounterValue
     [ndbinfoDiskPageBufferLabels, ndbinfoDiskPageBufferLabelsFull]"

definition ndbinfoDiskPageBufferDescPageRequestDirectReturn :: variable_desc where [desc_def]:
  "ndbinfoDiskPageBufferDescPageRequestDirectReturn = NewVariablePromDesc (BuildFQName namespace ndbInfo ''diskpagebuffer_page_requests_direct_return'')
     ''Number of requests for pages that were available in buffer.'' CounterValue
     [ndbinfoDiskPageBufferLabels, ndbinfoDiskPageBufferLabelsFull]"

definition ndbinfoDiskPageBufferDescPageRequestWaitQueue :: variable_desc where [desc_def]:
  "ndbinfoDiskPageBufferDescPageRequestWaitQueue = NewVariablePromDesc (BuildFQName namespace ndbInfo ''diskpagebuffer_page_requests_wait_queue'')
     ''Number of requests that had to wait for pages to become available in buffer.'' CounterValue
     [ndbinfoDiskPageBufferLabels, ndbinfoDiskPageBufferLabelsFull]"

definition ndbinfoDiskPageBufferDescPageRequestWaitIO :: variable_desc where [desc_def]:
  "ndbinfoDiskPageBufferDescPageRequestWaitIO = NewVariablePromDesc (BuildFQName namespace ndbInfo ''diskpagebuffer_page_requests_wait_io'')
     ''Number of requests that had to be read from pages on disk (pages were unavailable in buffer).'' CounterValue
     [ndbinfoDiskPageBufferLabels, ndbinfoDiskPageBufferLabelsFull]"

lemma arity_var_ndbinfo_diskpagebuffer [simp, desc_arity]:
  "map length (vd_labels ndbinfoDiskPageBufferDescPagesWritten) = [1, 2]"
  "map length (vd_labels ndbinfoDiskPageBufferDescPagesWrittenLCP) = [1, 2]"
  "map length (vd_labels ndbinfoDiskPageBufferDescPagesRead) = [1, 2]"
  "map length (vd_labels ndbinfoDiskPageBufferDescLogWaits) = [1, 2]"
  "map length (vd_labels ndbinfoDiskPageBufferDescPageRequestDirectReturn) = [1, 2]"
  "map length (vd_labels ndbinfoDiskPageBufferDescPageRequestWaitQueue) = [1, 2]"
  "map length (vd_labels ndbinfoDiskPageBufferDescPageRequestWaitIO) = [1, 2]"
  by (simp_all add: NewVariablePromDesc_def desc_def)

definition ScrapeNDBInfoDiskPageBuffer_Name :: string where "ScrapeNDBInfoDiskPageBuffer_Name = ndbInfo @ ''.diskpagebuffer''"

definition ScrapeNDBInfoDiskPageBuffer_Help :: string where "ScrapeNDBInfoDiskPageBuffer_Help = ''Collect metrics from ndbinfo.diskpagebuffer''"

definition ScrapeNDBInfoDiskPageBuffer_Version :: float64 where "ScrapeNDBInfoDiskPageBuffer_Version = f_lit 56 1"

definition ScrapeNDBInfoDiskPageBuffer_Verbose0_dests :: "dest list" where
  "ScrapeNDBInfoDiskPageBuffer_Verbose0_dests = [DStr, DU64, DU64, DU64, DU64, DU64, DU64, DU64]"

definition ScrapeNDBInfoDiskPageBuffer_Verbose0_row :: "gval list \<Rightarrow> metric list" where
  "ScrapeNDBInfoDiskPageBuffer_Verbose0_row vs =
     (let nodeID = g_str (vs ! 0);
          pagesWritten = g_u64 (vs ! 1);
          pagesWrittenLCP = g_u64 (vs ! 2);
          pagesRead = g_u64 (vs ! 3);
          logWaits = g_u64 (vs ! 4);
          pageRequestsDirectReturn = g_u64 (vs ! 5);
          pageRequestsWaitQueue = g_u64 (vs ! 6);
          pageRequestsWaitIO = g_u64 (vs ! 7)
      in [variable_metric ndbinfoDiskPageBufferDescPagesWritten (f_of_u64 pagesWritten) [nodeID],
          variable_metric ndbinfoDiskPageBufferDescPagesWrittenLCP (f_of_u64 pagesWrittenLCP) [nodeID],
          variable_metric ndbinfoDiskPageBufferDescPagesRead (f_of_u64 pagesRead) [nodeID],
          variable_metric ndbinfoDiskPageBufferDescLogWaits (f_of_u64 logWaits) [nodeID],
          variable_metric ndbinfoDiskPageBufferDescPageRequestDirectReturn (f_of_u64 pageRequestsDirectReturn) [nodeID],
          variable_metric ndbinfoDiskPageBufferDescPageRequestWaitQueue (f_of_u64 pageRequestsWaitQueue) [nodeID],
          variable_metric ndbinfoDiskPageBufferDescPageRequestWaitIO (f_of_u64 pageRequestsWaitIO) [nodeID]])"

definition ScrapeNDBInfoDiskPageBuffer_ScrapeVerbose0 :: "database \<Rightarrow> scrape_out" where
  "ScrapeNDBInfoDiskPageBuffer_ScrapeVerbose0 = table_scrape ndbinfoDiskPageBufferQuery ScrapeNDBInfoDiskPageBuffer_Verbose0_dests ScrapeNDBInfoDiskPageBuffer_Verbose0_row"

interpretation tbl_disk_page_buffer_v0: table_scraper ndbinfoDiskPageBufferQuery ScrapeNDBInfoDiskPageBuffer_Verbose0_dests ScrapeNDBInfoDiskPageBuffer_Verbose0_row
  by unfold_locales (simp add: ScrapeNDBInfoDiskPageBuffer_Verbose0_row_def Let_def wf_emit)

definition ScrapeNDBInfoDiskPageBuffer_Verbose1_dests :: "dest list" where
  "ScrapeNDBInfoDiskPageBuffer_Verbose1_dests = [DStr, DStr, DU64, DU64, DU64, DU64, DU64, DU64, DU64]"

definition ScrapeNDBInfoDiskPageBuffer_Verbose1_row :: "gval list \<Rightarrow> metric list" where
  "ScrapeNDBInfoDiskPageBuffer_Verbose1_row vs =
     (let nodeID = g_str (vs ! 0);
          blockInstance = g_str (vs ! 1);
          pagesWritten = g_u64 (vs ! 2);
          pagesWrittenLCP = g_u64 (vs ! 3);
          pagesRead = g_u64 (vs ! 4);
          logWaits = g_u64 (vs ! 5);
          pageRequestsDirectReturn = g_u64 (vs ! 6);
          pageRequestsWaitQueue = g_u64 (vs ! 7);
          pageRequestsWaitIO = g_u64 (vs ! 8)
      in [variable_metric ndbinfoDiskPageBufferDescPagesWritten (f_of_u64 pagesWritten) [nodeID, blockInstance],
          variable_metric ndbinfoDiskPageBufferDescPagesWrittenLCP (f_of_u64 pagesWrittenLCP) [nodeID, blockInstance],
          variable_metric ndbinfoDiskPageBufferDescPagesRead (f_of_u64 pagesRead) [nodeID, blockInstance],
          variable_metric ndbinfoDiskPageBufferDescLogWaits (f_of_u64 logWaits) [nodeID, blockInstance],
          variable_metric ndbinfoDiskPageBufferDescPageRequestDirectReturn (f_of_u64 pageRequestsDirectReturn) [nodeID, blockInstance],
          variable_metric ndbinfoDiskPageBufferDescPageRequestWaitQueue (f_of_u64 pageRequestsWaitQueue) [nodeID, blockInstance],
          variable_metric ndbinfoDiskPageBufferDescPageRequestWaitIO (f_of_u64 pageRequestsWaitIO) [nodeID, blockInstance]])"

definition ScrapeNDBInfoDiskPageBuffer_ScrapeVerbose1 :: "database \<Rightarrow> scrape_out" where
  "ScrapeNDBInfoDiskPageBuffer_ScrapeVerbose1 = table_scrape ndbinfoDiskPageBufferQueryFull ScrapeNDBInfoDiskPageBuffer_Verbose1_dests ScrapeNDBInfoDiskPageBuffer_Verbose1_row"

interpretation tbl_disk_page_buffer_v1: table_scraper ndbinfoDiskPageBufferQueryFull ScrapeNDBInfoDiskPageBuffer_Verbose1_dests ScrapeNDBInfoDiskPageBuffer_Verbose1_row
  by unfold_locales (simp add: ScrapeNDBInfoDiskPageBuffer_Verbose1_row_def Let_def wf_emit)

definition ScrapeNDBInfoDiskPageBuffer_Scrape :: "string \<Rightarrow> database \<Rightarrow> scrape_out" where
  "ScrapeNDBInfoDiskPageBuffer_Scrape verbosity =
     (if verbosity = ''1'' then ScrapeNDBInfoDiskPageBuffer_ScrapeVerbose1
      else ScrapeNDBInfoDiskPageBuffer_ScrapeVerbose0)"

interpretation sw_disk_page_buffer: safe_scraper "ScrapeNDBInfoDiskPageBuffer_Scrape verbosity" for verbosity
  by unfold_locales
    (simp_all add: ScrapeNDBInfoDiskPageBuffer_Scrape_def ScrapeNDBInfoDiskPageBuffer_ScrapeVerbose1_def ScrapeNDBInfoDiskPageBuffer_ScrapeVerbose0_def
       tbl_disk_page_buffer_v1.sent_ok tbl_disk_page_buffer_v1.no_panic tbl_disk_page_buffer_v0.sent_ok tbl_disk_page_buffer_v0.no_panic)

subsection \<open>ndbinfo_diskstat.go\<close>

definition ndbinfoDiskStatQuery :: string where
  "ndbinfoDiskStatQuery = ''
	SELECT
		node_id,
		block_instance,
		pages_made_dirty,
		reads_issued,
		reads_completed,
		writes_issued,
		writes_completed,
		log_writes_issued,
		log_writes_completed,
		get_page_calls_issued,
		get_page_reqs_issued,
		get_page_reqs_completed
	FROM ndbinfo.diskstat;
''"

definition ndbinfoDiskStatDescPagesMadeDirty :: desc where [desc_def]:
  "ndbinfoDiskStatDescPagesMadeDirty = NewDesc (BuildFQName namespace ndbInfo ''diskstat_pages_made_dirty'')
     ''Number of pages made dirty during the past second.'' [''node_id'', ''block_instance'']"

definition ndbinfoDiskStatDescReadsIssued :: desc where [desc_def]:
  "ndbinfoDiskStatDescReadsIssued = NewDesc (BuildFQName namespace ndbInfo ''diskstat_reads_issued'')
     ''Reads issued during the past second.'' [''node_id'', ''block_instance'']"

definition ndbinfoDiskStatDescReadsCompleted :: desc where [desc_def]:
  "ndbinfoDiskStatDescReadsCompleted = NewDesc (BuildFQName namespace ndbInfo ''diskstat_reads_completed'')
     ''Reads completed during the past second.'' [''node_id'', ''block_instance'']"

definition ndbinfoDiskStatDescWritesIssued :: desc where [desc_def]:
  "ndbinfoDiskStatDescWritesIssued = NewDesc (BuildFQName namespace ndbInfo ''diskstat_writes_issued'')
     ''Writes issued during the past second.'' [''node_id'', ''block_instance'']"

definition ndbinfoDiskStatDescWritesCompleted :: desc where [desc_def]:
  "ndbinfoDiskStatDescWritesCompleted = NewDesc (BuildFQName namespace ndbInfo ''diskstat_writes_completed'')
     ''Writes completed during the past second.'' [''node_id'', ''block_instance'']"

definition ndbinfoDiskStatDescLogWritesIssued :: desc where [desc_def]:
  "ndbinfoDiskStatDescLogWritesIssued = NewDesc (BuildFQName namespace ndbInfo ''diskstat_log_writes_issued'')
     ''Number of times a page write has required a log write during the past second.'' [''node_id'', ''block_instance'']"

definition ndbinfoDiskStatDescLogWritesCompleted :: desc where [desc_def]:
  "ndbinfoDiskStatDescLogWritesCompleted = NewDesc (BuildFQName namespace ndbInfo ''diskstat_log_writes_completed'')
     ''Number of log writes completed during the last second.'' [''node_id'', ''block_instance'']"

definition ndbinfoDiskStatDescGetPageCallsIssued :: desc where [desc_def]:
  "ndbinfoDiskStatDescGetPageCallsIssued = NewDesc (BuildFQName namespace ndbInfo ''diskstat_get_page_calls_issued'')
     ''Number of get_page() calls issued during the past second.'' [''node_id'', ''block_instance'']"

definition ndbinfoDiskStatDescGetPageReqsIssued :: desc where [desc_def]:
  "ndbinfoDiskStatDescGetPageReqsIssued = NewDesc (BuildFQName namespace ndbInfo ''diskstat_get_page_reqs_issued'')
     ''Number of times that a get_page() call has resulted in a wait for I/O or completion of I/O already begun during the past second.'' [''node_id'', ''block_instance'']"

definition ndbinfoDiskStatDescGetPageReqsCompleted :: desc where [desc_def]:
  "ndbinfoDiskStatDescGetPageReqsCompleted = NewDesc (BuildFQName namespace ndbInfo ''diskstat_get_page_reqs_completed'')
     ''Number of get_page() calls waiting for I/O or I/O completion that have completed during the past second.'' [''node_id'', ''block_instance'']"

lemma arity_ndbinfo_diskstat [simp, desc_arity]:
  "length (var_labels ndbinfoDiskStatDescPagesMadeDirty) = 2"
  "length (var_labels ndbinfoDiskStatDescReadsIssued) = 2"
  "length (var_labels ndbinfoDiskStatDescReadsCompleted) = 2"
  "length (var_labels ndbinfoDiskStatDescWritesIssued) = 2"
  "length (var_labels ndbinfoDiskStatDescWritesCompleted) = 2"
  "length (var_labels ndbinfoDiskStatDescLogWritesIssued) = 2"
  "length (var_labels ndbinfoDiskStatDescLogWritesCompleted) = 2"
  "length (var_labels ndbinfoDiskStatDescGetPageCallsIssued) = 2"
  "length (var_labels ndbinfoDiskStatDescGetPageReqsIssued) = 2"
  "length (var_labels ndbinfoDiskStatDescGetPageReqsCompleted) = 2"
  by (simp_all add: desc_def)

definition ScrapeNDBInfoDiskStat_Name :: string where "ScrapeNDBInfoDiskStat_Name = ndbInfo @ ''.diskstat''"

definition ScrapeNDBInfoDiskStat_Help :: string where "ScrapeNDBInfoDiskStat_Help = ''Collect metrics from ndbinfo.diskstat''"

definition ScrapeNDBInfoDiskStat_Version :: float64 where "ScrapeNDBInfoDiskStat_Version = f_lit 80 1"

definition ScrapeNDBInfoDiskStat_dests :: "dest list" where
  "ScrapeNDBInfoDiskStat_dests = [DStr, DStr, DU64, DU64, DU64, DU64, DU64, DU64, DU64, DU64, DU64, DU64]"

definition ScrapeNDBInfoDiskStat_row :: "gval list \<Rightarrow> metric list" where
  "ScrapeNDBInfoDiskStat_row vs =
     (let nodeID = g_str (vs ! 0);
          blockInstance = g_str (vs ! 1);
          pagesMadeDirty = g_u64 (vs ! 2);
          readsIssued = g_u64 (vs ! 3);
          readsCompleted = g_u64 (vs ! 4);
          writesIssued = g_u64 (vs ! 5);
          writesCompleted = g_u64 (vs ! 6);
          logWritesIssued = g_u64 (vs ! 7);
          logWritesCompleted = g_u64 (vs ! 8);
          getPageCallsIssued = g_u64 (vs ! 9);
          getPageReqsIssued = g_u64 (vs ! 10);
          getPageReqsCompleted = g_u64 (vs ! 11)
      in [ConstMetric ndbinfoDiskStatDescPagesMadeDirty GaugeValue (f_of_u64 pagesMadeDirty) [nodeID, blockInstance],
          ConstMetric ndbinfoDiskStatDescReadsIssued GaugeValue (f_of_u64 readsIssued) [nodeID, blockInstance],
          ConstMetric ndbinfoDiskStatDescReadsCompleted GaugeValue (f_of_u64 readsCompleted) [nodeID, blockInstance],
          ConstMetric ndbinfoDiskStatDescWritesIssued GaugeValue (f_of_u64 writesIssued) [nodeID, blockInstance],
          ConstMetric ndbinfoDiskStatDescWritesCompleted GaugeValue (f_of_u64 writesCompleted) [nodeID, blockInstance],
          ConstMetric ndbinfoDiskStatDescLogWritesIssued GaugeValue (f_of_u64 logWritesIssued) [nodeID, blockInstance],
          ConstMetric ndbinfoDiskStatDescLogWritesCompleted GaugeValue (f_of_u64 logWritesCompleted) [nodeID, blockInstance],
          ConstMetric ndbinfoDiskStatDescGetPageCallsIssued GaugeValue (f_of_u64 getPageCallsIssued) [nodeID, blockInstance],
          ConstMetric ndbinfoDiskStatDescGetPageReqsIssued GaugeValue (f_of_u64 getPageReqsIssued) [nodeID, blockInstance],
          ConstMetric ndbinfoDiskStatDescGetPageReqsCompleted GaugeValue (f_of_u64 getPageReqsCompleted) [nodeID, blockInstance]])"

definition ScrapeNDBInfoDiskStat_Scrape :: "database \<Rightarrow> scrape_out" where
  "ScrapeNDBInfoDiskStat_Scrape = table_scrape ndbinfoDiskStatQuery ScrapeNDBInfoDiskStat_dests ScrapeNDBInfoDiskStat_row"

interpretation tbl_disk_stat: table_scraper ndbinfoDiskStatQuery ScrapeNDBInfoDiskStat_dests ScrapeNDBInfoDiskStat_row
  by unfold_locales (simp add: ScrapeNDBInfoDiskStat_row_def Let_def wf_emit)

subsection \<open>ndbinfo_logbuffers.go\<close>

definition ndbinfoLogBuffersQuery :: string where
  "ndbinfoLogBuffersQuery = ''
	SELECT
		node_id,
		log_type,
		log_id,
		log_part,
		total,
		used
	FROM ndbinfo.logbuffers;
''"

definition ndbinfoLogBuffersDescTotal :: desc where [desc_def]:
  "ndbinfoLogBuffersDescTotal = NewDesc (BuildFQName namespace ndbInfo ''logbuffers_bytes_total'')
     ''Total space available for this log in bytes.'' [''node_id'', ''log_type'', ''log_id'', ''log_part'']"

definition ndbinfoLogBuffersDescUsed :: desc where [desc_def]:
  "ndbinfoLogBuffersDescUsed = NewDesc (BuildFQName namespace ndbInfo ''logbuffers_bytes_used'')
     ''Amount of space used by this log in bytes.'' [''node_id'', ''log_type'', ''log_id'', ''log_part'']"

lemma arity_ndbinfo_logbuffers [simp, desc_arity]:
  "length (var_labels ndbinfoLogBuffersDescTotal) = 4"
  "length (var_labels ndbinfoLogBuffersDescUsed) = 4"
  by (simp_all add: desc_def)

definition ScrapeNDBInfoLogBuffers_Name :: string where "ScrapeNDBInfoLogBuffers_Name = ndbInfo @ ''.logbuffers''"

definition ScrapeNDBInfoLogBuffers_Help :: string where "ScrapeNDBInfoLogBuffers_Help = ''Collect metrics from ndbinfo.logbuffers''"

definition ScrapeNDBInfoLogBuffers_Version :: float64 where "ScrapeNDBInfoLogBuffers_Version = f_lit 56 1"

definition ScrapeNDBInfoLogBuffers_dests :: "dest list" where
  "ScrapeNDBInfoLogBuffers_dests = [DStr, DStr, DStr, DStr, DU64, DU64]"

definition ScrapeNDBInfoLogBuffers_row :: "gval list \<Rightarrow> metric list" where
  "ScrapeNDBInfoLogBuffers_row vs =
     (let nodeID = g_str (vs ! 0);
          logType = g_str (vs ! 1);
          logID = g_str (vs ! 2);
          logPart = g_str (vs ! 3);
          total = g_u64 (vs ! 4);
          used = g_u64 (vs ! 5)
      in [ConstMetric ndbinfoLogBuffersDescTotal GaugeValue (f_of_u64 total) [nodeID, logType, logID, logPart],
          ConstMetric ndbinfoLogBuffersDescUsed GaugeValue (f_of_u64 used) [nodeID, logType, logID, logPart]])"

definition ScrapeNDBInfoLogBuffers_Scrape :: "database \<Rightarrow> scrape_out" where
  "ScrapeNDBInfoLogBuffers_Scrape = table_scrape ndbinfoLogBuffersQuery ScrapeNDBInfoLogBuffers_dests ScrapeNDBInfoLogBuffers_row"

interpretation tbl_log_buffers: table_scraper ndbinfoLogBuffersQuery ScrapeNDBInfoLogBuffers_dests ScrapeNDBInfoLogBuffers_row
  by unfold_locales (simp add: ScrapeNDBInfoLogBuffers_row_def Let_def wf_emit)

subsection \<open>ndbinfo_logspaces.go\<close>

definition ndbinfoLogSpacesQuery :: string where
  "ndbinfoLogSpacesQuery = ''
	SELECT
		node_id,
		log_type,
		log_id,
		log_part,
		total,
		used
	FROM ndbinfo.logspaces;
''"

definition ndbinfoLogSpacesDescTotal :: desc where [desc_def]:
  "ndbinfoLogSpacesDescTotal = NewDesc (BuildFQName namespace ndbInfo ''logspaces_bytes_total'')
     ''Total space available for this log in bytes.'' [''node_id'', ''log_type'', ''log_id'', ''log_part'']"

definition ndbinfoLogSpacesDescUsed :: desc where [desc_def]:
  "ndbinfoLogSpacesDescUsed = NewDesc (BuildFQName namespace ndbInfo ''logspaces_bytes_used'')
     ''Amount of space used by this log in bytes.'' [''node_id'', ''log_type'', ''log_id'', ''log_part'']"

lemma arity_ndbinfo_logspaces [simp, desc_arity]:
  "length (var_labels ndbinfoLogSpacesDescTotal) = 4"
  "length (var_labels ndbinfoLogSpacesDescUsed) = 4"
  by (simp_all add: desc_def)

definition ScrapeNDBInfoLogSpaces_Name :: string where "ScrapeNDBInfoLogSpaces_Name = ndbInfo @ ''.logspaces''"

definition ScrapeNDBInfoLogSpaces_Help :: string where "ScrapeNDBInfoLogSpaces_Help = ''Collect metrics from ndbinfo.logspaces''"

definition ScrapeNDBInfoLogSpaces_Version :: float64 where "ScrapeNDBInfoLogSpaces_Version = f_lit 56 1"

definition ScrapeNDBInfoLogSpaces_dests :: "dest list" where
  "ScrapeNDBInfoLogSpaces_dests = [DStr, DStr, DStr, DStr, DU64, DU64]"

definition ScrapeNDBInfoLogSpaces_row :: "gval list \<Rightarrow> metric list" where
  "ScrapeNDBInfoLogSpaces_row vs =
     (let nodeID = g_str (vs ! 0);
          logType = g_str (vs ! 1);
          logID = g_str (vs ! 2);
          logPart = g_str (vs ! 3);
          total = g_u64 (vs ! 4);
          used = g_u64 (vs ! 5)
      in [ConstMetric ndbinfoLogSpacesDescTotal GaugeValue (f_of_u64 total) [nodeID, logType, logID, logPart],
          ConstMetric ndbinfoLogSpacesDescUsed GaugeValue (f_of_u64 used) [nodeID, logType, logID, logPart]])"

definition ScrapeNDBInfoLogSpaces_Scrape :: "database \<Rightarrow> scrape_out" where
  "ScrapeNDBInfoLogSpaces_Scrape = table_scrape ndbinfoLogSpacesQuery ScrapeNDBInfoLogSpaces_dests ScrapeNDBInfoLogSpaces_row"

interpretation tbl_log_spaces: table_scraper ndbinfoLogSpacesQuery ScrapeNDBInfoLogSpaces_dests ScrapeNDBInfoLogSpaces_row
  by unfold_locales (simp add: ScrapeNDBInfoLogSpaces_row_def Let_def wf_emit)

subsection \<open>ndbinfo_memoryusage.go\<close>

definition ndbinfoMemoryUsageQuery :: string where
  "ndbinfoMemoryUsageQuery = ''
	SELECT
		node_id,
		memory_type,
		used,
		total
	FROM ndbinfo.memoryusage;
''"

definition ndbinfoMemoryUsageDescUsed :: desc where [desc_def]:
  "ndbinfoMemoryUsageDescUsed = NewDesc (BuildFQName namespace ndbInfo ''memoryusage_used'')
     ''Number of bytes currently used for data memory or index memory by this data node.'' [''node_id'', ''memory_type'']"

definition ndbinfoMemoryUsageDescTotal :: desc where [desc_def]:
  "ndbinfoMemoryUsageDescTotal = NewDesc (BuildFQName namespace ndbInfo ''memoryusage_total'')
     ''Total number of bytes of data memory or index memory available for this data node.'' [''node_id'', ''memory_type'']"

lemma arity_ndbinfo_memoryusage [simp, desc_arity]:
  "length (var_labels ndbinfoMemoryUsageDescUsed) = 2"
  "length (var_labels ndbinfoMemoryUsageDescTotal) = 2"
  by (simp_all add: desc_def)

definition ScrapeNDBInfoMemoryUsage_Name :: string where "ScrapeNDBInfoMemoryUsage_Name = ndbInfo @ ''.memoryusage''"

definition ScrapeNDBInfoMemoryUsage_Help :: string where "ScrapeNDBInfoMemoryUsage_Help = ''Collect metrics from ndbinfo.memoryusage''"

definition ScrapeNDBInfoMemoryUsage_Version :: float64 where "ScrapeNDBInfoMemoryUsage_Version = f_lit 56 1"

definition ScrapeNDBInfoMemoryUsage_dests :: "dest list" where
  "ScrapeNDBInfoMemoryUsage_dests = [DStr, DStr, DU64, DU64]"

definition ScrapeNDBInfoMemoryUsage_row :: "gval list \<Rightarrow> metric list" where
  "ScrapeNDBInfoMemoryUsage_row vs =
     (let nodeID = g_str (vs ! 0);
          memoryType = g_str (vs ! 1);
          used = g_u64 (vs ! 2);
          total = g_u64 (vs ! 3)
      in [ConstMetric ndbinfoMemoryUsageDescUsed GaugeValue (f_of_u64 used) [nodeID, memoryType],
          ConstMetric ndbinfoMemoryUsageDescTotal GaugeValue (f_of_u64 total) [nodeID, memoryType]])"

definition ScrapeNDBInfoMemoryUsage_Scrape :: "database \<Rightarrow> scrape_out" where
  "ScrapeNDBInfoMemoryUsage_Scrape = table_scrape ndbinfoMemoryUsageQuery ScrapeNDBInfoMemoryUsage_dests ScrapeNDBInfoMemoryUsage_row"

interpretation tbl_memory_usage: table_scraper ndbinfoMemoryUsageQuery ScrapeNDBInfoMemoryUsage_dests ScrapeNDBInfoMemoryUsage_row
  by unfold_locales (simp add: ScrapeNDBInfoMemoryUsage_row_def Let_def wf_emit)


end
