(* ===== verification/NdbThreads.thy ===== *)
theory NdbThreads
  imports NdbBase
begin

text \<open>
  The scraper of the NDB threads, and the two of the NDB synchronisation tables in the
  performance schema.
\<close>

subsection \<open>ndbinfo_threadstat.go\<close>

definition ndbinfoThreadstatQuery :: string where
  "ndbinfoThreadstatQuery = ''
	SELECT
		node_id,
		thr_no,
		thr_nm,
		c_loop,
		c_exec,
		c_wait,
		os_tid,
		os_ru_minflt,
		os_ru_majflt,
		os_ru_nvcsw,
		os_ru_nivcsw
	FROM ndbinfo.threadstat;
''"

definition ndbinfoThreadstatQueryFull :: string where
  "ndbinfoThreadstatQueryFull = ''
	SELECT
		node_id,
		thr_no,
		thr_nm,
		c_loop,
		c_exec,
		c_wait,
		c_l_sent_prioa,
		c_l_sent_priob,
		c_r_sent_prioa,
		c_r_sent_priob,
		os_tid,
		os_now,
		os_ru_utime,
		os_ru_stime,
		os_ru_minflt,
		os_ru_majflt,
		os_ru_nvcsw,
		os_ru_nivcsw
	FROM ndbinfo.threadstat;
''"

definition ndbinfoThreadstatDescLoops :: desc where [desc_def]:
  "ndbinfoThreadstatDescLoops = NewDesc (BuildFQName namespace ndbInfo ''threadstat_loops'')
     ''Number of loops in main loop.'' [''node_id'', ''thr_no'', ''thr_nm'', ''os_tid'']"

definition ndbinfoThreadstatDescSignalsExec :: desc where [desc_def]:
  "ndbinfoThreadstatDescSignalsExec = NewDesc (BuildFQName namespace ndbInfo ''threadstat_signals_exec'')
     ''Number of signals executed.'' [''node_id'', ''thr_no'', ''thr_nm'', ''os_tid'']"

definition ndbinfoThreadstatDescWaits :: desc where [desc_def]:
  "ndbinfoThreadstatDescWaits = NewDesc (BuildFQName namespace ndbInfo ''threadstat_waits'')
     ''Number of times waiting for additional input.'' [''node_id'', ''thr_no'', ''thr_nm'', ''os_tid'']"

definition ndbinfoThreadstatDescSignalsSentLocalPrioA :: desc where [desc_def]:
  "ndbinfoThreadstatDescSignalsSentLocalPrioA = NewDesc (BuildFQName namespace ndbInfo ''threadstat_signals_sent_local_prioa'')
     ''Number of priority A signals sent to own node.'' [''node_id'', ''thr_no'', ''thr_nm'', ''os_tid'']"

definition ndbinfoThreadstatDescSignalsSentLocalPrioB :: desc where [desc_def]:
  "ndbinfoThreadstatDescSignalsSentLocalPrioB = NewDesc (BuildFQName namespace ndbInfo ''threadstat_signals_sent_local_priob'')
     ''Number of priority B signals sent to own node.'' [''node_id'', ''thr_no'', ''thr_nm'', ''os_tid'']"

definition ndbinfoThreadstatDescSignalsSentRemotePrioA :: desc where [desc_def]:
  "ndbinfoThreadstatDescSignalsSentRemotePrioA = NewDesc (BuildFQName namespace ndbInfo ''threadstat_signals_sent_remote_prioa'')
     ''Number of priority A signals sent to remote node.'' [''node_id'', ''thr_no'', ''thr_nm'', ''os_tid'']"

definition ndbinfoThreadstatDescSignalsSentRemotePrioB :: desc where [desc_def]:
  "ndbinfoThreadstatDescSignalsSentRemotePrioB = NewDesc (BuildFQName namespace ndbInfo ''threadstat_signals_sent_remote_priob'')
     ''Number of priority B signals sent to remote node.'' [''node_id'', ''thr_no'', ''thr_nm'', ''os_tid'']"

definition ndbinfoThreadstatDescOsNow :: desc where [desc_def]:
  "ndbinfoThreadstatDescOsNow = NewDesc (BuildFQName namespace ndbInfo ''threadstat_os_now'')
     ''OS time (gettimeofday) in ms.'' [''node_id'', ''thr_no'', ''thr_nm'', ''os_tid'']"

definition ndbinfoThreadstatDescOsUtime :: desc where [desc_def]:
  "ndbinfoThreadstatDescOsUtime = NewDesc (BuildFQName namespace ndbInfo ''threadstat_os_utime'')
     (''OS user CPU time in '' @ [CHR 0xC2, CHR 0xB5] @ ''s.'') [''node_id'', ''thr_no'', ''thr_nm'', ''os_tid'']"

definition ndbinfoThreadstatDescOsStime :: desc where [desc_def]:
  "ndbinfoThreadstatDescOsStime = NewDesc (BuildFQName namespace ndbInfo ''threadstat_os_stime'')
     (''OS system CPU time in '' @ [CHR 0xC2, CHR 0xB5] @ ''s.'') [''node_id'', ''thr_no'', ''thr_nm'', ''os_tid'']"

definition ndbinfoThreadstatDescOsMinflt :: desc where [desc_def]:
  "ndbinfoThreadstatDescOsMinflt = NewDesc (BuildFQName namespace ndbInfo ''threadstat_os_minflt'')
     ''OS page reclaims (soft page faults).'' [''node_id'', ''thr_no'', ''thr_nm'', ''os_tid'']"

definition ndbinfoThreadstatDescOsMajflt :: desc where [desc_def]:
  "ndbinfoThreadstatDescOsMajflt = NewDesc (BuildFQName namespace ndbInfo ''threadstat_os_majflt'')
     ''OS page faults (hard page faults).'' [''node_id'', ''thr_no'', ''thr_nm'', ''os_tid'']"

definition ndbinfoThreadstatDescOsNvcsw :: desc where [desc_def]:
  "ndbinfoThreadstatDescOsNvcsw = NewDesc (BuildFQName namespace ndbInfo ''threadstat_os_nvcsw'')
     ''OS voluntary context switches.'' [''node_id'', ''thr_no'', ''thr_nm'', ''os_tid'']"

definition ndbinfoThreadstatDescOsNivcsw :: desc where [desc_def]:
  "ndbinfoThreadstatDescOsNivcsw = NewDesc (BuildFQName namespace ndbInfo ''threadstat_os_nivcsw'')
     ''OS involuntary context switches.'' [''node_id'', ''thr_no'', ''thr_nm'', ''os_tid'']"

lemma arity_ndbinfo_threadstat [simp, desc_arity]:
  "length (var_labels ndbinfoThreadstatDescLoops) = 4"
  "length (var_labels ndbinfoThreadstatDescSignalsExec) = 4"
  "length (var_labels ndbinfoThreadstatDescWaits) = 4"
  "length (var_labels ndbinfoThreadstatDescSignalsSentLocalPrioA) = 4"
  "length (var_labels ndbinfoThreadstatDescSignalsSentLocalPrioB) = 4"
  "length (var_labels ndbinfoThreadstatDescSignalsSentRemotePrioA) = 4"
  "length (var_labels ndbinfoThreadstatDescSignalsSentRemotePrioB) = 4"
  "length (var_labels ndbinfoThreadstatDescOsNow) = 4"
  "length (var_labels ndbinfoThreadstatDescOsUtime) = 4"
  "length (var_labels ndbinfoThreadstatDescOsStime) = 4"
  "length (var_labels ndbinfoThreadstatDescOsMinflt) = 4"
  "length (var_labels ndbinfoThreadstatDescOsMajflt) = 4"
  "length (var_labels ndbinfoThreadstatDescOsNvcsw) = 4"
  "length (var_labels ndbinfoThreadstatDescOsNivcsw) = 4"
  by (simp_all add: desc_def)

definition ScrapeNDBInfoThreadstat_Name :: string where "ScrapeNDBInfoThreadstat_Name = ndbInfo @ ''.threadstat''"

definition ScrapeNDBInfoThreadstat_Help :: string where "ScrapeNDBInfoThreadstat_Help = ''Collect metrics from ndbinfo.threadstat''"

definition ScrapeNDBInfoThreadstat_Version :: float64 where "ScrapeNDBInfoThreadstat_Version = f_lit 56 1"

definition ScrapeNDBInfoThreadstat_Verbose0_dests :: "dest list" where
  "ScrapeNDBInfoThreadstat_Verbose0_dests = [DStr, DStr, DStr, DU64, DU64, DU64, DStr, DU64, DU64, DU64, DU64]"

definition ScrapeNDBInfoThreadstat_Verbose0_row :: "gval list \<Rightarrow> metric list" where
  "ScrapeNDBInfoThreadstat_Verbose0_row vs =
     (let nodeID = g_str (vs ! 0);
          thrNo = g_str (vs ! 1);
          thrNm = g_str (vs ! 2);
          cLoop = g_u64 (vs ! 3);
          cExec = g_u64 (vs ! 4);
          cWait = g_u64 (vs ! 5);
          osTID = g_str (vs ! 6);
          osRuMinflt = g_u64 (vs ! 7);
          osRuMajflt = g_u64 (vs ! 8);
          osRuNvcsw = g_u64 (vs ! 9);
          osRuNivcsw = g_u64 (vs ! 10)
      in [ConstMetric ndbinfoThreadstatDescLoops CounterValue (f_of_u64 cLoop) [nodeID, thrNo, thrNm, osTID],
          ConstMetric ndbinfoThreadstatDescSignalsExec CounterValue (f_of_u64 cExec) [nodeID, thrNo, thrNm, osTID],
          ConstMetric ndbinfoThreadstatDescWaits CounterValue (f_of_u64 cWait) [nodeID, thrNo, thrNm, osTID],
          ConstMetric ndbinfoThreadstatDescOsMinflt CounterValue (f_of_u64 osRuMinflt) [nodeID, thrNo, thrNm, osTID],
          ConstMetric ndbinfoThreadstatDescOsMajflt CounterValue (f_of_u64 osRuMajflt) [nodeID, thrNo, thrNm, osTID],
          ConstMetric ndbinfoThreadstatDescOsNvcsw CounterValue (f_of_u64 osRuNvcsw) [nodeID, thrNo, thrNm, osTID],
          ConstMetric ndbinfoThreadstatDescOsNivcsw CounterValue (f_of_u64 osRuNivcsw) [nodeID, thrNo, thrNm, osTID]])"

definition ScrapeNDBInfoThreadstat_ScrapeVerbose0 :: "database \<Rightarrow> scrape_out" where
  "ScrapeNDBInfoThreadstat_ScrapeVerbose0 = table_scrape ndbinfoThreadstatQuery ScrapeNDBInfoThreadstat_Verbose0_dests ScrapeNDBInfoThreadstat_Verbose0_row"

interpretation tbl_threadstat_v0: table_scraper ndbinfoThreadstatQuery ScrapeNDBInfoThreadstat_Verbose0_dests ScrapeNDBInfoThreadstat_Verbose0_row
  by unfold_locales (simp add: ScrapeNDBInfoThreadstat_Verbose0_row_def Let_def wf_emit)

definition ScrapeNDBInfoThreadstat_Verbose1_dests :: "dest list" where
  "ScrapeNDBInfoThreadstat_Verbose1_dests = [DStr, DStr, DStr, DU64, DU64, DU64, DU64, DU64, DU64, DU64, DStr, DU64, DU64, DU64, DU64, DU64, DU64, DU64]"

definition ScrapeNDBInfoThreadstat_Verbose1_row :: "gval list \<Rightarrow> metric list" where
  "ScrapeNDBInfoThreadstat_Verbose1_row vs =
     (let nodeID = g_str (vs ! 0);
          thrNo = g_str (vs ! 1);
          thrNm = g_str (vs ! 2);
          cLoop = g_u64 (vs ! 3);
          cExec = g_u64 (vs ! 4);
          cWait = g_u64 (vs ! 5);
          cLSentPrioa = g_u64 (vs ! 6);
          cLSentPriob = g_u64 (vs ! 7);
          cRSentPrioa = g_u64 (vs ! 8);
          cRSentPriob = g_u64 (vs ! 9);
          osTID = g_str (vs ! 10);
          osNow = g_u64 (vs ! 11);
          osRuUtime = g_u64 (vs ! 12);
          osRuStime = g_u64 (vs ! 13);
          osRuMinflt = g_u64 (vs ! 14);
          osRuMajflt = g_u64 (vs ! 15);
          osRuNvcsw = g_u64 (vs ! 16);
          osRuNivcsw = g_u64 (vs ! 17)
      in [ConstMetric ndbinfoThreadstatDescLoops CounterValue (f_of_u64 cLoop) [nodeID, thrNo, thrNm, osTID],
          ConstMetric ndbinfoThreadstatDescSignalsExec CounterValue (f_of_u64 cExec) [nodeID, thrNo, thrNm, osTID],
          ConstMetric ndbinfoThreadstatDescWaits CounterValue (f_of_u64 cWait) [nodeID, thrNo, thrNm, osTID],
          ConstMetric ndbinfoThreadstatDescSignalsSentLocalPrioA CounterValue (f_of_u64 cLSentPrioa) [nodeID, thrNo, thrNm, osTID],
          ConstMetric ndbinfoThreadstatDescSignalsSentLocalPrioB CounterValue (f_of_u64 cLSentPriob) [nodeID, thrNo, thrNm, osTID],
          ConstMetric ndbinfoThreadstatDescSignalsSentRemotePrioA CounterValue (f_of_u64 cRSentPrioa) [nodeID, thrNo, thrNm, osTID],
          ConstMetric ndbinfoThreadstatDescSignalsSentRemotePrioB CounterValue (f_of_u64 cRSentPriob) [nodeID, thrNo, thrNm, osTID],
          ConstMetric ndbinfoThreadstatDescOsNow CounterValue (f_of_u64 osNow) [nodeID, thrNo, thrNm, osTID],
          ConstMetric ndbinfoThreadstatDescOsUtime CounterValue (f_of_u64 osRuUtime) [nodeID, thrNo, thrNm, osTID],
          ConstMetric ndbinfoThreadstatDescOsStime CounterValue (f_of_u64 osRuStime) [nodeID, thrNo, thrNm, osTID],
          ConstMetric ndbinfoThreadstatDescOsMinflt CounterValue (f_of_u64 osRuMinflt) [nodeID, thrNo, thrNm, osTID],
          ConstMetric ndbinfoThreadstatDescOsMajflt CounterValue (f_of_u64 osRuMajflt) [nodeID, thrNo, thrNm, osTID],
          ConstMetric ndbinfoThreadstatDescOsNvcsw CounterValue (f_of_u64 osRuNvcsw) [nodeID, thrNo, thrNm, osTID],
          ConstMetric ndbinfoThreadstatDescOsNivcsw CounterValue (f_of_u64 osRuNivcsw) [nodeID, thrNo, thrNm, osTID]])"

definition ScrapeNDBInfoThreadstat_ScrapeVerbose1 :: "database \<Rightarrow> scrape_out" where
  "ScrapeNDBInfoThreadstat_ScrapeVerbose1 = table_scrape ndbinfoThreadstatQueryFull ScrapeNDBInfoThreadstat_Verbose1_dests ScrapeNDBInfoThreadstat_Verbose1_row"

interpretation tbl_threadstat_v1: table_scraper ndbinfoThreadstatQueryFull ScrapeNDBInfoThreadstat_Verbose1_dests ScrapeNDBInfoThreadstat_Verbose1_row
  by unfold_locales (simp add: ScrapeNDBInfoThreadstat_Verbose1_row_def Let_def wf_emit)

definition ScrapeNDBInfoThreadstat_Scrape :: "string \<Rightarrow> database \<Rightarrow> scrape_out" where
  "ScrapeNDBInfoThreadstat_Scrape verbosity =
     (if verbosity = ''1'' then ScrapeNDBInfoThreadstat_ScrapeVerbose1
      else ScrapeNDBInfoThreadstat_ScrapeVerbose0)"

interpretation sw_threadstat: safe_scraper "ScrapeNDBInfoThreadstat_Scrape verbosity" for verbosity
  by unfold_locales
    (simp_all add: ScrapeNDBInfoThreadstat_Scrape_def ScrapeNDBInfoThreadstat_ScrapeVerbose1_def ScrapeNDBInfoThreadstat_ScrapeVerbose0_def
       tbl_threadstat_v1.sent_ok tbl_threadstat_v1.no_panic tbl_threadstat_v0.sent_ok tbl_threadstat_v0.no_panic)

subsection \<open>perf_schema_ndb_sync_excluded_objects.go\<close>

definition perfNDBSyncExcludedObjectsQuery :: string where
  "perfNDBSyncExcludedObjectsQuery = ''
	SELECT COUNT(*) AS object_count
	FROM performance_schema.ndb_sync_excluded_objects;
''"

definition perfNDBSyncExcludedObjectsDescExcludedObjects :: desc where [desc_def]:
  "perfNDBSyncExcludedObjectsDescExcludedObjects = NewDesc (BuildFQName namespace performanceSchema ''ndb_sync_excluded_objects_count'')
     (''Number of NDB database objects which cannot be automatically synchronized between NDB Cluster's dictionary and the MySQL data dictionary.'') []"

lemma arity_perf_schema_ndb_sync_excluded_objects [simp, desc_arity]:
  "length (var_labels perfNDBSyncExcludedObjectsDescExcludedObjects) = 0"
  by (simp_all add: desc_def)

definition ScrapePerfNDBSyncExcludedObjects_Name :: string where "ScrapePerfNDBSyncExcludedObjects_Name = performanceSchema @ ''.ndb_sync_excluded_objects''"

definition ScrapePerfNDBSyncExcludedObjects_Help :: string where "ScrapePerfNDBSyncExcludedObjects_Help = ''Collect metrics from performance_schema.ndb_sync_excluded_objects''"

definition ScrapePerfNDBSyncExcludedObjects_Version :: float64 where "ScrapePerfNDBSyncExcludedObjects_Version = f_lit 80 1"

definition ScrapePerfNDBSyncExcludedObjects_dests :: "dest list" where
  "ScrapePerfNDBSyncExcludedObjects_dests = [DU64]"

definition ScrapePerfNDBSyncExcludedObjects_row :: "gval list \<Rightarrow> metric list" where
  "ScrapePerfNDBSyncExcludedObjects_row vs =
     (let objectCount = g_u64 (vs ! 0)
      in [ConstMetric perfNDBSyncExcludedObjectsDescExcludedObjects GaugeValue (f_of_u64 objectCount) []])"

definition ScrapePerfNDBSyncExcludedObjects_Scrape :: "database \<Rightarrow> scrape_out" where
  "ScrapePerfNDBSyncExcludedObjects_Scrape = table_scrape perfNDBSyncExcludedObjectsQuery ScrapePerfNDBSyncExcludedObjects_dests ScrapePerfNDBSyncExcludedObjects_row"

interpretation tbl_perf_ndbsync_excluded_objects: table_scraper perfNDBSyncExcludedObjectsQuery ScrapePerfNDBSyncExcludedObjects_dests ScrapePerfNDBSyncExcludedObjects_row
  by unfold_locales (simp add: ScrapePerfNDBSyncExcludedObjects_row_def Let_def wf_emit)

subsection \<open>perf_schema_ndb_sync_pending_objects.go\<close>

definition perfNDBSyncPendingObjectsQuery :: string where
  "perfNDBSyncPendingObjectsQuery = ''
	SELECT COUNT(*) AS object_count
	FROM performance_schema.ndb_sync_pending_objects;
''"

definition perfNDBSyncPendingObjectsDescPendingObjects :: desc where [desc_def]:
  "perfNDBSyncPendingObjectsDescPendingObjects = NewDesc (BuildFQName namespace performanceSchema ''ndb_sync_pending_objects_count'')
     ''Number of NDB database objects for which mismatches have been detected and which are waiting to be synchronized.'' []"

lemma arity_perf_schema_ndb_sync_pending_objects [simp, desc_arity]:
  "length (var_labels perfNDBSyncPendingObjectsDescPendingObjects) = 0"
  by (simp_all add: desc_def)

definition ScrapePerfNDBSyncPendingObjects_Name :: string where "ScrapePerfNDBSyncPendingObjects_Name = performanceSchema @ ''.ndb_sync_pending_objects''"

definition ScrapePerfNDBSyncPendingObjects_Help :: string where "ScrapePerfNDBSyncPendingObjects_Help = ''Collect metrics from performance_schema.ndb_sync_pending_objects''"

definition ScrapePerfNDBSyncPendingObjects_Version :: float64 where "ScrapePerfNDBSyncPendingObjects_Version = f_lit 80 1"

definition ScrapePerfNDBSyncPendingObjects_dests :: "dest list" where
  "ScrapePerfNDBSyncPendingObjects_dests = [DU64]"

definition ScrapePerfNDBSyncPendingObjects_row :: "gval list \<Rightarrow> metric list" where
  "ScrapePerfNDBSyncPendingObjects_row vs =
     (let objectCount = g_u64 (vs ! 0)
      in [ConstMetric perfNDBSyncPendingObjectsDescPendingObjects GaugeValue (f_of_u64 objectCount) []])"

definition ScrapePerfNDBSyncPendingObjects_Scrape :: "database \<Rightarrow> scrape_out" where
  "ScrapePerfNDBSyncPendingObjects_Scrape = table_scrape perfNDBSyncPendingObjectsQuery ScrapePerfNDBSyncPendingObjects_dests ScrapePerfNDBSyncPendingObjects_row"

interpretation tbl_perf_ndbsync_pending_objects: table_scraper perfNDBSyncPendingObjectsQuery ScrapePerfNDBSyncPendingObjects_dests ScrapePerfNDBSyncPendingObjects_row
  by unfold_locales (simp add: ScrapePerfNDBSyncPendingObjects_row_def Let_def wf_emit)


end
