(* ===== verification/NdbStatus.thy ===== *)
theory NdbStatus
  imports NdbBase
begin

text \<open>
  NDB scrapers that turn states into numbers (\<open>ndbinfo_membership.go\<close>, \<open>ndbinfo_nodes.go\<close>,
  \<open>ndbinfo_table_distribution_status.go\<close>) and the scraper of the transporters, which keeps a
  flag across scrapes (\<open>ndbinfo_transporters.go\<close>).
\<close>

subsection \<open>ndbinfo_membership.go\<close>

definition ndbinfoMembershipQuery :: string where
  "ndbinfoMembershipQuery = ''
	SELECT
		node_id,
		group_id,
		president,
		successor,
		arbitrator,
		CONV(arb_ticket, 16, 10) as arb_ticket_dec,
		arb_state,
		arb_connected
	FROM ndbinfo.membership;
''"

definition ndbinfoMembershipDescPresident :: desc where [desc_def]:
  "ndbinfoMembershipDescPresident = NewDesc (BuildFQName namespace ndbInfo ''membership_president'')
     ''The ID of the other node that this node sees as president.'' [''node_id'', ''group_id'']"

definition ndbinfoMembershipDescSuccessor :: desc where [desc_def]:
  "ndbinfoMembershipDescSuccessor = NewDesc (BuildFQName namespace ndbInfo ''membership_successor'')
     ''The ID of the other node that this node sees as successor of president.'' [''node_id'', ''group_id'']"

definition ndbinfoMembershipDescArbitrator :: desc where [desc_def]:
  "ndbinfoMembershipDescArbitrator = NewDesc (BuildFQName namespace ndbInfo ''membership_arbitrator'')
     ''The ID of the other node that this node sees as arbitrator.'' [''node_id'', ''group_id'']"

definition ndbinfoMembershipDescArbTicket :: desc where [desc_def]:
  "ndbinfoMembershipDescArbTicket = NewDesc (BuildFQName namespace ndbInfo ''membership_arb_ticket'')
     ''Internal identifier used to track arbitration of this node.'' [''node_id'', ''group_id'']"

definition ndbinfoMembershipDescArbState :: desc where [desc_def]:
  "ndbinfoMembershipDescArbState = NewDesc (BuildFQName namespace ndbInfo ''membership_arb_state'')
     ''Arbitration state of this node. Values are; 0=NULL 1=INIT 2=FIND 3=PREP1 4=PREP2 5=START 6=RUN 7=CHOOSE 8=CRASH'' [''node_id'', ''group_id'']"

definition ndbinfoMembershipDescArbConnected :: desc where [desc_def]:
  "ndbinfoMembershipDescArbConnected = NewDesc (BuildFQName namespace ndbInfo ''membership_arb_connected'')
     ''Whether this node is connected to the arbitrator node; either of 1 (yes) or 0 (no) or -1 (unknown).'' [''node_id'', ''group_id'']"

lemma arity_ndbinfo_membership [simp, desc_arity]:
  "length (var_labels ndbinfoMembershipDescPresident) = 2"
  "length (var_labels ndbinfoMembershipDescSuccessor) = 2"
  "length (var_labels ndbinfoMembershipDescArbitrator) = 2"
  "length (var_labels ndbinfoMembershipDescArbTicket) = 2"
  "length (var_labels ndbinfoMembershipDescArbState) = 2"
  "length (var_labels ndbinfoMembershipDescArbConnected) = 2"
  by (simp_all add: desc_def)

definition ScrapeNDBInfoMembership_Name :: string where "ScrapeNDBInfoMembership_Name = ndbInfo @ ''.membership''"

definition ScrapeNDBInfoMembership_Help :: string where "ScrapeNDBInfoMembership_Help = ''Collect metrics from ndbinfo.membership''"

definition ScrapeNDBInfoMembership_Version :: float64 where "ScrapeNDBInfoMembership_Version = f_lit 56 1"

definition ndbinfoMembershipArbStateToNumber :: "string \<Rightarrow> float64" where
  "ndbinfoMembershipArbStateToNumber state =
     (if state = ''ARBIT_NULL'' then f_of_int 0
      else if state = ''ARBIT_INIT'' then f_of_int 1
      else if state = ''ARBIT_FIND'' then f_of_int 2
      else if state = ''ARBIT_PREP1'' then f_of_int 3
      else if state = ''ARBIT_PREP2'' then f_of_int 4
      else if state = ''ARBIT_START'' then f_of_int 5
      else if state = ''ARBIT_RUN'' then f_of_int 6
      else if state = ''ARBIT_CHOOSE'' then f_of_int 7
      else if state = ''ARBIT_CRASH'' then f_of_int 8
      else f_of_int (-1))"

definition ndbinfoMembershipArbConnectedToNumber :: "string \<Rightarrow> float64" where
  "ndbinfoMembershipArbConnectedToNumber state =
     (if state = ''Yes'' then f_of_int 1
      else if state = ''No'' then f_of_int 0
      else f_of_int (-1))"

definition ScrapeNDBInfoMembership_dests :: "dest list" where
  "ScrapeNDBInfoMembership_dests = [DStr, DStr, DU64, DU64, DU64, DU64, DStr, DStr]"

definition ScrapeNDBInfoMembership_row :: "gval list \<Rightarrow> metric list" where
  "ScrapeNDBInfoMembership_row vs =
     (let nodeID = g_str (vs ! 0);
          groupID = g_str (vs ! 1);
          president = g_u64 (vs ! 2);
          successor = g_u64 (vs ! 3);
          arbitrator = g_u64 (vs ! 4);
          arbTicketDec = g_u64 (vs ! 5);
          arbState = g_str (vs ! 6);
          arbConnected = g_str (vs ! 7)
      in [ConstMetric ndbinfoMembershipDescPresident GaugeValue (f_of_u64 president) [nodeID, groupID],
          ConstMetric ndbinfoMembershipDescSuccessor GaugeValue (f_of_u64 successor) [nodeID, groupID],
          ConstMetric ndbinfoMembershipDescArbitrator GaugeValue (f_of_u64 arbitrator) [nodeID, groupID],
          ConstMetric ndbinfoMembershipDescArbTicket GaugeValue (f_of_u64 arbTicketDec) [nodeID, groupID],
          ConstMetric ndbinfoMembershipDescArbState GaugeValue (ndbinfoMembershipArbStateToNumber arbState) [nodeID, groupID],
          ConstMetric ndbinfoMembershipDescArbConnected GaugeValue (ndbinfoMembershipArbConnectedToNumber arbConnected) [nodeID, groupID]])"

definition ScrapeNDBInfoMembership_Scrape :: "database \<Rightarrow> scrape_out" where
  "ScrapeNDBInfoMembership_Scrape = table_scrape ndbinfoMembershipQuery ScrapeNDBInfoMembership_dests ScrapeNDBInfoMembership_row"

interpretation tbl_membership: table_scraper ndbinfoMembershipQuery ScrapeNDBInfoMembership_dests ScrapeNDBInfoMembership_row
  by unfold_locales (simp add: ScrapeNDBInfoMembership_row_def Let_def wf_emit)


subsection \<open>ndbinfo_nodes.go\<close>

definition ndbinfoNodesQuery :: string where
  "ndbinfoNodesQuery = ''
	SELECT
		node_id,
		uptime,
		status,
		start_phase,
		config_generation
	FROM ndbinfo.nodes;
''"

definition ndbinfoNodesDescUptime :: desc where [desc_def]:
  "ndbinfoNodesDescUptime = NewDesc (BuildFQName namespace ndbInfo ''nodes_uptime'')
     ''Time since the node was last started, in seconds.'' [''node_id'']"

definition ndbinfoNodesDescStatus :: desc where [desc_def]:
  "ndbinfoNodesDescStatus = NewDesc (BuildFQName namespace ndbInfo ''nodes_status'')
     ''Current status of the data node. Values are; 0=NOTHING 1=CMVMI 2=STARTING 3=STARTED 4=SINGLEUSER 5=STOPPING_1 6=STOPPING_2 7=STOPPING_3 8=STOPPING_4'' [''node_id'']"

definition ndbinfoNodesDescConfigGeneration :: desc where [desc_def]:
  "ndbinfoNodesDescConfigGeneration = NewDesc (BuildFQName namespace ndbInfo ''nodes_config_generation'')
     ''The version of the cluster configuration file in use on this data node.'' [''node_id'']"

lemma arity_ndbinfo_nodes [simp, desc_arity]:
  "length (var_labels ndbinfoNodesDescUptime) = 1"
  "length (var_labels ndbinfoNodesDescStatus) = 1"
  "length (var_labels ndbinfoNodesDescConfigGeneration) = 1"
  by (simp_all add: desc_def)

definition ScrapeNDBInfoNodes_Name :: string where "ScrapeNDBInfoNodes_Name = ndbInfo @ ''.nodes''"

definition ScrapeNDBInfoNodes_Help :: string where "ScrapeNDBInfoNodes_Help = ''Collect metrics from ndbinfo.nodes''"

definition ScrapeNDBInfoNodes_Version :: float64 where "ScrapeNDBInfoNodes_Version = f_lit 56 1"

text \<open>\<open>2.%d\<close> of a positive start phase; an error of \<open>ParseFloat\<close> is dropped.\<close>

definition ndbinfoNodesStatusToNumber :: "string \<Rightarrow> u64 \<Rightarrow> float64" where
  "ndbinfoNodesStatusToNumber status startPhase =
     (if status = ''NOTHING'' then f_of_int 0
      else if status = ''CMVMI'' then f_of_int 1
      else if status = ''STARTING'' then
        (if sint startPhase \<le> 0 then f_of_int 2
         else fst (strconv_ParseFloat (''2.'' @ strconv_Itoa (sint startPhase))))
      else if status = ''STARTED'' then f_of_int 3
      else if status = ''SINGLEUSER'' then f_of_int 4
      else if status = ''STOPPING_1'' then f_of_int 5
      else if status = ''STOPPING_2'' then f_of_int 6
      else if status = ''STOPPING_3'' then f_of_int 7
      else if status = ''STOPPING_4'' then f_of_int 8
      else f_of_int (-1))"

definition ScrapeNDBInfoNodes_dests :: "dest list" where
  "ScrapeNDBInfoNodes_dests = [DStr, DU64, DStr, DI64, DU64]"

definition ScrapeNDBInfoNodes_row :: "gval list \<Rightarrow> metric list" where
  "ScrapeNDBInfoNodes_row vs =
     (let nodeID = g_str (vs ! 0);
          uptime = g_u64 (vs ! 1);
          status = g_str (vs ! 2);
          startPhase = g_i64 (vs ! 3);
          configGeneration = g_u64 (vs ! 4)
      in [ConstMetric ndbinfoNodesDescUptime CounterValue (f_of_u64 uptime) [nodeID],
          ConstMetric ndbinfoNodesDescStatus GaugeValue (ndbinfoNodesStatusToNumber status startPhase) [nodeID],
          ConstMetric ndbinfoNodesDescConfigGeneration GaugeValue (f_of_u64 configGeneration) [nodeID]])"

definition ScrapeNDBInfoNodes_Scrape :: "database \<Rightarrow> scrape_out" where
  "ScrapeNDBInfoNodes_Scrape = table_scrape ndbinfoNodesQuery ScrapeNDBInfoNodes_dests ScrapeNDBInfoNodes_row"

interpretation tbl_nodes: table_scraper ndbinfoNodesQuery ScrapeNDBInfoNodes_dests ScrapeNDBInfoNodes_row
  by unfold_locales (simp add: ScrapeNDBInfoNodes_row_def Let_def wf_emit)


subsection \<open>ndbinfo_table_distribution_status.go\<close>

definition ndbinfoTableDistributionQuery :: string where
  "ndbinfoTableDistributionQuery = ''
	SELECT
		node_id,
		table_id,
		tab_copy_status,
		tab_update_status,
		tab_lcp_status,
		tab_status,
		tab_partitions,
		tab_fragments,
		current_scan_count,
		scan_count_wait,
		is_reorg_ongoing
	FROM ndbinfo.table_distribution_status;
''"

definition ndbinfoTableDistributionDescCopyStatus :: desc where [desc_def]:
  "ndbinfoTableDistributionDescCopyStatus = NewDesc (BuildFQName namespace ndbInfo ''table_distribution_copy_status'')
     ''Status of copying of table distribution data to disk. Values are; 0=IDLE 1=SR_PHASE1_READ_PAGES 2=SR_PHASE2_READ_TABLE 3=SR_PHASE3_COPY_TABLE 4=REMOVE_NODE 5=LCP_READ_TABLE 6=COPY_TAB_REQ 7=COPY_NODE_STATE 8=ADD_TABLE_COORDINATOR 9=ADD_TABLE_PARTICIPANT 10=INVALIDATE_NODE_LCP 11=ALTER_TABLE 12=COPY_TO_SAVE 13=GET_TABINFO'' [''node_id'', ''table_id'']"

definition ndbinfoTableDistributionDescUpdateStatus :: desc where [desc_def]:
  "ndbinfoTableDistributionDescUpdateStatus = NewDesc (BuildFQName namespace ndbInfo ''table_distribution_update_status'')
     ''Status of updating of table distribution data. Values are; 0=IDLE 1=LOCAL_CHECKPOINT 2=LOCAL_CHECKPOINT_QUEUED 3=REMOVE_NODE 4=COPY_TAB_REQ 5=ADD_TABLE_COORDINATOR 6=ADD_TABLE_PARTICIPANT 7=INVALIDATE_NODE_LCP 8=CALLBACK'' [''node_id'', ''table_id'']"

definition ndbinfoTableDistributionDescLCPStatus :: desc where [desc_def]:
  "ndbinfoTableDistributionDescLCPStatus = NewDesc (BuildFQName namespace ndbInfo ''table_distribution_lcp_status'')
     ''Status of table LCP. Values are; 1=ACTIVE 2=wRITING_TO_FILE 3=COMPLETED'' [''node_id'', ''table_id'']"

definition ndbinfoTableDistributionDescStatus :: desc where [desc_def]:
  "ndbinfoTableDistributionDescStatus = NewDesc (BuildFQName namespace ndbInfo ''table_distribution_status'')
     ''Table internal status. Values are; 0=IDLE 1=ACTIVE 2=CREATING 3=DROPPING'' [''node_id'', ''table_id'']"

definition ndbinfoTableDistributionDescPartitions :: desc where [desc_def]:
  "ndbinfoTableDistributionDescPartitions = NewDesc (BuildFQName namespace ndbInfo ''table_distribution_partitions'')
     ''Number of partitions in table.'' [''node_id'', ''table_id'']"

definition ndbinfoTableDistributionDescFragments :: desc where [desc_def]:
  "ndbinfoTableDistributionDescFragments = NewDesc (BuildFQName namespace ndbInfo ''table_distribution_fragments'')
     ''Number of fragments in table.'' [''node_id'', ''table_id'']"

definition ndbinfoTableDistributionDescScansCurrent :: desc where [desc_def]:
  "ndbinfoTableDistributionDescScansCurrent = NewDesc (BuildFQName namespace ndbInfo ''table_distribution_scans_current'')
     ''Current number of active scans.'' [''node_id'', ''table_id'']"

definition ndbinfoTableDistributionDescScansWaiting :: desc where [desc_def]:
  "ndbinfoTableDistributionDescScansWaiting = NewDesc (BuildFQName namespace ndbInfo ''table_distribution_scans_waiting'')
     ''Current number of scans waiting to be performed before ALTER TABLE can complete.'' [''node_id'', ''table_id'']"

definition ndbinfoTableDistributionDescReorgOngoing :: desc where [desc_def]:
  "ndbinfoTableDistributionDescReorgOngoing = NewDesc (BuildFQName namespace ndbInfo ''table_distribution_reorg_ongoing'')
     ''Whether the table is currently being reorganized; 1=yes 0=no'' [''node_id'', ''table_id'']"

lemma arity_ndbinfo_table_distribution_status [simp, desc_arity]:
  "length (var_labels ndbinfoTableDistributionDescCopyStatus) = 2"
  "length (var_labels ndbinfoTableDistributionDescUpdateStatus) = 2"
  "length (var_labels ndbinfoTableDistributionDescLCPStatus) = 2"
  "length (var_labels ndbinfoTableDistributionDescStatus) = 2"
  "length (var_labels ndbinfoTableDistributionDescPartitions) = 2"
  "length (var_labels ndbinfoTableDistributionDescFragments) = 2"
  "length (var_labels ndbinfoTableDistributionDescScansCurrent) = 2"
  "length (var_labels ndbinfoTableDistributionDescScansWaiting) = 2"
  "length (var_labels ndbinfoTableDistributionDescReorgOngoing) = 2"
  by (simp_all add: desc_def)

definition ScrapeNDBInfoTableDistribution_Name :: string where "ScrapeNDBInfoTableDistribution_Name = ndbInfo @ ''.table_distribution_status''"

definition ScrapeNDBInfoTableDistribution_Help :: string where "ScrapeNDBInfoTableDistribution_Help = ''Collect metrics from ndbinfo.table_distribution_status''"

definition ScrapeNDBInfoTableDistribution_Version :: float64 where "ScrapeNDBInfoTableDistribution_Version = f_lit 57 1"

definition ndbinfoTableDistributionCopyStatusToNumber :: "string \<Rightarrow> float64" where
  "ndbinfoTableDistributionCopyStatusToNumber status =
     (if status = ''IDLE'' then f_of_int 0
      else if status = ''SR_PHASE1_READ_PAGES'' then f_of_int 1
      else if status = ''SR_PHASE2_READ_TABLE'' then f_of_int 2
      else if status = ''SR_PHASE3_COPY_TABLE'' then f_of_int 3
      else if status = ''REMOVE_NODE'' then f_of_int 4
      else if status = ''LCP_READ_TABLE'' then f_of_int 5
      else if status = ''COPY_TAB_REQ'' then f_of_int 6
      else if status = ''COPY_NODE_STATE'' then f_of_int 7
      else if status = ''ADD_TABLE_COORDINATOR'' then f_of_int 8
      else if status = ''ADD_TABLE_PARTICIPANT'' then f_of_int 9
      else if status = ''INVALIDATE_NODE_LCP'' then f_of_int 10
      else if status = ''ALTER_TABLE'' then f_of_int 11
      else if status = ''COPY_TO_SAVE'' then f_of_int 12
      else if status = ''GET_TABINFO'' then f_of_int 13
      else f_of_int (-1))"

definition ndbinfoTableDistributionUpdateStatusToNumber :: "string \<Rightarrow> float64" where
  "ndbinfoTableDistributionUpdateStatusToNumber status =
     (if status = ''IDLE'' then f_of_int 0
      else if status = ''LOCAL_CHECKPOINT'' then f_of_int 1
      else if status = ''LOCAL_CHECKPOINT_QUEUED'' then f_of_int 2
      else if status = ''REMOVE_NODE'' then f_of_int 3
      else if status = ''COPY_TAB_REQ'' then f_of_int 4
      else if status = ''ADD_TABLE_COORDINATOR'' then f_of_int 5
      else if status = ''ADD_TABLE_PARTICIPANT'' then f_of_int 6
      else if status = ''INVALIDATE_NODE_LCP'' then f_of_int 7
      else if status = ''CALLBACK'' then f_of_int 8
      else f_of_int (-1))"

definition ndbinfoTableDistributionLCPStatusToNumber :: "string \<Rightarrow> float64" where
  "ndbinfoTableDistributionLCPStatusToNumber status =
     (if status = ''ACTIVE'' then f_of_int 1
      else if status = ''wRITING_TO_FILE'' then f_of_int 2
      else if status = ''COMPLETED'' then f_of_int 3
      else f_of_int (-1))"

definition ndbinfoTableDistributionStatusToNumber :: "string \<Rightarrow> float64" where
  "ndbinfoTableDistributionStatusToNumber status =
     (if status = ''IDLE'' then f_of_int 0
      else if status = ''ACTIVE'' then f_of_int 1
      else if status = ''CREATING'' then f_of_int 2
      else if status = ''DROPPING'' then f_of_int 3
      else f_of_int (-1))"

definition ScrapeNDBInfoTableDistribution_dests :: "dest list" where
  "ScrapeNDBInfoTableDistribution_dests = [DStr, DStr, DStr, DStr, DStr, DStr, DU64, DU64, DU64, DU64, DU8]"

text \<open>\<open>skip_idle\<close> is the flag of that name.\<close>

definition ScrapeNDBInfoTableDistribution_row :: "bool \<Rightarrow> gval list \<Rightarrow> metric list" where
  "ScrapeNDBInfoTableDistribution_row skip_idle vs =
     (let nodeID = g_str (vs ! 0);
          tableID = g_str (vs ! 1);
          copyStatus = ndbinfoTableDistributionCopyStatusToNumber (g_str (vs ! 2));
          updateStatus = ndbinfoTableDistributionUpdateStatusToNumber (g_str (vs ! 3));
          lcpStatus = ndbinfoTableDistributionLCPStatusToNumber (g_str (vs ! 4));
          status = ndbinfoTableDistributionStatusToNumber (g_str (vs ! 5));
          tabPartitions = g_u64 (vs ! 6);
          tabFragments = g_u64 (vs ! 7);
          currentScanCount = g_u64 (vs ! 8);
          scanCountWait = g_u64 (vs ! 9);
          isReorgOngoing = g_u8 (vs ! 10)
      in (if \<not> skip_idle \<or> \<not> f_eq copyStatus (f_of_int 0)
          then [ConstMetric ndbinfoTableDistributionDescCopyStatus GaugeValue copyStatus [nodeID, tableID]] else []) @
         (if \<not> skip_idle \<or> \<not> f_eq updateStatus (f_of_int 0)
          then [ConstMetric ndbinfoTableDistributionDescUpdateStatus GaugeValue updateStatus [nodeID, tableID]] else []) @
         (if \<not> skip_idle \<or> \<not> f_eq lcpStatus (f_of_int 3)
          then [ConstMetric ndbinfoTableDistributionDescLCPStatus GaugeValue lcpStatus [nodeID, tableID]] else []) @
         (if \<not> skip_idle \<or> \<not> f_eq status (f_of_int 0)
          then [ConstMetric ndbinfoTableDistributionDescStatus GaugeValue status [nodeID, tableID]] else []) @
         [ConstMetric ndbinfoTableDistributionDescPartitions GaugeValue (f_of_u64 tabPartitions) [nodeID, tableID],
          ConstMetric ndbinfoTableDistributionDescFragments GaugeValue (f_of_u64 tabFragments) [nodeID, tableID],
          ConstMetric ndbinfoTableDistributionDescScansCurrent GaugeValue (f_of_u64 currentScanCount) [nodeID, tableID],
          ConstMetric ndbinfoTableDistributionDescScansWaiting GaugeValue (f_of_u64 scanCountWait) [nodeID, tableID],
          ConstMetric ndbinfoTableDistributionDescReorgOngoing GaugeValue (f_of_u8 isReorgOngoing) [nodeID, tableID]])"

definition ScrapeNDBInfoTableDistribution_Scrape :: "bool \<Rightarrow> database \<Rightarrow> scrape_out" where
  "ScrapeNDBInfoTableDistribution_Scrape skip_idle =
     table_scrape ndbinfoTableDistributionQuery ScrapeNDBInfoTableDistribution_dests
       (ScrapeNDBInfoTableDistribution_row skip_idle)"

interpretation tbl_table_distribution: table_scraper ndbinfoTableDistributionQuery
  ScrapeNDBInfoTableDistribution_dests "ScrapeNDBInfoTableDistribution_row skip_idle" for skip_idle
  by unfold_locales (simp add: ScrapeNDBInfoTableDistribution_row_def Let_def wf_emit)

subsection \<open>ndbinfo_transporters.go\<close>

definition ndbinfoTransportersQuerySelectFields :: string where
  "ndbinfoTransportersQuerySelectFields = ''
	node_id,
	remote_node_id,
	status,
	remote_address,
	bytes_sent,
	bytes_received,
	overloaded,
	slowdown
''"

definition ndbinfoTransportersQueryTemplate :: string where
  "ndbinfoTransportersQueryTemplate = ''
	SELECT %s
	FROM ndbinfo.transporters;
''"

definition ndbinfoTransportersDescStatus :: desc where [desc_def]:
  "ndbinfoTransportersDescStatus = NewDesc (BuildFQName namespace ndbInfo ''transporters_status'')
     ''Current status of connection. Values are; 0=CONNECTED 1=CONNECTING 2=DISCONNECTED 3=DISCONNECTING'' [''node_id'', ''remote_node_id'', ''remote_address'']"

definition ndbinfoTransportersDescBytesSent :: desc where [desc_def]:
  "ndbinfoTransportersDescBytesSent = NewDesc (BuildFQName namespace ndbInfo ''transporters_bytes_sent'')
     ''Number of bytes sent using this connection.'' [''node_id'', ''remote_node_id'']"

definition ndbinfoTransportersDescBytesReceived :: desc where [desc_def]:
  "ndbinfoTransportersDescBytesReceived = NewDesc (BuildFQName namespace ndbInfo ''transporters_bytes_received'')
     ''Number of bytes received using this connection.'' [''node_id'', ''remote_node_id'']"

definition ndbinfoTransportersDescOverloaded :: desc where [desc_def]:
  "ndbinfoTransportersDescOverloaded = NewDesc (BuildFQName namespace ndbInfo ''transporters_overloaded'')
     ''1 if this transporter is currently overloaded, otherwise 0.'' [''node_id'', ''remote_node_id'']"

definition ndbinfoTransportersDescSlowdown :: desc where [desc_def]:
  "ndbinfoTransportersDescSlowdown = NewDesc (BuildFQName namespace ndbInfo ''transporters_slowdown'')
     ''1 if this transporter is in slowdown state, otherwise 0.'' [''node_id'', ''remote_node_id'']"

definition ndbinfoTransportersDescEncrypted :: desc where [desc_def]:
  "ndbinfoTransportersDescEncrypted = NewDesc (BuildFQName namespace ndbInfo ''transporters_encrypted'')
     ''If this transporter is connected using TLS, this column is 1, otherwise it is 0.'' [''node_id'', ''remote_node_id'']"

lemma arity_ndbinfo_transporters [simp, desc_arity]:
  "length (var_labels ndbinfoTransportersDescStatus) = 3"
  "length (var_labels ndbinfoTransportersDescBytesSent) = 2"
  "length (var_labels ndbinfoTransportersDescBytesReceived) = 2"
  "length (var_labels ndbinfoTransportersDescOverloaded) = 2"
  "length (var_labels ndbinfoTransportersDescSlowdown) = 2"
  "length (var_labels ndbinfoTransportersDescEncrypted) = 2"
  by (simp_all add: desc_def)

definition ScrapeNDBInfoTransporters_Name :: string where "ScrapeNDBInfoTransporters_Name = ndbInfo @ ''.transporters''"

definition ScrapeNDBInfoTransporters_Help :: string where "ScrapeNDBInfoTransporters_Help = ''Collect metrics from ndbinfo.transporters''"

definition ScrapeNDBInfoTransporters_Version :: float64 where "ScrapeNDBInfoTransporters_Version = f_lit 56 1"

definition ndbinfoTransportersStatusToNumber :: "string \<Rightarrow> float64" where
  "ndbinfoTransportersStatusToNumber status =
     (if status = ''CONNECTED'' then f_of_int 0
      else if status = ''CONNECTING'' then f_of_int 1
      else if status = ''DISCONNECTED'' then f_of_int 2
      else if status = ''DISCONNECTING'' then f_of_int 3
      else f_of_int (-1))"

text \<open>
  \<open>transporters_query\<close> is \<open>fmt.Sprintf(ndbinfoTransportersQueryTemplate, s)\<close>.
  \<open>ndbinfoTransportersQueryDB\<close>, with the package variable
  \<open>ndbinfoTransportersScrapeEncrypted\<close> passed in and returned. The call that retries does so
  with the flag off, so the recursion is one step deep.
\<close>

definition transporters_query :: "string \<Rightarrow> string" where
  "transporters_query s = strings_ReplaceAll ndbinfoTransportersQueryTemplate ''%s'' s"

definition ndbinfoTransportersQueryDB :: "bool \<Rightarrow> database \<Rightarrow> (go_err + rowset) \<times> bool" where
  "ndbinfoTransportersQueryDB encrypted db =
     (if encrypted then
        (case db 0 (transporters_query (ndbinfoTransportersQuerySelectFields @ '', encrypted'')) [] of
           Inr rows \<Rightarrow> (Inr rows, True)
         | Inl e \<Rightarrow> (db 1 (transporters_query ndbinfoTransportersQuerySelectFields) [], False))
      else (db 0 (transporters_query ndbinfoTransportersQuerySelectFields) [], False))"

definition ScrapeNDBInfoTransporters_dests :: "bool \<Rightarrow> dest list" where
  "ScrapeNDBInfoTransporters_dests encrypted =
     [DStr, DStr, DStr, DStr, DU64, DU64, DU8, DU8] @ (if encrypted then [DU8] else [])"

definition ScrapeNDBInfoTransporters_row :: "bool \<Rightarrow> gval list \<Rightarrow> metric list" where
  "ScrapeNDBInfoTransporters_row scrapeEncrypted vs =
     (let nodeID = g_str (vs ! 0);
          remoteNodeID = g_str (vs ! 1);
          status = g_str (vs ! 2);
          remoteAddress = g_str (vs ! 3);
          bytesSent = g_u64 (vs ! 4);
          bytesReceived = g_u64 (vs ! 5);
          overloaded = g_u8 (vs ! 6);
          slowdown = g_u8 (vs ! 7)
      in if remoteAddress = ''-'' \<and> status = ''CONNECTING'' then []
         else [ConstMetric ndbinfoTransportersDescStatus GaugeValue (ndbinfoTransportersStatusToNumber status)
                 [nodeID, remoteNodeID, remoteAddress],
               ConstMetric ndbinfoTransportersDescBytesSent CounterValue (f_of_u64 bytesSent) [nodeID, remoteNodeID],
               ConstMetric ndbinfoTransportersDescBytesReceived CounterValue (f_of_u64 bytesReceived) [nodeID, remoteNodeID],
               ConstMetric ndbinfoTransportersDescOverloaded GaugeValue (f_of_u8 overloaded) [nodeID, remoteNodeID],
               ConstMetric ndbinfoTransportersDescSlowdown GaugeValue (f_of_u8 slowdown) [nodeID, remoteNodeID]] @
              (if scrapeEncrypted
               then [ConstMetric ndbinfoTransportersDescEncrypted GaugeValue (f_of_u8 (g_u8 (vs ! 8)))
                       [nodeID, remoteNodeID]]
               else []))"

text \<open>
  One scrape, run alone: the flag it leaves is the one it read the rows with. (Two scrapes at
  once share the flag without a lock; that race is not modelled.)
\<close>

definition ScrapeNDBInfoTransporters_Scrape :: "bool \<Rightarrow> database \<Rightarrow> scrape_out \<times> bool" where
  "ScrapeNDBInfoTransporters_Scrape scrapeEncrypted db =
     (case ndbinfoTransportersQueryDB scrapeEncrypted db of
        (Inl e, scrapeEncrypted') \<Rightarrow> (([], Failed e), scrapeEncrypted')
      | (Inr rows, scrapeEncrypted') \<Rightarrow>
          (each_row (ScrapeNDBInfoTransporters_dests scrapeEncrypted')
             (ScrapeNDBInfoTransporters_row scrapeEncrypted') (rs_rows rows), scrapeEncrypted'))"

interpretation tbl_transporters: table_scraper
  "transporters_query (ndbinfoTransportersQuerySelectFields @ (if encrypted then '', encrypted'' else []))"
  "ScrapeNDBInfoTransporters_dests encrypted" "ScrapeNDBInfoTransporters_row encrypted" for encrypted
  by unfold_locales (simp add: ScrapeNDBInfoTransporters_row_def Let_def wf_emit)

lemma transporters_eq:
  "ScrapeNDBInfoTransporters_Scrape flag db =
     (case ndbinfoTransportersQueryDB flag db of
        (Inl e, flag') \<Rightarrow> (([], Failed e), flag')
      | (Inr rs, flag') \<Rightarrow>
          ((concat (map (ScrapeNDBInfoTransporters_row flag')
                     (good_rows (ScrapeNDBInfoTransporters_dests flag') (rs_rows rs))),
            case first_scan_error (ScrapeNDBInfoTransporters_dests flag') (rs_rows rs) of
              None \<Rightarrow> Done | Some e \<Rightarrow> Failed e), flag'))"
  by (simp add: ScrapeNDBInfoTransporters_Scrape_def tbl_transporters.each_row_eq split: prod.splits sum.splits)

interpretation sc_transporters: safe_scraper "\<lambda>db. fst (ScrapeNDBInfoTransporters_Scrape flag db)" for flag
proof
  show "list_all metric_ok (fst (fst (ScrapeNDBInfoTransporters_Scrape flag db)))" for db
    using tbl_transporters.emitted_ok
    by (fastforce simp: transporters_eq list_all_iff split: prod.splits sum.splits)
  show "snd (fst (ScrapeNDBInfoTransporters_Scrape flag db)) \<noteq> Panicked" for db
    by (auto simp: transporters_eq split: prod.splits sum.splits option.splits)
qed

section \<open>The documented numbers are the emitted ones\<close>

text \<open>
  The help text of a state metric ends with the list \<open>n=NAME\<close> of its numbers. \<open>help_documents\<close>
  says that the list is \<open>names\<close> numbered from \<open>i0\<close>, and that the code gives each name its
  number; \<open>pre\<close> is what the states of the table have in front of the name.
\<close>

definition value_list :: "int \<Rightarrow> string list \<Rightarrow> string" where
  "value_list i0 names =
     strings_Join (map (\<lambda>(i, s). strconv_Itoa i @ ''='' @ s) (zip [i0 .. i0 + int (length names) - 1] names)) '' ''"

definition help_documents :: "desc \<Rightarrow> string \<Rightarrow> (string \<Rightarrow> float64) \<Rightarrow> int \<Rightarrow> string list \<Rightarrow> bool" where
  "help_documents d pre f i0 names \<longleftrightarrow>
     drop (length (help_text d) - length (value_list i0 names)) (help_text d) = value_list i0 names \<and>
     list_all (\<lambda>(i, s). f (pre @ s) = f_of_int i) (zip [i0 .. i0 + int (length names) - 1] names)"

definition copy_status_names :: "string list" where
  "copy_status_names =
     [''IDLE'', ''SR_PHASE1_READ_PAGES'', ''SR_PHASE2_READ_TABLE'', ''SR_PHASE3_COPY_TABLE'', ''REMOVE_NODE'',
      ''LCP_READ_TABLE'', ''COPY_TAB_REQ'', ''COPY_NODE_STATE'', ''ADD_TABLE_COORDINATOR'',
      ''ADD_TABLE_PARTICIPANT'', ''INVALIDATE_NODE_LCP'', ''ALTER_TABLE'', ''COPY_TO_SAVE'', ''GET_TABINFO'']"

definition update_status_names :: "string list" where
  "update_status_names =
     [''IDLE'', ''LOCAL_CHECKPOINT'', ''LOCAL_CHECKPOINT_QUEUED'', ''REMOVE_NODE'', ''COPY_TAB_REQ'',
      ''ADD_TABLE_COORDINATOR'', ''ADD_TABLE_PARTICIPANT'', ''INVALIDATE_NODE_LCP'', ''CALLBACK'']"

definition arbit_names :: "string list" where
  "arbit_names =
     [''NULL'', ''INIT'', ''FIND'', ''PREP1'', ''PREP2'', ''START'', ''RUN'', ''CHOOSE'', ''CRASH'']"

definition node_status_names :: "string list" where
  "node_status_names =
     [''NOTHING'', ''CMVMI'', ''STARTING'', ''STARTED'', ''SINGLEUSER'', ''STOPPING_1'', ''STOPPING_2'',
      ''STOPPING_3'', ''STOPPING_4'']"

definition transporter_names :: "string list" where
  "transporter_names = [''CONNECTED'', ''CONNECTING'', ''DISCONNECTED'', ''DISCONNECTING'']"

lemma help_copy_status:
  "help_documents ndbinfoTableDistributionDescCopyStatus [] ndbinfoTableDistributionCopyStatusToNumber 0
     copy_status_names"
  by code_simp

lemma help_update_status:
  "help_documents ndbinfoTableDistributionDescUpdateStatus [] ndbinfoTableDistributionUpdateStatusToNumber 0
     update_status_names"
  by code_simp

lemma help_lcp_status:
  "help_documents ndbinfoTableDistributionDescLCPStatus [] ndbinfoTableDistributionLCPStatusToNumber 1
     [''ACTIVE'', ''wRITING_TO_FILE'', ''COMPLETED'']"
  by code_simp

lemma help_table_status:
  "help_documents ndbinfoTableDistributionDescStatus [] ndbinfoTableDistributionStatusToNumber 0
     [''IDLE'', ''ACTIVE'', ''CREATING'', ''DROPPING'']"
  by code_simp

lemma help_arb_state:
  "help_documents ndbinfoMembershipDescArbState ''ARBIT_'' ndbinfoMembershipArbStateToNumber 0 arbit_names"
  by code_simp

lemma help_node_status:
  "help_documents ndbinfoNodesDescStatus [] (\<lambda>s. ndbinfoNodesStatusToNumber s 0) 0 node_status_names"
  by code_simp

lemma help_transporter_status:
  "help_documents ndbinfoTransportersDescStatus [] ndbinfoTransportersStatusToNumber 0 transporter_names"
  by code_simp

text \<open>
  The numbers the state metrics of the NDB scrapers are sent with are the ones their help
  texts list, for the table distribution (four metrics), the arbitration state, the node status
  outside a start phase, and the transporters.
\<close>

theorem states_documented:
  "help_documents ndbinfoTableDistributionDescCopyStatus [] ndbinfoTableDistributionCopyStatusToNumber 0
     copy_status_names \<and>
   help_documents ndbinfoTableDistributionDescUpdateStatus [] ndbinfoTableDistributionUpdateStatusToNumber 0
     update_status_names \<and>
   help_documents ndbinfoTableDistributionDescLCPStatus [] ndbinfoTableDistributionLCPStatusToNumber 1
     [''ACTIVE'', ''wRITING_TO_FILE'', ''COMPLETED''] \<and>
   help_documents ndbinfoTableDistributionDescStatus [] ndbinfoTableDistributionStatusToNumber 0
     [''IDLE'', ''ACTIVE'', ''CREATING'', ''DROPPING''] \<and>
   help_documents ndbinfoMembershipDescArbState ''ARBIT_'' ndbinfoMembershipArbStateToNumber 0 arbit_names \<and>
   help_documents ndbinfoNodesDescStatus [] (\<lambda>s. ndbinfoNodesStatusToNumber s 0) 0 node_status_names \<and>
   help_documents ndbinfoTransportersDescStatus [] ndbinfoTransportersStatusToNumber 0 transporter_names"
  by (intro conjI help_copy_status help_update_status help_lcp_status help_table_status help_arb_state
      help_node_status help_transporter_status)

text \<open>
  The start phase is printed behind \<open>2.\<close> and read back as a fraction, so the phases 1, 10
  and 100 of a starting node are one number.
\<close>

theorem node_start_phase_collision:
  "ndbinfoNodesStatusToNumber ''STARTING'' 1 = ndbinfoNodesStatusToNumber ''STARTING'' 10 \<and>
   ndbinfoNodesStatusToNumber ''STARTING'' 10 = ndbinfoNodesStatusToNumber ''STARTING'' 100 \<and>
   ndbinfoNodesStatusToNumber ''STARTING'' 1 \<noteq> ndbinfoNodesStatusToNumber ''STARTING'' 2"
  by code_simp

section \<open>The transporters across scrapes\<close>

text \<open>Scrapes one after another, each with the answers the server gives it.\<close>

fun transporters_run :: "bool \<Rightarrow> database list \<Rightarrow> scrape_out list \<times> bool" where
  "transporters_run flag [] = ([], flag)"
| "transporters_run flag (db # dbs) =
     (case ScrapeNDBInfoTransporters_Scrape flag db of
        (out, flag') \<Rightarrow> (case transporters_run flag' dbs of (outs, flag'') \<Rightarrow> (out # outs, flag'')))"

definition encrypted_query :: string where
  "encrypted_query = transporters_query (ndbinfoTransportersQuerySelectFields @ '', encrypted'')"

lemma transporters_flag:
  "snd (ScrapeNDBInfoTransporters_Scrape flag db) \<longleftrightarrow> flag \<and> (\<exists>rs. db 0 encrypted_query [] = Inr rs)"
  by (auto simp: transporters_eq ndbinfoTransportersQueryDB_def encrypted_query_def split: prod.splits sum.splits)

lemma transporters_row_plain:
  "m \<in> set (ScrapeNDBInfoTransporters_row False vs) \<Longrightarrow> metric_desc m \<noteq> ndbinfoTransportersDescEncrypted"
  by (auto simp: ScrapeNDBInfoTransporters_row_def Let_def desc_def NewDesc_def split: if_splits)

lemma transporters_plain:
  assumes "\<not> snd (ScrapeNDBInfoTransporters_Scrape flag db)"
    "m \<in> set (fst (fst (ScrapeNDBInfoTransporters_Scrape flag db)))"
  shows "metric_desc m \<noteq> ndbinfoTransportersDescEncrypted"
  using assms by (auto simp: transporters_eq split: prod.splits sum.splits dest: transporters_row_plain)

lemma transporters_run_off:
  "out \<in> set (fst (transporters_run False dbs)) \<Longrightarrow> m \<in> set (fst out) \<Longrightarrow>
   metric_desc m \<noteq> ndbinfoTransportersDescEncrypted"
proof (induction dbs)
  case (Cons db dbs)
  have off: "snd (ScrapeNDBInfoTransporters_Scrape False db) = False" by (simp add: transporters_flag)
  show ?case
    using Cons off transporters_plain [of False db m] by (auto split: prod.splits)
qed simp

text \<open>
  One failure of the query with the \<open>encrypted\<close> column, whatever its cause, ends that
  metric for good: no scrape from that one on sends it.
\<close>

theorem transporters_encrypted_lost:
  assumes "db 0 encrypted_query [] = Inl e"
    and "out \<in> set (drop (length dbs) (fst (transporters_run flag (dbs @ db # dbs'))))"
    and "m \<in> set (fst out)"
  shows "metric_desc m \<noteq> ndbinfoTransportersDescEncrypted"
  using assms(2,3)
proof (induction dbs arbitrary: flag)
  case Nil
  have off: "\<not> snd (ScrapeNDBInfoTransporters_Scrape flag db)" using assms(1) by (simp add: transporters_flag)
  then obtain o1 where s: "ScrapeNDBInfoTransporters_Scrape flag db = (o1, False)"
    by (cases "ScrapeNDBInfoTransporters_Scrape flag db") auto
  with Nil(1) have "out = o1 \<or> out \<in> set (fst (transporters_run False dbs'))"
    by (auto split: prod.splits)
  then show ?case
  proof
    assume "out = o1"
    with Nil(2) s off show ?thesis by (intro transporters_plain [OF off]) simp
  next
    assume "out \<in> set (fst (transporters_run False dbs'))"
    with Nil(2) show ?thesis by (simp add: transporters_run_off)
  qed
next
  case (Cons db' dbs)
  obtain o1 f1 where "ScrapeNDBInfoTransporters_Scrape flag db' = (o1, f1)" by fastforce
  with Cons.prems show ?case by (intro Cons.IH [of f1]) (simp_all split: prod.splits)
qed

definition refusing_db :: database where
  "refusing_db i q args =
     (if q = encrypted_query then Inl (EMySQL 1054 ''Unknown column'')
      else Inr \<lparr>rs_cols = Inr [], rs_rows =
        [map CBytes [''1'', ''2'', ''CONNECTED'', ''a'', ''10'', ''20'', ''0'', ''0'']], rs_err = None\<rparr>)"

theorem transporters_encrypted_lost_witness:
  "metric_desc (hd (fst (hd (fst (transporters_run True [refusing_db]))))) \<noteq> ndbinfoTransportersDescEncrypted"
  by (rule transporters_encrypted_lost [where dbs = "[]" and dbs' = "[]" and db = refusing_db and flag = True
        and e = "EMySQL 1054 ''Unknown column''" and out = "hd (fst (transporters_run True [refusing_db]))"])
    (simp add: refusing_db_def, code_simp, code_simp)

end
