(* ===== verification/NdbFiles.thy ===== *)
theory NdbFiles
  imports NdbBase
begin

text \<open>
  NDB scrapers whose loop parses a column or carries a value from row to row: the certificates
  (\<open>ndbinfo_certificates.go\<close>), the transactions (\<open>ndbinfo_cluster_transactions.go\<close>) and the
  files (\<open>ndbinfo_files.go\<close>).
\<close>

subsection \<open>ndbinfo_certificates.go\<close>

definition ndbinfoCertificatesQuery :: string where
  "ndbinfoCertificatesQuery = ''
	SELECT
		Node_id,
		Name,
		Expires,
		Serial
	FROM ndbinfo.certificates;
''"

definition ndbinfoCertificatesDesc :: desc where [desc_def]:
  "ndbinfoCertificatesDesc = NewDesc (BuildFQName namespace ndbInfo ''certificate_expire_date'')
     ''Expire date of certificates used by NDB nodes connecting with TLS link encryption as UNIX timestamp.'' [''node_id'', ''cert_name'', ''cert_serial'']"

lemma arity_ndbinfo_certificates [simp, desc_arity]:
  "length (var_labels ndbinfoCertificatesDesc) = 3"
  by (simp_all add: desc_def)

definition ScrapeNDBInfoCertificates_Name :: string where "ScrapeNDBInfoCertificates_Name = ndbInfo @ ''.certificates''"

definition ScrapeNDBInfoCertificates_Help :: string where "ScrapeNDBInfoCertificates_Help = ''Collect metrics from ndbinfo.certificates''"

definition ScrapeNDBInfoCertificates_Version :: float64 where "ScrapeNDBInfoCertificates_Version = f_lit 84 1"


definition ScrapeNDBInfoCertificates_dests :: "dest list" where
  "ScrapeNDBInfoCertificates_dests = [DStr, DStr, DStr, DStr]"

definition ScrapeNDBInfoCertificates_step :: "zone_db \<Rightarrow> unit \<Rightarrow> gval list \<Rightarrow> unit \<times> scrape_out" where
  "ScrapeNDBInfoCertificates_step tz st vs =
     (let id = g_str (vs ! 0);
          name = g_str (vs ! 1);
          expires = g_str (vs ! 2);
          serial = g_str (vs ! 3)
      in case time_Parse tz layout_cert_date expires of
           None \<Rightarrow> ((), [], Failed EParse)
         | Some expireDate \<Rightarrow>
             ((), send_all [ConstMetric ndbinfoCertificatesDesc GaugeValue (f_of_int expireDate) [id, name, serial]]))"

definition ScrapeNDBInfoCertificates_Scrape :: "zone_db \<Rightarrow> database \<Rightarrow> scrape_out" where
  "ScrapeNDBInfoCertificates_Scrape tz =
     loop_scrape ndbinfoCertificatesQuery ScrapeNDBInfoCertificates_dests
       (ScrapeNDBInfoCertificates_step tz) () (\<lambda>_. ([], Done))"

interpretation fin_certificates: finishing_scraper ScrapeNDBInfoCertificates_dests
  "ScrapeNDBInfoCertificates_step tz" "\<lambda>_. True" ndbinfoCertificatesQuery "()" "\<lambda>_. ([], Done)" for tz
  by unfold_locales
    (simp_all add: ScrapeNDBInfoCertificates_step_def Let_def metric_ok_Const split: option.splits)

subsection \<open>ndbinfo_cluster_transactions.go\<close>

definition ndbinfoClusterTransactionsQuery :: string where
  "ndbinfoClusterTransactionsQuery = ''
	SELECT
		node_id,
		IFNULL(state, '' @ [CHR 0x27, CHR 0x27] @ '') AS state,
		MAX(inactive_seconds) AS max_inactive_seconds,
		COUNT(DISTINCT transid) AS count
	FROM ndbinfo.cluster_transactions
	GROUP BY node_id, state;
''"

definition ndbinfoClusterTransactionsDescCount :: desc where [desc_def]:
  "ndbinfoClusterTransactionsDescCount = NewDesc (BuildFQName namespace ndbInfo ''cluster_transactions_count'')
     ''Total count of transactions.'' [''node_id'', ''state'']"

definition ndbinfoClusterTransactionsDescMaxInactivity :: desc where [desc_def]:
  "ndbinfoClusterTransactionsDescMaxInactivity = NewDesc (BuildFQName namespace ndbInfo ''cluster_transactions_max_inactive_seconds'')
     ''Longest inactive transaction time in the entire cluster, in seconds.'' []"

lemma arity_ndbinfo_cluster_transactions [simp, desc_arity]:
  "length (var_labels ndbinfoClusterTransactionsDescCount) = 2"
  "length (var_labels ndbinfoClusterTransactionsDescMaxInactivity) = 0"
  by (simp_all add: desc_def)

definition ScrapeNDBInfoClusterTransactions_Name :: string where "ScrapeNDBInfoClusterTransactions_Name = ndbInfo @ ''.cluster_transactions''"

definition ScrapeNDBInfoClusterTransactions_Help :: string where "ScrapeNDBInfoClusterTransactions_Help = ''Collect metrics from ndbinfo.cluster_transactions''"

definition ScrapeNDBInfoClusterTransactions_Version :: float64 where "ScrapeNDBInfoClusterTransactions_Version = f_lit 56 1"


definition ScrapeNDBInfoClusterTransactions_dests :: "dest list" where
  "ScrapeNDBInfoClusterTransactions_dests = [DStr, DStr, DU64, DU64]"

text \<open>The state is \<open>totalMaxInactiveSeconds\<close>, nil at first.\<close>

definition ScrapeNDBInfoClusterTransactions_step ::
    "u64 option \<Rightarrow> gval list \<Rightarrow> u64 option \<times> scrape_out" where
  "ScrapeNDBInfoClusterTransactions_step totalMaxInactiveSeconds vs =
     (let nodeID = g_str (vs ! 0);
          state = g_str (vs ! 1);
          maxInactiveSeconds = g_u64 (vs ! 2);
          count = g_u64 (vs ! 3)
      in (case totalMaxInactiveSeconds of
            None \<Rightarrow> Some maxInactiveSeconds
          | Some t \<Rightarrow> if maxInactiveSeconds > t then Some maxInactiveSeconds else Some t,
          send_all [ConstMetric ndbinfoClusterTransactionsDescCount GaugeValue (f_of_u64 count) [nodeID, state]]))"

definition ScrapeNDBInfoClusterTransactions_finish :: "u64 option \<Rightarrow> scrape_out" where
  "ScrapeNDBInfoClusterTransactions_finish totalMaxInactiveSeconds =
     (case totalMaxInactiveSeconds of
        None \<Rightarrow> ([], Done)
      | Some t \<Rightarrow> send_all [ConstMetric ndbinfoClusterTransactionsDescMaxInactivity GaugeValue (f_of_u64 t) []])"

definition ScrapeNDBInfoClusterTransactions_Scrape :: "database \<Rightarrow> scrape_out" where
  "ScrapeNDBInfoClusterTransactions_Scrape =
     loop_scrape ndbinfoClusterTransactionsQuery ScrapeNDBInfoClusterTransactions_dests
       ScrapeNDBInfoClusterTransactions_step None ScrapeNDBInfoClusterTransactions_finish"

interpretation fin_transactions: finishing_scraper ScrapeNDBInfoClusterTransactions_dests
  ScrapeNDBInfoClusterTransactions_step "\<lambda>_. True" ndbinfoClusterTransactionsQuery None
  ScrapeNDBInfoClusterTransactions_finish
  by unfold_locales
    (simp_all add: ScrapeNDBInfoClusterTransactions_step_def ScrapeNDBInfoClusterTransactions_finish_def
      Let_def metric_ok_Const split: option.splits)

subsection \<open>ndbinfo_files.go\<close>

definition ndbinfoFilesQuery :: string where
  "ndbinfoFilesQuery = ''
	SELECT
		FILE_ID,
		FILE_NAME,
		FILE_TYPE,
		IFNULL(TABLESPACE_NAME, '' @ [CHR 0x27, CHR 0x27] @ '') AS TABLESPACE_NAME,
		IFNULL(LOGFILE_GROUP_NAME, '' @ [CHR 0x27, CHR 0x27] @ '') AS LOGFILE_GROUP_NAME,
		FREE_EXTENTS,
		TOTAL_EXTENTS,
		EXTENT_SIZE,
		MAXIMUM_SIZE,
		VERSION,
		IFNULL(EXTRA, '' @ [CHR 0x27, CHR 0x27] @ '') AS EXTRA
	FROM information_schema.FILES
	WHERE
		ENGINE = 'ndbcluster'
		AND FILE_ID IS NOT NULL
		AND FILE_NAME IS NOT NULL
		AND FILE_TYPE IS NOT NULL;
''"

definition ndbinfoFilesLabels :: "string list" where
  "ndbinfoFilesLabels = [''file_id'', ''file_name'', ''file_type'', ''tablespace'', ''logfile_group'']"

lemma length_ndbinfoFilesLabels [simp]: "length ndbinfoFilesLabels = 5"
  by (simp add: ndbinfoFilesLabels_def)

definition ndbinfoFilesLabelsFull :: "string list" where
  "ndbinfoFilesLabelsFull = ndbinfoFilesLabels @ [''node_id'']"

lemma length_ndbinfoFilesLabelsFull [simp]: "length ndbinfoFilesLabelsFull = 6"
  by (simp add: ndbinfoFilesLabelsFull_def)

definition ndbinfoFilesDescFreeExtents :: variable_desc where [desc_def]:
  "ndbinfoFilesDescFreeExtents = NewVariablePromDesc (BuildFQName namespace ndbInfo ''files_free_extents'')
     ''The number of extents which have not yet been used by the file.'' GaugeValue
     [ndbinfoFilesLabels, ndbinfoFilesLabelsFull]"

definition ndbinfoFilesDescTotalExtents :: variable_desc where [desc_def]:
  "ndbinfoFilesDescTotalExtents = NewVariablePromDesc (BuildFQName namespace ndbInfo ''files_total_extents'')
     ''The total number of extents allocated to the file.'' GaugeValue
     [ndbinfoFilesLabels, ndbinfoFilesLabelsFull]"

definition ndbinfoFilesDescExtentSize :: variable_desc where [desc_def]:
  "ndbinfoFilesDescExtentSize = NewVariablePromDesc (BuildFQName namespace ndbInfo ''files_extent_size'')
     ''The size of an extent for the file in bytes.'' GaugeValue
     [ndbinfoFilesLabels, ndbinfoFilesLabelsFull]"

definition ndbinfoFilesDescSize :: variable_desc where [desc_def]:
  "ndbinfoFilesDescSize = NewVariablePromDesc (BuildFQName namespace ndbInfo ''files_size'')
     ''The size of the file in bytes.'' GaugeValue
     [ndbinfoFilesLabels, ndbinfoFilesLabelsFull]"

definition ndbinfoFilesDescVersion :: variable_desc where [desc_def]:
  "ndbinfoFilesDescVersion = NewVariablePromDesc (BuildFQName namespace ndbInfo ''files_version'')
     ''The version number of the file.'' GaugeValue
     [ndbinfoFilesLabels, ndbinfoFilesLabelsFull]"

definition ndbinfoFilesDescUndoLogBufferSize :: variable_desc where [desc_def]:
  "ndbinfoFilesDescUndoLogBufferSize = NewVariablePromDesc (BuildFQName namespace ndbInfo ''files_undo_log_buffer_size'')
     ''The undo log buffer size.'' GaugeValue
     [ndbinfoFilesLabels, ndbinfoFilesLabelsFull]"

lemma arity_var_ndbinfo_files [simp, desc_arity]:
  "map length (vd_labels ndbinfoFilesDescFreeExtents) = [5, 6]"
  "map length (vd_labels ndbinfoFilesDescTotalExtents) = [5, 6]"
  "map length (vd_labels ndbinfoFilesDescExtentSize) = [5, 6]"
  "map length (vd_labels ndbinfoFilesDescSize) = [5, 6]"
  "map length (vd_labels ndbinfoFilesDescVersion) = [5, 6]"
  "map length (vd_labels ndbinfoFilesDescUndoLogBufferSize) = [5, 6]"
  by (simp_all add: NewVariablePromDesc_def desc_def)

definition ScrapeNDBInfoFiles_Name :: string where "ScrapeNDBInfoFiles_Name = ndbInfo @ ''.files''"

definition ScrapeNDBInfoFiles_Help :: string where "ScrapeNDBInfoFiles_Help = ''Collect metrics from ndbinfo.files (aka. information_schema.FILES)''"

definition ScrapeNDBInfoFiles_Version :: float64 where "ScrapeNDBInfoFiles_Version = f_lit 56 1"


text \<open>
  The variables declared outside the loop and not scanned: \<open>nodeID\<close> and \<open>undoBufferSize\<close>
  (an \<open>int64\<close>, kept as its 64 bits).
\<close>

record files_vars =
  fv_nodeID :: string
  fv_undoBufferSize :: u64

definition files_init :: files_vars where
  "files_init = \<lparr>fv_nodeID = [], fv_undoBufferSize = -1\<rparr>"

definition files_entry :: "files_vars \<Rightarrow> string \<Rightarrow> files_vars" where
  "files_entry st entry =
     (case strings_SplitN2 entry ''='' of
        [key, valueStr] \<Rightarrow>
          (if key = ''CLUSTER_NODE'' then st\<lparr>fv_nodeID := valueStr\<rparr>
           else if key = ''UNDO_BUFFER_SIZE'' then
             (case strconv_ParseInt valueStr 64 of
                Inl e \<Rightarrow> st
              | Inr n \<Rightarrow> st\<lparr>fv_undoBufferSize := word_of_int n\<rparr>)
           else st)
      | _ \<Rightarrow> st)"

definition files_parse_extra :: "files_vars \<Rightarrow> string \<Rightarrow> files_vars" where
  "files_parse_extra st extra0 =
     (let extra = strings_TrimSpace extra0
      in if extra \<noteq> [] then foldl files_entry st (strings_Split extra '';'') else st)"

definition ScrapeNDBInfoFiles_dests :: "dest list" where
  "ScrapeNDBInfoFiles_dests =
     [DStr, DStr, DStr, DStr, DStr, DNullU64, DNullU64, DNullU64, DNullU64, DNullU64, DStr]"

definition ScrapeNDBInfoFiles_step :: "files_vars \<Rightarrow> gval list \<Rightarrow> files_vars \<times> scrape_out" where
  "ScrapeNDBInfoFiles_step st0 vs =
     (let fileID = g_str (vs ! 0);
          fileName = g_str (vs ! 1);
          fileType = g_str (vs ! 2);
          tablespaceName = g_str (vs ! 3);
          logfileGroupName = g_str (vs ! 4);
          freeExtents = g_null (vs ! 5);
          totalExtents = g_null (vs ! 6);
          extentSize = g_null (vs ! 7);
          maximumSize = g_null (vs ! 8);
          version = g_null (vs ! 9);
          st = files_parse_extra st0 (g_str (vs ! 10));
          labels = [fileID, fileName, fileType, tablespaceName, logfileGroupName] @
                   (if fv_nodeID st = [] then [] else [fv_nodeID st])
      in (st, send_all
           ([variable_metric ndbinfoFilesDescFreeExtents (unpackNullAsNaN freeExtents) labels,
             variable_metric ndbinfoFilesDescTotalExtents (unpackNullAsNaN totalExtents) labels,
             variable_metric ndbinfoFilesDescExtentSize (unpackNullAsNaN extentSize) labels,
             variable_metric ndbinfoFilesDescSize (unpackNullAsNaN maximumSize) labels,
             variable_metric ndbinfoFilesDescVersion (unpackNullAsNaN version) labels] @
            (if fileType = ''UNDO LOG'' \<and> fv_undoBufferSize st \<noteq> -1
             then [variable_metric ndbinfoFilesDescUndoLogBufferSize (f_of_i64 (fv_undoBufferSize st)) labels]
             else []))))"

definition ScrapeNDBInfoFiles_Scrape :: "database \<Rightarrow> scrape_out" where
  "ScrapeNDBInfoFiles_Scrape =
     loop_scrape ndbinfoFilesQuery ScrapeNDBInfoFiles_dests ScrapeNDBInfoFiles_step files_init
       (\<lambda>_. ([], Done))"

lemma files_step_ok:
  "list_all metric_ok (fst (snd (ScrapeNDBInfoFiles_step st vs))) \<and>
   snd (snd (ScrapeNDBInfoFiles_step st vs)) = Done"
  by (simp add: ScrapeNDBInfoFiles_step_def Let_def send_all_ok metric_ok_variable)

interpretation fin_files: finishing_scraper ScrapeNDBInfoFiles_dests ScrapeNDBInfoFiles_step "\<lambda>_. True"
  ndbinfoFilesQuery files_init "\<lambda>_. ([], Done)"
  by unfold_locales (simp_all add: files_step_ok)

section \<open>Properties\<close>

subsection \<open>Transactions\<close>

definition transactions_count :: "gval list \<Rightarrow> metric" where
  "transactions_count vs = ConstMetric ndbinfoClusterTransactionsDescCount GaugeValue (f_of_u64 (g_u64 (vs ! 3)))
     [g_str (vs ! 0), g_str (vs ! 1)]"

definition seen_max :: "u64 option \<Rightarrow> gval list \<Rightarrow> u64 option" where
  "seen_max st vs = Some (case st of None \<Rightarrow> g_u64 (vs ! 2) | Some t \<Rightarrow> max t (g_u64 (vs ! 2)))"

lemma transactions_step:
  "ScrapeNDBInfoClusterTransactions_step st vs = (seen_max st vs, [transactions_count vs], Done)"
  by (auto simp: ScrapeNDBInfoClusterTransactions_step_def Let_def seen_max_def transactions_count_def
      metric_ok_Const max_def split: option.splits)

lemma Max_insert_max: "finite A \<Longrightarrow> Max (insert (max t a) A) = Max (insert t (insert a A))"
  by (cases "A = {}") (simp_all add: max.assoc)

lemma seen_max_fold:
  "foldl seen_max (Some t) vss = Some (Max (insert t ((\<lambda>vs. g_u64 (vs ! 2)) ` set vss)))"
  by (induction vss arbitrary: t) (simp_all add: seen_max_def [of "Some _"] Max_insert_max)

lemma transactions_max_fold:
  "foldl seen_max None vss = (if vss = [] then None else Some (Max ((\<lambda>vs. g_u64 (vs ! 2)) ` set vss)))"
  by (cases vss) (simp_all add: seen_max_def [of None] seen_max_fold)

text \<open>
  When every row scans, the transactions scraper sends one count per row, in order, and then,
  if there was a row, the largest \<open>max_inactive_seconds\<close> of all rows; it returns nil.
\<close>

theorem cluster_transactions_max:
  assumes "db 0 ndbinfoClusterTransactionsQuery [] = Inr rs"
    and "first_scan_error ScrapeNDBInfoClusterTransactions_dests (rs_rows rs) = None"
  shows "ScrapeNDBInfoClusterTransactions_Scrape db =
    (let vss = good_rows ScrapeNDBInfoClusterTransactions_dests (rs_rows rs)
     in (map transactions_count vss @
         (if rs_rows rs = [] then []
          else [ConstMetric ndbinfoClusterTransactionsDescMaxInactivity GaugeValue
                  (f_of_u64 (Max ((\<lambda>vs. g_u64 (vs ! 2)) ` set vss))) []]), Done))"
proof -
  let ?vss = "good_rows ScrapeNDBInfoClusterTransactions_dests (rs_rows rs)"
  have "?vss = [] \<longleftrightarrow> rs_rows rs = []"
    using good_rows_all [OF assms(2)] by (metis length_0_conv)
  moreover have "ScrapeNDBInfoClusterTransactions_Scrape db =
      and_then (concat (map (\<lambda>vs. [transactions_count vs]) ?vss), Done)
        (ScrapeNDBInfoClusterTransactions_finish (foldl seen_max None ?vss))"
    using assms(1) loop_scrape_eq [where db = db and q = ndbinfoClusterTransactionsQuery and rs = rs
        and ds = ScrapeNDBInfoClusterTransactions_dests and step = ScrapeNDBInfoClusterTransactions_step and nxt = seen_max
        and emit = "\<lambda>vs. [transactions_count vs]"] transactions_step assms(2)
    by (simp add: ScrapeNDBInfoClusterTransactions_Scrape_def)
  ultimately show ?thesis
    by (simp add: ScrapeNDBInfoClusterTransactions_finish_def transactions_max_fold Let_def metric_ok_Const)
qed

definition transactions_rs :: rowset where
  "transactions_rs = \<lparr>rs_cols = Inr [], rs_rows =
     [[CBytes ''1'', CBytes ''Started'', CBytes ''7'', CBytes ''3''],
      [CBytes ''2'', CBytes ''Started'', CBytes ''40'', CBytes ''1''],
      [CBytes ''2'', CBytes ''Running'', CBytes ''9'', CBytes ''2'']], rs_err = None\<rparr>"

theorem cluster_transactions_max_witness:
  "last (fst (ScrapeNDBInfoClusterTransactions_Scrape (\<lambda>_ _ _. Inr transactions_rs))) =
     ConstMetric ndbinfoClusterTransactionsDescMaxInactivity GaugeValue (f_of_int 40) []"
proof -
  have e: "first_scan_error ScrapeNDBInfoClusterTransactions_dests (rs_rows transactions_rs) = None"
    and m: "Max ((\<lambda>vs. g_u64 (vs ! 2)) `
             set (good_rows ScrapeNDBInfoClusterTransactions_dests (rs_rows transactions_rs))) = 40"
    and n: "rs_rows transactions_rs \<noteq> []" and f: "f_of_u64 40 = f_of_int 40"
    by code_simp+
  show ?thesis
    by (simp add: cluster_transactions_max [OF refl e] Let_def m n f)
qed

subsection \<open>Files\<close>

lemma files_labels:
  "m \<in> set (fst (snd (ScrapeNDBInfoFiles_step st vs))) \<Longrightarrow>
   metric_labels m = map (\<lambda>i. g_str (vs ! i)) [0, 1, 2, 3, 4] @
     (let n = fv_nodeID (files_parse_extra st (g_str (vs ! 10))) in if n = [] then [] else [n])"
  by (auto simp: ScrapeNDBInfoFiles_step_def Let_def send_all_ok metric_ok_variable variable_metric_def
      split: if_splits)

lemma files_parse_extra_empty: "strings_TrimSpace e = [] \<Longrightarrow> files_parse_extra st e = st"
  by (simp add: files_parse_extra_def)

text \<open>
  A row whose \<open>EXTRA\<close> is empty is labelled with the node id an earlier row left behind:
  \<open>nodeID\<close> is declared outside the loop and never reset.
\<close>

theorem files_node_id_leaks:
  assumes "strings_TrimSpace (g_str (vs ! 10)) = []" and "fv_nodeID st \<noteq> []"
    and "m \<in> set (fst (snd (ScrapeNDBInfoFiles_step st vs)))"
  shows "last (metric_labels m) = fv_nodeID st"
  using assms files_labels [OF assms(3)] by (simp add: files_parse_extra_empty)

definition files_row :: "string \<Rightarrow> gval list" where
  "files_row extra = map GStr [''9'', ''undo.log'', ''UNDO LOG'', [], ''lg''] @
     replicate 5 (GNullU64 (Some 4)) @ [GStr extra]"

theorem files_node_id_leaks_witness:
  "last (metric_labels (hd (fst (snd (ScrapeNDBInfoFiles_step
     (fst (ScrapeNDBInfoFiles_step files_init (files_row ''CLUSTER_NODE=5''))) (files_row [])))))) = ''5''"
proof -
  have st: "fst (ScrapeNDBInfoFiles_step files_init (files_row ''CLUSTER_NODE=5'')) =
      \<lparr>fv_nodeID = ''5'', fv_undoBufferSize = -1\<rparr>" by code_simp
  have e: "strings_TrimSpace (g_str (files_row [] ! 10)) = []" by code_simp
  have m: "hd (fst (snd (ScrapeNDBInfoFiles_step \<lparr>fv_nodeID = ''5'', fv_undoBufferSize = -1\<rparr> (files_row [])))) \<in>
      set (fst (snd (ScrapeNDBInfoFiles_step \<lparr>fv_nodeID = ''5'', fv_undoBufferSize = -1\<rparr> (files_row []))))"
    by code_simp
  show ?thesis using files_node_id_leaks [OF e _ m] by (simp add: st)
qed

lemma files_entries:
  "CHR ''='' \<notin> set key \<Longrightarrow> strings_SplitN2 (key @ CHR ''='' # v) ''='' = [key, v]"
  by (simp add: strings_SplitN2_def strings_Cut_single_append)

lemma show_uint_last: "0 \<le> n \<Longrightarrow> is_digit (last (show_uint n))"
  using show_uint_digits [of n] by (simp add: list_all_iff)

lemma Itoa_last: "is_digit (last (strconv_Itoa i))"
  by (simp add: strconv_Itoa_def show_uint_last)

lemma digit_not_semicolon: "\<forall>x\<in>set s. is_digit x \<Longrightarrow> CHR '';'' \<notin> set s"
  by (auto simp: is_digit_def)

lemma not_space_C: "\<not> is_space (CHR ''C'')"
  by (simp add: is_space_def)

lemma digit_not_space: "is_digit c \<Longrightarrow> \<not> is_space c"
  by (auto simp: is_digit_def is_space_def)

text \<open>
  The \<open>EXTRA\<close> column \<open>CLUSTER_NODE=n;UNDO_BUFFER_SIZE=k\<close> is read as the node \<open>n\<close> and
  the 64-bit number \<open>k\<close>, for every \<open>n\<close> without a semicolon, whatever an earlier row left.
\<close>

theorem files_extra_roundtrip:
  assumes "CHR '';'' \<notin> set n" "- (2 ^ 63) \<le> k" "k < 2 ^ 63"
  shows "files_parse_extra st (''CLUSTER_NODE='' @ n @ '';UNDO_BUFFER_SIZE='' @ strconv_Itoa k) =
    \<lparr>fv_nodeID = n, fv_undoBufferSize = word_of_int k\<rparr>"
proof -
  let ?a = "''CLUSTER_NODE='' @ n" and ?b = "''UNDO_BUFFER_SIZE='' @ strconv_Itoa k"
  let ?e = "''CLUSTER_NODE='' @ n @ '';UNDO_BUFFER_SIZE='' @ strconv_Itoa k"
  have k: "CHR '';'' \<notin> set (strconv_Itoa k)" "strconv_Itoa k \<noteq> []"
    using show_uint_digits [of "- k"] show_uint_digits [of k]
    by (auto simp: strconv_Itoa_def list_all_iff dest: digit_not_semicolon)
  have e: "?e = strings_Join [?a, ?b] '';''" by simp
  have "strings_TrimSpace ?e = ?e"
    using k digit_not_space [OF Itoa_last [of k]] not_space_C by (intro strings_TrimSpace_id) simp
  moreover have "strings_Split ?e '';'' = [?a, ?b]"
    unfolding e using assms(1) k by (intro strings_Split_Join_single) simp_all
  moreover have "files_entry st ?a = st\<lparr>fv_nodeID := n\<rparr>" for st
    using files_entries [of "''CLUSTER_NODE''" n] by (simp add: files_entry_def)
  moreover have "files_entry st ?b = st\<lparr>fv_undoBufferSize := word_of_int k\<rparr>" for st
    using files_entries [of "''UNDO_BUFFER_SIZE''" "strconv_Itoa k"] ParseInt_Itoa [of 64 k] assms
    by (simp add: files_entry_def)
  ultimately show ?thesis by (simp add: files_parse_extra_def)
qed

theorem files_extra_roundtrip_witness:
  "files_parse_extra files_init (''CLUSTER_NODE='' @ ''12'' @ '';UNDO_BUFFER_SIZE='' @ strconv_Itoa 33554432) =
    \<lparr>fv_nodeID = ''12'', fv_undoBufferSize = 33554432\<rparr>"
  using files_extra_roundtrip [of "''12''" 33554432 files_init] by simp

end
