(* ===== verification/NdbHistogram.thy ===== *)
theory NdbHistogram
  imports NdbBase
begin

text \<open>
  The two NDB scrapers that send histograms: \<open>ndbinfo_pgman_time_track_stats.go\<close> and
  \<open>ndbinfo_tc_time_track_stats.go\<close>. Both keep, for each counter column, a map from node to
  bucket map; the columns are treated alike, so the model keeps the maps in a list, in the
  order of the columns. The order in which \<open>range\<close> visits a map is the argument \<open>ord\<close>, numbered
  by the loop.
\<close>

section \<open>The common part\<close>

type_synonym node_buckets = "(string \<times> bucket) list"

text \<open>\<open>if m[nodeID] == nil { m[nodeID] = make(...) }; m[nodeID][upperBound] = v\<close>\<close>

definition hist_record :: "string \<Rightarrow> float64 \<Rightarrow> u64 \<Rightarrow> node_buckets \<Rightarrow> node_buckets" where
  "hist_record nodeID upperBound v m =
     smap_put nodeID (bucket_put upperBound v (smap_get [] nodeID m)) m"

definition hist_step :: "node_buckets list \<Rightarrow> gval list \<Rightarrow> node_buckets list \<times> scrape_out" where
  "hist_step maps vs =
     (let nodeID = g_str (vs ! 0);
          upperBound = g_f64 (vs ! 1)
      in (map2 (\<lambda>m v. hist_record nodeID upperBound (g_u64 v) m) maps (drop 2 vs), [], Done))"

text \<open>The metric of one node: the artificial sum is taken before the bucket is made cumulative.\<close>

definition hist_metric :: "float64 list \<Rightarrow> desc \<Rightarrow> string \<Rightarrow> bucket \<Rightarrow> metric" where
  "hist_metric upperBounds d nodeID bucket =
     (let total = hist_ArtificialSum upperBounds bucket;
          bucket' = hist_MakeCumulative upperBounds bucket
      in ConstHistogram d (bucket_get (hist_GetLast upperBounds) bucket') total bucket' [nodeID])"

fun hist_finish :: "float64 list \<Rightarrow> string range_order \<Rightarrow> nat \<Rightarrow> desc list \<Rightarrow> node_buckets list \<Rightarrow> metric list" where
  "hist_finish upperBounds ord n (d # ds) (m # ms) =
     map (\<lambda>nodeID. hist_metric upperBounds d nodeID (smap_get [] nodeID m)) (ord n (map fst m)) @
     hist_finish upperBounds ord (Suc n) ds ms"
| "hist_finish upperBounds ord n _ _ = []"

definition hist_scrape ::
    "string \<Rightarrow> dest list \<Rightarrow> float64 list \<Rightarrow> desc list \<Rightarrow> string range_order \<Rightarrow> database \<Rightarrow> scrape_out" where
  "hist_scrape q ds upperBounds descs ord =
     loop_scrape q ds hist_step (replicate (length descs) [])
       (\<lambda>maps. send_all (hist_finish upperBounds ord 0 descs maps))"

subsection \<open>ndbinfo_pgman_time_track_stats.go\<close>

definition ndbinfoPGMANTimeTrackStatsQuery :: string where
  "ndbinfoPGMANTimeTrackStatsQuery = ''
	SELECT
		node_id,
		upper_bound,
		SUM(page_reads) AS page_reads,
		SUM(page_writes) AS page_writes,
		SUM(log_waits) AS log_waits,
		SUM(get_page) AS get_page
	FROM ndbinfo.pgman_time_track_stats
	GROUP BY node_id, upper_bound;
''"

definition ndbinfoPGMANTimeTrackStatsHistogramHelper :: "float64 list" where
  "ndbinfoPGMANTimeTrackStatsHistogramHelper = map f_of_int
     [0, 16, 32, 64, 128, 256, 512, 1024, 2048, 4096, 8192, 16384, 32768, 65536,
      131072, 262144, 524288, 1048576, 2097152, 4294967295]"

definition ndbinfoPGMANTimeTrackStatsDescPageReads :: desc where [desc_def]:
  "ndbinfoPGMANTimeTrackStatsDescPageReads = NewDesc (BuildFQName namespace ndbInfo ''pgman_time_track_stats_page_reads'')
     ''Total number of page reads by latency as ms.'' [''node_id'']"

definition ndbinfoPGMANTimeTrackStatsDescPageWrites :: desc where [desc_def]:
  "ndbinfoPGMANTimeTrackStatsDescPageWrites = NewDesc (BuildFQName namespace ndbInfo ''pgman_time_track_stats_page_writes'')
     ''Total number of page writes by latency as ms.'' [''node_id'']"

definition ndbinfoPGMANTimeTrackStatsDescLogWaits :: desc where [desc_def]:
  "ndbinfoPGMANTimeTrackStatsDescLogWaits = NewDesc (BuildFQName namespace ndbInfo ''pgman_time_track_stats_log_waits'')
     ''Total number of undo log waits by latency as ms.'' [''node_id'']"

definition ndbinfoPGMANTimeTrackStatsDescGetPageCalls :: desc where [desc_def]:
  "ndbinfoPGMANTimeTrackStatsDescGetPageCalls = NewDesc (BuildFQName namespace ndbInfo ''pgman_time_track_stats_get_page_calls'')
     ''Total number of get_page() calls by latency as ms.'' [''node_id'']"

lemma arity_ndbinfo_pgman_time_track_stats [simp, desc_arity]:
  "length (var_labels ndbinfoPGMANTimeTrackStatsDescPageReads) = 1"
  "length (var_labels ndbinfoPGMANTimeTrackStatsDescPageWrites) = 1"
  "length (var_labels ndbinfoPGMANTimeTrackStatsDescLogWaits) = 1"
  "length (var_labels ndbinfoPGMANTimeTrackStatsDescGetPageCalls) = 1"
  by (simp_all add: desc_def)

definition ScrapeNDBInfoPGMANTimeTrackStats_Name :: string where "ScrapeNDBInfoPGMANTimeTrackStats_Name = ndbInfo @ ''.pgman_time_track_stats''"

definition ScrapeNDBInfoPGMANTimeTrackStats_Help :: string where "ScrapeNDBInfoPGMANTimeTrackStats_Help = ''Collect metrics from ndbinfo.pgman_time_track_stats''"

definition ScrapeNDBInfoPGMANTimeTrackStats_Version :: float64 where "ScrapeNDBInfoPGMANTimeTrackStats_Version = f_lit 80 1"


definition ScrapeNDBInfoPGMANTimeTrackStats_descs :: "desc list" where
  "ScrapeNDBInfoPGMANTimeTrackStats_descs =
     [ndbinfoPGMANTimeTrackStatsDescPageReads,
      ndbinfoPGMANTimeTrackStatsDescPageWrites,
      ndbinfoPGMANTimeTrackStatsDescLogWaits,
      ndbinfoPGMANTimeTrackStatsDescGetPageCalls]"

definition ScrapeNDBInfoPGMANTimeTrackStats_dests :: "dest list" where
  "ScrapeNDBInfoPGMANTimeTrackStats_dests = DStr # DF64 # replicate 4 DU64"

definition ScrapeNDBInfoPGMANTimeTrackStats_Scrape :: "string range_order \<Rightarrow> database \<Rightarrow> scrape_out" where
  "ScrapeNDBInfoPGMANTimeTrackStats_Scrape =
     hist_scrape ndbinfoPGMANTimeTrackStatsQuery ScrapeNDBInfoPGMANTimeTrackStats_dests
       ndbinfoPGMANTimeTrackStatsHistogramHelper ScrapeNDBInfoPGMANTimeTrackStats_descs"

subsection \<open>ndbinfo_tc_time_track_stats.go\<close>

definition ndbinfoTCTimeTrackStatsQuery :: string where
  "ndbinfoTCTimeTrackStatsQuery = ''
	SELECT
		node_id,
		upper_bound,
		SUM(scans) AS scans,
		SUM(scan_errors) AS scan_errors,
		SUM(scan_fragments) AS scan_fragments,
		SUM(scan_fragment_errors) AS scan_fragment_errors,
		SUM(transactions) AS transactions,
		SUM(transaction_errors) AS transaction_errors,
		SUM(read_key_ops) AS read_key_ops,
		SUM(write_key_ops) AS write_key_ops,
		SUM(index_key_ops) AS index_key_ops,
		SUM(key_op_errors) AS key_op_errors
	FROM ndbinfo.tc_time_track_stats
	WHERE block_number = 245
	GROUP BY node_id, upper_bound;
''"

definition ndbinfoTCTimeTrackStatsHistogramHelper :: "float64 list" where
  "ndbinfoTCTimeTrackStatsHistogramHelper = map f_of_int
     [50, 75, 112, 168, 252, 378, 567, 850, 1275, 1912, 2868, 4302, 6453, 9679, 14518,
      21777, 32665, 48997, 73495, 110242, 165363, 248044, 372066, 558099, 837148,
      1255722, 1883583, 2825374, 4238061, 6357091, 9535636, 14303454]"

definition ndbinfoTCTimeTrackStatsDescScans :: desc where [desc_def]:
  "ndbinfoTCTimeTrackStatsDescScans = NewDesc (BuildFQName namespace ndbInfo ''tc_time_track_stats_scans'')
     (''Total number of successful scans on all DBTC block instances by latency as '' @ [CHR 0xCE, CHR 0xBC] @ ''s.'') [''node_id'']"

definition ndbinfoTCTimeTrackStatsDescScanErrors :: desc where [desc_def]:
  "ndbinfoTCTimeTrackStatsDescScanErrors = NewDesc (BuildFQName namespace ndbInfo ''tc_time_track_stats_scan_errors'')
     (''Total number of failed scans on all DBTC block instances by latency as '' @ [CHR 0xCE, CHR 0xBC] @ ''s.'') [''node_id'']"

definition ndbinfoTCTimeTrackStatsDescScanFragments :: desc where [desc_def]:
  "ndbinfoTCTimeTrackStatsDescScanFragments = NewDesc (BuildFQName namespace ndbInfo ''tc_time_track_stats_scan_fragments'')
     (''Total number of successful fragment scans on all DBTC block instances by latency as '' @ [CHR 0xCE, CHR 0xBC] @ ''s.'') [''node_id'']"

definition ndbinfoTCTimeTrackStatsDescScanFragmentErrors :: desc where [desc_def]:
  "ndbinfoTCTimeTrackStatsDescScanFragmentErrors = NewDesc (BuildFQName namespace ndbInfo ''tc_time_track_stats_scan_fragment_errors'')
     (''Total number of failed fragment scans on all DBTC block instances by latency as '' @ [CHR 0xCE, CHR 0xBC] @ ''s.'') [''node_id'']"

definition ndbinfoTCTimeTrackStatsDescTransactions :: desc where [desc_def]:
  "ndbinfoTCTimeTrackStatsDescTransactions = NewDesc (BuildFQName namespace ndbInfo ''tc_time_track_stats_transactions'')
     (''Total number of successful transactions on all DBTC block instances by latency as '' @ [CHR 0xCE, CHR 0xBC] @ ''s. Stateless transactions are not included.'') [''node_id'']"

definition ndbinfoTCTimeTrackStatsDescTransactionErrors :: desc where [desc_def]:
  "ndbinfoTCTimeTrackStatsDescTransactionErrors = NewDesc (BuildFQName namespace ndbInfo ''tc_time_track_stats_transaction_errors'')
     (''Total number of failed transactions on all DBTC block instances by latency as '' @ [CHR 0xCE, CHR 0xBC] @ ''s.'') [''node_id'']"

definition ndbinfoTCTimeTrackStatsDescReadKeyOps :: desc where [desc_def]:
  "ndbinfoTCTimeTrackStatsDescReadKeyOps = NewDesc (BuildFQName namespace ndbInfo ''tc_time_track_stats_read_key_ops'')
     (''Total number of successful primary key reads on all DBTC block instances by latency as '' @ [CHR 0xCE, CHR 0xBC] @ ''s.'') [''node_id'']"

definition ndbinfoTCTimeTrackStatsDescWriteKeyOps :: desc where [desc_def]:
  "ndbinfoTCTimeTrackStatsDescWriteKeyOps = NewDesc (BuildFQName namespace ndbInfo ''tc_time_track_stats_write_key_ops'')
     (''Total number of successful primary key writes on all DBTC block instances by latency as '' @ [CHR 0xCE, CHR 0xBC] @ ''s.'') [''node_id'']"

definition ndbinfoTCTimeTrackStatsDescIndexKeyOps :: desc where [desc_def]:
  "ndbinfoTCTimeTrackStatsDescIndexKeyOps = NewDesc (BuildFQName namespace ndbInfo ''tc_time_track_stats_index_key_ops'')
     (''Total number of successful unique index key operations on all DBTC block instances by latency as '' @ [CHR 0xCE, CHR 0xBC] @ ''s.'') [''node_id'']"

definition ndbinfoTCTimeTrackStatsDescKeyOpErrors :: desc where [desc_def]:
  "ndbinfoTCTimeTrackStatsDescKeyOpErrors = NewDesc (BuildFQName namespace ndbInfo ''tc_time_track_stats_key_op_errors'')
     (''Total number of unsuccessful key read or write operations on all DBTC block instances by latency as '' @ [CHR 0xCE, CHR 0xBC] @ ''s.'') [''node_id'']"

lemma arity_ndbinfo_tc_time_track_stats [simp, desc_arity]:
  "length (var_labels ndbinfoTCTimeTrackStatsDescScans) = 1"
  "length (var_labels ndbinfoTCTimeTrackStatsDescScanErrors) = 1"
  "length (var_labels ndbinfoTCTimeTrackStatsDescScanFragments) = 1"
  "length (var_labels ndbinfoTCTimeTrackStatsDescScanFragmentErrors) = 1"
  "length (var_labels ndbinfoTCTimeTrackStatsDescTransactions) = 1"
  "length (var_labels ndbinfoTCTimeTrackStatsDescTransactionErrors) = 1"
  "length (var_labels ndbinfoTCTimeTrackStatsDescReadKeyOps) = 1"
  "length (var_labels ndbinfoTCTimeTrackStatsDescWriteKeyOps) = 1"
  "length (var_labels ndbinfoTCTimeTrackStatsDescIndexKeyOps) = 1"
  "length (var_labels ndbinfoTCTimeTrackStatsDescKeyOpErrors) = 1"
  by (simp_all add: desc_def)

definition ScrapeNDBInfoTCTimeTrackStats_Name :: string where "ScrapeNDBInfoTCTimeTrackStats_Name = ndbInfo @ ''.tc_time_track_stats''"

definition ScrapeNDBInfoTCTimeTrackStats_Help :: string where "ScrapeNDBInfoTCTimeTrackStats_Help = ''Collect metrics from ndbinfo.tc_time_track_stats''"

definition ScrapeNDBInfoTCTimeTrackStats_Version :: float64 where "ScrapeNDBInfoTCTimeTrackStats_Version = f_lit 56 1"


definition ScrapeNDBInfoTCTimeTrackStats_descs :: "desc list" where
  "ScrapeNDBInfoTCTimeTrackStats_descs =
     [ndbinfoTCTimeTrackStatsDescScans,
      ndbinfoTCTimeTrackStatsDescScanErrors,
      ndbinfoTCTimeTrackStatsDescScanFragments,
      ndbinfoTCTimeTrackStatsDescScanFragmentErrors,
      ndbinfoTCTimeTrackStatsDescTransactions,
      ndbinfoTCTimeTrackStatsDescTransactionErrors,
      ndbinfoTCTimeTrackStatsDescReadKeyOps,
      ndbinfoTCTimeTrackStatsDescWriteKeyOps,
      ndbinfoTCTimeTrackStatsDescIndexKeyOps,
      ndbinfoTCTimeTrackStatsDescKeyOpErrors]"

definition ScrapeNDBInfoTCTimeTrackStats_dests :: "dest list" where
  "ScrapeNDBInfoTCTimeTrackStats_dests = DStr # DF64 # replicate 10 DU64"

definition ScrapeNDBInfoTCTimeTrackStats_Scrape :: "string range_order \<Rightarrow> database \<Rightarrow> scrape_out" where
  "ScrapeNDBInfoTCTimeTrackStats_Scrape =
     hist_scrape ndbinfoTCTimeTrackStatsQuery ScrapeNDBInfoTCTimeTrackStats_dests
       ndbinfoTCTimeTrackStatsHistogramHelper ScrapeNDBInfoTCTimeTrackStats_descs"

section \<open>Safety\<close>

lemma hist_finish_ok:
  "list_all (\<lambda>d. length (var_labels d) = 1) descs \<Longrightarrow>
   list_all metric_ok (hist_finish upperBounds ord n descs maps)"
  by (induction upperBounds ord n descs maps rule: hist_finish.induct)
    (auto simp: hist_metric_def Let_def metric_ok_Const list_all_iff)

lemma hist_safe:
  assumes "list_all (\<lambda>d. length (var_labels d) = 1) descs"
  shows "finishing_scraper ds hist_step (\<lambda>_. True) (replicate (length descs) [])
    (\<lambda>maps. send_all (hist_finish upperBounds ord 0 descs maps))"
  using assms by unfold_locales (simp_all add: hist_step_def Let_def send_all_ok hist_finish_ok)

interpretation fin_pgman: finishing_scraper ScrapeNDBInfoPGMANTimeTrackStats_dests hist_step "\<lambda>_. True"
  ndbinfoPGMANTimeTrackStatsQuery "replicate (length ScrapeNDBInfoPGMANTimeTrackStats_descs) []"
  "\<lambda>maps. send_all (hist_finish ndbinfoPGMANTimeTrackStatsHistogramHelper ord 0
     ScrapeNDBInfoPGMANTimeTrackStats_descs maps)" for ord
  by (rule hist_safe) (simp add: ScrapeNDBInfoPGMANTimeTrackStats_descs_def)

interpretation fin_tc: finishing_scraper ScrapeNDBInfoTCTimeTrackStats_dests hist_step "\<lambda>_. True"
  ndbinfoTCTimeTrackStatsQuery "replicate (length ScrapeNDBInfoTCTimeTrackStats_descs) []"
  "\<lambda>maps. send_all (hist_finish ndbinfoTCTimeTrackStatsHistogramHelper ord 0
     ScrapeNDBInfoTCTimeTrackStats_descs maps)" for ord
  by (rule hist_safe) (simp add: ScrapeNDBInfoTCTimeTrackStats_descs_def)

section \<open>Properties\<close>

text \<open>
  \<open>MakeCumulative\<close> leaves at the bound number \<open>i\<close> the sum, modulo \<open>2 ^ 64\<close>, of the counts
  the bucket had at the bounds up to \<open>i\<close>, and does not touch a key that is no bound.
\<close>

theorem make_cumulative_sums:
  assumes "distinct_bounds bounds"
  shows "(\<forall>i < length bounds. bucket_get (bounds ! i) (hist_MakeCumulative bounds b) =
            sum_list (map (\<lambda>k. bucket_get k b) (take (Suc i) bounds))) \<and>
         (\<forall>k. list_all (\<lambda>c. \<not> f_eq k c) bounds \<longrightarrow>
            bucket_get k (hist_MakeCumulative bounds b) = bucket_get k b)"
  using assms by (simp add: hist_MakeCumulative_def cumulate_get cumulate_other)

lemma pgman_bounds: "distinct_bounds ndbinfoPGMANTimeTrackStatsHistogramHelper" by code_simp
lemma tc_bounds: "distinct_bounds ndbinfoTCTimeTrackStatsHistogramHelper" by code_simp

theorem make_cumulative_sums_witness:
  "bucket_get (f_of_int 32) (hist_MakeCumulative ndbinfoPGMANTimeTrackStatsHistogramHelper
     [(f_of_int 32, 5), (f_of_int 0, 2), (f_of_int 16, 1)]) = 8"
proof -
  have n: "ndbinfoPGMANTimeTrackStatsHistogramHelper ! 2 = f_of_int 32"
      "2 < length ndbinfoPGMANTimeTrackStatsHistogramHelper"
    by (simp_all add: ndbinfoPGMANTimeTrackStatsHistogramHelper_def)
  have s: "sum_list (map (\<lambda>k. bucket_get k [(f_of_int 32, 5), (f_of_int 0, 2), (f_of_int 16, 1)])
      (take (Suc 2) ndbinfoPGMANTimeTrackStatsHistogramHelper)) = 8" by code_simp
  show ?thesis using make_cumulative_sums [OF pgman_bounds,
      of "[(f_of_int 32, 5), (f_of_int 0, 2), (f_of_int 16, 1)]"] n s by metis
qed

text \<open>Rows are written to each column's map separately.\<close>

definition column_map :: "gval list list \<Rightarrow> nat \<Rightarrow> node_buckets" where
  "column_map vss c =
     foldl (\<lambda>m vs. hist_record (g_str (vs ! 0)) (g_f64 (vs ! 1)) (g_u64 (vs ! (c + 2))) m) [] vss"

text \<open>The count the rows give for a node and bound: the last row's, or 0 when there is none.\<close>

definition last_count :: "gval list list \<Rightarrow> nat \<Rightarrow> string \<Rightarrow> float64 \<Rightarrow> u64" where
  "last_count vss c node ub =
     (let l = filter (\<lambda>vs. g_str (vs ! 0) = node \<and> f_eq ub (g_f64 (vs ! 1))) vss
      in if l = [] then 0 else g_u64 (last l ! (c + 2)))"

lemma hist_record_get:
  "bucket_get ub (smap_get [] node (hist_record node' ub' v m)) =
     (if node = node' \<and> f_eq ub ub' then v else bucket_get ub (smap_get [] node m))"
  by (simp add: hist_record_def smap.get_put bkt.get_put)

lemma last_count_snoc:
  "last_count (vss @ [vs]) c node ub =
     (if g_str (vs ! 0) = node \<and> f_eq ub (g_f64 (vs ! 1)) then g_u64 (vs ! (c + 2)) else last_count vss c node ub)"
  by (simp add: last_count_def Let_def)

lemma column_map_get: "bucket_get ub (smap_get [] node (column_map vss c)) = last_count vss c node ub"
proof (induction vss rule: rev_induct)
  case (snoc vs vss)
  then show ?case by (simp add: column_map_def hist_record_get last_count_snoc)
qed (simp add: column_map_def last_count_def)

definition hist_next :: "node_buckets list \<Rightarrow> gval list \<Rightarrow> node_buckets list" where
  "hist_next maps vs = map2 (\<lambda>m v. hist_record (g_str (vs ! 0)) (g_f64 (vs ! 1)) (g_u64 v) m) maps (drop 2 vs)"

lemma hist_step_eq: "hist_step maps vs = (hist_next maps vs, [], Done)"
  by (simp add: hist_step_def hist_next_def)

lemma hist_next_columns:
  "list_all (\<lambda>vs. length vs = n + 2) vss \<Longrightarrow>
   foldl hist_next (replicate n []) vss = map (column_map vss) [0..<n]"
proof (induction vss rule: rev_induct)
  case Nil
  then show ?case by (simp add: column_map_def map_replicate_const)
next
  case (snoc vs vss)
  then show ?case
    by (intro nth_equalityI) (simp_all add: hist_next_def column_map_def)
qed

lemma good_rows_length: "list_all (\<lambda>vs. length vs = length ds) (good_rows ds rows)"
  using good_rows_typed by (fastforce simp: list_all_iff)

lemma hist_finish_eq:
  "length descs = length maps \<Longrightarrow>
   hist_finish bounds ord n descs maps =
     concat (map (\<lambda>i. map (\<lambda>node. hist_metric bounds (descs ! i) node (smap_get [] node (maps ! i)))
                        (ord (n + i) (map fst (maps ! i)))) [0..<length descs])"
proof (induction bounds ord n descs maps rule: hist_finish.induct)
  case (1 bounds ord n d ds m ms)
  then show ?case by (simp add: upt_rec [of 0] map_Suc_upt [symmetric] comp_def del: upt_Suc)
qed simp_all

lemma hist_scrape_eq:
  assumes "db 0 q [] = Inr rs" "first_scan_error ds (rs_rows rs) = None" "length ds = length descs + 2"
    and "list_all (\<lambda>d. length (var_labels d) = 1) descs"
  shows "hist_scrape q ds bounds descs ord db =
    (hist_finish bounds ord 0 descs (map (column_map (good_rows ds (rs_rows rs))) [0..<length descs]), Done)"
proof -
  have "foldl hist_next (replicate (length descs) []) (good_rows ds (rs_rows rs)) =
      map (column_map (good_rows ds (rs_rows rs))) [0..<length descs]"
    using good_rows_length [of ds "rs_rows rs"] assms(3) by (intro hist_next_columns) simp
  then show ?thesis
    using assms loop_scrape_eq [where db = db and q = q and rs = rs and ds = ds and step = hist_step
        and nxt = hist_next and emit = "\<lambda>vs. []"]
    by (simp add: hist_scrape_def hist_step_eq send_all_ok hist_finish_ok)
qed

lemma column_map_keys:
  "set (map fst (column_map vss c)) = set (map (\<lambda>vs. g_str (vs ! 0)) vss)"
proof (induction vss rule: rev_induct)
  case (snoc vs vss)
  have "column_map (vss @ [vs]) c = hist_record (g_str (vs ! 0)) (g_f64 (vs ! 1)) (g_u64 (vs ! (c + 2))) (column_map vss c)"
    by (simp add: column_map_def)
  with snoc show ?case by (simp add: hist_record_def smap_put_keys del: set_map)
qed (simp add: column_map_def)

lemma hist_metric_counts:
  assumes "distinct_bounds bounds" "bounds \<noteq> []"
  shows "\<exists>total b. hist_metric bounds d node (smap_get [] node (column_map vss c)) =
      ConstHistogram d (sum_list (map (last_count vss c node) bounds)) total b [node] \<and>
      (\<forall>i < length bounds. bucket_get (bounds ! i) b = sum_list (map (last_count vss c node) (take (Suc i) bounds)))"
  using assms
  by (simp add: hist_metric_def Let_def hist_MakeCumulative_def hist_GetLast_def cumulate_get column_map_get)

lemma hist_scrape_counts:
  assumes "db 0 q [] = Inr rs" "first_scan_error ds (rs_rows rs) = None" "length ds = length descs + 2"
    and "list_all (\<lambda>d. length (var_labels d) = 1) descs"
    and "is_range_order ord" "c < length descs" "vs \<in> set (good_rows ds (rs_rows rs))"
    and "distinct_bounds bounds" "bounds \<noteq> []"
  shows "\<exists>total b. let node = g_str (vs ! 0); vss = good_rows ds (rs_rows rs) in
      ConstHistogram (descs ! c) (sum_list (map (last_count vss c node) bounds)) total b [node]
        \<in> set (fst (hist_scrape q ds bounds descs ord db)) \<and>
      (\<forall>i < length bounds. bucket_get (bounds ! i) b = sum_list (map (last_count vss c node) (take (Suc i) bounds)))"
proof -
  let ?vss = "good_rows ds (rs_rows rs)" and ?node = "g_str (vs ! 0)"
  let ?m = "hist_metric bounds (descs ! c) ?node (smap_get [] ?node (column_map ?vss c))"
  have "?node \<in> set (map fst (column_map ?vss c))" using assms(7) by (subst column_map_keys) simp
  then have "?m \<in> set (fst (hist_scrape q ds bounds descs ord db))"
    using assms(6) hist_scrape_eq [where db = db and q = q, OF assms(1-4)]
    by (force simp: hist_finish_eq range_order_set [OF assms(5)])
  moreover obtain total b where "?m = ConstHistogram (descs ! c) (sum_list (map (last_count ?vss c ?node) bounds))
        total b [?node]"
    and "\<forall>i < length bounds. bucket_get (bounds ! i) b = sum_list (map (last_count ?vss c ?node) (take (Suc i) bounds))"
    using hist_metric_counts [OF assms(8,9)] by blast
  ultimately show ?thesis unfolding Let_def by (intro exI conjI) simp_all
qed

lemma pgman_shape:
  "length ScrapeNDBInfoPGMANTimeTrackStats_dests = length ScrapeNDBInfoPGMANTimeTrackStats_descs + 2"
  "list_all (\<lambda>d. length (var_labels d) = 1) ScrapeNDBInfoPGMANTimeTrackStats_descs"
  "length ScrapeNDBInfoPGMANTimeTrackStats_descs = 4"
  "ndbinfoPGMANTimeTrackStatsHistogramHelper \<noteq> []"
  by (simp_all add: ScrapeNDBInfoPGMANTimeTrackStats_descs_def ScrapeNDBInfoPGMANTimeTrackStats_dests_def
      ndbinfoPGMANTimeTrackStatsHistogramHelper_def)

text \<open>
  C6: when every row of \<open>pgman_time_track_stats\<close> scans, each node that has a row gets a histogram
  in every column; its count is the sum of the node's counts over all bounds of the table, and
  its bucket at a bound the sum up to that bound, modulo \<open>2 ^ 64\<close>.
\<close>

theorem pgman_histograms:
  assumes "db 0 ndbinfoPGMANTimeTrackStatsQuery [] = Inr rs"
    and "first_scan_error ScrapeNDBInfoPGMANTimeTrackStats_dests (rs_rows rs) = None"
    and "is_range_order ord" "c < 4"
    and "vs \<in> set (good_rows ScrapeNDBInfoPGMANTimeTrackStats_dests (rs_rows rs))"
  shows "\<exists>total b.
    let node = g_str (vs ! 0);
        vss = good_rows ScrapeNDBInfoPGMANTimeTrackStats_dests (rs_rows rs);
        bounds = ndbinfoPGMANTimeTrackStatsHistogramHelper
    in ConstHistogram (ScrapeNDBInfoPGMANTimeTrackStats_descs ! c)
         (sum_list (map (last_count vss c node) bounds)) total b [node]
         \<in> set (fst (ScrapeNDBInfoPGMANTimeTrackStats_Scrape ord db)) \<and>
       (\<forall>i < length bounds.
          bucket_get (bounds ! i) b = sum_list (map (last_count vss c node) (take (Suc i) bounds)))"
  using hist_scrape_counts [where db = db and q = ndbinfoPGMANTimeTrackStatsQuery
      and descs = ScrapeNDBInfoPGMANTimeTrackStats_descs and c = c,
      OF assms(1,2) pgman_shape(1,2) assms(3) _ assms(5) pgman_bounds pgman_shape(4)] assms(4)
  by (simp only: ScrapeNDBInfoPGMANTimeTrackStats_Scrape_def pgman_shape(3) Let_def)

definition pgman_rs :: rowset where
  "pgman_rs = \<lparr>rs_cols = Inr [], rs_rows =
     [map CBytes [''1'', ''0'', ''3'', ''0'', ''0'', ''0''], map CBytes [''1'', ''32'', ''4'', ''1'', ''0'', ''0''],
      map CBytes [''2'', ''16'', ''9'', ''0'', ''0'', ''0'']], rs_err = None\<rparr>"

lemma pgman_total:
  "sum_list (map (last_count (good_rows ScrapeNDBInfoPGMANTimeTrackStats_dests (rs_rows pgman_rs)) 0 ''1'')
      ndbinfoPGMANTimeTrackStatsHistogramHelper) = 7"
  by code_simp

theorem pgman_histograms_witness:
  "\<exists>total b. ConstHistogram ndbinfoPGMANTimeTrackStatsDescPageReads 7 total b [''1'']
     \<in> set (fst (ScrapeNDBInfoPGMANTimeTrackStats_Scrape (\<lambda>_ ks. rev ks) (\<lambda>_ _ _. Inr pgman_rs)))"
proof -
  let ?vss = "good_rows ScrapeNDBInfoPGMANTimeTrackStats_dests (rs_rows pgman_rs)"
  have e: "first_scan_error ScrapeNDBInfoPGMANTimeTrackStats_dests (rs_rows pgman_rs) = None"
    and n: "g_str (hd ?vss ! 0) = ''1''" and ne: "?vss \<noteq> []" by code_simp+
  have o: "is_range_order (\<lambda>_ ks. rev ks)" by (simp add: is_range_order_def)
  have d: "ScrapeNDBInfoPGMANTimeTrackStats_descs ! 0 = ndbinfoPGMANTimeTrackStatsDescPageReads"
    by (simp add: ScrapeNDBInfoPGMANTimeTrackStats_descs_def)
  from ne have "hd ?vss \<in> set ?vss" by simp
  from pgman_histograms [OF refl e o _ this, of 0] show ?thesis
    by (auto simp: Let_def n d pgman_total)
qed

text \<open>The order \<open>range\<close> picks only permutes the metrics.\<close>

lemma hist_finish_order:
  assumes "is_range_order ord" "is_range_order ord'"
  shows "mset (hist_finish bounds ord n descs maps) = mset (hist_finish bounds ord' n descs maps)"
proof (induction descs arbitrary: n maps)
  case (Cons d ds)
  then show ?case
    by (cases maps) (simp_all add: mset_range [OF assms(1)] mset_range [OF assms(2)] del: mset_map)
qed simp

lemma hist_scrape_order:
  assumes "is_range_order ord" "is_range_order ord'" "list_all (\<lambda>d. length (var_labels d) = 1) descs"
  shows "mset (fst (hist_scrape q ds bounds descs ord db)) = mset (fst (hist_scrape q ds bounds descs ord' db)) \<and>
    snd (hist_scrape q ds bounds descs ord db) = snd (hist_scrape q ds bounds descs ord' db)"
  using hist_finish_order [OF assms(1,2)] assms(3)
  by (auto simp: hist_scrape_def loop_scrape_def with_query_def send_all_ok hist_finish_ok and_then_cases
      split: sum.splits prod.splits)



end
