(* ===== verification/NdbDiskWrite.thy ===== *)
theory NdbDiskWrite
  imports NdbBase
begin

text \<open>
  \<open>ndbinfo_disk_write_speed.go\<close>: a scraper with a background task. The scrape starts a
  goroutine that queries the table every 30 seconds and adds what was written to a counter kept
  in a package variable; later scrapes send the counter. The package variables are the record
  \<open>dw_state\<close>; the goroutines are its list of tasks, each in one of the places where another
  goroutine can run between its accesses to the variables. What a single access does is one
  step of \<open>dw_step\<close>; torn reads and writes are not modelled.
\<close>

subsection \<open>ndbinfo_disk_write_speed.go\<close>

definition ndbinfoDiskWriteSpeedQueryBase :: string where
  "ndbinfoDiskWriteSpeedQueryBase = ''
	SELECT
		node_id,
		thr_no,
		backup_lcp_bytes_written,
		redo_bytes_written
	FROM ndbinfo.disk_write_speed_base
	ORDER BY node_id, thr_no, millis_ago;
''"

definition ndbinfoDiskWriteSpeedQueryAggregate :: string where
  "ndbinfoDiskWriteSpeedQueryAggregate = ''
	SELECT
		node_id,
		thr_no,
		slowdowns_due_to_io_lag,
		slowdowns_due_to_high_cpu,
		disk_write_speed_set_to_min,
		current_target_disk_write_speed
	FROM ndbinfo.disk_write_speed_aggregate;
''"

definition ndbinfoDiskWriteSpeedDescBackupLCPSpeed :: desc where [desc_def]:
  "ndbinfoDiskWriteSpeedDescBackupLCPSpeed = NewDesc (BuildFQName namespace ndbInfo ''disk_write_speed_backup_lcp_bytes'')
     ''Number of bytes written to disk by backup and LCP processes.'' [''node_id'', ''thr_no'']"

definition ndbinfoDiskWriteSpeedDescRedoSpeed :: desc where [desc_def]:
  "ndbinfoDiskWriteSpeedDescRedoSpeed = NewDesc (BuildFQName namespace ndbInfo ''disk_write_speed_redo_bytes'')
     ''Number of bytes written to REDO log.'' [''node_id'', ''thr_no'']"

definition ndbinfoDiskWriteSpeedDescSlowdownsDueToIoLag :: desc where [desc_def]:
  "ndbinfoDiskWriteSpeedDescSlowdownsDueToIoLag = NewDesc (BuildFQName namespace ndbInfo ''disk_write_speed_slowdowns_io_lag'')
     ''Number of seconds since last node start that disk writes were slowed due to REDO log I/O lag.'' [''node_id'', ''thr_no'']"

definition ndbinfoDiskWriteSpeedDescSlowdownsDueToHighCPU :: desc where [desc_def]:
  "ndbinfoDiskWriteSpeedDescSlowdownsDueToHighCPU = NewDesc (BuildFQName namespace ndbInfo ''disk_write_speed_slowdowns_high_cpu'')
     ''Number of seconds since last node start that disk writes were slowed due to high CPU usage.'' [''node_id'', ''thr_no'']"

definition ndbinfoDiskWriteSpeedDescDiskWriteSpeedSetToMin :: desc where [desc_def]:
  "ndbinfoDiskWriteSpeedDescDiskWriteSpeedSetToMin = NewDesc (BuildFQName namespace ndbInfo ''disk_write_speed_set_to_min'')
     ''Number of seconds since last node start that disk write speed was set to minimum.'' [''node_id'', ''thr_no'']"

definition ndbinfoDiskWriteSpeedDescCurrentTargetDistWriteSpeed :: desc where [desc_def]:
  "ndbinfoDiskWriteSpeedDescCurrentTargetDistWriteSpeed = NewDesc (BuildFQName namespace ndbInfo ''disk_write_speed_target_speed'')
     ''Actual speed of disk writes per LDM thread (aggregated).'' [''node_id'', ''thr_no'']"

lemma arity_ndbinfo_disk_write_speed [simp, desc_arity]:
  "length (var_labels ndbinfoDiskWriteSpeedDescBackupLCPSpeed) = 2"
  "length (var_labels ndbinfoDiskWriteSpeedDescRedoSpeed) = 2"
  "length (var_labels ndbinfoDiskWriteSpeedDescSlowdownsDueToIoLag) = 2"
  "length (var_labels ndbinfoDiskWriteSpeedDescSlowdownsDueToHighCPU) = 2"
  "length (var_labels ndbinfoDiskWriteSpeedDescDiskWriteSpeedSetToMin) = 2"
  "length (var_labels ndbinfoDiskWriteSpeedDescCurrentTargetDistWriteSpeed) = 2"
  by (simp_all add: desc_def)

definition ScrapeNDBInfoDiskWriteSpeed_Name :: string where "ScrapeNDBInfoDiskWriteSpeed_Name = ndbInfo @ ''.disk_write_speed''"

definition ScrapeNDBInfoDiskWriteSpeed_Help :: string where "ScrapeNDBInfoDiskWriteSpeed_Help = ''Collect metrics from ndbinfo.disk_write_speed* tables''"

definition ScrapeNDBInfoDiskWriteSpeed_Version :: float64 where "ScrapeNDBInfoDiskWriteSpeed_Version = f_lit 56 1"


section \<open>The counter\<close>

record write_speed_lookup =
  wl_nodeID :: string
  wl_thrNo :: string

record bytes_written =
  bw_backupLcp :: u64
  bw_redo :: u64

type_synonym counter_map = "(write_speed_lookup \<times> bytes_written) list"

definition no_bytes :: bytes_written where
  "no_bytes = \<lparr>bw_backupLcp = 0, bw_redo = 0\<rparr>"

definition bytes_plus :: "bytes_written \<Rightarrow> bytes_written \<Rightarrow> bytes_written" where
  "bytes_plus entry value = \<lparr>bw_backupLcp = bw_backupLcp entry + bw_backupLcp value,
                             bw_redo = bw_redo entry + bw_redo value\<rparr>"

text \<open>\<open>if entry, ok := m[key]; ok { add } else { m[key] = value }\<close>\<close>

definition counter_put :: "write_speed_lookup \<Rightarrow> bytes_written \<Rightarrow> counter_map \<Rightarrow> counter_map" where
  "counter_put key value m =
     (case map_of m key of
        Some entry \<Rightarrow> smap_put key (bytes_plus entry value) m
      | None \<Rightarrow> smap_put key value m)"

definition counter_add ::
    "write_speed_lookup range_order \<Rightarrow> counter_map \<Rightarrow> counter_map \<Rightarrow> counter_map" where
  "counter_add ord self update =
     foldl (\<lambda>m key. counter_put key (smap_get no_bytes key update) m) self (ord 0 (map fst update))"

section \<open>One tick of the task\<close>

definition task_dests :: "dest list" where
  "task_dests = [DStr, DStr, DU64, DU64]"

text \<open>The state of the loop: \<open>sumLimit\<close> (Go's 64-bit \<open>uint\<close>) and \<open>update\<close>.\<close>

definition task_step ::
    "u64 \<Rightarrow> (write_speed_lookup \<times> u64) list \<times> counter_map \<Rightarrow> gval list \<Rightarrow>
     ((write_speed_lookup \<times> u64) list \<times> counter_map) \<times> scrape_out" where
  "task_step intervalSecs st vs =
     (let (sumLimit, update) = st;
          lookup = \<lparr>wl_nodeID = g_str (vs ! 0), wl_thrNo = g_str (vs ! 1)\<rparr>;
          written = \<lparr>bw_backupLcp = g_u64 (vs ! 2), bw_redo = g_u64 (vs ! 3)\<rparr>
      in if smap_get 0 lookup sumLimit \<ge> intervalSecs then (st, [], Done)
         else ((smap_put lookup (smap_get 0 lookup sumLimit + 1) sumLimit,
                counter_put lookup written update), [], Done))"

definition ndbinfoDiskWriteSpeedTaskScrape :: "u64 \<Rightarrow> database \<Rightarrow> go_err + counter_map" where
  "ndbinfoDiskWriteSpeedTaskScrape intervalSecs db =
     (case db 0 ndbinfoDiskWriteSpeedQueryBase [] of
        Inl e \<Rightarrow> Inl (EWrap ''error while querying: '' e)
      | Inr rows \<Rightarrow>
         (case row_loop task_dests (task_step intervalSecs) ([], []) (rs_rows rows) of
            (_, _, Failed e) \<Rightarrow> Inl (EWrap ''error while scanning: '' e)
          | ((sumLimit, update), _, _) \<Rightarrow> Inr update))"

section \<open>The package variables and the goroutines\<close>

datatype task =
    Spawned    \<comment> \<open>the \<open>go\<close> statement has run, the task has not\<close>
  | Connecting \<comment> \<open>\<open>TaskRunning\<close> is set, \<open>newInstance\<close> has not returned\<close>
  | Ticking    \<comment> \<open>waits for the ticker\<close>
  | Stopped

record dw_state =
  dw_running :: bool              \<comment> \<open>\<open>ndbinfoDiskWriteSpeedTaskRunning\<close>\<close>
  dw_conn :: bool                 \<comment> \<open>\<open>ndbinfoDiskWriteSpeedTaskConn\<close> is not nil\<close>
  dw_last_error :: "go_err option"
  dw_counter :: counter_map
  dw_tasks :: "task list"
  dw_crashed :: bool              \<comment> \<open>a goroutine panicked, so the process is gone\<close>

definition dw_init :: dw_state where
  "dw_init = \<lparr>dw_running = False, dw_conn = False, dw_last_error = None, dw_counter = [],
              dw_tasks = [], dw_crashed = False\<rparr>"

definition aggregate_dests :: "dest list" where
  "aggregate_dests = [DStr, DStr, DU64, DU64, DU64, DU64]"

definition aggregate_row :: "gval list \<Rightarrow> metric list" where
  "aggregate_row vs =
     (let nodeID = g_str (vs ! 0);
          thrNo = g_str (vs ! 1);
          slowdownsDueToIoLag = g_u64 (vs ! 2);
          slowdownsDueToHighCPU = g_u64 (vs ! 3);
          diskWriteSpeedSetToMin = g_u64 (vs ! 4);
          currentTargetDiskWriteSpeed = g_u64 (vs ! 5)
      in [ConstMetric ndbinfoDiskWriteSpeedDescSlowdownsDueToIoLag CounterValue (f_of_u64 slowdownsDueToIoLag)
            [nodeID, thrNo],
          ConstMetric ndbinfoDiskWriteSpeedDescSlowdownsDueToHighCPU CounterValue (f_of_u64 slowdownsDueToHighCPU)
            [nodeID, thrNo],
          ConstMetric ndbinfoDiskWriteSpeedDescDiskWriteSpeedSetToMin CounterValue (f_of_u64 diskWriteSpeedSetToMin)
            [nodeID, thrNo],
          ConstMetric ndbinfoDiskWriteSpeedDescCurrentTargetDistWriteSpeed GaugeValue
            (f_of_u64 currentTargetDiskWriteSpeed) [nodeID, thrNo]])"

interpretation tbl_disk_write: table_scraper ndbinfoDiskWriteSpeedQueryAggregate aggregate_dests aggregate_row
  by unfold_locales (simp add: aggregate_row_def Let_def metric_ok_Const)

definition counter_metrics :: "write_speed_lookup range_order \<Rightarrow> counter_map \<Rightarrow> metric list" where
  "counter_metrics ord m =
     concat (map (\<lambda>lookup. let bytesWritten = smap_get no_bytes lookup m in
        [ConstMetric ndbinfoDiskWriteSpeedDescBackupLCPSpeed CounterValue (f_of_u64 (bw_backupLcp bytesWritten))
           [wl_nodeID lookup, wl_thrNo lookup],
         ConstMetric ndbinfoDiskWriteSpeedDescRedoSpeed CounterValue (f_of_u64 (bw_redo bytesWritten))
           [wl_nodeID lookup, wl_thrNo lookup]]) (ord 0 (map fst m)))"

definition ScrapeNDBInfoDiskWriteSpeed_Scrape ::
    "string \<Rightarrow> write_speed_lookup range_order \<Rightarrow> dw_state \<Rightarrow> database \<Rightarrow> dw_state \<times> scrape_out" where
  "ScrapeNDBInfoDiskWriteSpeed_Scrape verbosity ord s0 db =
     (let s = (if \<not> dw_running s0 then s0\<lparr>dw_tasks := dw_tasks s0 @ [Spawned]\<rparr> else s0)
      in case dw_last_error s of
           Some e \<Rightarrow> (s\<lparr>dw_last_error := None\<rparr>, [], Failed e)
         | None \<Rightarrow>
             (s, and_then (send_all (counter_metrics ord (dw_counter s)))
                   (if verbosity = ''1''
                    then table_scrape ndbinfoDiskWriteSpeedQueryAggregate aggregate_dests aggregate_row db
                    else ([], Done))))"

text \<open>The deferred function of the task.\<close>

definition task_exit :: "nat \<Rightarrow> dw_state \<Rightarrow> dw_state" where
  "task_exit i s = s\<lparr>dw_running := False, dw_conn := False, dw_tasks := (dw_tasks s)[i := Stopped]\<rparr>"

definition task_begin :: "nat \<Rightarrow> dw_state \<Rightarrow> dw_state" where
  "task_begin i s = s\<lparr>dw_running := True, dw_tasks := (dw_tasks s)[i := Connecting]\<rparr>"

text \<open>\<open>newInstance\<close> has returned an instance or an error.\<close>

definition task_connect :: "nat \<Rightarrow> bool \<Rightarrow> dw_state \<Rightarrow> dw_state" where
  "task_connect i ok s =
     (if ok then s\<lparr>dw_conn := True, dw_tasks := (dw_tasks s)[i := Ticking]\<rparr> else task_exit i s)"

text \<open>
  A tick. \<open>ndbinfoDiskWriteSpeedTaskConn.getDB()\<close> reads a field of the instance, so a nil
  instance is a panic that nothing recovers.
\<close>

definition task_tick ::
    "u64 \<Rightarrow> nat \<Rightarrow> write_speed_lookup range_order \<Rightarrow> database \<Rightarrow> dw_state \<Rightarrow> dw_state" where
  "task_tick intervalSecs i ord db s =
     (if \<not> dw_conn s then s\<lparr>dw_crashed := True\<rparr>
      else case ndbinfoDiskWriteSpeedTaskScrape intervalSecs db of
             Inl e \<Rightarrow> task_exit i (s\<lparr>dw_last_error := Some (EWrap ''failed to scrape from background task: '' e)\<rparr>)
           | Inr update \<Rightarrow>
               s\<lparr>dw_last_error := None, dw_counter := counter_add ord (dw_counter s) update\<rparr>)"

datatype dw_event =
    EvScrape string "write_speed_lookup range_order" database
  | EvBegin nat
  | EvConnect nat bool
  | EvTick nat "write_speed_lookup range_order" database

definition intervalSecs :: u64 where "intervalSecs = 30"

inductive dw_step :: "dw_state \<Rightarrow> dw_event \<Rightarrow> dw_state \<Rightarrow> bool" where
  scrape: "\<not> dw_crashed s \<Longrightarrow> is_range_order ord \<Longrightarrow>
    dw_step s (EvScrape v ord db) (fst (ScrapeNDBInfoDiskWriteSpeed_Scrape v ord s db))"
| begin_task: "\<not> dw_crashed s \<Longrightarrow> i < length (dw_tasks s) \<Longrightarrow> dw_tasks s ! i = Spawned \<Longrightarrow>
    dw_step s (EvBegin i) (task_begin i s)"
| connect: "\<not> dw_crashed s \<Longrightarrow> i < length (dw_tasks s) \<Longrightarrow> dw_tasks s ! i = Connecting \<Longrightarrow>
    dw_step s (EvConnect i ok) (task_connect i ok s)"
| tick: "\<not> dw_crashed s \<Longrightarrow> i < length (dw_tasks s) \<Longrightarrow> dw_tasks s ! i = Ticking \<Longrightarrow> is_range_order ord \<Longrightarrow>
    dw_step s (EvTick i ord db) (task_tick intervalSecs i ord db s)"

inductive_cases dw_scrapeE: "dw_step s (EvScrape v ord db) s'"
inductive_cases dw_beginE: "dw_step s (EvBegin i) s'"
inductive_cases dw_connectE: "dw_step s (EvConnect i ok) s'"
inductive_cases dw_tickE: "dw_step s (EvTick i ord db) s'"
inductive_simps dw_step_simps:
  "dw_step s (EvScrape v ord db) s'" "dw_step s (EvBegin i) s'" "dw_step s (EvConnect i ok) s'"
  "dw_step s (EvTick i ord db) s'"

inductive dw_run :: "dw_state \<Rightarrow> dw_event list \<Rightarrow> dw_state \<Rightarrow> bool" where
  run_nil: "dw_run s [] s"
| run_cons: "dw_step s e s' \<Longrightarrow> dw_run s' es s'' \<Longrightarrow> dw_run s (e # es) s''"

inductive_cases dw_run_consE: "dw_run s (e # es) s''"
inductive_simps dw_run_simps: "dw_run s [] s'" "dw_run s (e # es) s''"

section \<open>Laws of the counter\<close>

lemma smap_get_map_of: "smap_get z k m = (case map_of m k of None \<Rightarrow> z | Some v \<Rightarrow> v)"
  by (induction z k m rule: smap_get.induct) auto

lemma smap_get_absent: "k \<notin> fst ` set m \<Longrightarrow> smap_get z k m = z"
  by (induction m) auto

lemma bytes_plus_laws:
  "bytes_plus no_bytes b = b" "bytes_plus b no_bytes = b"
  "bytes_plus (bytes_plus a b) c = bytes_plus a (bytes_plus b c)"
  by (simp_all add: bytes_plus_def no_bytes_def ac_simps)

lemma counter_put_get:
  "smap_get no_bytes k (counter_put k' v m) =
     (if k = k' then bytes_plus (smap_get no_bytes k m) v else smap_get no_bytes k m)"
  by (auto simp: counter_put_def smap.get_put smap_get_map_of [of _ k' m] bytes_plus_laws split: option.splits)

lemma counter_put_distinct: "distinct (map fst m) \<Longrightarrow> distinct (map fst (counter_put k v m))"
  by (auto simp: counter_put_def smap_put_distinct split: option.splits simp del: set_map)

lemma counter_fold_get:
  "distinct ks \<Longrightarrow>
   smap_get no_bytes k (foldl (\<lambda>m key. counter_put key (smap_get no_bytes key u) m) m ks) =
     bytes_plus (smap_get no_bytes k m) (if k \<in> set ks then smap_get no_bytes k u else no_bytes)"
  by (induction ks arbitrary: m) (auto simp: counter_put_get bytes_plus_laws)

lemma counter_add_get:
  assumes "is_range_order ord" "distinct (map fst u)"
  shows "smap_get no_bytes k (counter_add ord m u) = bytes_plus (smap_get no_bytes k m) (smap_get no_bytes k u)"
proof -
  have "distinct (ord 0 (map fst u))"
    using assms by (metis is_range_order_def mset_eq_imp_distinct_iff)
  moreover have "set (ord 0 (map fst u)) = fst ` set u" by (simp add: range_order_set [OF assms(1)])
  ultimately show ?thesis
    by (simp add: counter_add_def counter_fold_get smap_get_absent)
qed

section \<open>What a tick adds\<close>

definition row_lookup :: "gval list \<Rightarrow> write_speed_lookup" where
  "row_lookup vs = \<lparr>wl_nodeID = g_str (vs ! 0), wl_thrNo = g_str (vs ! 1)\<rparr>"

definition row_bytes :: "gval list \<Rightarrow> bytes_written" where
  "row_bytes vs = \<lparr>bw_backupLcp = g_u64 (vs ! 2), bw_redo = g_u64 (vs ! 3)\<rparr>"

definition first_rows :: "nat \<Rightarrow> write_speed_lookup \<Rightarrow> gval list list \<Rightarrow> gval list list" where
  "first_rows n k vss = take n (filter (\<lambda>vs. row_lookup vs = k) vss)"

definition total_bytes :: "gval list list \<Rightarrow> bytes_written" where
  "total_bytes vss = foldl bytes_plus no_bytes (map row_bytes vss)"

definition task_next ::
    "u64 \<Rightarrow> (write_speed_lookup \<times> u64) list \<times> counter_map \<Rightarrow> gval list \<Rightarrow>
     (write_speed_lookup \<times> u64) list \<times> counter_map" where
  "task_next n st vs =
     (if smap_get 0 (row_lookup vs) (fst st) \<ge> n then st
      else (smap_put (row_lookup vs) (smap_get 0 (row_lookup vs) (fst st) + 1) (fst st),
            counter_put (row_lookup vs) (row_bytes vs) (snd st)))"

lemma task_step_eq: "task_step n st vs = (task_next n st vs, [], Done)"
  by (cases st) (simp add: task_step_def task_next_def row_lookup_def row_bytes_def Let_def)

lemma total_bytes_snoc: "total_bytes (vss @ [vs]) = bytes_plus (total_bytes vss) (row_bytes vs)"
  by (simp add: total_bytes_def)

lemma task_fold:
  fixes n :: u64 and vss :: "gval list list"
  defines "st \<equiv> foldl (task_next n) ([], []) vss"
  shows "smap_get 0 k (fst st) = of_nat (length (first_rows (unat n) k vss)) \<and>
         smap_get no_bytes k (snd st) = total_bytes (first_rows (unat n) k vss) \<and>
         distinct (map fst (snd st))"
  unfolding st_def
proof (induction vss arbitrary: k rule: rev_induct)
  case Nil
  then show ?case by (simp add: first_rows_def total_bytes_def)
next
  case (snoc vs vss)
  let ?st = "foldl (task_next n) ([], []) vss" and ?l = "row_lookup vs"
  have len: "length (first_rows (unat n) ?l vss) \<le> unat n" by (simp add: first_rows_def)
  have full: "smap_get 0 ?l (fst ?st) \<ge> n \<longleftrightarrow> length (first_rows (unat n) ?l vss) = unat n"
  proof -
    have "unat (of_nat (length (first_rows (unat n) ?l vss)) :: u64) = length (first_rows (unat n) ?l vss)"
      using len unsigned_less [where w = n and 'a = nat] by (simp add: unat_of_nat)
    then show ?thesis using snoc.IH [of ?l] len by (auto simp: word_le_nat_alt)
  qed
  have other: "first_rows (unat n) k (vss @ [vs]) = first_rows (unat n) k vss" if "k \<noteq> ?l"
    using that by (simp add: first_rows_def)
  have same: "first_rows (unat n) ?l (vss @ [vs]) =
      first_rows (unat n) ?l vss @ (if length (first_rows (unat n) ?l vss) = unat n then [] else [vs])"
    by (auto simp: first_rows_def)
  obtain sl up where st: "?st = (sl, up)" by (cases ?st)
  show ?case
  proof (cases "smap_get 0 ?l sl \<ge> n")
    case True
    then have "foldl (task_next n) ([], []) (vss @ [vs]) = (sl, up)" by (simp add: st task_next_def)
    with True full same other snoc.IH st show ?thesis by (cases "k = ?l") simp_all
  next
    case False
    then have "foldl (task_next n) ([], []) (vss @ [vs]) =
        (smap_put ?l (smap_get 0 ?l sl + 1) sl, counter_put ?l (row_bytes vs) up)"
      by (simp add: st task_next_def)
    with False full same other snoc.IH st show ?thesis
      by (cases "k = ?l") (simp_all add: smap.get_put counter_put_get total_bytes_snoc counter_put_distinct)
  qed
qed

lemma TaskScrape_eq:
  assumes "db 0 ndbinfoDiskWriteSpeedQueryBase [] = Inr rs" "first_scan_error task_dests (rs_rows rs) = None"
  shows "ndbinfoDiskWriteSpeedTaskScrape n db =
    Inr (snd (foldl (task_next n) ([], []) (good_rows task_dests (rs_rows rs))))"
  using assms row_loop_pure [of task_dests "task_step n" "task_next n" "\<lambda>vs. []" "([], [])" "rs_rows rs"]
  by (auto simp: ndbinfoDiskWriteSpeedTaskScrape_def task_step_eq split: prod.splits)

lemma TaskScrape_distinct:
  assumes "ndbinfoDiskWriteSpeedTaskScrape n db = Inr u"
  shows "distinct (map fst u)"
proof -
  from assms obtain rs where rs: "db 0 ndbinfoDiskWriteSpeedQueryBase [] = Inr rs"
    by (auto simp: ndbinfoDiskWriteSpeedTaskScrape_def split: sum.splits)
  have "first_scan_error task_dests (rs_rows rs) = None"
    using assms rs row_loop_pure [of task_dests "task_step n" "task_next n" "\<lambda>vs. []" "([], [])" "rs_rows rs"]
    by (auto simp: ndbinfoDiskWriteSpeedTaskScrape_def task_step_eq split: option.splits prod.splits)
  with TaskScrape_eq [where db = db, OF rs] assms task_fold [where n = n] show ?thesis by auto
qed

text \<open>
  C25: a tick whose rows all scan gives, for each node and thread, the sum of the bytes of its
  first \<open>n\<close> rows (the query orders them by age), each counter modulo \<open>2 ^ 64\<close>; further rows of
  that thread are left out.
\<close>

theorem tick_sums_first_rows:
  assumes "db 0 ndbinfoDiskWriteSpeedQueryBase [] = Inr rs" "first_scan_error task_dests (rs_rows rs) = None"
  shows "\<exists>update. ndbinfoDiskWriteSpeedTaskScrape n db = Inr update \<and>
    (\<forall>k. smap_get no_bytes k update = total_bytes (first_rows (unat n) k (good_rows task_dests (rs_rows rs))))"
  using TaskScrape_eq [where db = db, OF assms] task_fold [where n = n] by auto

definition write_speed_rs :: rowset where
  "write_speed_rs = \<lparr>rs_cols = Inr [], rs_rows =
     [map CBytes [''1'', ''0'', ''10'', ''1''], map CBytes [''1'', ''0'', ''20'', ''2''],
      map CBytes [''1'', ''0'', ''40'', ''4''], map CBytes [''2'', ''0'', ''7'', ''7'']], rs_err = None\<rparr>"

theorem tick_sums_first_rows_witness:
  "\<exists>update. ndbinfoDiskWriteSpeedTaskScrape 2 (\<lambda>_ _ _. Inr write_speed_rs) = Inr update \<and>
     smap_get no_bytes \<lparr>wl_nodeID = ''1'', wl_thrNo = ''0''\<rparr> update = \<lparr>bw_backupLcp = 30, bw_redo = 3\<rparr>"
proof -
  have e: "first_scan_error task_dests (rs_rows write_speed_rs) = None"
    and t: "total_bytes (first_rows (unat (2::u64)) \<lparr>wl_nodeID = ''1'', wl_thrNo = ''0''\<rparr>
        (good_rows task_dests (rs_rows write_speed_rs))) = \<lparr>bw_backupLcp = 30, bw_redo = 3\<rparr>"
    by code_simp+
  from tick_sums_first_rows [OF refl e, of 2] t show ?thesis by metis
qed

section \<open>Runs\<close>

text \<open>The state an event leads to, and what it adds to the counter of a key.\<close>

fun dw_apply :: "dw_state \<Rightarrow> dw_event \<Rightarrow> dw_state" where
  "dw_apply s (EvScrape v ord db) = fst (ScrapeNDBInfoDiskWriteSpeed_Scrape v ord s db)"
| "dw_apply s (EvBegin i) = task_begin i s"
| "dw_apply s (EvConnect i ok) = task_connect i ok s"
| "dw_apply s (EvTick i ord db) = task_tick intervalSecs i ord db s"

fun dw_gain :: "dw_state \<Rightarrow> dw_event \<Rightarrow> write_speed_lookup \<Rightarrow> bytes_written" where
  "dw_gain s (EvTick i ord db) k =
     (if dw_conn s then case ndbinfoDiskWriteSpeedTaskScrape intervalSecs db of
         Inr u \<Rightarrow> smap_get no_bytes k u | Inl e \<Rightarrow> no_bytes else no_bytes)"
| "dw_gain s _ k = no_bytes"

fun dw_gains :: "dw_state \<Rightarrow> dw_event list \<Rightarrow> write_speed_lookup \<Rightarrow> bytes_written" where
  "dw_gains s [] k = no_bytes"
| "dw_gains s (e # es) k = bytes_plus (dw_gain s e k) (dw_gains (dw_apply s e) es k)"

lemma dw_step_apply: "dw_step s e s' \<Longrightarrow> s' = dw_apply s e"
  by (induction rule: dw_step.induct) simp_all

lemma dw_step_gain:
  "dw_step s e s' \<Longrightarrow>
   smap_get no_bytes k (dw_counter s') = bytes_plus (smap_get no_bytes k (dw_counter s)) (dw_gain s e k)"
proof (induction rule: dw_step.induct)
  case (tick s i ord db)
  then show ?case
    by (auto simp: task_tick_def task_exit_def bytes_plus_laws counter_add_get dest: TaskScrape_distinct split: sum.splits)
qed (simp_all add: ScrapeNDBInfoDiskWriteSpeed_Scrape_def Let_def task_begin_def task_connect_def task_exit_def
      bytes_plus_laws split: option.splits)

text \<open>Runs by evaluation: every event is enabled where it happens.\<close>

fun dw_enabled :: "dw_state \<Rightarrow> dw_event \<Rightarrow> bool" where
  "dw_enabled s (EvScrape v ord db) \<longleftrightarrow> \<not> dw_crashed s"
| "dw_enabled s (EvBegin i) \<longleftrightarrow> \<not> dw_crashed s \<and> i < length (dw_tasks s) \<and> dw_tasks s ! i = Spawned"
| "dw_enabled s (EvConnect i ok) \<longleftrightarrow> \<not> dw_crashed s \<and> i < length (dw_tasks s) \<and> dw_tasks s ! i = Connecting"
| "dw_enabled s (EvTick i ord db) \<longleftrightarrow> \<not> dw_crashed s \<and> i < length (dw_tasks s) \<and> dw_tasks s ! i = Ticking"

fun event_order_ok :: "dw_event \<Rightarrow> bool" where
  "event_order_ok (EvScrape v ord db) \<longleftrightarrow> is_range_order ord"
| "event_order_ok (EvTick i ord db) \<longleftrightarrow> is_range_order ord"
| "event_order_ok _ \<longleftrightarrow> True"

lemma dw_step_iff: "dw_step s e s' \<longleftrightarrow> dw_enabled s e \<and> event_order_ok e \<and> s' = dw_apply s e"
  by (cases e) (auto simp: dw_step_simps)

fun dw_all_enabled :: "dw_state \<Rightarrow> dw_event list \<Rightarrow> bool" where
  "dw_all_enabled s [] \<longleftrightarrow> True"
| "dw_all_enabled s (e # es) \<longleftrightarrow> dw_enabled s e \<and> dw_all_enabled (dw_apply s e) es"

lemma dw_run_iff:
  "dw_run s es s' \<longleftrightarrow> dw_all_enabled s es \<and> (\<forall>e \<in> set es. event_order_ok e) \<and> s' = foldl dw_apply s es"
  by (induction es arbitrary: s) (auto simp: dw_run_simps dw_step_iff)

text \<open>
  C5: after any run of scrapes and ticks, however interleaved, the counter of a node and thread is
  the sum, modulo \<open>2 ^ 64\<close>, of what the successful ticks gave it: no scrape and no failed tick
  changes it, and nothing is counted twice.
\<close>

theorem counter_is_sum_of_ticks:
  assumes "dw_run dw_init es s"
  shows "smap_get no_bytes k (dw_counter s) = dw_gains dw_init es k"
proof -
  have "smap_get no_bytes k (dw_counter s') = bytes_plus (smap_get no_bytes k (dw_counter s0)) (dw_gains s0 es s_k)"
    if "dw_run s0 es s'" "s_k = k" for s0 es s' s_k
    using that by (induction rule: dw_run.induct) (simp_all add: bytes_plus_laws dw_step_gain flip: dw_step_apply)
  from this [OF assms refl] show ?thesis by (simp add: bytes_plus_laws dw_init_def)
qed

theorem counter_is_sum_of_ticks_witness:
  "smap_get no_bytes \<lparr>wl_nodeID = ''2'', wl_thrNo = ''0''\<rparr>
     (dw_counter (foldl dw_apply dw_init [EvScrape ''0'' (\<lambda>_ ks. ks) (\<lambda>_ _ _. Inr write_speed_rs), EvBegin 0,
        EvConnect 0 True, EvTick 0 (\<lambda>_ ks. ks) (\<lambda>_ _ _. Inr write_speed_rs),
        EvTick 0 (\<lambda>_ ks. ks) (\<lambda>_ _ _. Inr write_speed_rs)])) = \<lparr>bw_backupLcp = 14, bw_redo = 14\<rparr>"
proof -
  let ?o = "\<lambda>_ ks. ks" and ?db = "\<lambda>_ _ _. Inr write_speed_rs"
  let ?es = "[EvScrape ''0'' ?o ?db, EvBegin 0, EvConnect 0 True, EvTick 0 ?o ?db, EvTick 0 ?o ?db]"
  have en: "dw_all_enabled dw_init ?es" by code_simp
  have run: "dw_run dw_init ?es (foldl dw_apply dw_init ?es)"
    unfolding dw_run_iff by (intro conjI en refl) (simp add: is_range_order_def)
  have g: "dw_gains dw_init ?es \<lparr>wl_nodeID = ''2'', wl_thrNo = ''0''\<rparr> = \<lparr>bw_backupLcp = 14, bw_redo = 14\<rparr>"
    by code_simp
  show ?thesis using counter_is_sum_of_ticks [OF run] g by (rule trans)
qed

text \<open>
  C37: two scrapes that both see the task not running before the first goroutine has run its first
  statement start two tasks; when one of them fails it sets the shared instance to nil, and the
  next tick of the other one dereferences it: the process crashes.
\<close>

theorem two_scrapes_can_crash:
  "\<exists>es s. dw_run dw_init es s \<and> dw_crashed s"
proof -
  let ?o = "\<lambda>_ ks. ks" and ?db = "\<lambda>_ _ _. Inr write_speed_rs" and ?bad = "\<lambda>_ _ _. Inl (EDriver ''gone'')"
  let ?es = "[EvScrape ''0'' ?o ?db, EvScrape ''0'' ?o ?db, EvBegin 0, EvBegin 1, EvConnect 0 True,
     EvConnect 1 True, EvTick 0 ?o ?bad, EvTick 1 ?o ?db]"
  have en: "dw_all_enabled dw_init ?es" and c: "dw_crashed (foldl dw_apply dw_init ?es)" by code_simp+
  have "dw_run dw_init ?es (foldl dw_apply dw_init ?es)"
    unfolding dw_run_iff by (intro conjI en refl) (simp add: is_range_order_def)
  with c show ?thesis by blast
qed

text \<open>When no scrape comes between a \<open>go\<close> statement and the first statement of its task:\<close>

fun dw_quiet :: "dw_state \<Rightarrow> dw_event list \<Rightarrow> bool" where
  "dw_quiet s [] \<longleftrightarrow> True"
| "dw_quiet s (e # es) \<longleftrightarrow>
     (case e of EvScrape v ord db \<Rightarrow> Spawned \<notin> set (dw_tasks s) | _ \<Rightarrow> True) \<and> dw_quiet (dw_apply s e) es"

definition dw_inv :: "dw_state \<Rightarrow> bool" where
  "dw_inv s \<longleftrightarrow> \<not> dw_crashed s \<and>
     (let ts = dw_tasks s; n = length ts in
      (\<forall>i < n. \<forall>j < n. i \<noteq> j \<longrightarrow> ts ! i = Stopped \<or> ts ! j = Stopped) \<and>
      (\<forall>i < n. ts ! i = Connecting \<or> ts ! i = Ticking \<longrightarrow> dw_running s) \<and>
      (\<forall>i < n. ts ! i = Ticking \<longrightarrow> dw_conn s))"

lemma dw_inv_scrape:
  assumes "dw_inv s" "Spawned \<notin> set (dw_tasks s)"
  shows "dw_inv (fst (ScrapeNDBInfoDiskWriteSpeed_Scrape v ord s db))"
proof (cases "dw_running s")
  case True
  with assms(1) show ?thesis
    by (auto simp: dw_inv_def ScrapeNDBInfoDiskWriteSpeed_Scrape_def Let_def split: option.splits)
next
  case False
  have stopped: "dw_tasks s ! i = Stopped" if "i < length (dw_tasks s)" for i
    using assms False that nth_mem [OF that] by (cases "dw_tasks s ! i") (auto simp: dw_inv_def Let_def)
  with False assms(1) show ?thesis
    by (auto simp: dw_inv_def ScrapeNDBInfoDiskWriteSpeed_Scrape_def Let_def nth_append less_Suc_eq
        split: option.splits)
qed

lemma dw_inv_step:
  assumes "dw_step s e s'" "dw_inv s" "case e of EvScrape v ord db \<Rightarrow> Spawned \<notin> set (dw_tasks s) | _ \<Rightarrow> True"
  shows "dw_inv s'"
  using assms
proof (induction rule: dw_step.induct)
  case (scrape s ord v db)
  then show ?case by (simp add: dw_inv_scrape)
next
  case (begin_task s i)
  then show ?case
    by (fastforce simp: dw_inv_def task_begin_def Let_def nth_list_update)
next
  case (connect s i ok)
  then show ?case
    by (fastforce simp: dw_inv_def task_connect_def task_exit_def Let_def nth_list_update)
next
  case (tick s i ord db)
  then have "dw_conn s" by (auto simp: dw_inv_def Let_def)
  with tick show ?case
    by (cases "ndbinfoDiskWriteSpeedTaskScrape intervalSecs db")
      (fastforce simp: dw_inv_def task_tick_def task_exit_def Let_def nth_list_update)+
qed



section \<open>The scrape itself\<close>

lemma counter_metrics_ok: "list_all metric_ok (counter_metrics ord m)"
  by (auto simp: counter_metrics_def list_all_iff Let_def metric_ok_Const)

interpretation sc_disk_write: safe_scraper "\<lambda>db. snd (ScrapeNDBInfoDiskWriteSpeed_Scrape v ord s db)" for v ord s
  by unfold_locales
    (simp_all add: ScrapeNDBInfoDiskWriteSpeed_Scrape_def Let_def send_all_ok counter_metrics_ok
      tbl_disk_write.scrape_sent_ok tbl_disk_write.scrape_no_panic split: option.splits)

text \<open>
  The error of a failed tick is the result of the next scrape and only of that one: the scrape
  sends nothing, clears the error, and starts a new task.
\<close>

theorem tick_error_reported_once:
  assumes "dw_step s (EvTick i ord db) s1" "ndbinfoDiskWriteSpeedTaskScrape intervalSecs db = Inl e" "dw_conn s"
  shows "\<exists>s2. ScrapeNDBInfoDiskWriteSpeed_Scrape v ord' s1 db' =
      (s2, [], Failed (EWrap ''failed to scrape from background task: '' e)) \<and>
    dw_last_error s2 = None \<and> dw_tasks s2 = dw_tasks s1 @ [Spawned]"
  using assms by (auto simp: dw_step_simps task_tick_def task_exit_def ScrapeNDBInfoDiskWriteSpeed_Scrape_def Let_def)

theorem tick_error_reported_once_witness:
  "\<exists>s1 s2. ScrapeNDBInfoDiskWriteSpeed_Scrape ''0'' (\<lambda>_ ks. ks) s1 (\<lambda>_ _ _. Inl ENoRows) =
     (s2, [], Failed (EWrap ''failed to scrape from background task: '' (EWrap ''error while querying: '' ENoRows)))"
proof -
  let ?s = "dw_init\<lparr>dw_running := True, dw_conn := True, dw_tasks := [Ticking]\<rparr>"
  have st: "dw_step ?s (EvTick 0 (\<lambda>_ ks. ks) (\<lambda>_ _ _. Inl ENoRows))
      (task_tick intervalSecs 0 (\<lambda>_ ks. ks) (\<lambda>_ _ _. Inl ENoRows) ?s)"
    by (simp add: dw_step_simps dw_init_def is_range_order_def)
  have e: "ndbinfoDiskWriteSpeedTaskScrape intervalSecs (\<lambda>_ _ _. Inl ENoRows) = Inl (EWrap ''error while querying: '' ENoRows)"
    by (simp add: ndbinfoDiskWriteSpeedTaskScrape_def)
  have c: "dw_conn ?s" by simp
  show ?thesis
    using tick_error_reported_once [OF st e c, of "''0''" "\<lambda>_ ks. ks" "\<lambda>_ _ _. Inl ENoRows"] by blast
qed

end
