(* ===== verification/Registry.thy ===== *)
theory Registry
  imports Server NdbOperations NdbDisk NdbThreads NdbStatus NdbFiles NdbHistogram NdbDiskWrite
begin

text \<open>
  The table of scrapers of \<open>mysqld_exporter.go\<close>, with the modelled ones as values of the interface
  \<open>Scraper\<close>: what the exporter needs of each of them, and what follows for a collection.
\<close>

section \<open>The table\<close>

text \<open>The names of \<open>scrapers\<close> and whether each is enabled by default.\<close>

definition scraper_defaults :: "(string \<times> bool) list" where
  "scraper_defaults =
     [(''global_status'', True),
      (''global_variables'', True),
      (''slave_status'', True),
      (informationSchema @ ''.processlist'', False),
      (''mysql'' @ ''.user'', False),
      (informationSchema @ ''.tables'', False),
      (informationSchema @ ''.innodb_tablespaces'', False),
      (informationSchema @ ''.innodb_metrics'', False),
      (''auto_increment.columns'', False),
      (''binlog_size'', False),
      (''perf_schema.tableiowaits'', False),
      (''perf_schema.indexiowaits'', False),
      (''perf_schema.tablelocks'', False),
      (''perf_schema.eventsstatements'', False),
      (''perf_schema.eventsstatementssum'', False),
      (''perf_schema.eventswaits'', False),
      (''perf_schema.file_events'', False),
      (''perf_schema.file_instances'', False),
      (''perf_schema.memory_events'', False),
      (ScrapePerfNDBSyncExcludedObjects_Name, False),
      (ScrapePerfNDBSyncPendingObjects_Name, False),
      (performanceSchema @ ''.replication_group_members'', False),
      (performanceSchema @ ''.replication_group_member_stats'', False),
      (performanceSchema @ ''.replication_applier_status_by_worker'', False),
      (sysSchema @ ''.user_summary'', False),
      (''info_schema.userstats'', False),
      (''info_schema.clientstats'', False),
      (''info_schema.tablestats'', False),
      (''info_schema.schemastats'', False),
      (informationSchema @ ''.innodb_cmp'', True),
      (informationSchema @ ''.innodb_cmpmem'', True),
      (''info_schema.query_response_time'', True),
      (''engine_tokudb_status'', False),
      (''engine_innodb_status'', False),
      (''heartbeat'', False),
      (''slave_hosts'', False),
      (''info_schema.replica_host'', False),
      (informationSchema @ ''.rocksdb_perf_context'', False),
      (ScrapeNDBInfoBackupID_Name, False),
      (ScrapeNDBInfoCertificates_Name, False),
      (ScrapeNDBInfoClusterOperations_Name, False),
      (ScrapeNDBInfoClusterTransactions_Name, False),
      (ScrapeNDBInfoConfigValues_Name, False),
      (ScrapeNDBInfoCounters_Name, False),
      (ScrapeNDBInfoDiskPageBuffer_Name, False),
      (ScrapeNDBInfoDiskStat_Name, False),
      (ScrapeNDBInfoDiskWriteSpeed_Name, False),
      (ScrapeNDBInfoFiles_Name, True),
      (ScrapeNDBInfoLogBuffers_Name, False),
      (ScrapeNDBInfoLogSpaces_Name, False),
      (ScrapeNDBInfoMembership_Name, False),
      (ScrapeNDBInfoMemoryUsage_Name, True),
      (ScrapeNDBInfoNodes_Name, True),
      (ScrapeNDBInfoPGMANTimeTrackStats_Name, False),
      (ScrapeNDBInfoPools_Name, False),
      (ScrapeNDBInfoResources_Name, True),
      (ScrapeNDBInfoTableDistribution_Name, False),
      (ScrapeNDBInfoTCTimeTrackStats_Name, False),
      (ScrapeNDBInfoThreadstat_Name, False),
      (ScrapeNDBInfoTransporters_Name, False)]"

text \<open>
  What the scrapers read besides the database: their flags, the time zones, the orders \<open>range\<close>
  takes, and the package variables two of them keep.
\<close>

record scraper_env =
  se_counters :: string
  se_operations :: string
  se_diskpagebuffer :: string
  se_pools :: string
  se_threadstat :: string
  se_disk_write :: string
  se_skip_idle :: bool
  se_tz :: zone_db
  se_order :: "string range_order"
  se_lookup_order :: "write_speed_lookup range_order"
  se_encrypted :: bool
  se_disk_write_state :: dw_state

definition ndb_scrapers :: "scraper_env \<Rightarrow> scraper list" where
  "ndb_scrapers env =
     [\<lparr>sc_name = ScrapePerfNDBSyncExcludedObjects_Name, sc_help = ScrapePerfNDBSyncExcludedObjects_Help, sc_version = ScrapePerfNDBSyncExcludedObjects_Version,
       sc_scrape = (\<lambda>_. ScrapePerfNDBSyncExcludedObjects_Scrape)\<rparr>,
      \<lparr>sc_name = ScrapePerfNDBSyncPendingObjects_Name, sc_help = ScrapePerfNDBSyncPendingObjects_Help, sc_version = ScrapePerfNDBSyncPendingObjects_Version,
       sc_scrape = (\<lambda>_. ScrapePerfNDBSyncPendingObjects_Scrape)\<rparr>,
      \<lparr>sc_name = ScrapeNDBInfoBackupID_Name, sc_help = ScrapeNDBInfoBackupID_Help, sc_version = ScrapeNDBInfoBackupID_Version,
       sc_scrape = (\<lambda>_. ScrapeNDBInfoBackupID_Scrape)\<rparr>,
      \<lparr>sc_name = ScrapeNDBInfoCertificates_Name, sc_help = ScrapeNDBInfoCertificates_Help, sc_version = ScrapeNDBInfoCertificates_Version,
       sc_scrape = (\<lambda>_. ScrapeNDBInfoCertificates_Scrape (se_tz env))\<rparr>,
      \<lparr>sc_name = ScrapeNDBInfoClusterOperations_Name, sc_help = ScrapeNDBInfoClusterOperations_Help, sc_version = ScrapeNDBInfoClusterOperations_Version,
       sc_scrape = (\<lambda>_. ScrapeNDBInfoClusterOperations_Scrape (se_operations env))\<rparr>,
      \<lparr>sc_name = ScrapeNDBInfoClusterTransactions_Name, sc_help = ScrapeNDBInfoClusterTransactions_Help, sc_version = ScrapeNDBInfoClusterTransactions_Version,
       sc_scrape = (\<lambda>_. ScrapeNDBInfoClusterTransactions_Scrape)\<rparr>,
      \<lparr>sc_name = ScrapeNDBInfoConfigValues_Name, sc_help = ScrapeNDBInfoConfigValues_Help, sc_version = ScrapeNDBInfoConfigValues_Version,
       sc_scrape = (\<lambda>_. ScrapeNDBInfoConfigValues_Scrape)\<rparr>,
      \<lparr>sc_name = ScrapeNDBInfoCounters_Name, sc_help = ScrapeNDBInfoCounters_Help, sc_version = ScrapeNDBInfoCounters_Version,
       sc_scrape = (\<lambda>_. ScrapeNDBInfoCounters_Scrape (se_counters env))\<rparr>,
      \<lparr>sc_name = ScrapeNDBInfoDiskPageBuffer_Name, sc_help = ScrapeNDBInfoDiskPageBuffer_Help, sc_version = ScrapeNDBInfoDiskPageBuffer_Version,
       sc_scrape = (\<lambda>_. ScrapeNDBInfoDiskPageBuffer_Scrape (se_diskpagebuffer env))\<rparr>,
      \<lparr>sc_name = ScrapeNDBInfoDiskStat_Name, sc_help = ScrapeNDBInfoDiskStat_Help, sc_version = ScrapeNDBInfoDiskStat_Version,
       sc_scrape = (\<lambda>_. ScrapeNDBInfoDiskStat_Scrape)\<rparr>,
      \<lparr>sc_name = ScrapeNDBInfoDiskWriteSpeed_Name, sc_help = ScrapeNDBInfoDiskWriteSpeed_Help, sc_version = ScrapeNDBInfoDiskWriteSpeed_Version,
       sc_scrape = (\<lambda>_ db. snd (ScrapeNDBInfoDiskWriteSpeed_Scrape (se_disk_write env) (se_lookup_order env) (se_disk_write_state env) db))\<rparr>,
      \<lparr>sc_name = ScrapeNDBInfoFiles_Name, sc_help = ScrapeNDBInfoFiles_Help, sc_version = ScrapeNDBInfoFiles_Version,
       sc_scrape = (\<lambda>_. ScrapeNDBInfoFiles_Scrape)\<rparr>,
      \<lparr>sc_name = ScrapeNDBInfoLogBuffers_Name, sc_help = ScrapeNDBInfoLogBuffers_Help, sc_version = ScrapeNDBInfoLogBuffers_Version,
       sc_scrape = (\<lambda>_. ScrapeNDBInfoLogBuffers_Scrape)\<rparr>,
      \<lparr>sc_name = ScrapeNDBInfoLogSpaces_Name, sc_help = ScrapeNDBInfoLogSpaces_Help, sc_version = ScrapeNDBInfoLogSpaces_Version,
       sc_scrape = (\<lambda>_. ScrapeNDBInfoLogSpaces_Scrape)\<rparr>,
      \<lparr>sc_name = ScrapeNDBInfoMembership_Name, sc_help = ScrapeNDBInfoMembership_Help, sc_version = ScrapeNDBInfoMembership_Version,
       sc_scrape = (\<lambda>_. ScrapeNDBInfoMembership_Scrape)\<rparr>,
      \<lparr>sc_name = ScrapeNDBInfoMemoryUsage_Name, sc_help = ScrapeNDBInfoMemoryUsage_Help, sc_version = ScrapeNDBInfoMemoryUsage_Version,
       sc_scrape = (\<lambda>_. ScrapeNDBInfoMemoryUsage_Scrape)\<rparr>,
      \<lparr>sc_name = ScrapeNDBInfoNodes_Name, sc_help = ScrapeNDBInfoNodes_Help, sc_version = ScrapeNDBInfoNodes_Version,
       sc_scrape = (\<lambda>_. ScrapeNDBInfoNodes_Scrape)\<rparr>,
      \<lparr>sc_name = ScrapeNDBInfoPGMANTimeTrackStats_Name, sc_help = ScrapeNDBInfoPGMANTimeTrackStats_Help, sc_version = ScrapeNDBInfoPGMANTimeTrackStats_Version,
       sc_scrape = (\<lambda>_. ScrapeNDBInfoPGMANTimeTrackStats_Scrape (se_order env))\<rparr>,
      \<lparr>sc_name = ScrapeNDBInfoPools_Name, sc_help = ScrapeNDBInfoPools_Help, sc_version = ScrapeNDBInfoPools_Version,
       sc_scrape = (\<lambda>_. ScrapeNDBInfoPools_Scrape (se_pools env))\<rparr>,
      \<lparr>sc_name = ScrapeNDBInfoResources_Name, sc_help = ScrapeNDBInfoResources_Help, sc_version = ScrapeNDBInfoResources_Version,
       sc_scrape = (\<lambda>_. ScrapeNDBInfoResources_Scrape)\<rparr>,
      \<lparr>sc_name = ScrapeNDBInfoTableDistribution_Name, sc_help = ScrapeNDBInfoTableDistribution_Help, sc_version = ScrapeNDBInfoTableDistribution_Version,
       sc_scrape = (\<lambda>_. ScrapeNDBInfoTableDistribution_Scrape (se_skip_idle env))\<rparr>,
      \<lparr>sc_name = ScrapeNDBInfoTCTimeTrackStats_Name, sc_help = ScrapeNDBInfoTCTimeTrackStats_Help, sc_version = ScrapeNDBInfoTCTimeTrackStats_Version,
       sc_scrape = (\<lambda>_. ScrapeNDBInfoTCTimeTrackStats_Scrape (se_order env))\<rparr>,
      \<lparr>sc_name = ScrapeNDBInfoThreadstat_Name, sc_help = ScrapeNDBInfoThreadstat_Help, sc_version = ScrapeNDBInfoThreadstat_Version,
       sc_scrape = (\<lambda>_. ScrapeNDBInfoThreadstat_Scrape (se_threadstat env))\<rparr>,
      \<lparr>sc_name = ScrapeNDBInfoTransporters_Name, sc_help = ScrapeNDBInfoTransporters_Help, sc_version = ScrapeNDBInfoTransporters_Version,
       sc_scrape = (\<lambda>_ db. fst (ScrapeNDBInfoTransporters_Scrape (se_encrypted env) db))\<rparr>]"

section \<open>Safety\<close>

lemmas ndb_safe =
  tbl_perf_ndbsync_excluded_objects.safe_scraper_axioms [folded ScrapePerfNDBSyncExcludedObjects_Scrape_def]
  tbl_perf_ndbsync_pending_objects.safe_scraper_axioms [folded ScrapePerfNDBSyncPendingObjects_Scrape_def]
  tbl_backup_id.safe_scraper_axioms [folded ScrapeNDBInfoBackupID_Scrape_def]
  fin_certificates.safe_scraper_axioms [folded ScrapeNDBInfoCertificates_Scrape_def]
  fin_transactions.safe_scraper_axioms [folded ScrapeNDBInfoClusterTransactions_Scrape_def]
  tbl_config_values.safe_scraper_axioms [folded ScrapeNDBInfoConfigValues_Scrape_def]
  tbl_disk_stat.safe_scraper_axioms [folded ScrapeNDBInfoDiskStat_Scrape_def]
  fin_files.safe_scraper_axioms [folded ScrapeNDBInfoFiles_Scrape_def]
  tbl_log_buffers.safe_scraper_axioms [folded ScrapeNDBInfoLogBuffers_Scrape_def]
  tbl_log_spaces.safe_scraper_axioms [folded ScrapeNDBInfoLogSpaces_Scrape_def]
  tbl_membership.safe_scraper_axioms [folded ScrapeNDBInfoMembership_Scrape_def]
  tbl_memory_usage.safe_scraper_axioms [folded ScrapeNDBInfoMemoryUsage_Scrape_def]
  tbl_nodes.safe_scraper_axioms [folded ScrapeNDBInfoNodes_Scrape_def]
  tbl_resources.safe_scraper_axioms [folded ScrapeNDBInfoResources_Scrape_def]
  tbl_table_distribution.safe_scraper_axioms [folded ScrapeNDBInfoTableDistribution_Scrape_def]
  fin_pgman.safe_scraper_axioms [folded hist_scrape_def, folded ScrapeNDBInfoPGMANTimeTrackStats_Scrape_def]
  fin_tc.safe_scraper_axioms [folded hist_scrape_def, folded ScrapeNDBInfoTCTimeTrackStats_Scrape_def]
  sw_counters.safe_scraper_axioms sw_cluster_operations.safe_scraper_axioms sw_disk_page_buffer.safe_scraper_axioms
  sw_pools.safe_scraper_axioms sw_threadstat.safe_scraper_axioms sc_transporters.safe_scraper_axioms
  sc_disk_write.safe_scraper_axioms

lemma ndb_all_safe: "sc \<in> set (ndb_scrapers env) \<Longrightarrow> safe_scraper (sc_scrape sc inst)"
  by (auto simp: ndb_scrapers_def ndb_safe)

section \<open>Properties\<close>

text \<open>
  Whatever the server answers, each of the modelled scrapers sends only metrics with as many
  label values as their descriptors have labels, so none of them panics in the Prometheus library,
  and every one of its scrapes ends with nil or an error.
\<close>

theorem ndb_scrapers_safe:
  assumes "sc \<in> set (ndb_scrapers env)"
  shows "list_all metric_ok (fst (sc_scrape sc inst db)) \<and>
    (snd (sc_scrape sc inst db) = Done \<or> (\<exists>e. snd (sc_scrape sc inst db) = Failed e))"
  using safe_scraper.sent_ok [OF ndb_all_safe [OF assms]] safe_scraper.ends [OF ndb_all_safe [OF assms]] by blast

definition sample_scraper_env :: scraper_env where
  "sample_scraper_env = \<lparr>se_counters = ''0'', se_operations = ''0'', se_diskpagebuffer = ''0'', se_pools = ''0'',
     se_threadstat = ''0'', se_disk_write = ''0'', se_skip_idle = False, se_tz = (\<lambda>_ _. None),
     se_order = (\<lambda>_ ks. ks), se_lookup_order = (\<lambda>_ ks. ks), se_encrypted = True, se_disk_write_state = dw_init\<rparr>"

theorem ndb_scrapers_safe_witness:
  "list_all metric_ok (fst (sc_scrape (hd (ndb_scrapers sample_scraper_env)) sample_inst (\<lambda>_ _ _. Inl ENoRows)))"
proof -
  have "hd (ndb_scrapers sample_scraper_env) \<in> set (ndb_scrapers sample_scraper_env)"
    by (simp add: ndb_scrapers_def)
  from ndb_scrapers_safe [OF this] show ?thesis by (rule conjunct1)
qed

text \<open>The names are told apart by a small checksum.\<close>

definition name_sum :: "string \<Rightarrow> int" where
  "name_sum s = foldl (\<lambda>h c. (7 * h + of_char c) mod 374) 0 s"

lemma name_sums:
  "map (name_sum \<circ> fst) scraper_defaults =
     [244, 175, 310, 177, 121, 133, 306, 350, 356, 237, 239, 77, 221, 110, 161, 208, 283, 182, 288, 229,
      270, 241, 96, 353, 277, 360, 344, 151, 52, 273, 312, 140, 155, 114, 30, 351, 211, 160, 32, 80, 81,
      226, 355, 255, 318, 317, 359, 357, 309, 143, 70, 34, 287, 345, 67, 271, 196, 75, 286, 303]"
  by code_simp

lemma table_distinct: "distinct (map fst scraper_defaults)"
proof -
  have "distinct (map name_sum (map fst scraper_defaults))"
    unfolding map_map name_sums by simp
  then show ?thesis by (simp only: distinct_map)
qed

text \<open>
  Versions are compared as the float of \<open>major.minor\<close>, so a server of version 8.10 counts as
  8.1 and is denied the scraper of the certificates, which asks for 8.4, while 8.4 itself is not.
\<close>

theorem version_gate_misorders:
  "(let mm = (\<lambda>maj min. fst (strconv_ParseFloat (major_minor_string \<lparr>v_major = maj, v_minor = min, v_patch = 0\<rparr>)))
    in f_lt (mm 8 10) ScrapeNDBInfoCertificates_Version \<and>
       \<not> f_lt (mm 8 4) ScrapeNDBInfoCertificates_Version \<and> \<not> f_lt (mm 9 0) ScrapeNDBInfoCertificates_Version)"
  by code_simp

end
