(* ===== verification/GenericBase.thy ===== *)
theory GenericBase
  imports Collector GoMap
begin

text \<open>
  What the scrapers that are not about NDB share: the contract \<open>safe_out\<close> of one run of a
  scraper with its composition rules, \<open>fmt.Sprintf\<close> for the verbs they use, looping over
  columns, and the two interfaces they repeat: a table behind the \<open>userstat\<close> check, and a
  text table whose columns are looked up in a map of descriptors.
\<close>

section \<open>Safe runs\<close>

definition safe_out :: "scrape_out \<Rightarrow> bool" where
  "safe_out r \<longleftrightarrow> list_all metric_ok (fst r) \<and> snd r \<noteq> Panicked"

named_theorems safe_run \<open>rules for runs that send well-formed metrics and do not panic\<close>

lemma safe_out_simps [simp]:
  "safe_out (ms, Done) \<longleftrightarrow> list_all metric_ok ms"
  "safe_out (ms, Failed e) \<longleftrightarrow> list_all metric_ok ms"
  "\<not> safe_out (ms, Panicked)"
  by (simp_all add: safe_out_def)

lemma safe_send_all [safe_run]: "list_all metric_ok ms \<Longrightarrow> safe_out (send_all ms)"
  by (simp add: send_all_ok)

lemma safe_and_then [safe_run]: "safe_out a \<Longrightarrow> safe_out b \<Longrightarrow> safe_out (and_then a b)"
  by (cases a; cases "snd a") (auto simp: safe_out_def)

lemma safe_with_query [safe_run]: "(\<And>rs. safe_out (k rs)) \<Longrightarrow> safe_out (with_query db i q args k)"
  by (simp add: with_query_def split: sum.splits)

lemma safe_row_loop:
  assumes "P st" "\<And>st vs. P st \<Longrightarrow> map dest_of vs = ds \<Longrightarrow> P (fst (step st vs)) \<and> safe_out (snd (step st vs))"
  shows "P (fst (row_loop ds step st rows)) \<and> safe_out (snd (row_loop ds step st rows))"
  using assms(1)
proof (induction rows arbitrary: st)
  case (Cons r rs)
  show ?case
  proof (cases "scan ds r")
    case (Inr vs)
    obtain st' ms res where s: "step st vs = (st', ms, res)" by (cases "step st vs") auto
    with assms(2) [OF Cons.prems scan_typed [OF Inr]] have "P st'" "safe_out (ms, res)" by simp_all
    with Cons.IH [of st'] s Inr show ?thesis by (cases res) (auto split: prod.splits simp: safe_out_def)
  qed (simp add: Cons.prems)
qed simp

lemma safe_each_row [safe_run]:
  "(\<And>vs. map dest_of vs = ds \<Longrightarrow> list_all metric_ok (emit vs)) \<Longrightarrow> safe_out (each_row ds emit rows)"
  unfolding each_row_def
  by (rule conjunct2, rule safe_row_loop [where P = "\<lambda>_. True"]) (simp_all add: safe_send_all)

lemma safe_scraperI: "(\<And>db. safe_out (scrape db)) \<Longrightarrow> safe_scraper scrape"
  by unfold_locales (simp_all add: safe_out_def)

lemma safe_scraper_out: "safe_scraper scrape \<Longrightarrow> safe_out (scrape db)"
  by (simp add: safe_scraper_def safe_out_def)

section \<open>fmt.Sprintf\<close>

text \<open>The verbs \<open>%s\<close> and \<open>%d\<close>, with the arguments already printed.\<close>

fun sprintf :: "string \<Rightarrow> string list \<Rightarrow> string" where
  "sprintf (c # v # s) (a # as) =
     (if c = CHR ''%'' \<and> (v = CHR ''s'' \<or> v = CHR ''d'') then a @ sprintf s as
      else c # sprintf (v # s) (a # as))"
| "sprintf s args = s"

section \<open>Columns\<close>

text \<open>
  \<open>for i, col := range columns { ... }\<close> over a scanned row: the body may send metrics or return.
\<close>

fun col_loop :: "(string \<Rightarrow> gval \<Rightarrow> scrape_out) \<Rightarrow> string list \<Rightarrow> gval list \<Rightarrow> scrape_out" where
  "col_loop body (c # cs) (v # vs) = and_then (body c v) (col_loop body cs vs)"
| "col_loop body _ _ = ([], Done)"

lemma safe_col_loop [safe_run]: "(\<And>c v. safe_out (body c v)) \<Longrightarrow> safe_out (col_loop body cs vs)"
  by (induction body cs vs rule: col_loop.induct) (auto intro: safe_and_then)

lemma col_loop_sends:
  assumes "\<And>c v. body c v = send_all (emit c v)" "\<And>c v. list_all metric_ok (emit c v)"
  shows "col_loop body cs vs = (concat (map (\<lambda>(c, v). emit c v) (zip cs vs)), Done)"
  by (induction cs vs rule: list_induct2') (simp_all add: assms send_all_ok)

text \<open>\<open>columns, err := rows.Columns(); if err != nil { return err }\<close>.\<close>

definition with_columns :: "rowset \<Rightarrow> (string list \<Rightarrow> scrape_out) \<Rightarrow> scrape_out" where
  "with_columns rs k = (case rs_cols rs of Inl e \<Rightarrow> ([], Failed e) | Inr cols \<Rightarrow> k cols)"

lemma safe_with_columns [safe_run]: "(\<And>cols. safe_out (k cols)) \<Longrightarrow> safe_out (with_columns rs k)"
  by (simp add: with_columns_def split: sum.splits)

text \<open>A row step that never fails and has no state.\<close>

definition row_step :: "(gval list \<Rightarrow> scrape_out) \<Rightarrow> unit \<Rightarrow> gval list \<Rightarrow> unit \<times> scrape_out" where
  "row_step body st vs = ((), body vs)"

definition for_rows :: "dest list \<Rightarrow> (gval list \<Rightarrow> scrape_out) \<Rightarrow> cell list list \<Rightarrow> scrape_out" where
  "for_rows ds body rows = snd (row_loop ds (row_step body) () rows)"

lemma safe_for_rows [safe_run]:
  "(\<And>vs. map dest_of vs = ds \<Longrightarrow> safe_out (body vs)) \<Longrightarrow> safe_out (for_rows ds body rows)"
  unfolding for_rows_def
  by (rule conjunct2, rule safe_row_loop [where P = "\<lambda>_. True"]) (simp_all add: row_step_def)

lemma for_rows_Nil [simp]: "for_rows ds body [] = ([], Done)"
  by (simp add: for_rows_def)

lemma for_rows_Cons:
  "for_rows ds body (r # rs) =
     (case scan ds r of Inl e \<Rightarrow> ([], Failed e) | Inr vs \<Rightarrow> and_then (body vs) (for_rows ds body rs))"
  by (auto simp: for_rows_def row_step_def and_then_cases split: sum.splits prod.splits scrape_end.splits)

text \<open>Bodies that only send: the loop sends what they send, row by row.\<close>

lemma for_rows_sends:
  assumes "\<And>vs. map dest_of vs = ds \<Longrightarrow> body vs = (emit vs, Done)"
  shows "for_rows ds body rows =
    (concat (map emit (good_rows ds rows)),
     case first_scan_error ds rows of None \<Rightarrow> Done | Some e \<Rightarrow> Failed e)"
  unfolding for_rows_def using assms
  by (subst row_loop_pure [where nxt = "\<lambda>_ _. ()" and emit = emit]) (simp_all add: row_step_def)

lemma each_row_sends:
  assumes "\<And>vs. list_all metric_ok (emit vs)"
  shows "each_row ds emit rows =
    (concat (map emit (good_rows ds rows)),
     case first_scan_error ds rows of None \<Rightarrow> Done | Some e \<Rightarrow> Failed e)"
  unfolding each_row_def
  by (subst row_loop_pure [where nxt = "\<lambda>_ _. ()" and emit = emit]) (simp_all add: send_all_ok assms)

section \<open>The userstat check\<close>

text \<open>
  \<open>SHOW GLOBAL VARIABLES WHERE Variable_Name='userstat' ...\<close>: when it fails or says \<open>OFF\<close> the
  scraper returns nil without a metric, otherwise the body runs.
\<close>

definition userstat_guard :: "database \<Rightarrow> scrape_out \<Rightarrow> scrape_out" where
  "userstat_guard db body =
     (case query_row db 0 userstatCheckQuery [DStr, DStr] of
        Inl e \<Rightarrow> ([], Done)
      | Inr vs \<Rightarrow> (if g_str (vs ! 1) = ''OFF'' then ([], Done) else body))"

lemma safe_userstat_guard [safe_run]: "safe_out body \<Longrightarrow> safe_out (userstat_guard db body)"
  by (simp add: userstat_guard_def split: sum.splits)

section \<open>Replacing characters in the order of a map\<close>

text \<open>
  \<open>for r := range replacements { s = strings.ReplaceAll(s, r, replacements[r]) }\<close>, with the order
  \<open>range\<close> takes. The contract: every key is one character, and no replacement brings a key back.
\<close>

definition replace_all :: "(string \<times> string) list \<Rightarrow> string list \<Rightarrow> string \<Rightarrow> string" where
  "replace_all reps order s = foldl (\<lambda>s r. strings_ReplaceAll s r (smap_get [] r reps)) s order"

locale char_replacements =
  fixes reps :: "(string \<times> string) list"
  assumes keys_single: "k \<in> set (map fst reps) \<Longrightarrow> \<exists>c. k = [c]"
    and keys_distinct: "distinct (map fst reps)"
    and stable: "k \<in> set (map fst reps) \<Longrightarrow> c \<in> set (smap_get [] k reps) \<Longrightarrow> [c] \<notin> set (map fst reps)"
begin

definition replaced :: "char \<Rightarrow> string" where
  "replaced c = (if [c] \<in> set (map fst reps) then smap_get [] [c] reps else [c])"

lemma replace_all_some:
  "set order \<subseteq> set (map fst reps) \<Longrightarrow> distinct order \<Longrightarrow>
   replace_all reps order s = concat (map (\<lambda>c. if [c] \<in> set order then replaced c else [c]) s)"
proof (induction order arbitrary: s)
  case Nil
  then show ?case by (simp add: replace_all_def)
next
  case (Cons r order)
  from Cons.prems(1) have r: "r \<in> set (map fst reps)" by (metis insert_subset list.set(2))
  then obtain d where d: "r = [d]" using keys_single by blast
  have new: "smap_get [] r reps = replaced d" using r d by (simp add: replaced_def)
  have no_key: "concat (map (\<lambda>c. if [c] \<in> set order then replaced c else [c]) (replaced d)) = replaced d"
  proof -
    have "\<forall>c \<in> set (replaced d). [c] \<notin> set order"
      using stable [OF r] Cons.prems(1) new by (metis insert_subset list.set(2) subsetD)
    then have "map (\<lambda>c. if [c] \<in> set order then replaced c else [c]) (replaced d) = map (\<lambda>c. [c]) (replaced d)"
      by auto
    then show ?thesis by (simp only: concat_map_singleton map_ident)
  qed
  have "replace_all reps (r # order) s = replace_all reps order (concat (map (\<lambda>x. if x = d then replaced d else [x]) s))"
    by (simp add: replace_all_def d strings_ReplaceAll_single new [unfolded d])
  also have "\<dots> = concat (map (\<lambda>c. if [c] \<in> set (r # order) then replaced c else [c]) s)"
    using Cons.prems d no_key
    by (simp add: Cons.IH map_concat) (induction s; auto)
  finally show ?case .
qed

lemma replace_all_eq:
  assumes "is_range_order ord"
  shows "replace_all reps (ord n (map fst reps)) s = concat (map replaced s)"
proof -
  have "distinct (ord n (map fst reps))"
    using assms keys_distinct by (metis distinct_count_atmost_1 is_range_order_def set_mset_mset)
  then have "replace_all reps (ord n (map fst reps)) s =
    concat (map (\<lambda>c. if [c] \<in> set (map fst reps) then replaced c else [c]) s)"
    using range_order_set [OF assms] by (subst replace_all_some) simp_all
  also have "map (\<lambda>c. if [c] \<in> set (map fst reps) then replaced c else [c]) s = map replaced s"
    by (simp add: replaced_def)
  finally show ?thesis .
qed

lemma no_key_left:
  assumes "is_range_order ord" "c \<in> set (replace_all reps (ord n (map fst reps)) s)"
  shows "[c] \<notin> set (map fst reps)"
  using assms(2) stable unfolding replace_all_eq [OF assms(1)]
  by (auto simp: replaced_def split: if_splits)

end

section \<open>Maps of descriptors\<close>

text \<open>
  A map from column or statistic names to the type and the descriptor of their metric, and its
  contract: every descriptor has the same number \<open>n\<close> of labels.
\<close>

type_synonym typed_descs = "(string \<times> value_type \<times> desc) list"

locale desc_table =
  fixes table :: typed_descs and n :: nat
  assumes table_arity: "list_all (\<lambda>(k, t, d). length (var_labels d) = n) table"
begin

lemma found_arity: "map_of table k = Some (t, d) \<Longrightarrow> length (var_labels d) = n"
  using table_arity by (auto dest!: map_of_SomeD simp: list_all_iff)

lemma found_ok: "map_of table k = Some (t, d) \<Longrightarrow> length ls = n \<Longrightarrow> metric_ok (ConstMetric d t x ls)"
  using found_arity by (simp add: metric_ok_Const)

end

section \<open>Counting in maps\<close>

text \<open>
  The contract of the maps a scraper adds up in: adding to a key changes that key only, and makes
  it a key. What the loop over the rows leaves is then the sum over the rows of each key.
\<close>

locale counting_map =
  fixes get :: "'k \<Rightarrow> 'm \<Rightarrow> u32" and add :: "'k \<Rightarrow> u32 \<Rightarrow> 'm \<Rightarrow> 'm" and keys :: "'m \<Rightarrow> 'k set"
  assumes get_add: "get k (add k' n m) = get k m + (if k = k' then n else 0)"
    and keys_add: "keys (add k n m) = insert k (keys m)"
begin

lemma get_adds:
  "get k (foldl (\<lambda>m x. add (key x) (val x) m) m xs) = get k m + sum_list (map val (filter (\<lambda>x. key x = k) xs))"
  by (induction xs arbitrary: m) (auto simp: get_add algebra_simps)

lemma keys_adds: "keys (foldl (\<lambda>m x. add (key x) (val x) m) m xs) = keys m \<union> key ` set xs"
  by (induction xs arbitrary: m) (auto simp: keys_add)

end

definition flat_add :: "string \<Rightarrow> u32 \<Rightarrow> (string \<times> u32) list \<Rightarrow> (string \<times> u32) list" where
  "flat_add k n m = smap_put k (smap_get 0 k m + n) m"

type_synonym nested_map = "(string \<times> (string \<times> u32) list) list"

definition nested_get :: "string \<times> string \<Rightarrow> nested_map \<Rightarrow> u32" where
  "nested_get k m = smap_get 0 (snd k) (smap_get [] (fst k) m)"

definition nested_add :: "string \<times> string \<Rightarrow> u32 \<Rightarrow> nested_map \<Rightarrow> nested_map" where
  "nested_add k n m = smap_put (fst k) (flat_add (snd k) n (smap_get [] (fst k) m)) m"

definition nested_keys :: "nested_map \<Rightarrow> (string \<times> string) set" where
  "nested_keys m = {(c, s). s \<in> fst ` set (smap_get [] c m)}"

lemma smap_keys: "fst ` set (smap_put k v m) = insert k (fst ` set m)"
  using smap_put_keys [of k v m] by simp

interpretation flat: counting_map "smap_get 0" flat_add "\<lambda>m. fst ` set m"
  by unfold_locales (simp_all add: flat_add_def smap.get_put smap_keys)

interpretation nested: counting_map nested_get nested_add nested_keys
proof
  show "nested_get k (nested_add k' n m) = nested_get k m + (if k = k' then n else 0)" for k k' n m
    by (cases k; cases k') (auto simp: nested_get_def nested_add_def smap.get_put flat.get_add)
  have "(c, s) \<in> nested_keys (nested_add k n m) \<longleftrightarrow> (c, s) = k \<or> (c, s) \<in> nested_keys m" for c s k n m
    by (cases k) (auto simp only: nested_keys_def nested_add_def smap.get_put flat.keys_add fst_conv snd_conv
        mem_Collect_eq prod.case prod.inject insert_iff split: if_splits)
  then show "nested_keys (nested_add k n m) = insert k (nested_keys m)" for k n m
    by (cases k) auto
qed

text \<open>The maps the loops build have distinct keys at both levels, and no key without a state.\<close>

definition nested_ok :: "nested_map \<Rightarrow> bool" where
  "nested_ok m \<longleftrightarrow> distinct (map fst m) \<and> (\<forall>c. distinct (map fst (smap_get [] c m))) \<and>
     (\<forall>c \<in> fst ` set m. smap_get [] c m \<noteq> [])"

lemma smap_get_none: "k \<notin> fst ` set m \<Longrightarrow> smap_get z k m = z"
  by (induction z k m rule: smap_get.induct) auto

lemma smap_put_ne [simp]: "smap_put k v m \<noteq> []"
  by (induction k v m rule: smap_put.induct) auto

lemma nested_ok_Nil [simp]: "nested_ok []"
  by (simp add: nested_ok_def)

lemma nested_ok_add: "nested_ok m \<Longrightarrow> nested_ok (nested_add k n m)"
  by (cases k) (auto simp: nested_ok_def nested_add_def flat_add_def smap.get_put smap_keys smap_put_distinct)

lemma nested_ok_adds: "nested_ok m \<Longrightarrow> nested_ok (foldl (\<lambda>m x. nested_add (key x) (val x) m) m xs)"
  by (induction xs arbitrary: m) (simp_all add: nested_ok_add)

lemma flat_distinct_adds:
  "distinct (map fst m) \<Longrightarrow> distinct (map fst (foldl (\<lambda>m x. flat_add (key x) (val x) m) m xs))"
  by (induction xs arbitrary: m) (simp_all add: flat_add_def smap_put_distinct)

lemma nested_ok_outer: "nested_ok m \<Longrightarrow> fst ` set m = fst ` nested_keys m"
proof -
  assume ok: "nested_ok m"
  have "c \<in> fst ` nested_keys m" if "c \<in> fst ` set m" for c
  proof -
    from ok that have "smap_get [] c m \<noteq> []" unfolding nested_ok_def by blast
    then obtain p ps where "smap_get [] c m = p # ps" by (cases "smap_get [] c m") auto
    then have "(c, fst p) \<in> nested_keys m" by (simp add: nested_keys_def)
    then show ?thesis by force
  qed
  moreover have "c \<in> fst ` set m" if "c \<in> fst ` nested_keys m" for c
  proof (rule ccontr)
    assume "c \<notin> fst ` set m"
    then have "smap_get [] c m = []" by (rule smap_get_none)
    with that show False by (auto simp: nested_keys_def)
  qed
  ultimately show ?thesis by blast
qed

end
