(* ===== verification/PerfTables.thy ===== *)
theory PerfTables
  imports GenericBase
begin

text \<open>
  The scrapers of \<open>performance_schema\<close> and \<open>sys\<close> that are one query and one loop: waits, file and
  memory events, statement sums, and the user summary. The flags that name a prefix or a filter
  are arguments.
\<close>

subsection \<open>perf_schema_events_waits.go\<close>

definition perfEventsWaitsQuery :: string where
  "perfEventsWaitsQuery = ''
	SELECT EVENT_NAME, COUNT_STAR, SUM_TIMER_WAIT
	  FROM performance_schema.events_waits_summary_global_by_event_name
	''"

definition performanceSchemaEventsWaitsDesc :: desc where [desc_def]:
  "performanceSchemaEventsWaitsDesc = NewDesc (BuildFQName namespace performanceSchema ''events_waits_total'')
     ''The total events waits by event name.'' [''event_name'']"

definition performanceSchemaEventsWaitsTimeDesc :: desc where [desc_def]:
  "performanceSchemaEventsWaitsTimeDesc = NewDesc (BuildFQName namespace performanceSchema ''events_waits_seconds_total'')
     ''The total seconds of events waits by event name.'' [''event_name'']"

lemma arity_perf_schema_events_waits [simp, desc_arity]:
  "length (var_labels performanceSchemaEventsWaitsDesc) = 1"
  "length (var_labels performanceSchemaEventsWaitsTimeDesc) = 1"
  by (simp_all add: desc_def)

definition ScrapePerfEventsWaits_Name :: string where "ScrapePerfEventsWaits_Name = ''perf_schema.eventswaits''"

definition ScrapePerfEventsWaits_Help :: string where "ScrapePerfEventsWaits_Help = ''Collect metrics from performance_schema.events_waits_summary_global_by_event_name''"

definition ScrapePerfEventsWaits_Version :: float64 where "ScrapePerfEventsWaits_Version = f_lit 55 1"

definition ScrapePerfEventsWaits_dests :: "dest list" where
  "ScrapePerfEventsWaits_dests = [DStr, DU64, DU64]"

definition ScrapePerfEventsWaits_row :: "gval list \<Rightarrow> metric list" where
  "ScrapePerfEventsWaits_row vs =
     (let eventName = g_str (vs ! 0);
          count = g_u64 (vs ! 1);
          time = g_u64 (vs ! 2)
      in [ConstMetric performanceSchemaEventsWaitsDesc CounterValue (f_of_u64 count) [eventName],
          ConstMetric performanceSchemaEventsWaitsTimeDesc CounterValue (f_div (f_of_u64 time) picoSeconds) [eventName]])"

definition ScrapePerfEventsWaits_Scrape :: "database \<Rightarrow> scrape_out" where
  "ScrapePerfEventsWaits_Scrape = table_scrape perfEventsWaitsQuery ScrapePerfEventsWaits_dests ScrapePerfEventsWaits_row"

interpretation tbl_perf_events_waits: table_scraper perfEventsWaitsQuery ScrapePerfEventsWaits_dests ScrapePerfEventsWaits_row
  by unfold_locales (simp add: ScrapePerfEventsWaits_row_def Let_def wf_emit)


subsection \<open>perf_schema_events_statements_sum.go\<close>

definition perfEventsStatementsSumQuery :: string where
  "perfEventsStatementsSumQuery = ''
	SELECT
		SUM(COUNT_STAR) AS SUM_COUNT_STAR,
		SUM(SUM_CREATED_TMP_DISK_TABLES) AS SUM_SUM_CREATED_TMP_DISK_TABLES,
		SUM(SUM_CREATED_TMP_TABLES) AS SUM_SUM_CREATED_TMP_TABLES,
		SUM(SUM_ERRORS) AS SUM_SUM_ERRORS,
		SUM(SUM_LOCK_TIME) AS SUM_SUM_LOCK_TIME,
		SUM(SUM_NO_GOOD_INDEX_USED) AS SUM_SUM_NO_GOOD_INDEX_USED,
		SUM(SUM_NO_INDEX_USED) AS SUM_SUM_NO_INDEX_USED,
		SUM(SUM_ROWS_AFFECTED) AS SUM_SUM_ROWS_AFFECTED,
		SUM(SUM_ROWS_EXAMINED) AS SUM_SUM_ROWS_EXAMINED,
		SUM(SUM_ROWS_SENT) AS SUM_SUM_ROWS_SENT,
		SUM(SUM_SELECT_FULL_JOIN) AS SUM_SUM_SELECT_FULL_JOIN,
		SUM(SUM_SELECT_FULL_RANGE_JOIN) AS SUM_SUM_SELECT_FULL_RANGE_JOIN,
		SUM(SUM_SELECT_RANGE) AS SUM_SUM_SELECT_RANGE,
		SUM(SUM_SELECT_RANGE_CHECK) AS SUM_SUM_SELECT_RANGE_CHECK,
		SUM(SUM_SELECT_SCAN) AS SUM_SUM_SELECT_SCAN,
		SUM(SUM_SORT_MERGE_PASSES) AS SUM_SUM_SORT_MERGE_PASSES,
		SUM(SUM_SORT_RANGE) AS SUM_SUM_SORT_RANGE,
		SUM(SUM_SORT_ROWS) AS SUM_SUM_SORT_ROWS,
		SUM(SUM_SORT_SCAN) AS SUM_SUM_SORT_SCAN,
		SUM(SUM_TIMER_WAIT) AS SUM_SUM_TIMER_WAIT,
		SUM(SUM_WARNINGS) AS SUM_SUM_WARNINGS
	FROM performance_schema.events_statements_summary_by_digest;
	''"

definition performanceSchemaEventsStatementsSumTotalDesc :: desc where [desc_def]:
  "performanceSchemaEventsStatementsSumTotalDesc = NewDesc (BuildFQName namespace performanceSchema ''events_statements_sum_total'')
     ''The total count of events statements.'' []"

definition performanceSchemaEventsStatementsSumCreatedTmpDiskTablesDesc :: desc where [desc_def]:
  "performanceSchemaEventsStatementsSumCreatedTmpDiskTablesDesc = NewDesc (BuildFQName namespace performanceSchema ''events_statements_sum_created_tmp_disk_tables'')
     ''The number of on-disk temporary tables created.'' []"

definition performanceSchemaEventsStatementsSumCreatedTmpTablesDesc :: desc where [desc_def]:
  "performanceSchemaEventsStatementsSumCreatedTmpTablesDesc = NewDesc (BuildFQName namespace performanceSchema ''events_statements_sum_created_tmp_tables'')
     ''The number of temporary tables created.'' []"

definition performanceSchemaEventsStatementsSumErrorsDesc :: desc where [desc_def]:
  "performanceSchemaEventsStatementsSumErrorsDesc = NewDesc (BuildFQName namespace performanceSchema ''events_statements_sum_errors'')
     ''Number of errors.'' []"

definition performanceSchemaEventsStatementsSumLockTimeDesc :: desc where [desc_def]:
  "performanceSchemaEventsStatementsSumLockTimeDesc = NewDesc (BuildFQName namespace performanceSchema ''events_statements_sum_lock_time'')
     ''Time in picoseconds spent waiting for locks.'' []"

definition performanceSchemaEventsStatementsSumNoGoodIndexUsedDesc :: desc where [desc_def]:
  "performanceSchemaEventsStatementsSumNoGoodIndexUsedDesc = NewDesc (BuildFQName namespace performanceSchema ''events_statements_sum_no_good_index_used'')
     ''Number of times no good index was found.'' []"

definition performanceSchemaEventsStatementsSumNoIndexUsedDesc :: desc where [desc_def]:
  "performanceSchemaEventsStatementsSumNoIndexUsedDesc = NewDesc (BuildFQName namespace performanceSchema ''events_statements_sum_no_index_used'')
     ''Number of times no index was found.'' []"

definition performanceSchemaEventsStatementsSumRowsAffectedDesc :: desc where [desc_def]:
  "performanceSchemaEventsStatementsSumRowsAffectedDesc = NewDesc (BuildFQName namespace performanceSchema ''events_statements_sum_rows_affected'')
     ''Number of rows affected by statements.'' []"

definition performanceSchemaEventsStatementsSumRowsExaminedDesc :: desc where [desc_def]:
  "performanceSchemaEventsStatementsSumRowsExaminedDesc = NewDesc (BuildFQName namespace performanceSchema ''events_statements_sum_rows_examined'')
     (''Number of rows read during statements' execution.'') []"

definition performanceSchemaEventsStatementsSumRowsSentDesc :: desc where [desc_def]:
  "performanceSchemaEventsStatementsSumRowsSentDesc = NewDesc (BuildFQName namespace performanceSchema ''events_statements_sum_rows_sent'')
     ''Number of rows returned.'' []"

definition performanceSchemaEventsStatementsSumSelectFullJoinDesc :: desc where [desc_def]:
  "performanceSchemaEventsStatementsSumSelectFullJoinDesc = NewDesc (BuildFQName namespace performanceSchema ''events_statements_sum_select_full_join'')
     ''Number of joins performed by statements which did not use an index.'' []"

definition performanceSchemaEventsStatementsSumSelectFullRangeJoinDesc :: desc where [desc_def]:
  "performanceSchemaEventsStatementsSumSelectFullRangeJoinDesc = NewDesc (BuildFQName namespace performanceSchema ''events_statements_sum_select_full_range_join'')
     ''Number of joins performed by statements which used a range search of the first table.'' []"

definition performanceSchemaEventsStatementsSumSelectRangeDesc :: desc where [desc_def]:
  "performanceSchemaEventsStatementsSumSelectRangeDesc = NewDesc (BuildFQName namespace performanceSchema ''events_statements_sum_select_range'')
     ''Number of joins performed by statements which used a range of the first table.'' []"

definition performanceSchemaEventsStatementsSumSelectRangeCheckDesc :: desc where [desc_def]:
  "performanceSchemaEventsStatementsSumSelectRangeCheckDesc = NewDesc (BuildFQName namespace performanceSchema ''events_statements_sum_select_range_check'')
     ''Number of joins without keys performed by statements that check for key usage after each row.'' []"

definition performanceSchemaEventsStatementsSumSelectScanDesc :: desc where [desc_def]:
  "performanceSchemaEventsStatementsSumSelectScanDesc = NewDesc (BuildFQName namespace performanceSchema ''events_statements_sum_select_scan'')
     ''Number of joins performed by statements which used a full scan of the first table.'' []"

definition performanceSchemaEventsStatementsSumSortMergePassesDesc :: desc where [desc_def]:
  "performanceSchemaEventsStatementsSumSortMergePassesDesc = NewDesc (BuildFQName namespace performanceSchema ''events_statements_sum_sort_merge_passes'')
     ''Number of merge passes by the sort algorithm performed by statements.'' []"

definition performanceSchemaEventsStatementsSumSortRangeDesc :: desc where [desc_def]:
  "performanceSchemaEventsStatementsSumSortRangeDesc = NewDesc (BuildFQName namespace performanceSchema ''events_statements_sum_sort_range'')
     ''Number of sorts performed by statements which used a range.'' []"

definition performanceSchemaEventsStatementsSumSortRowsDesc :: desc where [desc_def]:
  "performanceSchemaEventsStatementsSumSortRowsDesc = NewDesc (BuildFQName namespace performanceSchema ''events_statements_sum_sort_rows'')
     ''Number of rows sorted.'' []"

definition performanceSchemaEventsStatementsSumSortScanDesc :: desc where [desc_def]:
  "performanceSchemaEventsStatementsSumSortScanDesc = NewDesc (BuildFQName namespace performanceSchema ''events_statements_sum_sort_scan'')
     ''Number of sorts performed by statements which used a full table scan.'' []"

definition performanceSchemaEventsStatementsSumTimerWaitDesc :: desc where [desc_def]:
  "performanceSchemaEventsStatementsSumTimerWaitDesc = NewDesc (BuildFQName namespace performanceSchema ''events_statements_sum_timer_wait'')
     ''Total wait time of the summarized events that are timed.'' []"

definition performanceSchemaEventsStatementsSumWarningsDesc :: desc where [desc_def]:
  "performanceSchemaEventsStatementsSumWarningsDesc = NewDesc (BuildFQName namespace performanceSchema ''events_statements_sum_warnings'')
     ''Number of warnings.'' []"

lemma arity_perf_schema_events_statements_sum [simp, desc_arity]:
  "length (var_labels performanceSchemaEventsStatementsSumTotalDesc) = 0"
  "length (var_labels performanceSchemaEventsStatementsSumCreatedTmpDiskTablesDesc) = 0"
  "length (var_labels performanceSchemaEventsStatementsSumCreatedTmpTablesDesc) = 0"
  "length (var_labels performanceSchemaEventsStatementsSumErrorsDesc) = 0"
  "length (var_labels performanceSchemaEventsStatementsSumLockTimeDesc) = 0"
  "length (var_labels performanceSchemaEventsStatementsSumNoGoodIndexUsedDesc) = 0"
  "length (var_labels performanceSchemaEventsStatementsSumNoIndexUsedDesc) = 0"
  "length (var_labels performanceSchemaEventsStatementsSumRowsAffectedDesc) = 0"
  "length (var_labels performanceSchemaEventsStatementsSumRowsExaminedDesc) = 0"
  "length (var_labels performanceSchemaEventsStatementsSumRowsSentDesc) = 0"
  "length (var_labels performanceSchemaEventsStatementsSumSelectFullJoinDesc) = 0"
  "length (var_labels performanceSchemaEventsStatementsSumSelectFullRangeJoinDesc) = 0"
  "length (var_labels performanceSchemaEventsStatementsSumSelectRangeDesc) = 0"
  "length (var_labels performanceSchemaEventsStatementsSumSelectRangeCheckDesc) = 0"
  "length (var_labels performanceSchemaEventsStatementsSumSelectScanDesc) = 0"
  "length (var_labels performanceSchemaEventsStatementsSumSortMergePassesDesc) = 0"
  "length (var_labels performanceSchemaEventsStatementsSumSortRangeDesc) = 0"
  "length (var_labels performanceSchemaEventsStatementsSumSortRowsDesc) = 0"
  "length (var_labels performanceSchemaEventsStatementsSumSortScanDesc) = 0"
  "length (var_labels performanceSchemaEventsStatementsSumTimerWaitDesc) = 0"
  "length (var_labels performanceSchemaEventsStatementsSumWarningsDesc) = 0"
  by (simp_all add: desc_def)

definition ScrapePerfEventsStatementsSum_Name :: string where "ScrapePerfEventsStatementsSum_Name = ''perf_schema.eventsstatementssum''"

definition ScrapePerfEventsStatementsSum_Help :: string where "ScrapePerfEventsStatementsSum_Help = ''Collect metrics of grand sums from performance_schema.events_statements_summary_by_digest''"

definition ScrapePerfEventsStatementsSum_Version :: float64 where "ScrapePerfEventsStatementsSum_Version = f_lit 57 1"

definition ScrapePerfEventsStatementsSum_dests :: "dest list" where
  "ScrapePerfEventsStatementsSum_dests = [DF64, DF64, DF64, DF64, DF64, DF64, DF64, DF64, DF64, DF64, DF64, DF64, DF64, DF64, DF64, DF64, DF64, DF64, DF64, DF64, DF64]"

definition ScrapePerfEventsStatementsSum_row :: "gval list \<Rightarrow> metric list" where
  "ScrapePerfEventsStatementsSum_row vs =
     (let total = g_f64 (vs ! 0);
          createdTmpDiskTables = g_f64 (vs ! 1);
          createdTmpTables = g_f64 (vs ! 2);
          errors = g_f64 (vs ! 3);
          lockTime = g_f64 (vs ! 4);
          noGoodIndexUsed = g_f64 (vs ! 5);
          noIndexUsed = g_f64 (vs ! 6);
          rowsAffected = g_f64 (vs ! 7);
          rowsExamined = g_f64 (vs ! 8);
          rowsSent = g_f64 (vs ! 9);
          selectFullJoin = g_f64 (vs ! 10);
          selectFullRangeJoin = g_f64 (vs ! 11);
          selectRange = g_f64 (vs ! 12);
          selectRangeCheck = g_f64 (vs ! 13);
          selectScan = g_f64 (vs ! 14);
          sortMergePasses = g_f64 (vs ! 15);
          sortRange = g_f64 (vs ! 16);
          sortRows = g_f64 (vs ! 17);
          sortScan = g_f64 (vs ! 18);
          timerWait = g_f64 (vs ! 19);
          warnings = g_f64 (vs ! 20)
      in [ConstMetric performanceSchemaEventsStatementsSumTotalDesc CounterValue total [],
          ConstMetric performanceSchemaEventsStatementsSumCreatedTmpDiskTablesDesc CounterValue createdTmpDiskTables [],
          ConstMetric performanceSchemaEventsStatementsSumCreatedTmpTablesDesc CounterValue createdTmpTables [],
          ConstMetric performanceSchemaEventsStatementsSumErrorsDesc CounterValue errors [],
          ConstMetric performanceSchemaEventsStatementsSumLockTimeDesc CounterValue lockTime [],
          ConstMetric performanceSchemaEventsStatementsSumNoGoodIndexUsedDesc CounterValue noGoodIndexUsed [],
          ConstMetric performanceSchemaEventsStatementsSumNoIndexUsedDesc CounterValue noIndexUsed [],
          ConstMetric performanceSchemaEventsStatementsSumRowsAffectedDesc CounterValue rowsAffected [],
          ConstMetric performanceSchemaEventsStatementsSumRowsExaminedDesc CounterValue rowsExamined [],
          ConstMetric performanceSchemaEventsStatementsSumRowsSentDesc CounterValue rowsSent [],
          ConstMetric performanceSchemaEventsStatementsSumSelectFullJoinDesc CounterValue selectFullJoin [],
          ConstMetric performanceSchemaEventsStatementsSumSelectFullRangeJoinDesc CounterValue selectFullRangeJoin [],
          ConstMetric performanceSchemaEventsStatementsSumSelectRangeDesc CounterValue selectRange [],
          ConstMetric performanceSchemaEventsStatementsSumSelectRangeCheckDesc CounterValue selectRangeCheck [],
          ConstMetric performanceSchemaEventsStatementsSumSelectScanDesc CounterValue selectScan [],
          ConstMetric performanceSchemaEventsStatementsSumSortMergePassesDesc CounterValue sortMergePasses [],
          ConstMetric performanceSchemaEventsStatementsSumSortRangeDesc CounterValue sortRange [],
          ConstMetric performanceSchemaEventsStatementsSumSortRowsDesc CounterValue sortRows [],
          ConstMetric performanceSchemaEventsStatementsSumSortScanDesc CounterValue sortScan [],
          ConstMetric performanceSchemaEventsStatementsSumTimerWaitDesc CounterValue (f_div timerWait picoSeconds) [],
          ConstMetric performanceSchemaEventsStatementsSumWarningsDesc CounterValue warnings []])"

definition ScrapePerfEventsStatementsSum_Scrape :: "database \<Rightarrow> scrape_out" where
  "ScrapePerfEventsStatementsSum_Scrape = table_scrape perfEventsStatementsSumQuery ScrapePerfEventsStatementsSum_dests ScrapePerfEventsStatementsSum_row"

interpretation tbl_perf_events_statements_sum: table_scraper perfEventsStatementsSumQuery ScrapePerfEventsStatementsSum_dests ScrapePerfEventsStatementsSum_row
  by unfold_locales (simp add: ScrapePerfEventsStatementsSum_row_def Let_def wf_emit)


subsection \<open>perf_schema_table_io_waits.go\<close>

definition perfTableIOWaitsQuery :: string where
  "perfTableIOWaitsQuery = ''
	SELECT
	    OBJECT_SCHEMA, OBJECT_NAME,
	    COUNT_FETCH, COUNT_INSERT, COUNT_UPDATE, COUNT_DELETE,
	    SUM_TIMER_FETCH, SUM_TIMER_INSERT, SUM_TIMER_UPDATE, SUM_TIMER_DELETE
	  FROM performance_schema.table_io_waits_summary_by_table
	  WHERE OBJECT_SCHEMA NOT IN ('mysql', 'performance_schema')
	''"

definition performanceSchemaTableWaitsDesc :: desc where [desc_def]:
  "performanceSchemaTableWaitsDesc = NewDesc (BuildFQName namespace performanceSchema ''table_io_waits_total'')
     ''The total number of table I/O wait events for each table and operation.'' [''schema'', ''name'', ''operation'']"

definition performanceSchemaTableWaitsTimeDesc :: desc where [desc_def]:
  "performanceSchemaTableWaitsTimeDesc = NewDesc (BuildFQName namespace performanceSchema ''table_io_waits_seconds_total'')
     ''The total time of table I/O wait events for each table and operation.'' [''schema'', ''name'', ''operation'']"

lemma arity_perf_schema_table_io_waits [simp, desc_arity]:
  "length (var_labels performanceSchemaTableWaitsDesc) = 3"
  "length (var_labels performanceSchemaTableWaitsTimeDesc) = 3"
  by (simp_all add: desc_def)

definition ScrapePerfTableIOWaits_Name :: string where "ScrapePerfTableIOWaits_Name = ''perf_schema.tableiowaits''"

definition ScrapePerfTableIOWaits_Help :: string where "ScrapePerfTableIOWaits_Help = ''Collect metrics from performance_schema.table_io_waits_summary_by_table''"

definition ScrapePerfTableIOWaits_Version :: float64 where "ScrapePerfTableIOWaits_Version = f_lit 56 1"

definition ScrapePerfTableIOWaits_dests :: "dest list" where
  "ScrapePerfTableIOWaits_dests = [DStr, DStr, DU64, DU64, DU64, DU64, DU64, DU64, DU64, DU64]"

definition ScrapePerfTableIOWaits_row :: "gval list \<Rightarrow> metric list" where
  "ScrapePerfTableIOWaits_row vs =
     (let objectSchema = g_str (vs ! 0);
          objectName = g_str (vs ! 1);
          countFetch = g_u64 (vs ! 2);
          countInsert = g_u64 (vs ! 3);
          countUpdate = g_u64 (vs ! 4);
          countDelete = g_u64 (vs ! 5);
          timeFetch = g_u64 (vs ! 6);
          timeInsert = g_u64 (vs ! 7);
          timeUpdate = g_u64 (vs ! 8);
          timeDelete = g_u64 (vs ! 9)
      in [ConstMetric performanceSchemaTableWaitsDesc CounterValue (f_of_u64 countFetch) [objectSchema, objectName, ''fetch''],
          ConstMetric performanceSchemaTableWaitsDesc CounterValue (f_of_u64 countInsert) [objectSchema, objectName, ''insert''],
          ConstMetric performanceSchemaTableWaitsDesc CounterValue (f_of_u64 countUpdate) [objectSchema, objectName, ''update''],
          ConstMetric performanceSchemaTableWaitsDesc CounterValue (f_of_u64 countDelete) [objectSchema, objectName, ''delete''],
          ConstMetric performanceSchemaTableWaitsTimeDesc CounterValue (f_div (f_of_u64 timeFetch) picoSeconds) [objectSchema, objectName, ''fetch''],
          ConstMetric performanceSchemaTableWaitsTimeDesc CounterValue (f_div (f_of_u64 timeInsert) picoSeconds) [objectSchema, objectName, ''insert''],
          ConstMetric performanceSchemaTableWaitsTimeDesc CounterValue (f_div (f_of_u64 timeUpdate) picoSeconds) [objectSchema, objectName, ''update''],
          ConstMetric performanceSchemaTableWaitsTimeDesc CounterValue (f_div (f_of_u64 timeDelete) picoSeconds) [objectSchema, objectName, ''delete'']])"

definition ScrapePerfTableIOWaits_Scrape :: "database \<Rightarrow> scrape_out" where
  "ScrapePerfTableIOWaits_Scrape = table_scrape perfTableIOWaitsQuery ScrapePerfTableIOWaits_dests ScrapePerfTableIOWaits_row"

interpretation tbl_perf_table_iowaits: table_scraper perfTableIOWaitsQuery ScrapePerfTableIOWaits_dests ScrapePerfTableIOWaits_row
  by unfold_locales (simp add: ScrapePerfTableIOWaits_row_def Let_def wf_emit)


subsection \<open>perf_schema_index_io_waits.go\<close>

definition perfIndexIOWaitsQuery :: string where
  "perfIndexIOWaitsQuery = ''
	SELECT OBJECT_SCHEMA, OBJECT_NAME, ifnull(INDEX_NAME, 'NONE') as INDEX_NAME,
	    COUNT_FETCH, COUNT_INSERT, COUNT_UPDATE, COUNT_DELETE,
	    SUM_TIMER_FETCH, SUM_TIMER_INSERT, SUM_TIMER_UPDATE, SUM_TIMER_DELETE
	  FROM performance_schema.table_io_waits_summary_by_index_usage
	  WHERE OBJECT_SCHEMA NOT IN ('mysql', 'performance_schema')
	''"

definition performanceSchemaIndexWaitsDesc :: desc where [desc_def]:
  "performanceSchemaIndexWaitsDesc = NewDesc (BuildFQName namespace performanceSchema ''index_io_waits_total'')
     ''The total number of index I/O wait events for each index and operation.'' [''schema'', ''name'', ''index'', ''operation'']"

definition performanceSchemaIndexWaitsTimeDesc :: desc where [desc_def]:
  "performanceSchemaIndexWaitsTimeDesc = NewDesc (BuildFQName namespace performanceSchema ''index_io_waits_seconds_total'')
     ''The total time of index I/O wait events for each index and operation.'' [''schema'', ''name'', ''index'', ''operation'']"

lemma arity_perf_schema_index_io_waits [simp, desc_arity]:
  "length (var_labels performanceSchemaIndexWaitsDesc) = 4"
  "length (var_labels performanceSchemaIndexWaitsTimeDesc) = 4"
  by (simp_all add: desc_def)

definition ScrapePerfIndexIOWaits_Name :: string where "ScrapePerfIndexIOWaits_Name = ''perf_schema.indexiowaits''"

definition ScrapePerfIndexIOWaits_Help :: string where "ScrapePerfIndexIOWaits_Help = ''Collect metrics from performance_schema.table_io_waits_summary_by_index_usage''"

definition ScrapePerfIndexIOWaits_Version :: float64 where "ScrapePerfIndexIOWaits_Version = f_lit 56 1"

definition ScrapePerfIndexIOWaits_dests :: "dest list" where
  "ScrapePerfIndexIOWaits_dests = [DStr, DStr, DStr, DU64, DU64, DU64, DU64, DU64, DU64, DU64, DU64]"

definition ScrapePerfIndexIOWaits_row :: "gval list \<Rightarrow> metric list" where
  "ScrapePerfIndexIOWaits_row vs =
     (let objectSchema = g_str (vs ! 0);
          objectName = g_str (vs ! 1);
          indexName = g_str (vs ! 2);
          countFetch = g_u64 (vs ! 3);
          countInsert = g_u64 (vs ! 4);
          countUpdate = g_u64 (vs ! 5);
          countDelete = g_u64 (vs ! 6);
          timeFetch = g_u64 (vs ! 7);
          timeInsert = g_u64 (vs ! 8);
          timeUpdate = g_u64 (vs ! 9);
          timeDelete = g_u64 (vs ! 10)
      in [ConstMetric performanceSchemaIndexWaitsDesc CounterValue (f_of_u64 countFetch) [objectSchema, objectName, indexName, ''fetch'']] @
         (if indexName = ''NONE''
           then [ConstMetric performanceSchemaIndexWaitsDesc CounterValue (f_of_u64 countInsert) [objectSchema, objectName, indexName, ''insert'']] else []) @
         [ConstMetric performanceSchemaIndexWaitsDesc CounterValue (f_of_u64 countUpdate) [objectSchema, objectName, indexName, ''update''],
          ConstMetric performanceSchemaIndexWaitsDesc CounterValue (f_of_u64 countDelete) [objectSchema, objectName, indexName, ''delete''],
          ConstMetric performanceSchemaIndexWaitsTimeDesc CounterValue (f_div (f_of_u64 timeFetch) picoSeconds) [objectSchema, objectName, indexName, ''fetch'']] @
         (if indexName = ''NONE''
           then [ConstMetric performanceSchemaIndexWaitsTimeDesc CounterValue (f_div (f_of_u64 timeInsert) picoSeconds) [objectSchema, objectName, indexName, ''insert'']] else []) @
         [ConstMetric performanceSchemaIndexWaitsTimeDesc CounterValue (f_div (f_of_u64 timeUpdate) picoSeconds) [objectSchema, objectName, indexName, ''update''],
          ConstMetric performanceSchemaIndexWaitsTimeDesc CounterValue (f_div (f_of_u64 timeDelete) picoSeconds) [objectSchema, objectName, indexName, ''delete'']])"

definition ScrapePerfIndexIOWaits_Scrape :: "database \<Rightarrow> scrape_out" where
  "ScrapePerfIndexIOWaits_Scrape = table_scrape perfIndexIOWaitsQuery ScrapePerfIndexIOWaits_dests ScrapePerfIndexIOWaits_row"

interpretation tbl_perf_index_iowaits: table_scraper perfIndexIOWaitsQuery ScrapePerfIndexIOWaits_dests ScrapePerfIndexIOWaits_row
  by unfold_locales (simp add: ScrapePerfIndexIOWaits_row_def Let_def wf_emit)


subsection \<open>perf_schema_table_lock_waits.go\<close>

definition perfTableLockWaitsQuery :: string where
  "perfTableLockWaitsQuery = ''
	SELECT
	    OBJECT_SCHEMA,
	    OBJECT_NAME,
	    COUNT_READ_NORMAL,
	    COUNT_READ_WITH_SHARED_LOCKS,
	    COUNT_READ_HIGH_PRIORITY,
	    COUNT_READ_NO_INSERT,
	    COUNT_READ_EXTERNAL,
	    COUNT_WRITE_ALLOW_WRITE,
	    COUNT_WRITE_CONCURRENT_INSERT,
	    COUNT_WRITE_LOW_PRIORITY,
	    COUNT_WRITE_NORMAL,
	    COUNT_WRITE_EXTERNAL,
	    SUM_TIMER_READ_NORMAL,
	    SUM_TIMER_READ_WITH_SHARED_LOCKS,
	    SUM_TIMER_READ_HIGH_PRIORITY,
	    SUM_TIMER_READ_NO_INSERT,
	    SUM_TIMER_READ_EXTERNAL,
	    SUM_TIMER_WRITE_ALLOW_WRITE,
	    SUM_TIMER_WRITE_CONCURRENT_INSERT,
	    SUM_TIMER_WRITE_LOW_PRIORITY,
	    SUM_TIMER_WRITE_NORMAL,
	    SUM_TIMER_WRITE_EXTERNAL
	  FROM performance_schema.table_lock_waits_summary_by_table
	  WHERE OBJECT_SCHEMA NOT IN ('mysql', 'performance_schema', 'information_schema')
	''"

definition performanceSchemaSQLTableLockWaitsDesc :: desc where [desc_def]:
  "performanceSchemaSQLTableLockWaitsDesc = NewDesc (BuildFQName namespace performanceSchema ''sql_lock_waits_total'')
     ''The total number of SQL lock wait events for each table and operation.'' [''schema'', ''name'', ''operation'']"

definition performanceSchemaExternalTableLockWaitsDesc :: desc where [desc_def]:
  "performanceSchemaExternalTableLockWaitsDesc = NewDesc (BuildFQName namespace performanceSchema ''external_lock_waits_total'')
     ''The total number of external lock wait events for each table and operation.'' [''schema'', ''name'', ''operation'']"

definition performanceSchemaSQLTableLockWaitsTimeDesc :: desc where [desc_def]:
  "performanceSchemaSQLTableLockWaitsTimeDesc = NewDesc (BuildFQName namespace performanceSchema ''sql_lock_waits_seconds_total'')
     ''The total time of SQL lock wait events for each table and operation.'' [''schema'', ''name'', ''operation'']"

definition performanceSchemaExternalTableLockWaitsTimeDesc :: desc where [desc_def]:
  "performanceSchemaExternalTableLockWaitsTimeDesc = NewDesc (BuildFQName namespace performanceSchema ''external_lock_waits_seconds_total'')
     ''The total time of external lock wait events for each table and operation.'' [''schema'', ''name'', ''operation'']"

lemma arity_perf_schema_table_lock_waits [simp, desc_arity]:
  "length (var_labels performanceSchemaSQLTableLockWaitsDesc) = 3"
  "length (var_labels performanceSchemaExternalTableLockWaitsDesc) = 3"
  "length (var_labels performanceSchemaSQLTableLockWaitsTimeDesc) = 3"
  "length (var_labels performanceSchemaExternalTableLockWaitsTimeDesc) = 3"
  by (simp_all add: desc_def)

definition ScrapePerfTableLockWaits_Name :: string where "ScrapePerfTableLockWaits_Name = ''perf_schema.tablelocks''"

definition ScrapePerfTableLockWaits_Help :: string where "ScrapePerfTableLockWaits_Help = ''Collect metrics from performance_schema.table_lock_waits_summary_by_table''"

definition ScrapePerfTableLockWaits_Version :: float64 where "ScrapePerfTableLockWaits_Version = f_lit 56 1"

definition ScrapePerfTableLockWaits_dests :: "dest list" where
  "ScrapePerfTableLockWaits_dests = [DStr, DStr, DU64, DU64, DU64, DU64, DU64, DU64, DU64, DU64, DU64, DU64, DU64, DU64, DU64, DU64, DU64, DU64, DU64, DU64, DU64, DU64]"

definition ScrapePerfTableLockWaits_row :: "gval list \<Rightarrow> metric list" where
  "ScrapePerfTableLockWaits_row vs =
     (let objectSchema = g_str (vs ! 0);
          objectName = g_str (vs ! 1);
          countReadNormal = g_u64 (vs ! 2);
          countReadWithSharedLocks = g_u64 (vs ! 3);
          countReadHighPriority = g_u64 (vs ! 4);
          countReadNoInsert = g_u64 (vs ! 5);
          countReadExternal = g_u64 (vs ! 6);
          countWriteAllowWrite = g_u64 (vs ! 7);
          countWriteConcurrentInsert = g_u64 (vs ! 8);
          countWriteLowPriority = g_u64 (vs ! 9);
          countWriteNormal = g_u64 (vs ! 10);
          countWriteExternal = g_u64 (vs ! 11);
          timeReadNormal = g_u64 (vs ! 12);
          timeReadWithSharedLocks = g_u64 (vs ! 13);
          timeReadHighPriority = g_u64 (vs ! 14);
          timeReadNoInsert = g_u64 (vs ! 15);
          timeReadExternal = g_u64 (vs ! 16);
          timeWriteAllowWrite = g_u64 (vs ! 17);
          timeWriteConcurrentInsert = g_u64 (vs ! 18);
          timeWriteLowPriority = g_u64 (vs ! 19);
          timeWriteNormal = g_u64 (vs ! 20);
          timeWriteExternal = g_u64 (vs ! 21)
      in [ConstMetric performanceSchemaSQLTableLockWaitsDesc CounterValue (f_of_u64 countReadNormal) [objectSchema, objectName, ''read_normal''],
          ConstMetric performanceSchemaSQLTableLockWaitsDesc CounterValue (f_of_u64 countReadWithSharedLocks) [objectSchema, objectName, ''read_with_shared_locks''],
          ConstMetric performanceSchemaSQLTableLockWaitsDesc CounterValue (f_of_u64 countReadHighPriority) [objectSchema, objectName, ''read_high_priority''],
          ConstMetric performanceSchemaSQLTableLockWaitsDesc CounterValue (f_of_u64 countReadNoInsert) [objectSchema, objectName, ''read_no_insert''],
          ConstMetric performanceSchemaSQLTableLockWaitsDesc CounterValue (f_of_u64 countWriteNormal) [objectSchema, objectName, ''write_normal''],
          ConstMetric performanceSchemaSQLTableLockWaitsDesc CounterValue (f_of_u64 countWriteAllowWrite) [objectSchema, objectName, ''write_allow_write''],
          ConstMetric performanceSchemaSQLTableLockWaitsDesc CounterValue (f_of_u64 countWriteConcurrentInsert) [objectSchema, objectName, ''write_concurrent_insert''],
          ConstMetric performanceSchemaSQLTableLockWaitsDesc CounterValue (f_of_u64 countWriteLowPriority) [objectSchema, objectName, ''write_low_priority''],
          ConstMetric performanceSchemaExternalTableLockWaitsDesc CounterValue (f_of_u64 countReadExternal) [objectSchema, objectName, ''read''],
          ConstMetric performanceSchemaExternalTableLockWaitsDesc CounterValue (f_of_u64 countWriteExternal) [objectSchema, objectName, ''write''],
          ConstMetric performanceSchemaSQLTableLockWaitsTimeDesc CounterValue (f_div (f_of_u64 timeReadNormal) picoSeconds) [objectSchema, objectName, ''read_normal''],
          ConstMetric performanceSchemaSQLTableLockWaitsTimeDesc CounterValue (f_div (f_of_u64 timeReadWithSharedLocks) picoSeconds) [objectSchema, objectName, ''read_with_shared_locks''],
          ConstMetric performanceSchemaSQLTableLockWaitsTimeDesc CounterValue (f_div (f_of_u64 timeReadHighPriority) picoSeconds) [objectSchema, objectName, ''read_high_priority''],
          ConstMetric performanceSchemaSQLTableLockWaitsTimeDesc CounterValue (f_div (f_of_u64 timeReadNoInsert) picoSeconds) [objectSchema, objectName, ''read_no_insert''],
          ConstMetric performanceSchemaSQLTableLockWaitsTimeDesc CounterValue (f_div (f_of_u64 timeWriteNormal) picoSeconds) [objectSchema, objectName, ''write_normal''],
          ConstMetric performanceSchemaSQLTableLockWaitsTimeDesc CounterValue (f_div (f_of_u64 timeWriteAllowWrite) picoSeconds) [objectSchema, objectName, ''write_allow_write''],
          ConstMetric performanceSchemaSQLTableLockWaitsTimeDesc CounterValue (f_div (f_of_u64 timeWriteConcurrentInsert) picoSeconds) [objectSchema, objectName, ''write_concurrent_insert''],
          ConstMetric performanceSchemaSQLTableLockWaitsTimeDesc CounterValue (f_div (f_of_u64 timeWriteLowPriority) picoSeconds) [objectSchema, objectName, ''write_low_priority''],
          ConstMetric performanceSchemaExternalTableLockWaitsTimeDesc CounterValue (f_div (f_of_u64 timeReadExternal) picoSeconds) [objectSchema, objectName, ''read''],
          ConstMetric performanceSchemaExternalTableLockWaitsTimeDesc CounterValue (f_div (f_of_u64 timeWriteExternal) picoSeconds) [objectSchema, objectName, ''write'']])"

definition ScrapePerfTableLockWaits_Scrape :: "database \<Rightarrow> scrape_out" where
  "ScrapePerfTableLockWaits_Scrape = table_scrape perfTableLockWaitsQuery ScrapePerfTableLockWaits_dests ScrapePerfTableLockWaits_row"

interpretation tbl_perf_table_lock_waits: table_scraper perfTableLockWaitsQuery ScrapePerfTableLockWaits_dests ScrapePerfTableLockWaits_row
  by unfold_locales (simp add: ScrapePerfTableLockWaits_row_def Let_def wf_emit)


subsection \<open>perf_schema_file_events.go\<close>

definition perfFileEventsQuery :: string where
  "perfFileEventsQuery = ''
	SELECT
	    EVENT_NAME,
	    COUNT_READ, SUM_TIMER_READ, SUM_NUMBER_OF_BYTES_READ,
	    COUNT_WRITE, SUM_TIMER_WRITE, SUM_NUMBER_OF_BYTES_WRITE,
	    COUNT_MISC, SUM_TIMER_MISC
	  FROM performance_schema.file_summary_by_event_name
	''"

definition performanceSchemaFileEventsDesc :: desc where [desc_def]:
  "performanceSchemaFileEventsDesc = NewDesc (BuildFQName namespace performanceSchema ''file_events_total'')
     ''The total file events by event name/mode.'' [''event_name'', ''mode'']"

definition performanceSchemaFileEventsTimeDesc :: desc where [desc_def]:
  "performanceSchemaFileEventsTimeDesc = NewDesc (BuildFQName namespace performanceSchema ''file_events_seconds_total'')
     ''The total seconds of file events by event name/mode.'' [''event_name'', ''mode'']"

definition performanceSchemaFileEventsBytesDesc :: desc where [desc_def]:
  "performanceSchemaFileEventsBytesDesc = NewDesc (BuildFQName namespace performanceSchema ''file_events_bytes_total'')
     ''The total bytes of file events by event name/mode.'' [''event_name'', ''mode'']"

lemma arity_perf_schema_file_events [simp, desc_arity]:
  "length (var_labels performanceSchemaFileEventsDesc) = 2"
  "length (var_labels performanceSchemaFileEventsTimeDesc) = 2"
  "length (var_labels performanceSchemaFileEventsBytesDesc) = 2"
  by (simp_all add: desc_def)

definition ScrapePerfFileEvents_Name :: string where "ScrapePerfFileEvents_Name = ''perf_schema.file_events''"

definition ScrapePerfFileEvents_Help :: string where "ScrapePerfFileEvents_Help = ''Collect metrics from performance_schema.file_summary_by_event_name''"

definition ScrapePerfFileEvents_Version :: float64 where "ScrapePerfFileEvents_Version = f_lit 56 1"

definition ScrapePerfFileEvents_dests :: "dest list" where
  "ScrapePerfFileEvents_dests = [DStr, DU64, DU64, DU64, DU64, DU64, DU64, DU64, DU64]"

definition ScrapePerfFileEvents_row :: "gval list \<Rightarrow> metric list" where
  "ScrapePerfFileEvents_row vs =
     (let eventName = g_str (vs ! 0);
          countRead = g_u64 (vs ! 1);
          timeRead = g_u64 (vs ! 2);
          bytesRead = g_u64 (vs ! 3);
          countWrite = g_u64 (vs ! 4);
          timeWrite = g_u64 (vs ! 5);
          bytesWrite = g_u64 (vs ! 6);
          countMisc = g_u64 (vs ! 7);
          timeMisc = g_u64 (vs ! 8)
      in [ConstMetric performanceSchemaFileEventsDesc CounterValue (f_of_u64 countRead) [eventName, ''read''],
          ConstMetric performanceSchemaFileEventsTimeDesc CounterValue (f_div (f_of_u64 timeRead) picoSeconds) [eventName, ''read''],
          ConstMetric performanceSchemaFileEventsBytesDesc CounterValue (f_of_u64 bytesRead) [eventName, ''read''],
          ConstMetric performanceSchemaFileEventsDesc CounterValue (f_of_u64 countWrite) [eventName, ''write''],
          ConstMetric performanceSchemaFileEventsTimeDesc CounterValue (f_div (f_of_u64 timeWrite) picoSeconds) [eventName, ''write''],
          ConstMetric performanceSchemaFileEventsBytesDesc CounterValue (f_of_u64 bytesWrite) [eventName, ''write''],
          ConstMetric performanceSchemaFileEventsDesc CounterValue (f_of_u64 countMisc) [eventName, ''misc''],
          ConstMetric performanceSchemaFileEventsTimeDesc CounterValue (f_div (f_of_u64 timeMisc) picoSeconds) [eventName, ''misc'']])"

definition ScrapePerfFileEvents_Scrape :: "database \<Rightarrow> scrape_out" where
  "ScrapePerfFileEvents_Scrape = table_scrape perfFileEventsQuery ScrapePerfFileEvents_dests ScrapePerfFileEvents_row"

interpretation tbl_perf_file_events: table_scraper perfFileEventsQuery ScrapePerfFileEvents_dests ScrapePerfFileEvents_row
  by unfold_locales (simp add: ScrapePerfFileEvents_row_def Let_def wf_emit)


subsection \<open>perf_schema_memory_events.go\<close>

definition perfMemoryEventsQuery :: string where
  "perfMemoryEventsQuery = ''
	SELECT
		EVENT_NAME, SUM_NUMBER_OF_BYTES_ALLOC, SUM_NUMBER_OF_BYTES_FREE,
		CURRENT_NUMBER_OF_BYTES_USED
	FROM performance_schema.memory_summary_global_by_event_name
		where COUNT_ALLOC > 0;
''"

definition performanceSchemaMemoryBytesAllocDesc :: desc where [desc_def]:
  "performanceSchemaMemoryBytesAllocDesc = NewDesc (BuildFQName namespace performanceSchema ''memory_events_alloc_bytes_total'')
     ''The total number of bytes allocated by events.'' [''event_name'']"

definition performanceSchemaMemoryBytesFreeDesc :: desc where [desc_def]:
  "performanceSchemaMemoryBytesFreeDesc = NewDesc (BuildFQName namespace performanceSchema ''memory_events_free_bytes_total'')
     ''The total number of bytes freed by events.'' [''event_name'']"

definition perforanceSchemaMemoryUsedBytesDesc :: desc where [desc_def]:
  "perforanceSchemaMemoryUsedBytesDesc = NewDesc (BuildFQName namespace performanceSchema ''memory_events_used_bytes'')
     ''The number of bytes currently allocated by events.'' [''event_name'']"

lemma arity_perf_schema_memory_events [simp, desc_arity]:
  "length (var_labels performanceSchemaMemoryBytesAllocDesc) = 1"
  "length (var_labels performanceSchemaMemoryBytesFreeDesc) = 1"
  "length (var_labels perforanceSchemaMemoryUsedBytesDesc) = 1"
  by (simp_all add: desc_def)

definition ScrapePerfMemoryEvents_Name :: string where "ScrapePerfMemoryEvents_Name = ''perf_schema.memory_events''"

definition ScrapePerfMemoryEvents_Help :: string where "ScrapePerfMemoryEvents_Help = ''Collect metrics from performance_schema.memory_summary_global_by_event_name''"

definition ScrapePerfMemoryEvents_Version :: float64 where "ScrapePerfMemoryEvents_Version = f_lit 57 1"

definition ScrapePerfMemoryEvents_dests :: "dest list" where
  "ScrapePerfMemoryEvents_dests = [DStr, DU64, DU64, DI64]"

definition ScrapePerfMemoryEvents_row :: "string \<Rightarrow> gval list \<Rightarrow> metric list" where
  "ScrapePerfMemoryEvents_row removePrefix vs =
     (let eventName0 = g_str (vs ! 0);
          bytesAlloc = g_u64 (vs ! 1);
          bytesFree = g_u64 (vs ! 2);
          currentBytes = g_i64 (vs ! 3);
          eventName = strings_TrimPrefix eventName0 removePrefix
      in [ConstMetric performanceSchemaMemoryBytesAllocDesc CounterValue (f_of_u64 bytesAlloc) [eventName],
          ConstMetric performanceSchemaMemoryBytesFreeDesc CounterValue (f_of_u64 bytesFree) [eventName],
          ConstMetric perforanceSchemaMemoryUsedBytesDesc GaugeValue (f_of_i64 currentBytes) [eventName]])"

definition ScrapePerfMemoryEvents_Scrape :: "string \<Rightarrow> database \<Rightarrow> scrape_out" where
  "ScrapePerfMemoryEvents_Scrape removePrefix =
     table_scrape perfMemoryEventsQuery ScrapePerfMemoryEvents_dests (ScrapePerfMemoryEvents_row removePrefix)"

interpretation tbl_perf_memory_events: table_scraper perfMemoryEventsQuery ScrapePerfMemoryEvents_dests
  "ScrapePerfMemoryEvents_row removePrefix" for removePrefix
  by unfold_locales (simp add: ScrapePerfMemoryEvents_row_def Let_def wf_emit)


subsection \<open>perf_schema_file_instances.go\<close>

definition perfFileInstancesQuery :: string where
  "perfFileInstancesQuery = ''
	SELECT
	    FILE_NAME, EVENT_NAME,
	    COUNT_READ, COUNT_WRITE,
	    SUM_NUMBER_OF_BYTES_READ, SUM_NUMBER_OF_BYTES_WRITE
	  FROM performance_schema.file_summary_by_instance
	     where FILE_NAME REGEXP ?
	''"

definition performanceSchemaFileInstancesBytesDesc :: desc where [desc_def]:
  "performanceSchemaFileInstancesBytesDesc = NewDesc (BuildFQName namespace performanceSchema ''file_instances_bytes'')
     ''The number of bytes processed by file read/write operations.'' [''file_name'', ''event_name'', ''mode'']"

definition performanceSchemaFileInstancesCountDesc :: desc where [desc_def]:
  "performanceSchemaFileInstancesCountDesc = NewDesc (BuildFQName namespace performanceSchema ''file_instances_total'')
     ''The total number of file read/write operations.'' [''file_name'', ''event_name'', ''mode'']"

lemma arity_perf_schema_file_instances [simp, desc_arity]:
  "length (var_labels performanceSchemaFileInstancesBytesDesc) = 3"
  "length (var_labels performanceSchemaFileInstancesCountDesc) = 3"
  by (simp_all add: desc_def)

definition ScrapePerfFileInstances_Name :: string where "ScrapePerfFileInstances_Name = ''perf_schema.file_instances''"

definition ScrapePerfFileInstances_Help :: string where "ScrapePerfFileInstances_Help = ''Collect metrics from performance_schema.file_summary_by_instance''"

definition ScrapePerfFileInstances_Version :: float64 where "ScrapePerfFileInstances_Version = f_lit 55 1"


definition ScrapePerfFileInstances_dests :: "dest list" where
  "ScrapePerfFileInstances_dests = [DStr, DStr, DU64, DU64, DU64, DU64]"

definition ScrapePerfFileInstances_row :: "string \<Rightarrow> gval list \<Rightarrow> metric list" where
  "ScrapePerfFileInstances_row removePrefix vs =
     (let fileName = strings_TrimPrefix (g_str (vs ! 0)) removePrefix;
          eventName = g_str (vs ! 1);
          countRead = g_u64 (vs ! 2);
          countWrite = g_u64 (vs ! 3);
          sumBytesRead = g_u64 (vs ! 4);
          sumBytesWritten = g_u64 (vs ! 5)
      in [ConstMetric performanceSchemaFileInstancesCountDesc CounterValue (f_of_u64 countRead) [fileName, eventName, ''read''],
          ConstMetric performanceSchemaFileInstancesCountDesc CounterValue (f_of_u64 countWrite) [fileName, eventName, ''write''],
          ConstMetric performanceSchemaFileInstancesBytesDesc CounterValue (f_of_u64 sumBytesRead) [fileName, eventName, ''read''],
          ConstMetric performanceSchemaFileInstancesBytesDesc CounterValue (f_of_u64 sumBytesWritten) [fileName, eventName, ''write'']])"

definition ScrapePerfFileInstances_Scrape :: "string \<Rightarrow> string \<Rightarrow> database \<Rightarrow> scrape_out" where
  "ScrapePerfFileInstances_Scrape fileFilter removePrefix db =
     with_query db 0 perfFileInstancesQuery [fileFilter] (\<lambda>rs.
       each_row ScrapePerfFileInstances_dests (ScrapePerfFileInstances_row removePrefix) (rs_rows rs))"

interpretation sc_perf_file_instances: safe_scraper "ScrapePerfFileInstances_Scrape fileFilter removePrefix"
  for fileFilter removePrefix
  by (rule safe_scraperI)
    (auto intro!: safe_run simp: ScrapePerfFileInstances_Scrape_def ScrapePerfFileInstances_row_def Let_def wf_emit)

subsection \<open>sys_user_summary.go\<close>

definition sysUserSummaryQuery :: string where
  "sysUserSummaryQuery = ''
	SELECT
		user,
		statements,
		statement_latency,
		table_scans,
		file_ios,
		file_io_latency,
		current_connections,
		total_connections,
		unique_hosts,
		current_memory,
		total_memory_allocated
	FROM
		''"

definition sysUserSummaryStatements :: desc where [desc_def]:
  "sysUserSummaryStatements = NewDesc (BuildFQName namespace sysSchema ''statements_total'')
     '' The total number of statements for the user'' [''user'']"

definition sysUserSummaryStatementLatency :: desc where [desc_def]:
  "sysUserSummaryStatementLatency = NewDesc (BuildFQName namespace sysSchema ''statement_latency'')
     ''The total wait time of timed statements for the user'' [''user'']"

definition sysUserSummaryTableScans :: desc where [desc_def]:
  "sysUserSummaryTableScans = NewDesc (BuildFQName namespace sysSchema ''table_scans_total'')
     ''The total number of table scans for the user'' [''user'']"

definition sysUserSummaryFileIOs :: desc where [desc_def]:
  "sysUserSummaryFileIOs = NewDesc (BuildFQName namespace sysSchema ''file_ios_total'')
     ''The total number of file I/O events for the user'' [''user'']"

definition sysUserSummaryFileIOLatency :: desc where [desc_def]:
  "sysUserSummaryFileIOLatency = NewDesc (BuildFQName namespace sysSchema ''file_io_seconds_total'')
     ''The total wait time of timed file I/O events for the user'' [''user'']"

definition sysUserSummaryCurrentConnections :: desc where [desc_def]:
  "sysUserSummaryCurrentConnections = NewDesc (BuildFQName namespace sysSchema ''current_connections'')
     ''The current number of connections for the user'' [''user'']"

definition sysUserSummaryTotalConnections :: desc where [desc_def]:
  "sysUserSummaryTotalConnections = NewDesc (BuildFQName namespace sysSchema ''connections_total'')
     ''The total number of connections for the user'' [''user'']"

definition sysUserSummaryUniqueHosts :: desc where [desc_def]:
  "sysUserSummaryUniqueHosts = NewDesc (BuildFQName namespace sysSchema ''unique_hosts_total'')
     ''The number of distinct hosts from which connections for the user have originated'' [''user'']"

definition sysUserSummaryCurrentMemory :: desc where [desc_def]:
  "sysUserSummaryCurrentMemory = NewDesc (BuildFQName namespace sysSchema ''current_memory_bytes'')
     ''The current amount of allocated memory for the user'' [''user'']"

definition sysUserSummaryTotalMemoryAllocated :: desc where [desc_def]:
  "sysUserSummaryTotalMemoryAllocated = NewDesc (BuildFQName namespace sysSchema ''memory_allocated_bytes_total'')
     ''The total amount of allocated memory for the user'' [''user'']"

lemma arity_sys_user_summary [simp, desc_arity]:
  "length (var_labels sysUserSummaryStatements) = 1"
  "length (var_labels sysUserSummaryStatementLatency) = 1"
  "length (var_labels sysUserSummaryTableScans) = 1"
  "length (var_labels sysUserSummaryFileIOs) = 1"
  "length (var_labels sysUserSummaryFileIOLatency) = 1"
  "length (var_labels sysUserSummaryCurrentConnections) = 1"
  "length (var_labels sysUserSummaryTotalConnections) = 1"
  "length (var_labels sysUserSummaryUniqueHosts) = 1"
  "length (var_labels sysUserSummaryCurrentMemory) = 1"
  "length (var_labels sysUserSummaryTotalMemoryAllocated) = 1"
  by (simp_all add: desc_def)

definition ScrapeSysUserSummary_Name :: string where "ScrapeSysUserSummary_Name = sysSchema @ ''.user_summary''"

definition ScrapeSysUserSummary_Help :: string where "ScrapeSysUserSummary_Help = ''Collect per user metrics from sys.x$user_summary. See https://dev.mysql.com/doc/refman/5.7/en/sys-user-summary.html for details''"

definition ScrapeSysUserSummary_Version :: float64 where "ScrapeSysUserSummary_Version = f_lit 57 1"

definition ScrapeSysUserSummary_dests :: "dest list" where
  "ScrapeSysUserSummary_dests = [DStr, DU64, DF64, DU64, DU64, DF64, DU64, DU64, DU64, DI64, DU64]"

definition ScrapeSysUserSummary_row :: "gval list \<Rightarrow> metric list" where
  "ScrapeSysUserSummary_row vs =
     (let user = g_str (vs ! 0);
          statements = g_u64 (vs ! 1);
          statement_latency = g_f64 (vs ! 2);
          table_scans = g_u64 (vs ! 3);
          file_ios = g_u64 (vs ! 4);
          file_io_latency = g_f64 (vs ! 5);
          current_connections = g_u64 (vs ! 6);
          total_connections = g_u64 (vs ! 7);
          unique_hosts = g_u64 (vs ! 8);
          current_memory = g_i64 (vs ! 9);
          total_memory_allocated = g_u64 (vs ! 10)
      in [ConstMetric sysUserSummaryStatements CounterValue (f_of_u64 statements) [user],
          ConstMetric sysUserSummaryStatementLatency CounterValue (f_div statement_latency picoSeconds) [user],
          ConstMetric sysUserSummaryTableScans CounterValue (f_of_u64 table_scans) [user],
          ConstMetric sysUserSummaryFileIOs CounterValue (f_of_u64 file_ios) [user],
          ConstMetric sysUserSummaryFileIOLatency CounterValue (f_div file_io_latency picoSeconds) [user],
          ConstMetric sysUserSummaryCurrentConnections GaugeValue (f_of_u64 current_connections) [user],
          ConstMetric sysUserSummaryTotalConnections CounterValue (f_of_u64 total_connections) [user],
          ConstMetric sysUserSummaryUniqueHosts CounterValue (f_of_u64 unique_hosts) [user],
          ConstMetric sysUserSummaryCurrentMemory GaugeValue (f_of_i64 current_memory) [user],
          ConstMetric sysUserSummaryTotalMemoryAllocated CounterValue (f_of_u64 total_memory_allocated) [user]])"

definition ScrapeSysUserSummary_Scrape :: "database \<Rightarrow> scrape_out" where
  "ScrapeSysUserSummary_Scrape = table_scrape sysUserSummaryQuery ScrapeSysUserSummary_dests ScrapeSysUserSummary_row"

interpretation tbl_sys_user_summary: table_scraper sysUserSummaryQuery ScrapeSysUserSummary_dests ScrapeSysUserSummary_row
  by unfold_locales (simp add: ScrapeSysUserSummary_row_def Let_def wf_emit)


end
