(* ===== verification/PerfStatements.thy ===== *)
theory PerfStatements
  imports GenericBase
begin

text \<open>
  \<open>collector/perf_schema_events_statements.go\<close>: the statement digests. The query text is made from
  the limits of the flags and the quoted list of schemas to leave out; MySQL 8.0.28 and later are
  asked for lock time, CPU time and quantiles as well.
\<close>

subsection \<open>perf_schema_events_statements.go\<close>

definition perfEventsStatementsQuery :: string where
  "perfEventsStatementsQuery = ''
	SELECT
	    ifnull(SCHEMA_NAME, 'NONE') as SCHEMA_NAME,
	    DIGEST,
	    LEFT(DIGEST_TEXT, %d) as DIGEST_TEXT,
	    COUNT_STAR,
	    SUM_TIMER_WAIT,
	    SUM_ERRORS,
	    SUM_WARNINGS,
	    SUM_ROWS_AFFECTED,
	    SUM_ROWS_SENT,
	    SUM_ROWS_EXAMINED,
	    SUM_CREATED_TMP_DISK_TABLES,
	    SUM_CREATED_TMP_TABLES,
	    SUM_SORT_MERGE_PASSES,
	    SUM_SORT_ROWS,
	    SUM_NO_INDEX_USED
	  FROM (
	    SELECT *
	    FROM performance_schema.events_statements_summary_by_digest
	    WHERE SCHEMA_NAME NOT IN (%s)
	      AND LAST_SEEN > DATE_SUB(NOW(), INTERVAL %d SECOND)
	    ORDER BY LAST_SEEN DESC
	  )Q
	  GROUP BY
	    Q.SCHEMA_NAME,
	    Q.DIGEST,
	    Q.DIGEST_TEXT,
	    Q.COUNT_STAR,
	    Q.SUM_TIMER_WAIT,
	    Q.SUM_ERRORS,
	    Q.SUM_WARNINGS,
	    Q.SUM_ROWS_AFFECTED,
	    Q.SUM_ROWS_SENT,
	    Q.SUM_ROWS_EXAMINED,
	    Q.SUM_CREATED_TMP_DISK_TABLES,
	    Q.SUM_CREATED_TMP_TABLES,
	    Q.SUM_SORT_MERGE_PASSES,
	    Q.SUM_SORT_ROWS,
	    Q.SUM_NO_INDEX_USED
	  ORDER BY SUM_TIMER_WAIT DESC
	  LIMIT %d
	''"

definition perfEventsStatementsQueryMySQL :: string where
  "perfEventsStatementsQueryMySQL = ''
	SELECT
	    ifnull(SCHEMA_NAME, 'NONE') as SCHEMA_NAME,
	    DIGEST,
	    LEFT(DIGEST_TEXT, %d) as DIGEST_TEXT,
	    COUNT_STAR,
	    SUM_TIMER_WAIT,
	    SUM_LOCK_TIME,
	    SUM_CPU_TIME,
	    SUM_ERRORS,
	    SUM_WARNINGS,
	    SUM_ROWS_AFFECTED,
	    SUM_ROWS_SENT,
	    SUM_ROWS_EXAMINED,
	    SUM_CREATED_TMP_DISK_TABLES,
	    SUM_CREATED_TMP_TABLES,
	    SUM_SORT_MERGE_PASSES,
	    SUM_SORT_ROWS,
	    SUM_NO_INDEX_USED,
	    QUANTILE_95,
	    QUANTILE_99,
	    QUANTILE_999
	  FROM (
	    SELECT *
	    FROM performance_schema.events_statements_summary_by_digest
	    WHERE SCHEMA_NAME NOT IN (%s)
	      AND LAST_SEEN > DATE_SUB(NOW(), INTERVAL %d SECOND)
	    ORDER BY LAST_SEEN DESC
	  )Q
	  GROUP BY
	    Q.SCHEMA_NAME,
	    Q.DIGEST,
	    Q.DIGEST_TEXT,
	    Q.COUNT_STAR,
	    Q.SUM_TIMER_WAIT,
	    Q.SUM_LOCK_TIME,
	    Q.SUM_CPU_TIME,
	    Q.SUM_ERRORS,
	    Q.SUM_WARNINGS,
	    Q.SUM_ROWS_AFFECTED,
	    Q.SUM_ROWS_SENT,
	    Q.SUM_ROWS_EXAMINED,
	    Q.SUM_CREATED_TMP_DISK_TABLES,
	    Q.SUM_CREATED_TMP_TABLES,
	    Q.SUM_SORT_MERGE_PASSES,
	    Q.SUM_SORT_ROWS,
	    Q.SUM_NO_INDEX_USED,
	    Q.QUANTILE_95,
	    Q.QUANTILE_99,
	    Q.QUANTILE_999
	  ORDER BY SUM_TIMER_WAIT DESC
	  LIMIT %d
	''"

definition performanceSchemaEventsStatementsDesc :: desc where [desc_def]:
  "performanceSchemaEventsStatementsDesc = NewDesc (BuildFQName namespace performanceSchema ''events_statements_total'')
     ''The total count of events statements by digest.'' [''schema'', ''digest'', ''digest_text'']"

definition performanceSchemaEventsStatementsTimeDesc :: desc where [desc_def]:
  "performanceSchemaEventsStatementsTimeDesc = NewDesc (BuildFQName namespace performanceSchema ''events_statements_seconds_total'')
     ''The total time of events statements by digest.'' [''schema'', ''digest'', ''digest_text'']"

definition performanceSchemaEventsStatementsLockTimeDesc :: desc where [desc_def]:
  "performanceSchemaEventsStatementsLockTimeDesc = NewDesc (BuildFQName namespace performanceSchema ''events_statements_lock_time_seconds_total'')
     ''The total lock time of events statements by digest.'' [''schema'', ''digest'', ''digest_text'']"

definition performanceSchemaEventsStatementsCpuTimeDesc :: desc where [desc_def]:
  "performanceSchemaEventsStatementsCpuTimeDesc = NewDesc (BuildFQName namespace performanceSchema ''events_statements_cpu_time_seconds_total'')
     ''The total cpu time of events statements by digest.'' [''schema'', ''digest'', ''digest_text'']"

definition performanceSchemaEventsStatementsErrorsDesc :: desc where [desc_def]:
  "performanceSchemaEventsStatementsErrorsDesc = NewDesc (BuildFQName namespace performanceSchema ''events_statements_errors_total'')
     ''The errors of events statements by digest.'' [''schema'', ''digest'', ''digest_text'']"

definition performanceSchemaEventsStatementsWarningsDesc :: desc where [desc_def]:
  "performanceSchemaEventsStatementsWarningsDesc = NewDesc (BuildFQName namespace performanceSchema ''events_statements_warnings_total'')
     ''The warnings of events statements by digest.'' [''schema'', ''digest'', ''digest_text'']"

definition performanceSchemaEventsStatementsRowsAffectedDesc :: desc where [desc_def]:
  "performanceSchemaEventsStatementsRowsAffectedDesc = NewDesc (BuildFQName namespace performanceSchema ''events_statements_rows_affected_total'')
     ''The total rows affected of events statements by digest.'' [''schema'', ''digest'', ''digest_text'']"

definition performanceSchemaEventsStatementsRowsSentDesc :: desc where [desc_def]:
  "performanceSchemaEventsStatementsRowsSentDesc = NewDesc (BuildFQName namespace performanceSchema ''events_statements_rows_sent_total'')
     ''The total rows sent of events statements by digest.'' [''schema'', ''digest'', ''digest_text'']"

definition performanceSchemaEventsStatementsRowsExaminedDesc :: desc where [desc_def]:
  "performanceSchemaEventsStatementsRowsExaminedDesc = NewDesc (BuildFQName namespace performanceSchema ''events_statements_rows_examined_total'')
     ''The total rows examined of events statements by digest.'' [''schema'', ''digest'', ''digest_text'']"

definition performanceSchemaEventsStatementsTmpTablesDesc :: desc where [desc_def]:
  "performanceSchemaEventsStatementsTmpTablesDesc = NewDesc (BuildFQName namespace performanceSchema ''events_statements_tmp_tables_total'')
     ''The total tmp tables of events statements by digest.'' [''schema'', ''digest'', ''digest_text'']"

definition performanceSchemaEventsStatementsTmpDiskTablesDesc :: desc where [desc_def]:
  "performanceSchemaEventsStatementsTmpDiskTablesDesc = NewDesc (BuildFQName namespace performanceSchema ''events_statements_tmp_disk_tables_total'')
     ''The total tmp disk tables of events statements by digest.'' [''schema'', ''digest'', ''digest_text'']"

definition performanceSchemaEventsStatementsSortMergePassesDesc :: desc where [desc_def]:
  "performanceSchemaEventsStatementsSortMergePassesDesc = NewDesc (BuildFQName namespace performanceSchema ''events_statements_sort_merge_passes_total'')
     ''The total number of merge passes by the sort algorithm performed by digest.'' [''schema'', ''digest'', ''digest_text'']"

definition performanceSchemaEventsStatementsSortRowsDesc :: desc where [desc_def]:
  "performanceSchemaEventsStatementsSortRowsDesc = NewDesc (BuildFQName namespace performanceSchema ''events_statements_sort_rows_total'')
     ''The total number of sorted rows by digest.'' [''schema'', ''digest'', ''digest_text'']"

definition performanceSchemaEventsStatementsNoIndexUsedDesc :: desc where [desc_def]:
  "performanceSchemaEventsStatementsNoIndexUsedDesc = NewDesc (BuildFQName namespace performanceSchema ''events_statements_no_index_used_total'')
     ''The total number of statements that used full table scans by digest.'' [''schema'', ''digest'', ''digest_text'']"

definition performanceSchemaEventsStatementsLatency :: desc where [desc_def]:
  "performanceSchemaEventsStatementsLatency = NewDesc (BuildFQName namespace performanceSchema ''events_statements_latency'')
     ''A summary of statement latency by digest'' [''schema'', ''digest'', ''digest_text'']"

lemma arity_perf_schema_events_statements [simp, desc_arity]:
  "length (var_labels performanceSchemaEventsStatementsDesc) = 3"
  "length (var_labels performanceSchemaEventsStatementsTimeDesc) = 3"
  "length (var_labels performanceSchemaEventsStatementsLockTimeDesc) = 3"
  "length (var_labels performanceSchemaEventsStatementsCpuTimeDesc) = 3"
  "length (var_labels performanceSchemaEventsStatementsErrorsDesc) = 3"
  "length (var_labels performanceSchemaEventsStatementsWarningsDesc) = 3"
  "length (var_labels performanceSchemaEventsStatementsRowsAffectedDesc) = 3"
  "length (var_labels performanceSchemaEventsStatementsRowsSentDesc) = 3"
  "length (var_labels performanceSchemaEventsStatementsRowsExaminedDesc) = 3"
  "length (var_labels performanceSchemaEventsStatementsTmpTablesDesc) = 3"
  "length (var_labels performanceSchemaEventsStatementsTmpDiskTablesDesc) = 3"
  "length (var_labels performanceSchemaEventsStatementsSortMergePassesDesc) = 3"
  "length (var_labels performanceSchemaEventsStatementsSortRowsDesc) = 3"
  "length (var_labels performanceSchemaEventsStatementsNoIndexUsedDesc) = 3"
  "length (var_labels performanceSchemaEventsStatementsLatency) = 3"
  by (simp_all add: desc_def)

definition ScrapePerfEventsStatements_Name :: string where "ScrapePerfEventsStatements_Name = ''perf_schema.eventsstatements''"

definition ScrapePerfEventsStatements_Help :: string where "ScrapePerfEventsStatements_Help = ''Collect metrics from performance_schema.events_statements_summary_by_digest''"

definition ScrapePerfEventsStatements_Version :: float64 where "ScrapePerfEventsStatements_Version = f_lit 56 1"


section \<open>The query\<close>

definition defaultExcludedSchemas :: "string list" where
  "defaultExcludedSchemas =
     [CHR 0x27 # ''mysql'' @ [CHR 0x27], CHR 0x27 # ''performance_schema'' @ [CHR 0x27],
      CHR 0x27 # ''information_schema'' @ [CHR 0x27]]"

definition escape_schema :: "string \<Rightarrow> string" where
  "escape_schema s = [CHR 0x27] @ strings_ReplaceAll s [CHR 0x27] [CHR 0x27, CHR 0x27] @ [CHR 0x27]"

definition add_schema :: "string list \<Rightarrow> string \<Rightarrow> string list" where
  "add_schema excludedSchemas s =
     (let escaped = escape_schema s
      in if escaped \<notin> set excludedSchemas then excludedSchemas @ [escaped] else excludedSchemas)"

definition buildExcludedSchemasList :: "string list \<Rightarrow> string" where
  "buildExcludedSchemasList extraSchemas =
     strings_Join (foldl add_schema defaultExcludedSchemas extraSchemas) '', ''"

record statements_flags =
  perfEventsStatementsLimit :: int
  perfEventsStatementsTimeLimit :: int
  perfEventsStatementsDigestTextLimit :: int
  perfEventsStatementsExcludeSchemas :: "string list"

definition mysqlVersion8028 :: "instance_state \<Rightarrow> bool" where
  "mysqlVersion8028 inst \<longleftrightarrow>
     inst_flavor inst = FlavorMySQL \<and> version_GTE (inst_version inst) \<lparr>v_major = 8, v_minor = 0, v_patch = 28\<rparr>"

definition statements_query :: "statements_flags \<Rightarrow> bool \<Rightarrow> string" where
  "statements_query fl new =
     sprintf (if new then perfEventsStatementsQueryMySQL else perfEventsStatementsQuery)
       [strconv_Itoa (perfEventsStatementsDigestTextLimit fl),
        buildExcludedSchemasList (perfEventsStatementsExcludeSchemas fl),
        strconv_Itoa (perfEventsStatementsTimeLimit fl),
        strconv_Itoa (perfEventsStatementsLimit fl)]"

section \<open>The rows\<close>

record statement_row =
  sr_schemaName :: string
  sr_digest :: string
  sr_digestText :: string
  sr_count :: u64
  sr_queryTime :: u64
  sr_lockTime :: u64
  sr_cpuTime :: u64
  sr_errors :: u64
  sr_warnings :: u64
  sr_rowsAffected :: u64
  sr_rowsSent :: u64
  sr_rowsExamined :: u64
  sr_tmpDiskTables :: u64
  sr_tmpTables :: u64
  sr_sortMergePasses :: u64
  sr_sortRows :: u64
  sr_noIndexUsed :: u64
  sr_quantile95 :: u64
  sr_quantile99 :: u64
  sr_quantile999 :: u64

text \<open>The destinations of the two forms of \<open>Scan\<close>; what the old one does not scan stays zero.\<close>

definition ScrapePerfEventsStatements_dests :: "bool \<Rightarrow> dest list" where
  "ScrapePerfEventsStatements_dests new = [DStr, DStr, DStr] @ replicate (if new then 17 else 12) DU64"

definition statement_columns :: "bool \<Rightarrow> gval list \<Rightarrow> statement_row" where
  "statement_columns new vs =
     (if new
      then \<lparr>sr_schemaName = g_str (vs ! 0), sr_digest = g_str (vs ! 1), sr_digestText = g_str (vs ! 2),
            sr_count = g_u64 (vs ! 3), sr_queryTime = g_u64 (vs ! 4), sr_lockTime = g_u64 (vs ! 5),
            sr_cpuTime = g_u64 (vs ! 6), sr_errors = g_u64 (vs ! 7), sr_warnings = g_u64 (vs ! 8),
            sr_rowsAffected = g_u64 (vs ! 9), sr_rowsSent = g_u64 (vs ! 10), sr_rowsExamined = g_u64 (vs ! 11),
            sr_tmpDiskTables = g_u64 (vs ! 12), sr_tmpTables = g_u64 (vs ! 13), sr_sortMergePasses = g_u64 (vs ! 14),
            sr_sortRows = g_u64 (vs ! 15), sr_noIndexUsed = g_u64 (vs ! 16), sr_quantile95 = g_u64 (vs ! 17),
            sr_quantile99 = g_u64 (vs ! 18), sr_quantile999 = g_u64 (vs ! 19)\<rparr>
      else \<lparr>sr_schemaName = g_str (vs ! 0), sr_digest = g_str (vs ! 1), sr_digestText = g_str (vs ! 2),
            sr_count = g_u64 (vs ! 3), sr_queryTime = g_u64 (vs ! 4), sr_lockTime = 0,
            sr_cpuTime = 0, sr_errors = g_u64 (vs ! 5), sr_warnings = g_u64 (vs ! 6),
            sr_rowsAffected = g_u64 (vs ! 7), sr_rowsSent = g_u64 (vs ! 8), sr_rowsExamined = g_u64 (vs ! 9),
            sr_tmpDiskTables = g_u64 (vs ! 10), sr_tmpTables = g_u64 (vs ! 11), sr_sortMergePasses = g_u64 (vs ! 12),
            sr_sortRows = g_u64 (vs ! 13), sr_noIndexUsed = g_u64 (vs ! 14), sr_quantile95 = 0,
            sr_quantile99 = 0, sr_quantile999 = 0\<rparr>)"

definition statement_metrics :: "statement_row \<Rightarrow> metric list" where
  "statement_metrics r =
     (let labels = [sr_schemaName r, sr_digest r, sr_digestText r];
          seconds = (\<lambda>w. f_div (f_of_u64 w) picoSeconds)
      in [ConstMetric performanceSchemaEventsStatementsDesc CounterValue (f_of_u64 (sr_count r)) labels,
          ConstMetric performanceSchemaEventsStatementsTimeDesc CounterValue (seconds (sr_queryTime r)) labels,
          ConstMetric performanceSchemaEventsStatementsLockTimeDesc CounterValue (seconds (sr_lockTime r)) labels,
          ConstMetric performanceSchemaEventsStatementsCpuTimeDesc CounterValue (seconds (sr_cpuTime r)) labels,
          ConstMetric performanceSchemaEventsStatementsErrorsDesc CounterValue (f_of_u64 (sr_errors r)) labels,
          ConstMetric performanceSchemaEventsStatementsWarningsDesc CounterValue (f_of_u64 (sr_warnings r)) labels,
          ConstMetric performanceSchemaEventsStatementsRowsAffectedDesc CounterValue (f_of_u64 (sr_rowsAffected r)) labels,
          ConstMetric performanceSchemaEventsStatementsRowsSentDesc CounterValue (f_of_u64 (sr_rowsSent r)) labels,
          ConstMetric performanceSchemaEventsStatementsRowsExaminedDesc CounterValue (f_of_u64 (sr_rowsExamined r)) labels,
          ConstMetric performanceSchemaEventsStatementsTmpTablesDesc CounterValue (f_of_u64 (sr_tmpTables r)) labels,
          ConstMetric performanceSchemaEventsStatementsTmpDiskTablesDesc CounterValue (f_of_u64 (sr_tmpDiskTables r)) labels,
          ConstMetric performanceSchemaEventsStatementsSortMergePassesDesc CounterValue (f_of_u64 (sr_sortMergePasses r)) labels,
          ConstMetric performanceSchemaEventsStatementsSortRowsDesc CounterValue (f_of_u64 (sr_sortRows r)) labels,
          ConstMetric performanceSchemaEventsStatementsNoIndexUsedDesc CounterValue (f_of_u64 (sr_noIndexUsed r)) labels,
          ConstSummary performanceSchemaEventsStatementsLatency (sr_count r) (seconds (sr_queryTime r))
            [(f_of_int 95, seconds (sr_quantile95 r)), (f_of_int 99, seconds (sr_quantile99 r)),
             (f_of_int 999, seconds (sr_quantile999 r))] labels])"

definition ScrapePerfEventsStatements_Scrape :: "statements_flags \<Rightarrow> instance_state \<Rightarrow> database \<Rightarrow> scrape_out" where
  "ScrapePerfEventsStatements_Scrape fl inst db =
     (let new = mysqlVersion8028 inst
      in with_query db 0 (statements_query fl new) [] (\<lambda>rs.
           each_row (ScrapePerfEventsStatements_dests new)
             (\<lambda>vs. statement_metrics (statement_columns new vs)) (rs_rows rs)))"

lemma statement_metrics_ok: "list_all metric_ok (statement_metrics r)"
  by (simp add: statement_metrics_def Let_def metric_ok_Const)

interpretation sc_events_statements: safe_scraper "ScrapePerfEventsStatements_Scrape fl inst" for fl inst
  unfolding ScrapePerfEventsStatements_Scrape_def Let_def
  by (rule safe_scraperI) (intro safe_run statement_metrics_ok)

section \<open>The list of schemas is quoted\<close>

text \<open>
  The specification: SQL string literals, with a quote doubled inside, separated by a comma and a
  blank. \<open>sql_literal\<close> reads one literal after its opening quote, and \<open>sql_literals\<close> the list.
\<close>

fun sql_literal :: "string \<Rightarrow> (string \<times> string) option" where
  "sql_literal [] = None"
| "sql_literal [c] = (if c = CHR 0x27 then Some ([], []) else None)"
| "sql_literal (c # d # s) =
     (if c = CHR 0x27
      then (if d = CHR 0x27 then map_option (\<lambda>(l, r). (CHR 0x27 # l, r)) (sql_literal s) else Some ([], d # s))
      else map_option (\<lambda>(l, r). (c # l, r)) (sql_literal (d # s)))"

lemma sql_literal_shorter: "sql_literal s = Some (l, r) \<Longrightarrow> length r < length s"
  by (induction s arbitrary: l rule: sql_literal.induct) (auto split: if_splits)

function sql_literals :: "string \<Rightarrow> string list option" where
  "sql_literals s =
     (case s of
        [] \<Rightarrow> None
      | q # t \<Rightarrow>
          if q \<noteq> CHR 0x27 then None
          else (case sql_literal t of
                  None \<Rightarrow> None
                | Some (l, r) \<Rightarrow>
                    if r = [] then Some [l]
                    else if take 2 r = '', '' then map_option ((#) l) (sql_literals (drop 2 r))
                    else None))"
  by pat_completeness auto
termination
  by (relation "measure length") (auto dest: sql_literal_shorter)

declare sql_literals.simps [simp del]

lemma escape_schema_concat: "escape_schema s = CHR 0x27 # concat (map (\<lambda>c. if c = CHR 0x27 then [CHR 0x27, CHR 0x27] else [c]) s) @ [CHR 0x27]"
  by (simp add: escape_schema_def strings_ReplaceAll_single)

lemma sql_literal_escaped:
  "r = [] \<or> hd r \<noteq> CHR 0x27 \<Longrightarrow>
   sql_literal (concat (map (\<lambda>c. if c = CHR 0x27 then [CHR 0x27, CHR 0x27] else [c]) s) @ CHR 0x27 # r) = Some (s, r)"
proof (induction s)
  case Nil
  then show ?case by (cases r) auto
next
  case (Cons c s)
  let ?e = "concat (map (\<lambda>c. if c = CHR 0x27 then [CHR 0x27, CHR 0x27] else [c]) s) @ CHR 0x27 # r"
  obtain d t where e: "?e = d # t" by (cases ?e) auto
  show ?case
  proof (cases "c = CHR 0x27")
    case False
    have "sql_literal (c # ?e) = map_option (\<lambda>(l, r). (c # l, r)) (sql_literal ?e)"
      unfolding e using False by simp
    with False Cons show ?thesis by simp
  qed (use Cons in simp)
qed

lemma sql_literals_Join: "xs \<noteq> [] \<Longrightarrow> sql_literals (strings_Join (map escape_schema xs) '', '') = Some xs"
proof (induction xs rule: list_nonempty_induct)
  case (single x)
  then show ?case by (subst sql_literals.simps) (simp add: escape_schema_concat sql_literal_escaped)
next
  case (cons x xs)
  then have eq: "strings_Join (map escape_schema (x # xs)) '', '' =
      escape_schema x @ '', '' @ strings_Join (map escape_schema xs) '', ''"
    by (cases xs) simp_all
  from cons(2) show ?case
    unfolding eq escape_schema_concat [of x] by (subst sql_literals.simps) (simp add: sql_literal_escaped)
qed

text \<open>Escaping loses nothing, so the list is one of distinct names.\<close>

lemma escape_schema_inj: "escape_schema x = escape_schema y \<longleftrightarrow> x = y"
proof
  assume "escape_schema x = escape_schema y"
  then have "strings_Join (map escape_schema [x]) '', '' = strings_Join (map escape_schema [y]) '', ''" by simp
  then have "Some [x] = Some [y]" using sql_literals_Join [of "[x]"] sql_literals_Join [of "[y]"] by simp
  then show "x = y" by simp
qed simp

definition excluded_schemas :: "string list \<Rightarrow> string list" where
  "excluded_schemas extra = foldl (\<lambda>xs s. if s \<in> set xs then xs else xs @ [s])
     [''mysql'', ''performance_schema'', ''information_schema''] extra"

lemma add_schemas_map:
  "foldl add_schema (map escape_schema xs) extra =
     map escape_schema (foldl (\<lambda>xs s. if s \<in> set xs then xs else xs @ [s]) xs extra)"
proof (induction extra arbitrary: xs)
  case (Cons s extra)
  have "add_schema (map escape_schema xs) s = map escape_schema (if s \<in> set xs then xs else xs @ [s])"
    by (auto simp: add_schema_def Let_def escape_schema_inj image_iff)
  then show ?case by (simp only: foldl_Cons Cons.IH)
qed simp

lemma excluded_ne: "xs \<noteq> [] \<Longrightarrow> foldl (\<lambda>xs s. if s \<in> set xs then xs else xs @ [s]) xs extra \<noteq> []"
  by (induction extra arbitrary: xs) simp_all


end
