(* ===== verification/PerfReplication.thy ===== *)
theory PerfReplication
  imports GenericBase
begin

text \<open>
  The group replication tables of \<open>performance_schema\<close>: \<open>replication_group_members\<close> and
  \<open>replication_group_member_stats\<close>, whose columns are looked at by name, and
  \<open>replication_applier_status_by_worker\<close>, whose timestamps are parsed.
\<close>

subsection \<open>perf_schema_replication_group_members.go\<close>

definition perfReplicationGroupMembersQuery :: string where
  "perfReplicationGroupMembersQuery = ''
  SELECT * FROM performance_schema.replication_group_members
	''"

definition ScrapePerfReplicationGroupMembers_Name :: string where "ScrapePerfReplicationGroupMembers_Name = performanceSchema @ ''.replication_group_members''"

definition ScrapePerfReplicationGroupMembers_Help :: string where "ScrapePerfReplicationGroupMembers_Help = ''Collect metrics from performance_schema.replication_group_members''"

definition ScrapePerfReplicationGroupMembers_Version :: float64 where "ScrapePerfReplicationGroupMembers_Version = f_lit 57 1"

text \<open>
  The labels are the lower-cased columns, whatever the server sends, and the values the bytes of
  the row (\<open>NULL\<close> is empty).
\<close>

definition group_member_metric :: "string list \<Rightarrow> gval list \<Rightarrow> metric" where
  "group_member_metric columnNames vs =
     (let labelNames = map strings_ToLower columnNames; values = map g_str vs
      in ConstMetric
           (NewDesc (BuildFQName namespace performanceSchema ''replication_group_member_info'')
              (''Information about the replication group member: '' @
               ''channel_name, member_id, member_host, member_port, member_state. '' @
               ''(member_role and member_version where available)'') labelNames)
           GaugeValue f_one values)"

definition ScrapePerfReplicationGroupMembers_Scrape :: "database \<Rightarrow> scrape_out" where
  "ScrapePerfReplicationGroupMembers_Scrape db =
     with_query db 0 perfReplicationGroupMembersQuery [] (\<lambda>rs. with_columns rs (\<lambda>columnNames.
       each_row (replicate (length columnNames) DRaw) (\<lambda>vs. [group_member_metric columnNames vs]) (rs_rows rs)))"

lemma group_member_ok:
  "map dest_of vs = replicate (length columnNames) DRaw \<Longrightarrow> metric_ok (group_member_metric columnNames vs)"
  by (simp add: group_member_metric_def Let_def metric_ok_Const) (metis length_map length_replicate)

interpretation sc_group_members: safe_scraper ScrapePerfReplicationGroupMembers_Scrape
  unfolding ScrapePerfReplicationGroupMembers_Scrape_def
  by (rule safe_scraperI) (intro safe_run, simp add: group_member_ok)

subsection \<open>perf_schema_replication_group_member_stats.go\<close>

definition perfReplicationGroupMemberStatsQuery :: string where
  "perfReplicationGroupMemberStatsQuery = ''
	SELECT * FROM performance_schema.replication_group_member_stats WHERE MEMBER_ID=@@server_uuid
''"

definition perfReplicationGroupMemberStats :: typed_descs where [desc_def]:
  "perfReplicationGroupMemberStats =
     [(''COUNT_TRANSACTIONS_IN_QUEUE'', GaugeValue, NewDesc (BuildFQName namespace performanceSchema ''transactions_in_queue'')
        ''The number of transactions in the queue pending conflict detection checks.'' []),
      (''COUNT_TRANSACTIONS_CHECKED'', CounterValue, NewDesc (BuildFQName namespace performanceSchema ''transactions_checked_total'')
        ''The number of transactions that have been checked for conflicts.'' []),
      (''COUNT_CONFLICTS_DETECTED'', CounterValue, NewDesc (BuildFQName namespace performanceSchema ''conflicts_detected_total'')
        ''The number of transactions that have not passed the conflict detection check.'' []),
      (''COUNT_TRANSACTIONS_ROWS_VALIDATING'', CounterValue, NewDesc (BuildFQName namespace performanceSchema ''transactions_rows_validating_total'')
        ''Number of transaction rows which can be used for certification, but have not been garbage collected.'' []),
      (''COUNT_TRANSACTIONS_REMOTE_IN_APPLIER_QUEUE'', GaugeValue, NewDesc (BuildFQName namespace performanceSchema ''transactions_remote_in_applier_queue'')
        ''The number of transactions that this member has received from the replication group which are waiting to be applied.'' []),
      (''COUNT_TRANSACTIONS_REMOTE_APPLIED'', CounterValue, NewDesc (BuildFQName namespace performanceSchema ''transactions_remote_applied_total'')
        ''Number of transactions this member has received from the group and applied.'' []),
      (''COUNT_TRANSACTIONS_LOCAL_PROPOSED'', CounterValue, NewDesc (BuildFQName namespace performanceSchema ''transactions_local_proposed_total'')
        ''Number of transactions which originated on this member and were sent to the group.'' []),
      (''COUNT_TRANSACTIONS_LOCAL_ROLLBACK'', CounterValue, NewDesc (BuildFQName namespace performanceSchema ''transactions_local_rollback_total'')
        ''Number of transactions which originated on this member and were rolled back by the group.'' [])]"

interpretation tab_perfReplicationGroupMemberStats: desc_table perfReplicationGroupMemberStats 0
  by unfold_locales (simp add: desc_def)

definition ScrapePerfReplicationGroupMemberStats_Name :: string where "ScrapePerfReplicationGroupMemberStats_Name = performanceSchema @ ''.replication_group_member_stats''"

definition ScrapePerfReplicationGroupMemberStats_Help :: string where "ScrapePerfReplicationGroupMemberStats_Help = ''Collect metrics from performance_schema.replication_group_member_stats''"

definition ScrapePerfReplicationGroupMemberStats_Version :: float64 where "ScrapePerfReplicationGroupMemberStats_Version = f_lit 57 1"

definition member_stats_column :: "string \<Rightarrow> gval \<Rightarrow> scrape_out" where
  "member_stats_column columnName v =
     (case map_of perfReplicationGroupMemberStats columnName of
        None \<Rightarrow> ([], Done)
      | Some (vtype, desc) \<Rightarrow>
         (case strconv_ParseFloat (g_str v) of
            (x, None) \<Rightarrow> send_all [ConstMetric desc vtype x []]
          | (x, Some e) \<Rightarrow> ([], Failed EParse)))"

definition ScrapePerfReplicationGroupMemberStats_Scrape :: "database \<Rightarrow> scrape_out" where
  "ScrapePerfReplicationGroupMemberStats_Scrape db =
     with_query db 0 perfReplicationGroupMemberStatsQuery [] (\<lambda>rs. with_columns rs (\<lambda>columnNames.
       for_rows (replicate (length columnNames) DRaw) (col_loop member_stats_column columnNames) (rs_rows rs)))"

lemma safe_member_stats_column [safe_run]: "safe_out (member_stats_column c v)"
  by (auto simp: member_stats_column_def safe_out_def split: option.splits prod.splits
      dest!: tab_perfReplicationGroupMemberStats.found_ok [where ls = "[]"])

interpretation sc_group_member_stats: safe_scraper ScrapePerfReplicationGroupMemberStats_Scrape
  unfolding ScrapePerfReplicationGroupMemberStats_Scrape_def
  by (rule safe_scraperI) (intro safe_run)

subsection \<open>perf_schema_replication_applier_status_by_worker.go\<close>

definition perfReplicationApplierStatsByWorkerQuery :: string where
  "perfReplicationApplierStatsByWorkerQuery = ''
	SELECT 
	    CHANNEL_NAME,
		WORKER_ID,
		LAST_APPLIED_TRANSACTION_ORIGINAL_COMMIT_TIMESTAMP,
		LAST_APPLIED_TRANSACTION_IMMEDIATE_COMMIT_TIMESTAMP,
		LAST_APPLIED_TRANSACTION_START_APPLY_TIMESTAMP,
		LAST_APPLIED_TRANSACTION_END_APPLY_TIMESTAMP,
		APPLYING_TRANSACTION_ORIGINAL_COMMIT_TIMESTAMP,
		APPLYING_TRANSACTION_IMMEDIATE_COMMIT_TIMESTAMP, 
	  	APPLYING_TRANSACTION_START_APPLY_TIMESTAMP
    FROM performance_schema.replication_applier_status_by_worker
	''"

definition performanceSchemaReplicationApplierStatsByWorkerLastAppliedTransactionOriginalCommitSecondDesc :: desc where [desc_def]:
  "performanceSchemaReplicationApplierStatsByWorkerLastAppliedTransactionOriginalCommitSecondDesc = NewDesc (BuildFQName namespace performanceSchema ''last_applied_transaction_original_commit_timestamp_seconds'')
     ''A timestamp shows when the last transaction applied by this worker was committed on the original master.'' [''channel_name'', ''member_id'']"

definition performanceSchemaReplicationApplierStatsByWorkerLastAppliedTransactionImmediateCommitSecondDesc :: desc where [desc_def]:
  "performanceSchemaReplicationApplierStatsByWorkerLastAppliedTransactionImmediateCommitSecondDesc = NewDesc (BuildFQName namespace performanceSchema ''last_applied_transaction_immediate_commit_timestamp_seconds'')
     ''A timestamp shows when the last transaction applied by this worker was committed on the immediate master.'' [''channel_name'', ''member_id'']"

definition performanceSchemaReplicationApplierStatsByWorkerLastAppliedTransactionStartApplySecondDesc :: desc where [desc_def]:
  "performanceSchemaReplicationApplierStatsByWorkerLastAppliedTransactionStartApplySecondDesc = NewDesc (BuildFQName namespace performanceSchema ''last_applied_transaction_start_apply_timestamp_seconds'')
     ''A timestamp shows when this worker started applying the last applied transaction.'' [''channel_name'', ''member_id'']"

definition performanceSchemaReplicationApplierStatsByWorkerLastAppliedTransactionEndApplySecondDesc :: desc where [desc_def]:
  "performanceSchemaReplicationApplierStatsByWorkerLastAppliedTransactionEndApplySecondDesc = NewDesc (BuildFQName namespace performanceSchema ''last_applied_transaction_end_apply_timestamp_seconds'')
     ''A shows when this worker finished applying the last applied transaction.'' [''channel_name'', ''member_id'']"

definition performanceSchemaReplicationApplierStatsByWorkerApplyingTransactionOriginalCommitSecondDesc :: desc where [desc_def]:
  "performanceSchemaReplicationApplierStatsByWorkerApplyingTransactionOriginalCommitSecondDesc = NewDesc (BuildFQName namespace performanceSchema ''applying_transaction_original_commit_timestamp_seconds'')
     ''A timestamp that shows when the transaction this worker is currently applying was committed on the original master.'' [''channel_name'', ''member_id'']"

definition performanceSchemaReplicationApplierStatsByWorkerApplyingTransactionImmediateCommitSecondDesc :: desc where [desc_def]:
  "performanceSchemaReplicationApplierStatsByWorkerApplyingTransactionImmediateCommitSecondDesc = NewDesc (BuildFQName namespace performanceSchema ''applying_transaction_immediate_commit_timestamp_seconds'')
     ''A timestamp shows when the transaction this worker is currently applying was committed on the immediate master.'' [''channel_name'', ''member_id'']"

definition performanceSchemaReplicationApplierStatsByWorkerApplyingTransactionStartApplySecondDesc :: desc where [desc_def]:
  "performanceSchemaReplicationApplierStatsByWorkerApplyingTransactionStartApplySecondDesc = NewDesc (BuildFQName namespace performanceSchema ''applying_transaction_start_apply_timestamp_seconds'')
     ''A timestamp shows when this worker started its first attempt to apply the transaction that is currently being applied.'' [''channel_name'', ''member_id'']"

lemma arity_perf_schema_replication_applier_status_by_worker [simp, desc_arity]:
  "length (var_labels performanceSchemaReplicationApplierStatsByWorkerLastAppliedTransactionOriginalCommitSecondDesc) = 2"
  "length (var_labels performanceSchemaReplicationApplierStatsByWorkerLastAppliedTransactionImmediateCommitSecondDesc) = 2"
  "length (var_labels performanceSchemaReplicationApplierStatsByWorkerLastAppliedTransactionStartApplySecondDesc) = 2"
  "length (var_labels performanceSchemaReplicationApplierStatsByWorkerLastAppliedTransactionEndApplySecondDesc) = 2"
  "length (var_labels performanceSchemaReplicationApplierStatsByWorkerApplyingTransactionOriginalCommitSecondDesc) = 2"
  "length (var_labels performanceSchemaReplicationApplierStatsByWorkerApplyingTransactionImmediateCommitSecondDesc) = 2"
  "length (var_labels performanceSchemaReplicationApplierStatsByWorkerApplyingTransactionStartApplySecondDesc) = 2"
  by (simp_all add: desc_def)

definition ScrapePerfReplicationApplierStatsByWorker_Name :: string where "ScrapePerfReplicationApplierStatsByWorker_Name = performanceSchema @ ''.replication_applier_status_by_worker''"

definition ScrapePerfReplicationApplierStatsByWorker_Help :: string where "ScrapePerfReplicationApplierStatsByWorker_Help = ''Collect metrics from performance_schema.replication_applier_status_by_worker''"

definition ScrapePerfReplicationApplierStatsByWorker_Version :: float64 where "ScrapePerfReplicationApplierStatsByWorker_Version = f_lit 80 1"

text \<open>
  \<open>time.Parse\<close> of a timestamp and its seconds: \<open>0\<close> when it does not parse (\<open>0000-00-00\<close> does not) or
  is Go's zero time, otherwise \<open>float64(t.UnixNano()) / 1e9\<close>, with \<open>UnixNano\<close> in 64 bits.
\<close>

definition timeLayout :: "layout_elem list" where
  "timeLayout = layout_micros"

definition zero_time :: int where "zero_time = -62135596800"

definition applier_seconds :: "string \<Rightarrow> float64" where
  "applier_seconds value =
     (case time_ParseNano (\<lambda>_ _. None) timeLayout value of
        None \<Rightarrow> f_zero
      | Some (sec, nsec) \<Rightarrow>
          if sec = zero_time \<and> nsec = 0 then f_zero
          else f_div (f_of_i64 (word_of_int (sec * 1000000000 + nsec))) (f_of_int 1000000000))"

definition ScrapePerfReplicationApplierStatsByWorker_dests :: "dest list" where
  "ScrapePerfReplicationApplierStatsByWorker_dests = [DStr, DStr, DStr, DStr, DStr, DStr, DStr, DStr, DStr]"

definition ScrapePerfReplicationApplierStatsByWorker_row :: "gval list \<Rightarrow> metric list" where
  "ScrapePerfReplicationApplierStatsByWorker_row vs =
     (let channelName = g_str (vs ! 0);
          workerId = g_str (vs ! 1);
          lastAppliedTransactionOriginalCommit = g_str (vs ! 2);
          lastAppliedTransactionImmediateCommit = g_str (vs ! 3);
          lastAppliedTransactionStartApply = g_str (vs ! 4);
          lastAppliedTransactionEndApply = g_str (vs ! 5);
          applyingTransactionOriginalCommit = g_str (vs ! 6);
          applyingTransactionImmediateCommit = g_str (vs ! 7);
          applyingTransactionStartApply = g_str (vs ! 8)
      in [ConstMetric performanceSchemaReplicationApplierStatsByWorkerLastAppliedTransactionOriginalCommitSecondDesc GaugeValue (applier_seconds lastAppliedTransactionOriginalCommit) [channelName, workerId],
          ConstMetric performanceSchemaReplicationApplierStatsByWorkerLastAppliedTransactionImmediateCommitSecondDesc GaugeValue (applier_seconds lastAppliedTransactionImmediateCommit) [channelName, workerId],
          ConstMetric performanceSchemaReplicationApplierStatsByWorkerLastAppliedTransactionStartApplySecondDesc GaugeValue (applier_seconds lastAppliedTransactionStartApply) [channelName, workerId],
          ConstMetric performanceSchemaReplicationApplierStatsByWorkerLastAppliedTransactionEndApplySecondDesc GaugeValue (applier_seconds lastAppliedTransactionEndApply) [channelName, workerId],
          ConstMetric performanceSchemaReplicationApplierStatsByWorkerApplyingTransactionOriginalCommitSecondDesc GaugeValue (applier_seconds applyingTransactionOriginalCommit) [channelName, workerId],
          ConstMetric performanceSchemaReplicationApplierStatsByWorkerApplyingTransactionImmediateCommitSecondDesc GaugeValue (applier_seconds applyingTransactionImmediateCommit) [channelName, workerId],
          ConstMetric performanceSchemaReplicationApplierStatsByWorkerApplyingTransactionStartApplySecondDesc GaugeValue (applier_seconds applyingTransactionStartApply) [channelName, workerId]])"

definition ScrapePerfReplicationApplierStatsByWorker_Scrape :: "database \<Rightarrow> scrape_out" where
  "ScrapePerfReplicationApplierStatsByWorker_Scrape = table_scrape perfReplicationApplierStatsByWorkerQuery ScrapePerfReplicationApplierStatsByWorker_dests ScrapePerfReplicationApplierStatsByWorker_row"

interpretation tbl_perf_replication_applier_stats_by_worker: table_scraper perfReplicationApplierStatsByWorkerQuery ScrapePerfReplicationApplierStatsByWorker_dests ScrapePerfReplicationApplierStatsByWorker_row
  by unfold_locales (simp add: ScrapePerfReplicationApplierStatsByWorker_row_def Let_def wf_emit)


section \<open>How exact the timestamps are\<close>

lemma i64_in_range: "\<bar>n\<bar> < 2 ^ 63 \<Longrightarrow> sint (word_of_int n :: u64) = n"
  by (simp add: signed_take_bit_int_eq_self sint_sbintrunc')

text \<open>
  C34: a timestamp \<open>UnixNano\<close> can represent (the years 1678 to 2262) is sent as a finite number
  that is at most two microseconds from the parsed time: the two roundings, of the nanoseconds
  to a \<open>float64\<close> and of the quotient, lose no more.
\<close>

theorem applier_seconds_close:
  assumes "time_ParseNano (\<lambda>_ _. None) timeLayout value = Some (sec, nsec)"
    and "\<bar>sec * 1000000000 + nsec\<bar> < 2 ^ 63"
  shows "is_finite (applier_seconds value) \<and>
    \<bar>fval (applier_seconds value) - (sec + nsec / 10 ^ 9)\<bar> \<le> 2 / 10 ^ 6"
proof -
  let ?n = "sec * 1000000000 + nsec"
  let ?x = "f_of_int ?n" and ?y = "f_of_int 1000000000"
  have "applier_seconds value = f_div ?x ?y"
    using assms i64_in_range [OF assms(2)] by (auto simp: applier_seconds_def f_of_i64_def zero_time_def)
  moreover have y: "is_finite ?y" "fval ?y = 10 ^ 9"
    using f_of_int_finite [of 1000000000] f_of_int_exact [of 1000000000] by simp_all
  moreover have x: "is_finite ?x" "\<bar>fval ?x - ?n\<bar> \<le> 512"
    using f_of_int_close [of ?n 63] assms(2) by simp_all
  moreover have q: "\<bar>fval ?x / fval ?y\<bar> < 2 powi 34"
  proof -
    have "real_of_int \<bar>?n\<bar> < real_of_int (2 ^ 63)" using assms(2) by (simp only: of_int_less_iff)
    then have "\<bar>real_of_int ?n\<bar> < 2 ^ 63" by simp
    with x(2) have "\<bar>fval ?x\<bar> < 2 ^ 63 + 512" by linarith
    then show ?thesis unfolding y(2) by (simp add: abs_divide field_simps)
  qed
  moreover have d: "is_finite (f_div ?x ?y)" "\<bar>fval (f_div ?x ?y) - fval ?x / fval ?y\<bar> \<le> 2 powi (34 - 54)"
    using f_div_close [OF x(1) y(1) f_of_int_canonical f_of_int_canonical _ q] y(2) by simp_all
  moreover have r: "\<bar>fval ?x / 10 ^ 9 - (sec + nsec / 10 ^ 9)\<bar> \<le> 512 / 10 ^ 9"
  proof -
    have "fval ?x / 10 ^ 9 - (sec + nsec / 10 ^ 9) = (fval ?x - ?n) / 10 ^ 9" by (simp add: field_simps)
    then show ?thesis using x(2) by (simp only: abs_divide) (simp add: divide_right_mono)
  qed
  moreover have "\<bar>fval (f_div ?x ?y) - (sec + nsec / 10 ^ 9)\<bar> \<le> 2 / 10 ^ 6"
  proof -
    have "\<bar>fval (f_div ?x ?y) - (sec + nsec / 10 ^ 9)\<bar> \<le>
        \<bar>fval (f_div ?x ?y) - fval ?x / 10 ^ 9\<bar> + \<bar>fval ?x / 10 ^ 9 - (sec + nsec / 10 ^ 9)\<bar>"
      by linarith
    also have "\<dots> \<le> 2 powi (34 - 54) + 512 / 10 ^ 9" using d(2) r unfolding y(2) by (rule add_mono)
    also have "\<dots> \<le> 2 / 10 ^ 6" by (simp add: power_int_def power_divide)
    finally show ?thesis .
  qed
  ultimately show ?thesis by simp
qed

theorem applier_seconds_close_witness:
  "is_finite (applier_seconds ''2024-05-06 07:08:09.250000'') \<and>
   \<bar>fval (applier_seconds ''2024-05-06 07:08:09.250000'') - 1714979289.25\<bar> \<le> 2 / 10 ^ 6"
proof -
  have p: "time_ParseNano (\<lambda>_ _. None) timeLayout ''2024-05-06 07:08:09.250000'' = Some (1714979289, 250000000)"
    by code_simp
  show ?thesis using applier_seconds_close [OF p] by simp
qed

text \<open>A timestamp that is not a date, as the server's \<open>0000-00-00\<close>, is sent as zero.\<close>

lemma applier_seconds_zero: "applier_seconds ''0000-00-00 00:00:00.000000'' = f_zero"
  by code_simp

end
