(* ===== verification/InfoTables.thy ===== *)
theory InfoTables
  imports GenericBase
begin

text \<open>
  The scrapers of \<open>information_schema\<close> that read one table: auto-increment columns, InnoDB
  compression, tablespaces, tables, replica hosts, RocksDB counters, and the two statistics tables
  behind the \<open>userstat\<close> check.
\<close>

subsection \<open>info_schema_auto_increment.go\<close>

definition infoSchemaAutoIncrementQuery :: string where
  "infoSchemaAutoIncrementQuery = ''
		SELECT c.table_schema, c.table_name, column_name, auto_increment,
		  pow(2, case data_type
		    when 'tinyint'   then 7
		    when 'smallint'  then 15
		    when 'mediumint' then 23
		    when 'int'       then 31
		    when 'bigint'    then 63
		    end+(column_type like '% unsigned'))-1 as max_int
		  FROM information_schema.columns c
		  STRAIGHT_JOIN information_schema.tables t ON (BINARY c.table_schema=t.table_schema AND BINARY c.table_name=t.table_name)
		  WHERE c.extra = 'auto_increment' AND t.auto_increment IS NOT NULL
		''"

definition globalInfoSchemaAutoIncrementDesc :: desc where [desc_def]:
  "globalInfoSchemaAutoIncrementDesc = NewDesc (BuildFQName namespace informationSchema ''auto_increment_column'')
     ''The current value of an auto_increment column from information_schema.'' [''schema'', ''table'', ''column'']"

definition globalInfoSchemaAutoIncrementMaxDesc :: desc where [desc_def]:
  "globalInfoSchemaAutoIncrementMaxDesc = NewDesc (BuildFQName namespace informationSchema ''auto_increment_column_max'')
     ''The max value of an auto_increment column from information_schema.'' [''schema'', ''table'', ''column'']"

lemma arity_info_schema_auto_increment [simp, desc_arity]:
  "length (var_labels globalInfoSchemaAutoIncrementDesc) = 3"
  "length (var_labels globalInfoSchemaAutoIncrementMaxDesc) = 3"
  by (simp_all add: desc_def)

definition ScrapeAutoIncrementColumns_Name :: string where "ScrapeAutoIncrementColumns_Name = ''auto_increment.columns''"

definition ScrapeAutoIncrementColumns_Help :: string where "ScrapeAutoIncrementColumns_Help = ''Collect auto_increment columns and max values from information_schema''"

definition ScrapeAutoIncrementColumns_Version :: float64 where "ScrapeAutoIncrementColumns_Version = f_lit 51 1"

definition ScrapeAutoIncrementColumns_dests :: "dest list" where
  "ScrapeAutoIncrementColumns_dests = [DStr, DStr, DStr, DF64, DF64]"

definition ScrapeAutoIncrementColumns_row :: "gval list \<Rightarrow> metric list" where
  "ScrapeAutoIncrementColumns_row vs =
     (let schema = g_str (vs ! 0);
          table = g_str (vs ! 1);
          column = g_str (vs ! 2);
          value = g_f64 (vs ! 3);
          max = g_f64 (vs ! 4)
      in [ConstMetric globalInfoSchemaAutoIncrementDesc GaugeValue value [schema, table, column],
          ConstMetric globalInfoSchemaAutoIncrementMaxDesc GaugeValue max [schema, table, column]])"

definition ScrapeAutoIncrementColumns_Scrape :: "database \<Rightarrow> scrape_out" where
  "ScrapeAutoIncrementColumns_Scrape = table_scrape infoSchemaAutoIncrementQuery ScrapeAutoIncrementColumns_dests ScrapeAutoIncrementColumns_row"

interpretation tbl_auto_increment_columns: table_scraper infoSchemaAutoIncrementQuery ScrapeAutoIncrementColumns_dests ScrapeAutoIncrementColumns_row
  by unfold_locales (simp add: ScrapeAutoIncrementColumns_row_def Let_def wf_emit)


subsection \<open>info_schema_innodb_cmp.go\<close>

definition innodbCmpQuery :: string where
  "innodbCmpQuery = ''
		SELECT
		  page_size, compress_ops, compress_ops_ok, compress_time, uncompress_ops, uncompress_time
		  FROM information_schema.innodb_cmp
		''"

definition infoSchemaInnodbCmpCompressOps :: desc where [desc_def]:
  "infoSchemaInnodbCmpCompressOps = NewDesc (BuildFQName namespace informationSchema ''innodb_cmp_compress_ops_total'')
     ''Number of times a B-tree page of the size PAGE_SIZE has been compressed.'' [''page_size'']"

definition infoSchemaInnodbCmpCompressOpsOk :: desc where [desc_def]:
  "infoSchemaInnodbCmpCompressOpsOk = NewDesc (BuildFQName namespace informationSchema ''innodb_cmp_compress_ops_ok_total'')
     ''Number of times a B-tree page of the size PAGE_SIZE has been successfully compressed.'' [''page_size'']"

definition infoSchemaInnodbCmpCompressTime :: desc where [desc_def]:
  "infoSchemaInnodbCmpCompressTime = NewDesc (BuildFQName namespace informationSchema ''innodb_cmp_compress_time_seconds_total'')
     ''Total time in seconds spent in attempts to compress B-tree pages.'' [''page_size'']"

definition infoSchemaInnodbCmpUncompressOps :: desc where [desc_def]:
  "infoSchemaInnodbCmpUncompressOps = NewDesc (BuildFQName namespace informationSchema ''innodb_cmp_uncompress_ops_total'')
     ''Number of times a B-tree page of the size PAGE_SIZE has been uncompressed.'' [''page_size'']"

definition infoSchemaInnodbCmpUncompressTime :: desc where [desc_def]:
  "infoSchemaInnodbCmpUncompressTime = NewDesc (BuildFQName namespace informationSchema ''innodb_cmp_uncompress_time_seconds_total'')
     ''Total time in seconds spent in uncompressing B-tree pages.'' [''page_size'']"

lemma arity_info_schema_innodb_cmp [simp, desc_arity]:
  "length (var_labels infoSchemaInnodbCmpCompressOps) = 1"
  "length (var_labels infoSchemaInnodbCmpCompressOpsOk) = 1"
  "length (var_labels infoSchemaInnodbCmpCompressTime) = 1"
  "length (var_labels infoSchemaInnodbCmpUncompressOps) = 1"
  "length (var_labels infoSchemaInnodbCmpUncompressTime) = 1"
  by (simp_all add: desc_def)

definition ScrapeInnodbCmp_Name :: string where "ScrapeInnodbCmp_Name = informationSchema @ ''.innodb_cmp''"

definition ScrapeInnodbCmp_Help :: string where "ScrapeInnodbCmp_Help = ''Collect metrics from information_schema.innodb_cmp''"

definition ScrapeInnodbCmp_Version :: float64 where "ScrapeInnodbCmp_Version = f_lit 55 1"

definition ScrapeInnodbCmp_dests :: "dest list" where
  "ScrapeInnodbCmp_dests = [DStr, DF64, DF64, DF64, DF64, DF64]"

definition ScrapeInnodbCmp_row :: "gval list \<Rightarrow> metric list" where
  "ScrapeInnodbCmp_row vs =
     (let page_size = g_str (vs ! 0);
          compress_ops = g_f64 (vs ! 1);
          compress_ops_ok = g_f64 (vs ! 2);
          compress_time = g_f64 (vs ! 3);
          uncompress_ops = g_f64 (vs ! 4);
          uncompress_time = g_f64 (vs ! 5)
      in [ConstMetric infoSchemaInnodbCmpCompressOps CounterValue compress_ops [page_size],
          ConstMetric infoSchemaInnodbCmpCompressOpsOk CounterValue compress_ops_ok [page_size],
          ConstMetric infoSchemaInnodbCmpCompressTime CounterValue compress_time [page_size],
          ConstMetric infoSchemaInnodbCmpUncompressOps CounterValue uncompress_ops [page_size],
          ConstMetric infoSchemaInnodbCmpUncompressTime CounterValue uncompress_time [page_size]])"

definition ScrapeInnodbCmp_Scrape :: "database \<Rightarrow> scrape_out" where
  "ScrapeInnodbCmp_Scrape = table_scrape innodbCmpQuery ScrapeInnodbCmp_dests ScrapeInnodbCmp_row"

interpretation tbl_innodb_cmp: table_scraper innodbCmpQuery ScrapeInnodbCmp_dests ScrapeInnodbCmp_row
  by unfold_locales (simp add: ScrapeInnodbCmp_row_def Let_def wf_emit)


subsection \<open>info_schema_innodb_cmpmem.go\<close>

definition innodbCmpMemQuery :: string where
  "innodbCmpMemQuery = ''
                SELECT
                  page_size, buffer_pool_instance, pages_used, pages_free, relocation_ops, relocation_time
                  FROM information_schema.innodb_cmpmem
                ''"

definition infoSchemaInnodbCmpMemPagesRead :: desc where [desc_def]:
  "infoSchemaInnodbCmpMemPagesRead = NewDesc (BuildFQName namespace informationSchema ''innodb_cmpmem_pages_used_total'')
     ''Number of blocks of the size PAGE_SIZE that are currently in use.'' [''page_size'', ''buffer_pool'']"

definition infoSchemaInnodbCmpMemPagesFree :: desc where [desc_def]:
  "infoSchemaInnodbCmpMemPagesFree = NewDesc (BuildFQName namespace informationSchema ''innodb_cmpmem_pages_free_total'')
     ''Number of blocks of the size PAGE_SIZE that are currently available for allocation.'' [''page_size'', ''buffer_pool'']"

definition infoSchemaInnodbCmpMemRelocationOps :: desc where [desc_def]:
  "infoSchemaInnodbCmpMemRelocationOps = NewDesc (BuildFQName namespace informationSchema ''innodb_cmpmem_relocation_ops_total'')
     ''Number of times a block of the size PAGE_SIZE has been relocated.'' [''page_size'', ''buffer_pool'']"

definition infoSchemaInnodbCmpMemRelocationTime :: desc where [desc_def]:
  "infoSchemaInnodbCmpMemRelocationTime = NewDesc (BuildFQName namespace informationSchema ''innodb_cmpmem_relocation_time_seconds_total'')
     ''Total time in seconds spent in relocating blocks.'' [''page_size'', ''buffer_pool'']"

lemma arity_info_schema_innodb_cmpmem [simp, desc_arity]:
  "length (var_labels infoSchemaInnodbCmpMemPagesRead) = 2"
  "length (var_labels infoSchemaInnodbCmpMemPagesFree) = 2"
  "length (var_labels infoSchemaInnodbCmpMemRelocationOps) = 2"
  "length (var_labels infoSchemaInnodbCmpMemRelocationTime) = 2"
  by (simp_all add: desc_def)

definition ScrapeInnodbCmpMem_Name :: string where "ScrapeInnodbCmpMem_Name = informationSchema @ ''.innodb_cmpmem''"

definition ScrapeInnodbCmpMem_Help :: string where "ScrapeInnodbCmpMem_Help = ''Collect metrics from information_schema.innodb_cmpmem''"

definition ScrapeInnodbCmpMem_Version :: float64 where "ScrapeInnodbCmpMem_Version = f_lit 55 1"

definition ScrapeInnodbCmpMem_dests :: "dest list" where
  "ScrapeInnodbCmpMem_dests = [DStr, DStr, DF64, DF64, DF64, DF64]"

definition ScrapeInnodbCmpMem_row :: "gval list \<Rightarrow> metric list" where
  "ScrapeInnodbCmpMem_row vs =
     (let page_size = g_str (vs ! 0);
          buffer_pool = g_str (vs ! 1);
          pages_used = g_f64 (vs ! 2);
          pages_free = g_f64 (vs ! 3);
          relocation_ops = g_f64 (vs ! 4);
          relocation_time = g_f64 (vs ! 5)
      in [ConstMetric infoSchemaInnodbCmpMemPagesRead CounterValue pages_used [page_size, buffer_pool],
          ConstMetric infoSchemaInnodbCmpMemPagesFree CounterValue pages_free [page_size, buffer_pool],
          ConstMetric infoSchemaInnodbCmpMemRelocationOps CounterValue relocation_ops [page_size, buffer_pool],
          ConstMetric infoSchemaInnodbCmpMemRelocationTime CounterValue (f_div relocation_time (f_of_int 1000)) [page_size, buffer_pool]])"

definition ScrapeInnodbCmpMem_Scrape :: "database \<Rightarrow> scrape_out" where
  "ScrapeInnodbCmpMem_Scrape = table_scrape innodbCmpMemQuery ScrapeInnodbCmpMem_dests ScrapeInnodbCmpMem_row"

interpretation tbl_innodb_cmp_mem: table_scraper innodbCmpMemQuery ScrapeInnodbCmpMem_dests ScrapeInnodbCmpMem_row
  by unfold_locales (simp add: ScrapeInnodbCmpMem_row_def Let_def wf_emit)


subsection \<open>info_schema_schemastats.go\<close>

definition schemaStatQuery :: string where
  "schemaStatQuery = ''
		SELECT 
			TABLE_SCHEMA, 
			SUM(ROWS_READ) AS ROWS_READ, 
			SUM(ROWS_CHANGED) AS ROWS_CHANGED, 
			SUM(ROWS_CHANGED_X_INDEXES) AS ROWS_CHANGED_X_INDEXES 
		FROM information_schema.TABLE_STATISTICS 
		GROUP BY TABLE_SCHEMA;
		''"

definition infoSchemaStatsRowsReadDesc :: desc where [desc_def]:
  "infoSchemaStatsRowsReadDesc = NewDesc (BuildFQName namespace informationSchema ''schema_statistics_rows_read_total'')
     ''The number of rows read from the schema.'' [''schema'']"

definition infoSchemaStatsRowsChangedDesc :: desc where [desc_def]:
  "infoSchemaStatsRowsChangedDesc = NewDesc (BuildFQName namespace informationSchema ''schema_statistics_rows_changed_total'')
     ''The number of rows changed in the schema.'' [''schema'']"

definition infoSchemaStatsRowsChangedXIndexesDesc :: desc where [desc_def]:
  "infoSchemaStatsRowsChangedXIndexesDesc = NewDesc (BuildFQName namespace informationSchema ''schema_statistics_rows_changed_x_indexes_total'')
     ''The number of rows changed in the schema, multiplied by the number of indexes changed.'' [''schema'']"

lemma arity_info_schema_schemastats [simp, desc_arity]:
  "length (var_labels infoSchemaStatsRowsReadDesc) = 1"
  "length (var_labels infoSchemaStatsRowsChangedDesc) = 1"
  "length (var_labels infoSchemaStatsRowsChangedXIndexesDesc) = 1"
  by (simp_all add: desc_def)

definition ScrapeSchemaStat_Name :: string where "ScrapeSchemaStat_Name = ''info_schema.schemastats''"

definition ScrapeSchemaStat_Help :: string where "ScrapeSchemaStat_Help = ''If running with userstat=1, set to true to collect schema statistics''"

definition ScrapeSchemaStat_Version :: float64 where "ScrapeSchemaStat_Version = f_lit 51 1"

definition ScrapeSchemaStat_dests :: "dest list" where
  "ScrapeSchemaStat_dests = [DStr, DU64, DU64, DU64]"

definition ScrapeSchemaStat_row :: "gval list \<Rightarrow> metric list" where
  "ScrapeSchemaStat_row vs =
     (let tableSchema = g_str (vs ! 0);
          rowsRead = g_u64 (vs ! 1);
          rowsChanged = g_u64 (vs ! 2);
          rowsChangedXIndexes = g_u64 (vs ! 3)
      in [ConstMetric infoSchemaStatsRowsReadDesc CounterValue (f_of_u64 rowsRead) [tableSchema],
          ConstMetric infoSchemaStatsRowsChangedDesc CounterValue (f_of_u64 rowsChanged) [tableSchema],
          ConstMetric infoSchemaStatsRowsChangedXIndexesDesc CounterValue (f_of_u64 rowsChangedXIndexes) [tableSchema]])"

definition ScrapeSchemaStat_Scrape :: "database \<Rightarrow> scrape_out" where
  "ScrapeSchemaStat_Scrape db =
     userstat_guard db (with_query db 1 schemaStatQuery [] (\<lambda>rs. each_row ScrapeSchemaStat_dests ScrapeSchemaStat_row (rs_rows rs)))"

interpretation sc_schemastat: safe_scraper ScrapeSchemaStat_Scrape
  by (rule safe_scraperI) (auto intro!: safe_run simp: ScrapeSchemaStat_Scrape_def ScrapeSchemaStat_row_def Let_def wf_emit)

subsection \<open>info_schema_tablestats.go\<close>

definition tableStatQuery :: string where
  "tableStatQuery = ''
		SELECT
		  TABLE_SCHEMA,
		  TABLE_NAME,
		  ROWS_READ,
		  ROWS_CHANGED,
		  ROWS_CHANGED_X_INDEXES
		  FROM information_schema.table_statistics
		''"

definition infoSchemaTableStatsRowsReadDesc :: desc where [desc_def]:
  "infoSchemaTableStatsRowsReadDesc = NewDesc (BuildFQName namespace informationSchema ''table_statistics_rows_read_total'')
     ''The number of rows read from the table.'' [''schema'', ''table'']"

definition infoSchemaTableStatsRowsChangedDesc :: desc where [desc_def]:
  "infoSchemaTableStatsRowsChangedDesc = NewDesc (BuildFQName namespace informationSchema ''table_statistics_rows_changed_total'')
     ''The number of rows changed in the table.'' [''schema'', ''table'']"

definition infoSchemaTableStatsRowsChangedXIndexesDesc :: desc where [desc_def]:
  "infoSchemaTableStatsRowsChangedXIndexesDesc = NewDesc (BuildFQName namespace informationSchema ''table_statistics_rows_changed_x_indexes_total'')
     ''The number of rows changed in the table, multiplied by the number of indexes changed.'' [''schema'', ''table'']"

lemma arity_info_schema_tablestats [simp, desc_arity]:
  "length (var_labels infoSchemaTableStatsRowsReadDesc) = 2"
  "length (var_labels infoSchemaTableStatsRowsChangedDesc) = 2"
  "length (var_labels infoSchemaTableStatsRowsChangedXIndexesDesc) = 2"
  by (simp_all add: desc_def)

definition ScrapeTableStat_Name :: string where "ScrapeTableStat_Name = ''info_schema.tablestats''"

definition ScrapeTableStat_Help :: string where "ScrapeTableStat_Help = ''If running with userstat=1, set to true to collect table statistics''"

definition ScrapeTableStat_Version :: float64 where "ScrapeTableStat_Version = f_lit 51 1"

definition ScrapeTableStat_dests :: "dest list" where
  "ScrapeTableStat_dests = [DStr, DStr, DU64, DU64, DU64]"

definition ScrapeTableStat_row :: "gval list \<Rightarrow> metric list" where
  "ScrapeTableStat_row vs =
     (let tableSchema = g_str (vs ! 0);
          tableName = g_str (vs ! 1);
          rowsRead = g_u64 (vs ! 2);
          rowsChanged = g_u64 (vs ! 3);
          rowsChangedXIndexes = g_u64 (vs ! 4)
      in [ConstMetric infoSchemaTableStatsRowsReadDesc CounterValue (f_of_u64 rowsRead) [tableSchema, tableName],
          ConstMetric infoSchemaTableStatsRowsChangedDesc CounterValue (f_of_u64 rowsChanged) [tableSchema, tableName],
          ConstMetric infoSchemaTableStatsRowsChangedXIndexesDesc CounterValue (f_of_u64 rowsChangedXIndexes) [tableSchema, tableName]])"

definition ScrapeTableStat_Scrape :: "database \<Rightarrow> scrape_out" where
  "ScrapeTableStat_Scrape db =
     userstat_guard db (with_query db 1 tableStatQuery [] (\<lambda>rs. each_row ScrapeTableStat_dests ScrapeTableStat_row (rs_rows rs)))"

interpretation sc_tablestat: safe_scraper ScrapeTableStat_Scrape
  by (rule safe_scraperI) (auto intro!: safe_run simp: ScrapeTableStat_Scrape_def ScrapeTableStat_row_def Let_def wf_emit)

subsection \<open>info_schema_rocksdb_perf_context.go\<close>

definition rocksdbPerfContextQuery :: string where
  "rocksdbPerfContextQuery = ''
                SELECT
                  TABLE_SCHEMA, 
                  TABLE_NAME, 
                  ifnull(PARTITION_NAME, '' @ [CHR 0x27, CHR 0x27] @ ''), 
                  STAT_TYPE,
                  VALUE
                  FROM information_schema.ROCKSDB_PERF_CONTEXT
                ''"

definition informationSchemaRocksDBLabels :: "string list" where
  "informationSchemaRocksDBLabels = [''schema'', ''table'', ''part'']"

lemma length_informationSchemaRocksDBLabels [simp]: "length informationSchemaRocksDBLabels = 3"
  by (simp add: informationSchemaRocksDBLabels_def)

definition informationSchemaRocksDBPerfContextMetrics :: typed_descs where [desc_def]:
  "informationSchemaRocksDBPerfContextMetrics =
     [(''USER_KEY_COMPARISON_COUNT'', CounterValue, NewDesc (BuildFQName namespace informationSchema ''rocksdb_perf_context_user_key_comparison_count'')
        ''Total number of user key comparisons performed in binary search.'' informationSchemaRocksDBLabels),
      (''BLOCK_CACHE_HIT_COUNT'', CounterValue, NewDesc (BuildFQName namespace informationSchema ''rocksdb_perf_context_block_cache_hit_count'')
        ''Total number of block read operations from cache.'' informationSchemaRocksDBLabels),
      (''BLOCK_READ_COUNT'', CounterValue, NewDesc (BuildFQName namespace informationSchema ''rocksdb_perf_context_block_read_count'')
        ''Total number of block read operations from disk.'' informationSchemaRocksDBLabels),
      (''BLOCK_READ_BYTE'', CounterValue, NewDesc (BuildFQName namespace informationSchema ''rocksdb_perf_context_block_read_byte'')
        ''Total number of bytes read from disk.'' informationSchemaRocksDBLabels),
      (''GET_READ_BYTES'', CounterValue, NewDesc (BuildFQName namespace informationSchema ''rocksdb_perf_context_get_read_bytes'')
        ''Number of bytes read during Get operations.'' informationSchemaRocksDBLabels),
      (''MULTIGET_READ_BYTES'', CounterValue, NewDesc (BuildFQName namespace informationSchema ''rocksdb_perf_context_multiget_read_bytes'')
        ''Number of bytes read during MultiGet operations.'' informationSchemaRocksDBLabels),
      (''ITER_READ_BYTES'', CounterValue, NewDesc (BuildFQName namespace informationSchema ''rocksdb_perf_context_iter_read_bytes'')
        ''Number of bytes read during iterator operations.'' informationSchemaRocksDBLabels),
      (''INTERNAL_KEY_SKIPPED_COUNT'', CounterValue, NewDesc (BuildFQName namespace informationSchema ''rocksdb_perf_context_internal_key_skipped_count'')
        ''Count of internal keys skipped during operations.'' informationSchemaRocksDBLabels),
      (''INTERNAL_DELETE_SKIPPED_COUNT'', CounterValue, NewDesc (BuildFQName namespace informationSchema ''rocksdb_perf_context_internal_delete_skipped_count'')
        ''Count of internal delete operations that were skipped.'' informationSchemaRocksDBLabels),
      (''INTERNAL_RECENT_SKIPPED_COUNT'', CounterValue, NewDesc (BuildFQName namespace informationSchema ''rocksdb_perf_context_internal_recent_skipped_count'')
        ''Count of recently skipped internal operations.'' informationSchemaRocksDBLabels),
      (''INTERNAL_MERGE_COUNT'', CounterValue, NewDesc (BuildFQName namespace informationSchema ''rocksdb_perf_context_internal_merge_count'')
        ''Total number of internal merge operations.'' informationSchemaRocksDBLabels),
      (''GET_FROM_MEMTABLE_COUNT'', CounterValue, NewDesc (BuildFQName namespace informationSchema ''rocksdb_perf_context_get_from_memtable_count'')
        ''Number of Get operations served from the memtable.'' informationSchemaRocksDBLabels),
      (''SEEK_ON_MEMTABLE_COUNT'', CounterValue, NewDesc (BuildFQName namespace informationSchema ''rocksdb_perf_context_seek_on_memtable_count'')
        ''Count of seek operations in the memtable.'' informationSchemaRocksDBLabels),
      (''NEXT_ON_MEMTABLE_COUNT'', CounterValue, NewDesc (BuildFQName namespace informationSchema ''rocksdb_perf_context_next_on_memtable_count'')
        ''Count of next operations in the memtable.'' informationSchemaRocksDBLabels),
      (''PREV_ON_MEMTABLE_COUNT'', CounterValue, NewDesc (BuildFQName namespace informationSchema ''rocksdb_perf_context_prev_on_memtable_count'')
        ''Count of previous operations in the memtable.'' informationSchemaRocksDBLabels),
      (''SEEK_CHILD_SEEK_COUNT'', CounterValue, NewDesc (BuildFQName namespace informationSchema ''rocksdb_perf_context_seek_child_seek_count'')
        ''Count of child seek operations in RocksDB.'' informationSchemaRocksDBLabels),
      (''BLOOM_MEMTABLE_HIT_COUNT'', CounterValue, NewDesc (BuildFQName namespace informationSchema ''rocksdb_perf_context_bloom_memtable_hit_count'')
        ''Count of successful hits in the bloom filter for memtable searches.'' informationSchemaRocksDBLabels),
      (''BLOOM_MEMTABLE_MISS_COUNT'', CounterValue, NewDesc (BuildFQName namespace informationSchema ''rocksdb_perf_context_bloom_memtable_miss_count'')
        ''Count of misses in the bloom filter for memtable searches.'' informationSchemaRocksDBLabels),
      (''BLOOM_SST_HIT_COUNT'', CounterValue, NewDesc (BuildFQName namespace informationSchema ''rocksdb_perf_context_bloom_sst_hit_count'')
        ''Count of successful hits in the bloom filter for SSTable searches.'' informationSchemaRocksDBLabels),
      (''BLOOM_SST_MISS_COUNT'', CounterValue, NewDesc (BuildFQName namespace informationSchema ''rocksdb_perf_context_bloom_sst_miss_count'')
        ''Count of misses in the bloom filter for SSTable searches.'' informationSchemaRocksDBLabels),
      (''KEY_LOCK_WAIT_COUNT'', CounterValue, NewDesc (BuildFQName namespace informationSchema ''rocksdb_perf_context_key_lock_wait_count'')
        ''Count of key lock wait events in RocksDB.'' informationSchemaRocksDBLabels),
      (''IO_BYTES_WRITTEN'', CounterValue, NewDesc (BuildFQName namespace informationSchema ''rocksdb_perf_context_io_bytes_written'')
        ''Total number of bytes written by I/O operations in RocksDB.'' informationSchemaRocksDBLabels),
      (''IO_BYTES_READ'', CounterValue, NewDesc (BuildFQName namespace informationSchema ''rocksdb_perf_context_io_bytes_read'')
        ''Total number of bytes read by I/O operations in RocksDB.'' informationSchemaRocksDBLabels)]"

interpretation tab_informationSchemaRocksDBPerfContextMetrics: desc_table informationSchemaRocksDBPerfContextMetrics 3
  by unfold_locales (simp add: desc_def)

definition ScrapeRocksDBPerfContext_Name :: string where "ScrapeRocksDBPerfContext_Name = informationSchema @ ''.rocksdb_perf_context''"

definition ScrapeRocksDBPerfContext_Help :: string where "ScrapeRocksDBPerfContext_Help = ''Collect metrics from information_schema.ROCKSDB_PERF_CONTEXT''"

definition ScrapeRocksDBPerfContext_Version :: float64 where "ScrapeRocksDBPerfContext_Version = f_lit 56 1"


definition ScrapeRocksDBPerfContext_dests :: "dest list" where
  "ScrapeRocksDBPerfContext_dests = [DStr, DStr, DStr, DStr, DF64]"

definition ScrapeRocksDBPerfContext_row :: "gval list \<Rightarrow> metric list" where
  "ScrapeRocksDBPerfContext_row vs =
     (let schema = g_str (vs ! 0);
          table = g_str (vs ! 1);
          part = g_str (vs ! 2);
          stat = g_str (vs ! 3);
          value = g_f64 (vs ! 4)
      in case map_of informationSchemaRocksDBPerfContextMetrics stat of
           None \<Rightarrow> []
         | Some (vtype, desc) \<Rightarrow> [ConstMetric desc vtype value [schema, table, part]])"

definition ScrapeRocksDBPerfContext_Scrape :: "database \<Rightarrow> scrape_out" where
  "ScrapeRocksDBPerfContext_Scrape =
     table_scrape rocksdbPerfContextQuery ScrapeRocksDBPerfContext_dests ScrapeRocksDBPerfContext_row"

interpretation tbl_rocksdb: table_scraper rocksdbPerfContextQuery ScrapeRocksDBPerfContext_dests ScrapeRocksDBPerfContext_row
  by unfold_locales
    (auto simp: ScrapeRocksDBPerfContext_row_def Let_def tab_informationSchemaRocksDBPerfContextMetrics.found_ok split: option.splits)

subsection \<open>info_schema_innodb_sys_tablespaces.go\<close>

definition innodbTablespacesTablenameQuery :: string where
  "innodbTablespacesTablenameQuery = ''
	SELECT
	    table_name
	  FROM information_schema.tables
	  WHERE table_name = 'INNODB_SYS_TABLESPACES'
	    OR table_name = 'INNODB_TABLESPACES'
	''"

definition innodbTablespacesQueryMySQL :: string where
  "innodbTablespacesQueryMySQL = ''
	SELECT
	    SPACE,
	    NAME,
	    ifnull((SELECT column_name
			FROM information_schema.COLUMNS
			WHERE TABLE_SCHEMA = 'information_schema'
			  AND TABLE_NAME = '' @ [CHR 0x27] @ ''%s'' @ [CHR 0x27] @ ''
			  AND COLUMN_NAME = 'FILE_FORMAT' LIMIT 1), 'NONE') as FILE_FORMAT,
	    ifnull(ROW_FORMAT, 'NONE') as ROW_FORMAT,
	    ifnull(SPACE_TYPE, 'NONE') as SPACE_TYPE,
	    FILE_SIZE,
	    ALLOCATED_SIZE
	  FROM information_schema.'' @ ''`%s`''"

definition innodbTablespacesQueryMariaDB :: string where
  "innodbTablespacesQueryMariaDB = ''
	SELECT
	    SPACE,
	    NAME,
	    ifnull((SELECT column_name
			FROM information_schema.COLUMNS
			WHERE TABLE_SCHEMA = 'information_schema'
			  AND TABLE_NAME = '' @ [CHR 0x27] @ ''%s'' @ [CHR 0x27] @ ''
			  AND COLUMN_NAME = 'FILE_FORMAT' LIMIT 1), 'NONE') as FILE_FORMAT,
	    ifnull(ROW_FORMAT, 'NONE') as ROW_FORMAT,
	    FILE_SIZE,
	    ALLOCATED_SIZE
	  FROM information_schema.'' @ ''`%s`''"

definition infoSchemaInnodbTablesspaceInfoDesc :: desc where [desc_def]:
  "infoSchemaInnodbTablesspaceInfoDesc = NewDesc (BuildFQName namespace informationSchema ''innodb_tablespace_space_info'')
     ''The Tablespace information and Space ID.'' [''tablespace_name'', ''file_format'', ''row_format'', ''space_type'']"

definition infoSchemaInnodbTablesspaceFileSizeDesc :: desc where [desc_def]:
  "infoSchemaInnodbTablesspaceFileSizeDesc = NewDesc (BuildFQName namespace informationSchema ''innodb_tablespace_file_size_bytes'')
     ''The apparent size of the file, which represents the maximum size of the file, uncompressed.'' [''tablespace_name'']"

definition infoSchemaInnodbTablesspaceAllocatedSizeDesc :: desc where [desc_def]:
  "infoSchemaInnodbTablesspaceAllocatedSizeDesc = NewDesc (BuildFQName namespace informationSchema ''innodb_tablespace_allocated_size_bytes'')
     ''The actual size of the file, which is the amount of space allocated on disk.'' [''tablespace_name'']"

lemma arity_info_schema_innodb_sys_tablespaces [simp, desc_arity]:
  "length (var_labels infoSchemaInnodbTablesspaceInfoDesc) = 4"
  "length (var_labels infoSchemaInnodbTablesspaceFileSizeDesc) = 1"
  "length (var_labels infoSchemaInnodbTablesspaceAllocatedSizeDesc) = 1"
  by (simp_all add: desc_def)

definition ScrapeInfoSchemaInnodbTablespaces_Name :: string where "ScrapeInfoSchemaInnodbTablespaces_Name = informationSchema @ ''.innodb_tablespaces''"

definition ScrapeInfoSchemaInnodbTablespaces_Help :: string where "ScrapeInfoSchemaInnodbTablespaces_Help = ''Collect metrics from information_schema.innodb_sys_tablespaces''"

definition ScrapeInfoSchemaInnodbTablespaces_Version :: float64 where "ScrapeInfoSchemaInnodbTablespaces_Version = f_lit 57 1"


text \<open>\<open>instance.flavor == FlavorMariaDB && instance.version.GTE(semver.MustParse("10.5.0"))\<close>\<close>

definition tablespaces_mariadb105 :: "instance_state \<Rightarrow> bool" where
  "tablespaces_mariadb105 inst \<longleftrightarrow>
     inst_flavor inst = FlavorMariaDB \<and> version_GTE (inst_version inst) \<lparr>v_major = 10, v_minor = 5, v_patch = 0\<rparr>"

definition ScrapeInfoSchemaInnodbTablespaces_dests :: "bool \<Rightarrow> dest list" where
  "ScrapeInfoSchemaInnodbTablespaces_dests mariadb105 =
     (if mariadb105 then [DU32, DStr, DStr, DStr, DU64, DU64] else [DU32, DStr, DStr, DStr, DStr, DU64, DU64])"

definition ScrapeInfoSchemaInnodbTablespaces_row :: "bool \<Rightarrow> gval list \<Rightarrow> metric list" where
  "ScrapeInfoSchemaInnodbTablespaces_row mariadb105 vs =
     (let tableSpace = g_u32 (vs ! 0);
          tableName = g_str (vs ! 1);
          fileFormat = g_str (vs ! 2);
          rowFormat = g_str (vs ! 3);
          spaceType = (if mariadb105 then [] else g_str (vs ! 4));
          fileSize = g_u64 (vs ! (if mariadb105 then 4 else 5));
          allocatedSize = g_u64 (vs ! (if mariadb105 then 5 else 6))
      in [ConstMetric infoSchemaInnodbTablesspaceInfoDesc GaugeValue (f_of_u32 tableSpace)
            [tableName, fileFormat, rowFormat, spaceType],
          ConstMetric infoSchemaInnodbTablesspaceFileSizeDesc GaugeValue (f_of_u64 fileSize) [tableName],
          ConstMetric infoSchemaInnodbTablesspaceAllocatedSizeDesc GaugeValue (f_of_u64 allocatedSize) [tableName]])"

definition ScrapeInfoSchemaInnodbTablespaces_Scrape :: "instance_state \<Rightarrow> database \<Rightarrow> scrape_out" where
  "ScrapeInfoSchemaInnodbTablespaces_Scrape inst db =
     (case query_row db 0 innodbTablespacesTablenameQuery [DStr] of
        Inl e \<Rightarrow> ([], Failed e)
      | Inr vs \<Rightarrow>
         (let tablespacesTablename = g_str (vs ! 0) in
          if tablespacesTablename \<in> {''INNODB_SYS_TABLESPACES'', ''INNODB_TABLESPACES''} then
            (let query = sprintf (if tablespaces_mariadb105 inst then innodbTablespacesQueryMariaDB
                                  else innodbTablespacesQueryMySQL) [tablespacesTablename, tablespacesTablename]
             in with_query db 1 query [] (\<lambda>rs.
                  each_row (ScrapeInfoSchemaInnodbTablespaces_dests (tablespaces_mariadb105 inst))
                    (ScrapeInfoSchemaInnodbTablespaces_row (tablespaces_mariadb105 inst)) (rs_rows rs)))
          else ([], Failed (EMsg ''couldn't find INNODB_SYS_TABLESPACES or INNODB_TABLESPACES in information_schema''))))"

interpretation sc_tablespaces: safe_scraper "ScrapeInfoSchemaInnodbTablespaces_Scrape inst" for inst
  by (rule safe_scraperI)
    (auto intro!: safe_run simp: ScrapeInfoSchemaInnodbTablespaces_Scrape_def ScrapeInfoSchemaInnodbTablespaces_row_def
      Let_def wf_emit split: sum.splits)

subsection \<open>info_schema_tables.go\<close>

definition tableSchemaQuery :: string where
  "tableSchemaQuery = ''
		SELECT
		    TABLE_SCHEMA,
		    TABLE_NAME,
		    TABLE_TYPE,
		    ifnull(ENGINE, 'NONE') as ENGINE,
		    ifnull(VERSION, '0') as VERSION,
		    ifnull(ROW_FORMAT, 'NONE') as ROW_FORMAT,
		    ifnull(TABLE_ROWS, '0') as TABLE_ROWS,
		    ifnull(DATA_LENGTH, '0') as DATA_LENGTH,
		    ifnull(INDEX_LENGTH, '0') as INDEX_LENGTH,
		    ifnull(DATA_FREE, '0') as DATA_FREE,
		    ifnull(CREATE_OPTIONS, 'NONE') as CREATE_OPTIONS
		  FROM information_schema.tables
		  WHERE TABLE_SCHEMA = ?
		''"

definition dbListQuery :: string where
  "dbListQuery = ''
		SELECT
		    SCHEMA_NAME
		  FROM information_schema.schemata
		  WHERE SCHEMA_NAME NOT IN ('mysql', 'performance_schema', 'information_schema', 'sys')
		''"

definition infoSchemaTablesVersionDesc :: desc where [desc_def]:
  "infoSchemaTablesVersionDesc = NewDesc (BuildFQName namespace informationSchema ''table_version'')
     (''The version number of the table's .frm file'') [''schema'', ''table'', ''type'', ''engine'', ''row_format'', ''create_options'']"

definition infoSchemaTablesRowsDesc :: desc where [desc_def]:
  "infoSchemaTablesRowsDesc = NewDesc (BuildFQName namespace informationSchema ''table_rows'')
     ''The estimated number of rows in the table from information_schema.tables'' [''schema'', ''table'']"

definition infoSchemaTablesSizeDesc :: desc where [desc_def]:
  "infoSchemaTablesSizeDesc = NewDesc (BuildFQName namespace informationSchema ''table_size'')
     ''The size of the table components from information_schema.tables'' [''schema'', ''table'', ''component'']"

lemma arity_info_schema_tables [simp, desc_arity]:
  "length (var_labels infoSchemaTablesVersionDesc) = 6"
  "length (var_labels infoSchemaTablesRowsDesc) = 2"
  "length (var_labels infoSchemaTablesSizeDesc) = 3"
  by (simp_all add: desc_def)

definition ScrapeTableSchema_Name :: string where "ScrapeTableSchema_Name = informationSchema @ ''.tables''"

definition ScrapeTableSchema_Help :: string where "ScrapeTableSchema_Help = ''Collect metrics from information_schema.tables''"

definition ScrapeTableSchema_Version :: float64 where "ScrapeTableSchema_Version = f_lit 51 1"


definition ScrapeTableSchema_dests :: "dest list" where
  "ScrapeTableSchema_dests = [DStr, DStr, DStr, DStr, DU64, DStr, DU64, DU64, DU64, DU64, DStr]"

definition ScrapeTableSchema_row :: "gval list \<Rightarrow> metric list" where
  "ScrapeTableSchema_row vs =
     (let tableSchema = g_str (vs ! 0);
          tableName = g_str (vs ! 1);
          tableType = g_str (vs ! 2);
          engine = g_str (vs ! 3);
          version = g_u64 (vs ! 4);
          rowFormat = g_str (vs ! 5);
          tableRows = g_u64 (vs ! 6);
          dataLength = g_u64 (vs ! 7);
          indexLength = g_u64 (vs ! 8);
          dataFree = g_u64 (vs ! 9);
          createOptions = g_str (vs ! 10)
      in [ConstMetric infoSchemaTablesVersionDesc GaugeValue (f_of_u64 version)
            [tableSchema, tableName, tableType, engine, rowFormat, createOptions],
          ConstMetric infoSchemaTablesRowsDesc GaugeValue (f_of_u64 tableRows) [tableSchema, tableName],
          ConstMetric infoSchemaTablesSizeDesc GaugeValue (f_of_u64 dataLength) [tableSchema, tableName, ''data_length''],
          ConstMetric infoSchemaTablesSizeDesc GaugeValue (f_of_u64 indexLength) [tableSchema, tableName, ''index_length''],
          ConstMetric infoSchemaTablesSizeDesc GaugeValue (f_of_u64 dataFree) [tableSchema, tableName, ''data_free'']])"

text \<open>The loop over the databases; \<open>i\<close> is the number of the next query of the scrape.\<close>

fun tables_loop :: "database \<Rightarrow> nat \<Rightarrow> string list \<Rightarrow> scrape_out" where
  "tables_loop db i [] = ([], Done)"
| "tables_loop db i (d # ds) =
     and_then (with_query db i tableSchemaQuery [d] (\<lambda>rs. each_row ScrapeTableSchema_dests ScrapeTableSchema_row (rs_rows rs)))
       (tables_loop db (Suc i) ds)"

definition ScrapeTableSchema_Scrape :: "string \<Rightarrow> database \<Rightarrow> scrape_out" where
  "ScrapeTableSchema_Scrape databases db =
     (if databases = ''*'' then
        with_query db 0 dbListQuery [] (\<lambda>rs.
          case first_scan_error [DStr] (rs_rows rs) of
            Some e \<Rightarrow> ([], Failed e)
          | None \<Rightarrow> tables_loop db 1 (map (\<lambda>vs. g_str (vs ! 0)) (good_rows [DStr] (rs_rows rs))))
      else tables_loop db 0 (strings_Split databases '',''))"

lemma tables_loop_safe: "safe_out (tables_loop db i ds)"
  by (induction db i ds rule: tables_loop.induct)
    (auto intro!: safe_run simp: ScrapeTableSchema_row_def Let_def wf_emit)

interpretation sc_tables: safe_scraper "ScrapeTableSchema_Scrape databases" for databases
  by (rule safe_scraperI)
    (auto intro!: safe_run simp: ScrapeTableSchema_Scrape_def tables_loop_safe split: option.splits)

subsection \<open>info_schema_replica_host.go\<close>

definition replicaHostQuery :: string where
  "replicaHostQuery = ''
	  SELECT SERVER_ID
		   , if(SESSION_ID='MASTER_SESSION_ID','writer','reader') AS ROLE
		   , CPU
		   , MASTER_SLAVE_LATENCY_IN_MICROSECONDS
		   , REPLICA_LAG_IN_MILLISECONDS
		   , LOG_STREAM_SPEED_IN_KiB_PER_SECOND
		   , CURRENT_REPLAY_LATENCY_IN_MICROSECONDS
		FROM information_schema.replica_host_status
	''"

definition infoSchemaReplicaHostCpuDesc :: desc where [desc_def]:
  "infoSchemaReplicaHostCpuDesc = NewDesc (BuildFQName namespace informationSchema ''replica_host_cpu_percent'')
     ''The CPU usage as a percentage.'' [''server_id'', ''role'']"

definition infoSchemaReplicaHostReplicaLatencyDesc :: desc where [desc_def]:
  "infoSchemaReplicaHostReplicaLatencyDesc = NewDesc (BuildFQName namespace informationSchema ''replica_host_replica_latency_seconds'')
     ''The source-replica latency in seconds.'' [''server_id'', ''role'']"

definition infoSchemaReplicaHostLagDesc :: desc where [desc_def]:
  "infoSchemaReplicaHostLagDesc = NewDesc (BuildFQName namespace informationSchema ''replica_host_lag_seconds'')
     ''The replica lag in seconds.'' [''server_id'', ''role'']"

definition infoSchemaReplicaHostLogStreamSpeedDesc :: desc where [desc_def]:
  "infoSchemaReplicaHostLogStreamSpeedDesc = NewDesc (BuildFQName namespace informationSchema ''replica_host_log_stream_speed'')
     ''The log stream speed in kilobytes per second.'' [''server_id'', ''role'']"

definition infoSchemaReplicaHostReplayLatencyDesc :: desc where [desc_def]:
  "infoSchemaReplicaHostReplayLatencyDesc = NewDesc (BuildFQName namespace informationSchema ''replica_host_replay_latency_seconds'')
     ''The current replay latency in seconds.'' [''server_id'', ''role'']"

lemma arity_info_schema_replica_host [simp, desc_arity]:
  "length (var_labels infoSchemaReplicaHostCpuDesc) = 2"
  "length (var_labels infoSchemaReplicaHostReplicaLatencyDesc) = 2"
  "length (var_labels infoSchemaReplicaHostLagDesc) = 2"
  "length (var_labels infoSchemaReplicaHostLogStreamSpeedDesc) = 2"
  "length (var_labels infoSchemaReplicaHostReplayLatencyDesc) = 2"
  by (simp_all add: desc_def)

definition ScrapeReplicaHost_Name :: string where "ScrapeReplicaHost_Name = ''info_schema.replica_host''"

definition ScrapeReplicaHost_Help :: string where "ScrapeReplicaHost_Help = ''Collect metrics from information_schema.replica_host_status''"

definition ScrapeReplicaHost_Version :: float64 where "ScrapeReplicaHost_Version = f_lit 56 1"


definition ScrapeReplicaHost_dests :: "dest list" where
  "ScrapeReplicaHost_dests = [DStr, DStr, DF64, DU64, DF64, DF64, DU64]"

definition ScrapeReplicaHost_row :: "gval list \<Rightarrow> metric list" where
  "ScrapeReplicaHost_row vs =
     (let serverId = g_str (vs ! 0);
          role = g_str (vs ! 1);
          cpu = g_f64 (vs ! 2);
          replicaLatency = g_u64 (vs ! 3);
          replicaLag = g_f64 (vs ! 4);
          logStreamSpeed = g_f64 (vs ! 5);
          replayLatency = g_u64 (vs ! 6)
      in [ConstMetric infoSchemaReplicaHostCpuDesc GaugeValue cpu [serverId, role],
          ConstMetric infoSchemaReplicaHostReplicaLatencyDesc GaugeValue (f_mul (f_of_u64 replicaLatency) (f_lit 1 6)) [serverId, role],
          ConstMetric infoSchemaReplicaHostLagDesc GaugeValue (f_mul replicaLag (f_lit 1 3)) [serverId, role],
          ConstMetric infoSchemaReplicaHostLogStreamSpeedDesc GaugeValue logStreamSpeed [serverId, role],
          ConstMetric infoSchemaReplicaHostReplayLatencyDesc GaugeValue (f_mul (f_of_u64 replayLatency) (f_lit 1 6)) [serverId, role]])"

definition ScrapeReplicaHost_Scrape :: "database \<Rightarrow> scrape_out" where
  "ScrapeReplicaHost_Scrape db =
     (case db 0 replicaHostQuery [] of
        Inl (EMySQL n msg) \<Rightarrow> ([], if n = 1109 then Done else Failed (EMySQL n msg))
      | Inl e \<Rightarrow> ([], Failed e)
      | Inr rs \<Rightarrow> each_row ScrapeReplicaHost_dests ScrapeReplicaHost_row (rs_rows rs))"

interpretation sc_replica_host: safe_scraper ScrapeReplicaHost_Scrape
  by (rule safe_scraperI)
    (auto intro!: safe_run simp: ScrapeReplicaHost_Scrape_def ScrapeReplicaHost_row_def Let_def wf_emit
      split: sum.splits go_err.splits)

end
