(* ===== verification/InfoStats.thy ===== *)
theory InfoStats
  imports GenericBase
begin

text \<open>
  \<open>information_schema.client_statistics\<close> and \<open>user_statistics\<close>: behind the \<open>userstat\<close> check, every
  column but the first is a number; a column the map of descriptors knows is sent under that
  descriptor, any other as an untyped metric named after the column. The two scrapers differ only
  in names, so they share \<open>statistics_scrape\<close>.
\<close>

subsection \<open>info_schema_clientstats.go\<close>

definition clientStatQuery :: string where
  "clientStatQuery = ''SELECT * FROM information_schema.client_statistics''"

definition informationSchemaClientStatisticsTypes :: typed_descs where [desc_def]:
  "informationSchemaClientStatisticsTypes =
     [(''TOTAL_CONNECTIONS'', CounterValue, NewDesc (BuildFQName namespace informationSchema ''client_statistics_total_connections'')
        ''The number of connections created for this client.'' [''client'']),
      (''CONCURRENT_CONNECTIONS'', GaugeValue, NewDesc (BuildFQName namespace informationSchema ''client_statistics_concurrent_connections'')
        ''The number of concurrent connections for this client.'' [''client'']),
      (''CONNECTED_TIME'', CounterValue, NewDesc (BuildFQName namespace informationSchema ''client_statistics_connected_time_seconds_total'')
        ''The cumulative number of seconds elapsed while there were connections from this client.'' [''client'']),
      (''BUSY_TIME'', CounterValue, NewDesc (BuildFQName namespace informationSchema ''client_statistics_busy_seconds_total'')
        ''The cumulative number of seconds there was activity on connections from this client.'' [''client'']),
      (''CPU_TIME'', CounterValue, NewDesc (BuildFQName namespace informationSchema ''client_statistics_cpu_time_seconds_total'')
        (''The cumulative CPU time elapsed, in seconds, while servicing this client's connections.'') [''client'']),
      (''BYTES_RECEIVED'', CounterValue, NewDesc (BuildFQName namespace informationSchema ''client_statistics_bytes_received_total'')
        (''The number of bytes received from this client'' @ [CHR 0xE2, CHR 0x80, CHR 0x99] @ ''s connections.'') [''client'']),
      (''BYTES_SENT'', CounterValue, NewDesc (BuildFQName namespace informationSchema ''client_statistics_bytes_sent_total'')
        (''The number of bytes sent to this client'' @ [CHR 0xE2, CHR 0x80, CHR 0x99] @ ''s connections.'') [''client'']),
      (''BINLOG_BYTES_WRITTEN'', CounterValue, NewDesc (BuildFQName namespace informationSchema ''client_statistics_binlog_bytes_written_total'')
        (''The number of bytes written to the binary log from this client'' @ [CHR 0xE2, CHR 0x80, CHR 0x99] @ ''s connections.'') [''client'']),
      (''ROWS_READ'', CounterValue, NewDesc (BuildFQName namespace informationSchema ''client_statistics_rows_read_total'')
        (''The number of rows read by this client'' @ [CHR 0xE2, CHR 0x80, CHR 0x99] @ ''s connections.'') [''client'']),
      (''ROWS_SENT'', CounterValue, NewDesc (BuildFQName namespace informationSchema ''client_statistics_rows_sent_total'')
        (''The number of rows sent by this client'' @ [CHR 0xE2, CHR 0x80, CHR 0x99] @ ''s connections.'') [''client'']),
      (''ROWS_DELETED'', CounterValue, NewDesc (BuildFQName namespace informationSchema ''client_statistics_rows_deleted_total'')
        (''The number of rows deleted by this client'' @ [CHR 0xE2, CHR 0x80, CHR 0x99] @ ''s connections.'') [''client'']),
      (''ROWS_INSERTED'', CounterValue, NewDesc (BuildFQName namespace informationSchema ''client_statistics_rows_inserted_total'')
        (''The number of rows inserted by this client'' @ [CHR 0xE2, CHR 0x80, CHR 0x99] @ ''s connections.'') [''client'']),
      (''ROWS_FETCHED'', CounterValue, NewDesc (BuildFQName namespace informationSchema ''client_statistics_rows_fetched_total'')
        (''The number of rows fetched by this client'' @ [CHR 0xE2, CHR 0x80, CHR 0x99] @ ''s connections.'') [''client'']),
      (''ROWS_UPDATED'', CounterValue, NewDesc (BuildFQName namespace informationSchema ''client_statistics_rows_updated_total'')
        (''The number of rows updated by this client'' @ [CHR 0xE2, CHR 0x80, CHR 0x99] @ ''s connections.'') [''client'']),
      (''TABLE_ROWS_READ'', CounterValue, NewDesc (BuildFQName namespace informationSchema ''client_statistics_table_rows_read_total'')
        (''The number of rows read from tables by this client'' @ [CHR 0xE2, CHR 0x80, CHR 0x99] @ ''s connections. (It may be different from ROWS_FETCHED.)'') [''client'']),
      (''SELECT_COMMANDS'', CounterValue, NewDesc (BuildFQName namespace informationSchema ''client_statistics_select_commands_total'')
        (''The number of SELECT commands executed from this client'' @ [CHR 0xE2, CHR 0x80, CHR 0x99] @ ''s connections.'') [''client'']),
      (''UPDATE_COMMANDS'', CounterValue, NewDesc (BuildFQName namespace informationSchema ''client_statistics_update_commands_total'')
        (''The number of UPDATE commands executed from this client'' @ [CHR 0xE2, CHR 0x80, CHR 0x99] @ ''s connections.'') [''client'']),
      (''OTHER_COMMANDS'', CounterValue, NewDesc (BuildFQName namespace informationSchema ''client_statistics_other_commands_total'')
        (''The number of other commands executed from this client'' @ [CHR 0xE2, CHR 0x80, CHR 0x99] @ ''s connections.'') [''client'']),
      (''COMMIT_TRANSACTIONS'', CounterValue, NewDesc (BuildFQName namespace informationSchema ''client_statistics_commit_transactions_total'')
        (''The number of COMMIT commands issued by this client'' @ [CHR 0xE2, CHR 0x80, CHR 0x99] @ ''s connections.'') [''client'']),
      (''ROLLBACK_TRANSACTIONS'', CounterValue, NewDesc (BuildFQName namespace informationSchema ''client_statistics_rollback_transactions_total'')
        (''The number of ROLLBACK commands issued by this client'' @ [CHR 0xE2, CHR 0x80, CHR 0x99] @ ''s connections.'') [''client'']),
      (''DENIED_CONNECTIONS'', CounterValue, NewDesc (BuildFQName namespace informationSchema ''client_statistics_denied_connections_total'')
        ''The number of connections denied to this client.'' [''client'']),
      (''LOST_CONNECTIONS'', CounterValue, NewDesc (BuildFQName namespace informationSchema ''client_statistics_lost_connections_total'')
        (''The number of this client'' @ [CHR 0xE2, CHR 0x80, CHR 0x99] @ ''s connections that were terminated uncleanly.'') [''client'']),
      (''ACCESS_DENIED'', CounterValue, NewDesc (BuildFQName namespace informationSchema ''client_statistics_access_denied_total'')
        (''The number of times this client'' @ [CHR 0xE2, CHR 0x80, CHR 0x99] @ ''s connections issued commands that were denied.'') [''client'']),
      (''EMPTY_QUERIES'', CounterValue, NewDesc (BuildFQName namespace informationSchema ''client_statistics_empty_queries_total'')
        (''The number of times this client'' @ [CHR 0xE2, CHR 0x80, CHR 0x99] @ ''s connections sent empty queries to the server.'') [''client'']),
      (''TOTAL_SSL_CONNECTIONS'', CounterValue, NewDesc (BuildFQName namespace informationSchema ''client_statistics_total_ssl_connections_total'')
        (''The number of times this client'' @ [CHR 0xE2, CHR 0x80, CHR 0x99] @ ''s connections connected using SSL to the server.'') [''client'']),
      (''MAX_STATEMENT_TIME_EXCEEDED'', CounterValue, NewDesc (BuildFQName namespace informationSchema ''client_statistics_max_statement_time_exceeded_total'')
        ''The number of times a statement was aborted, because it was executed longer than its MAX_STATEMENT_TIME threshold.'' [''client''])]"

interpretation tab_informationSchemaClientStatisticsTypes: desc_table informationSchemaClientStatisticsTypes 1
  by unfold_locales (simp add: desc_def)

definition ScrapeClientStat_Name :: string where "ScrapeClientStat_Name = ''info_schema.clientstats''"

definition ScrapeClientStat_Help :: string where "ScrapeClientStat_Help = ''If running with userstat=1, set to true to collect client statistics''"

definition ScrapeClientStat_Version :: float64 where "ScrapeClientStat_Version = f_lit 55 1"


subsection \<open>info_schema_userstats.go\<close>

definition userStatQuery :: string where
  "userStatQuery = ''SELECT * FROM information_schema.user_statistics''"

definition informationSchemaUserStatisticsTypes :: typed_descs where [desc_def]:
  "informationSchemaUserStatisticsTypes =
     [(''TOTAL_CONNECTIONS'', CounterValue, NewDesc (BuildFQName namespace informationSchema ''user_statistics_total_connections'')
        ''The number of connections created for this user.'' [''user'']),
      (''CONCURRENT_CONNECTIONS'', GaugeValue, NewDesc (BuildFQName namespace informationSchema ''user_statistics_concurrent_connections'')
        ''The number of concurrent connections for this user.'' [''user'']),
      (''CONNECTED_TIME'', CounterValue, NewDesc (BuildFQName namespace informationSchema ''user_statistics_connected_time_seconds_total'')
        ''The cumulative number of seconds elapsed while there were connections from this user.'' [''user'']),
      (''BUSY_TIME'', CounterValue, NewDesc (BuildFQName namespace informationSchema ''user_statistics_busy_seconds_total'')
        ''The cumulative number of seconds there was activity on connections from this user.'' [''user'']),
      (''CPU_TIME'', CounterValue, NewDesc (BuildFQName namespace informationSchema ''user_statistics_cpu_time_seconds_total'')
        (''The cumulative CPU time elapsed, in seconds, while servicing this user's connections.'') [''user'']),
      (''BYTES_RECEIVED'', CounterValue, NewDesc (BuildFQName namespace informationSchema ''user_statistics_bytes_received_total'')
        (''The number of bytes received from this user'' @ [CHR 0xE2, CHR 0x80, CHR 0x99] @ ''s connections.'') [''user'']),
      (''BYTES_SENT'', CounterValue, NewDesc (BuildFQName namespace informationSchema ''user_statistics_bytes_sent_total'')
        (''The number of bytes sent to this user'' @ [CHR 0xE2, CHR 0x80, CHR 0x99] @ ''s connections.'') [''user'']),
      (''BINLOG_BYTES_WRITTEN'', CounterValue, NewDesc (BuildFQName namespace informationSchema ''user_statistics_binlog_bytes_written_total'')
        (''The number of bytes written to the binary log from this user'' @ [CHR 0xE2, CHR 0x80, CHR 0x99] @ ''s connections.'') [''user'']),
      (''ROWS_READ'', CounterValue, NewDesc (BuildFQName namespace informationSchema ''user_statistics_rows_read_total'')
        (''The number of rows read by this user's connections.'') [''user'']),
      (''ROWS_SENT'', CounterValue, NewDesc (BuildFQName namespace informationSchema ''user_statistics_rows_sent_total'')
        (''The number of rows sent by this user's connections.'') [''user'']),
      (''ROWS_DELETED'', CounterValue, NewDesc (BuildFQName namespace informationSchema ''user_statistics_rows_deleted_total'')
        (''The number of rows deleted by this user's connections.'') [''user'']),
      (''ROWS_INSERTED'', CounterValue, NewDesc (BuildFQName namespace informationSchema ''user_statistics_rows_inserted_total'')
        (''The number of rows inserted by this user's connections.'') [''user'']),
      (''ROWS_FETCHED'', CounterValue, NewDesc (BuildFQName namespace informationSchema ''user_statistics_rows_fetched_total'')
        (''The number of rows fetched by this user'' @ [CHR 0xE2, CHR 0x80, CHR 0x99] @ ''s connections.'') [''user'']),
      (''ROWS_UPDATED'', CounterValue, NewDesc (BuildFQName namespace informationSchema ''user_statistics_rows_updated_total'')
        (''The number of rows updated by this user'' @ [CHR 0xE2, CHR 0x80, CHR 0x99] @ ''s connections.'') [''user'']),
      (''TABLE_ROWS_READ'', CounterValue, NewDesc (BuildFQName namespace informationSchema ''user_statistics_table_rows_read_total'')
        (''The number of rows read from tables by this user'' @ [CHR 0xE2, CHR 0x80, CHR 0x99] @ ''s connections. (It may be different from ROWS_FETCHED.)'') [''user'']),
      (''SELECT_COMMANDS'', CounterValue, NewDesc (BuildFQName namespace informationSchema ''user_statistics_select_commands_total'')
        (''The number of SELECT commands executed from this user'' @ [CHR 0xE2, CHR 0x80, CHR 0x99] @ ''s connections.'') [''user'']),
      (''UPDATE_COMMANDS'', CounterValue, NewDesc (BuildFQName namespace informationSchema ''user_statistics_update_commands_total'')
        (''The number of UPDATE commands executed from this user'' @ [CHR 0xE2, CHR 0x80, CHR 0x99] @ ''s connections.'') [''user'']),
      (''OTHER_COMMANDS'', CounterValue, NewDesc (BuildFQName namespace informationSchema ''user_statistics_other_commands_total'')
        (''The number of other commands executed from this user'' @ [CHR 0xE2, CHR 0x80, CHR 0x99] @ ''s connections.'') [''user'']),
      (''COMMIT_TRANSACTIONS'', CounterValue, NewDesc (BuildFQName namespace informationSchema ''user_statistics_commit_transactions_total'')
        (''The number of COMMIT commands issued by this user'' @ [CHR 0xE2, CHR 0x80, CHR 0x99] @ ''s connections.'') [''user'']),
      (''ROLLBACK_TRANSACTIONS'', CounterValue, NewDesc (BuildFQName namespace informationSchema ''user_statistics_rollback_transactions_total'')
        (''The number of ROLLBACK commands issued by this user'' @ [CHR 0xE2, CHR 0x80, CHR 0x99] @ ''s connections.'') [''user'']),
      (''DENIED_CONNECTIONS'', CounterValue, NewDesc (BuildFQName namespace informationSchema ''user_statistics_denied_connections_total'')
        ''The number of connections denied to this user.'' [''user'']),
      (''LOST_CONNECTIONS'', CounterValue, NewDesc (BuildFQName namespace informationSchema ''user_statistics_lost_connections_total'')
        (''The number of this user'' @ [CHR 0xE2, CHR 0x80, CHR 0x99] @ ''s connections that were terminated uncleanly.'') [''user'']),
      (''ACCESS_DENIED'', CounterValue, NewDesc (BuildFQName namespace informationSchema ''user_statistics_access_denied_total'')
        (''The number of times this user'' @ [CHR 0xE2, CHR 0x80, CHR 0x99] @ ''s connections issued commands that were denied.'') [''user'']),
      (''EMPTY_QUERIES'', CounterValue, NewDesc (BuildFQName namespace informationSchema ''user_statistics_empty_queries_total'')
        (''The number of times this user'' @ [CHR 0xE2, CHR 0x80, CHR 0x99] @ ''s connections sent empty queries to the server.'') [''user'']),
      (''TOTAL_SSL_CONNECTIONS'', CounterValue, NewDesc (BuildFQName namespace informationSchema ''user_statistics_total_ssl_connections_total'')
        (''The number of times this user'' @ [CHR 0xE2, CHR 0x80, CHR 0x99] @ ''s connections connected using SSL to the server.'') [''user''])]"

interpretation tab_informationSchemaUserStatisticsTypes: desc_table informationSchemaUserStatisticsTypes 1
  by unfold_locales (simp add: desc_def)

definition ScrapeUserStat_Name :: string where "ScrapeUserStat_Name = ''info_schema.userstats''"

definition ScrapeUserStat_Help :: string where "ScrapeUserStat_Help = ''If running with userstat=1, set to true to collect user statistics''"

definition ScrapeUserStat_Version :: float64 where "ScrapeUserStat_Version = f_lit 51 1"



section \<open>Scraping\<close>

text \<open>The metric of one column: \<open>label\<close> is the label's name (\<open>client\<close> or \<open>user\<close>), \<open>who\<close> its value.\<close>

definition statistics_metric :: "typed_descs \<Rightarrow> string \<Rightarrow> string \<Rightarrow> string \<Rightarrow> string \<Rightarrow> float64 \<Rightarrow> metric" where
  "statistics_metric table prefix label who columnName x =
     (case map_of table columnName of
        Some (vtype, desc) \<Rightarrow> ConstMetric desc vtype x [who]
      | None \<Rightarrow>
          ConstMetric
            (NewDesc (BuildFQName namespace informationSchema (prefix @ strings_ToLower columnName))
               (''Unsupported metric from column '' @ columnName) [label])
            UntypedValue x [who])"

definition statistics_row :: "typed_descs \<Rightarrow> string \<Rightarrow> string \<Rightarrow> string list \<Rightarrow> gval list \<Rightarrow> scrape_out" where
  "statistics_row table prefix label columnNames vs =
     (let who = g_str (vs ! 0)
      in col_loop (\<lambda>columnName v. send_all [statistics_metric table prefix label who columnName (g_f64 v)])
           (tl columnNames) (tl vs))"

text \<open>
  \<open>make([]float64, len(columnNames)-1)\<close> panics when there is no column at all.
\<close>

definition statistics_scrape ::
    "string \<Rightarrow> typed_descs \<Rightarrow> string \<Rightarrow> string \<Rightarrow> database \<Rightarrow> scrape_out" where
  "statistics_scrape q table prefix label db =
     userstat_guard db (with_query db 1 q [] (\<lambda>rs. with_columns rs (\<lambda>columnNames.
       if columnNames = [] then ([], Panicked)
       else for_rows (DStr # replicate (length columnNames - 1) DF64)
              (statistics_row table prefix label columnNames) (rs_rows rs))))"

definition ScrapeClientStat_Scrape :: "database \<Rightarrow> scrape_out" where
  "ScrapeClientStat_Scrape =
     statistics_scrape clientStatQuery informationSchemaClientStatisticsTypes ''client_statistics_'' ''client''"

definition ScrapeUserStat_Scrape :: "database \<Rightarrow> scrape_out" where
  "ScrapeUserStat_Scrape =
     statistics_scrape userStatQuery informationSchemaUserStatisticsTypes ''user_statistics_'' ''user''"

section \<open>What is sent\<close>

locale statistics = desc_table table 1 for table +
  fixes q :: string and prefix :: string and label :: string
begin

lemma metric_ok_statistics: "metric_ok (statistics_metric table prefix label who c x)"
  by (auto simp: statistics_metric_def metric_ok_Const dest!: found_arity split: option.splits)

lemma statistics_row_eq:
  "statistics_row table prefix label cols vs =
     (map (\<lambda>(c, v). statistics_metric table prefix label (g_str (vs ! 0)) c (g_f64 v)) (zip (tl cols) (tl vs)), Done)"
  by (simp add: statistics_row_def
      col_loop_sends [where emit = "\<lambda>c v. [statistics_metric table prefix label (g_str (vs ! 0)) c (g_f64 v)]"]
      metric_ok_statistics concat_map_singleton case_prod_unfold)

text \<open>A server whose answers have at least one column is answered without a panic.\<close>

lemma statistics_safe:
  assumes "\<And>rs. db 1 q [] = Inr rs \<Longrightarrow> rs_cols rs \<noteq> Inr []"
  shows "safe_out (statistics_scrape q table prefix label db)"
proof -
  have "safe_out (with_query db 1 q [] (\<lambda>rs. with_columns rs (\<lambda>columnNames.
       if columnNames = [] then ([], Panicked)
       else for_rows (DStr # replicate (length columnNames - 1) DF64)
              (statistics_row table prefix label columnNames) (rs_rows rs))))"
    using assms
    by (auto simp: with_query_def with_columns_def statistics_row_eq metric_ok_statistics list_all_iff
        intro!: safe_for_rows split: sum.splits)
  then show ?thesis unfolding statistics_scrape_def by (rule safe_userstat_guard)
qed

lemma statistics_eq:
  assumes "query_row db 0 userstatCheckQuery [DStr, DStr] = Inr ws" "g_str (ws ! 1) \<noteq> ''OFF''"
    and "db 1 q [] = Inr rs" "rs_cols rs = Inr cols" "cols \<noteq> []"
  shows "statistics_scrape q table prefix label db =
    (let ds = DStr # replicate (length cols - 1) DF64
     in (concat (map (\<lambda>vs. map (\<lambda>(c, v). statistics_metric table prefix label (g_str (vs ! 0)) c (g_f64 v))
                            (zip (tl cols) (tl vs))) (good_rows ds (rs_rows rs))),
         case first_scan_error ds (rs_rows rs) of None \<Rightarrow> Done | Some e \<Rightarrow> Failed e))"
  using assms
  by (simp add: statistics_scrape_def userstat_guard_def with_query_def with_columns_def Let_def
      for_rows_sends [OF statistics_row_eq])

end

interpretation client: statistics informationSchemaClientStatisticsTypes clientStatQuery "''client_statistics_''" "''client''"
  by unfold_locales

interpretation user: statistics informationSchemaUserStatisticsTypes userStatQuery "''user_statistics_''" "''user''"
  by unfold_locales

text \<open>
  When \<open>userstat\<close> is on and the table has columns, each row of \<open>client_statistics\<close> sends one
  metric for every column but the first, labelled with the client: that of the map of descriptors
  when the column is known, and an untyped one named after the column when it is not.
\<close>

theorem client_statistics_sent:
  assumes "query_row db 0 userstatCheckQuery [DStr, DStr] = Inr ws" "g_str (ws ! 1) \<noteq> ''OFF''"
    and "db 1 clientStatQuery [] = Inr rs" "rs_cols rs = Inr cols" "cols \<noteq> []"
  shows "ScrapeClientStat_Scrape db =
    (let ds = DStr # replicate (length cols - 1) DF64
     in (concat (map (\<lambda>vs. map (\<lambda>(c, v). statistics_metric informationSchemaClientStatisticsTypes
                             ''client_statistics_'' ''client'' (g_str (vs ! 0)) c (g_f64 v))
                            (zip (tl cols) (tl vs))) (good_rows ds (rs_rows rs))),
         case first_scan_error ds (rs_rows rs) of None \<Rightarrow> Done | Some e \<Rightarrow> Failed e))"
  unfolding ScrapeClientStat_Scrape_def by (rule client.statistics_eq [OF assms])

definition client_db :: database where
  "client_db i q args = Inr \<lparr>rs_cols = Inr [''CLIENT'', ''TOTAL_CONNECTIONS'', ''NEW_COLUMN''], rs_rows =
     (if i = 0 then [[CBytes ''userstat'', CBytes ''ON'']] else [[CBytes ''db1'', CBytes ''7'', CBytes ''2'']]),
     rs_err = None\<rparr>"

theorem client_statistics_sent_witness:
  "map metric_labels (fst (ScrapeClientStat_Scrape client_db)) = [[''db1''], [''db1'']] \<and>
   snd (ScrapeClientStat_Scrape client_db) = Done"
proof -
  let ?cols = "[''CLIENT'', ''TOTAL_CONNECTIONS'', ''NEW_COLUMN'']"
  let ?rs = "\<lparr>rs_cols = Inr ?cols, rs_rows = [[CBytes ''db1'', CBytes ''7'', CBytes ''2'']], rs_err = None\<rparr> :: rowset"
  let ?ws = "[GStr ''userstat'', GStr ''ON'']"
  have w: "query_row client_db 0 userstatCheckQuery [DStr, DStr] = Inr ?ws"
    by (simp add: query_row_def client_db_def scan_def)
  have r: "client_db 1 clientStatQuery [] = Inr ?rs" by (simp add: client_db_def)
  have g: "good_rows [DStr, DF64, DF64] (rs_rows ?rs) = [[GStr ''db1'', GF64 (f_of_int 7), GF64 (f_of_int 2)]]"
    and e: "first_scan_error [DStr, DF64, DF64] (rs_rows ?rs) = None"
    by code_simp+
  have ok: "metric_labels (statistics_metric t p l who c x) = [who]" for t p l who c x
    by (simp add: statistics_metric_def split: option.splits prod.splits)
  show ?thesis
    using client_statistics_sent [OF w _ r, of ?cols] g e by (simp add: Let_def ok)
qed

end
