(* ===== verification/InfoMetrics.thy ===== *)
theory InfoMetrics
  imports GenericBase
begin

text \<open>
  Two tables of \<open>information_schema\<close> that need more than one metric per column:
  \<open>innodb_metrics\<close> (\<open>collector/info_schema_innodb_metrics.go\<close>), whose rows are sorted by the
  subsystem and a regular expression on the name, and \<open>query_response_time\<close>
  (\<open>collector/info_schema_query_response_time.go\<close>), whose rows become one cumulative histogram.
\<close>

subsection \<open>info_schema_innodb_metrics.go\<close>

definition infoSchemaInnodbMetricsEnabledColumnQuery :: string where
  "infoSchemaInnodbMetricsEnabledColumnQuery = ''
	SELECT
	    column_name
	  FROM information_schema.columns
	  WHERE table_schema = 'information_schema'
	    AND table_name = 'INNODB_METRICS'
	    AND column_name IN ('status', 'enabled')
	  LIMIT 1
	''"

definition infoSchemaInnodbMetricsQuery :: string where
  "infoSchemaInnodbMetricsQuery = ''
		SELECT
		  name, subsystem, type, comment,
		  count
		  FROM information_schema.innodb_metrics
		  WHERE '' @ ''`%s` = '%s'' @ [CHR 0x27]"

definition infoSchemaBufferPageReadTotalDesc :: desc where [desc_def]:
  "infoSchemaBufferPageReadTotalDesc = NewDesc (BuildFQName namespace informationSchema ''innodb_metrics_buffer_page_read_total'')
     ''Total number of buffer pages read total.'' [''type'']"

definition infoSchemaBufferPageWrittenTotalDesc :: desc where [desc_def]:
  "infoSchemaBufferPageWrittenTotalDesc = NewDesc (BuildFQName namespace informationSchema ''innodb_metrics_buffer_page_written_total'')
     ''Total number of buffer pages written total.'' [''type'']"

definition infoSchemaBufferPoolPagesDesc :: desc where [desc_def]:
  "infoSchemaBufferPoolPagesDesc = NewDesc (BuildFQName namespace informationSchema ''innodb_metrics_buffer_pool_pages'')
     ''Total number of buffer pool pages by state.'' [''state'']"

definition infoSchemaBufferPoolPagesDirtyDesc :: desc where [desc_def]:
  "infoSchemaBufferPoolPagesDirtyDesc = NewDesc (BuildFQName namespace informationSchema ''innodb_metrics_buffer_pool_dirty_pages'')
     ''Total number of dirty pages in the buffer pool.'' []"

lemma arity_info_schema_innodb_metrics [simp, desc_arity]:
  "length (var_labels infoSchemaBufferPageReadTotalDesc) = 1"
  "length (var_labels infoSchemaBufferPageWrittenTotalDesc) = 1"
  "length (var_labels infoSchemaBufferPoolPagesDesc) = 1"
  "length (var_labels infoSchemaBufferPoolPagesDirtyDesc) = 0"
  by (simp_all add: desc_def)

definition ScrapeInnodbMetrics_Name :: string where "ScrapeInnodbMetrics_Name = informationSchema @ ''.innodb_metrics''"

definition ScrapeInnodbMetrics_Help :: string where "ScrapeInnodbMetrics_Help = ''Collect metrics from information_schema.innodb_metrics''"

definition ScrapeInnodbMetrics_Version :: float64 where "ScrapeInnodbMetrics_Version = f_lit 56 1"

section \<open>The rows of innodb_metrics\<close>

text \<open>\<open>^buffer_(pool_pages)_(.*)$\<close> and \<open>^buffer_page_(read|written)_(.*)$\<close>\<close>

definition bufferRE :: re where
  "bufferRE = word_rest_re ''buffer_'' [''pool_pages'']"

definition bufferPageRE :: re where
  "bufferPageRE = word_rest_re ''buffer_page_'' [''read'', ''written'']"

definition ScrapeInnodbMetrics_dests :: "dest list" where
  "ScrapeInnodbMetrics_dests = [DStr, DStr, DStr, DStr, DF64]"

definition innodb_generic_metric :: "string \<Rightarrow> string \<Rightarrow> string \<Rightarrow> string \<Rightarrow> float64 \<Rightarrow> metric" where
  "innodb_generic_metric name subsystem metricType comment value =
     (let metricName = ''innodb_metrics_'' @ subsystem @ ''_'' @ name in
      if (metricType = ''counter'' \<or> metricType = ''status_counter'') \<and> f_le f_zero value
      then ConstMetric (NewDesc (BuildFQName namespace informationSchema (metricName @ ''_total'')) comment [])
             CounterValue value []
      else ConstMetric (NewDesc (BuildFQName namespace informationSchema metricName) comment [])
             GaugeValue value [])"

definition ScrapeInnodbMetrics_row :: "gval list \<Rightarrow> metric list" where
  "ScrapeInnodbMetrics_row vs =
     (let name = g_str (vs ! 0); subsystem = g_str (vs ! 1); metricType = g_str (vs ! 2);
          comment = g_str (vs ! 3); value = g_f64 (vs ! 4);
          generic = [innodb_generic_metric name subsystem metricType comment value]
      in if subsystem = ''buffer_page_io'' then
           (case re_find bufferPageRE name of
              None \<Rightarrow> []
            | Some m \<Rightarrow>
                if submatch m 1 = ''read''
                then [ConstMetric infoSchemaBufferPageReadTotalDesc CounterValue value [submatch m 2]]
                else if submatch m 1 = ''written''
                then [ConstMetric infoSchemaBufferPageWrittenTotalDesc CounterValue value [submatch m 2]]
                else [])
         else if subsystem = ''buffer'' then
           (case re_find bufferRE name of
              None \<Rightarrow> generic
            | Some m \<Rightarrow>
                if submatch m 1 = ''pool_pages'' then
                  (if submatch m 2 = ''total'' then []
                   else if submatch m 2 = ''dirty''
                   then [ConstMetric infoSchemaBufferPoolPagesDirtyDesc GaugeValue value []]
                   else [ConstMetric infoSchemaBufferPoolPagesDesc GaugeValue value [submatch m 2]])
                else [])
         else generic)"

definition innodb_metrics_query :: "string \<Rightarrow> string option" where
  "innodb_metrics_query enabledColumnName =
     (if enabledColumnName = ''STATUS'' then Some (sprintf infoSchemaInnodbMetricsQuery [''status'', ''enabled''])
      else if enabledColumnName = ''ENABLED'' then Some (sprintf infoSchemaInnodbMetricsQuery [''enabled'', ''1''])
      else None)"

definition ScrapeInnodbMetrics_Scrape :: "database \<Rightarrow> scrape_out" where
  "ScrapeInnodbMetrics_Scrape db =
     (case query_row db 0 infoSchemaInnodbMetricsEnabledColumnQuery [DStr] of
        Inl e \<Rightarrow> ([], Failed e)
      | Inr vs \<Rightarrow>
         (case innodb_metrics_query (g_str (vs ! 0)) of
            None \<Rightarrow> ([], Failed (EMsg ''couldn't find column STATUS or ENABLED in innodb_metrics table''))
          | Some query \<Rightarrow> with_query db 1 query []
              (\<lambda>rs. each_row ScrapeInnodbMetrics_dests ScrapeInnodbMetrics_row (rs_rows rs))))"

text \<open>The safety of the whole scraper.\<close>

lemma innodb_metrics_row_ok: "list_all metric_ok (ScrapeInnodbMetrics_row vs)"
  by (simp add: ScrapeInnodbMetrics_row_def innodb_generic_metric_def Let_def metric_ok_Const split: option.splits)

interpretation sc_innodb_metrics: safe_scraper ScrapeInnodbMetrics_Scrape
  unfolding ScrapeInnodbMetrics_Scrape_def
  by (rule safe_scraperI)
    (auto split: sum.splits option.splits intro!: safe_run innodb_metrics_row_ok)

section \<open>What the patterns mean\<close>

definition innodb_metrics_spec :: "gval list \<Rightarrow> metric list" where
  "innodb_metrics_spec vs =
     (let name = g_str (vs ! 0); subsystem = g_str (vs ! 1); value = g_f64 (vs ! 4);
          generic = innodb_generic_metric name subsystem (g_str (vs ! 2)) (g_str (vs ! 3)) value
      in if subsystem = ''buffer_page_io'' then
           (case (after_prefix ''buffer_page_read_'' name, after_prefix ''buffer_page_written_'' name) of
              (Some page, _) \<Rightarrow> [ConstMetric infoSchemaBufferPageReadTotalDesc CounterValue value [page]]
            | (None, Some page) \<Rightarrow> [ConstMetric infoSchemaBufferPageWrittenTotalDesc CounterValue value [page]]
            | (None, None) \<Rightarrow> [])
         else if subsystem = ''buffer'' \<and> after_prefix ''buffer_pool_pages_'' name \<noteq> None then
           (let state = the (after_prefix ''buffer_pool_pages_'' name)
            in if state = ''total'' then []
               else if state = ''dirty'' then [ConstMetric infoSchemaBufferPoolPagesDirtyDesc GaugeValue value []]
               else [ConstMetric infoSchemaBufferPoolPagesDesc GaugeValue value [state]])
         else [generic])"

lemma innodb_metrics_row_spec: "ScrapeInnodbMetrics_row vs = innodb_metrics_spec vs"
proof -
  have page: "re_find bufferPageRE name =
     (case (after_prefix ''buffer_page_read_'' name, after_prefix ''buffer_page_written_'' name) of
        (Some r, _) \<Rightarrow> Some (name, [], [(1, ''read''), (2, r)])
      | (None, Some r) \<Rightarrow> Some (name, [], [(1, ''written''), (2, r)])
      | (None, None) \<Rightarrow> None)" for name
    by (simp add: bufferPageRE_def re_find_words split: option.splits)
  have buf: "re_find bufferRE name =
     map_option (\<lambda>r. (name, [], [(1, ''pool_pages''), (2, r)])) (after_prefix ''buffer_pool_pages_'' name)" for name
    by (simp add: bufferRE_def re_find_words split: option.splits)
  show ?thesis
    by (auto simp: ScrapeInnodbMetrics_row_def innodb_metrics_spec_def Let_def page buf split: option.splits)
qed

text \<open>
  C33: when the server names the column and answers the query, each row of innodb_metrics becomes
  the metric its subsystem and name call for: pages read and written by page type, buffer pool
  pages by state with the total left out and the dirty pages apart, and anything else a counter
  (when the server says so and the value is not negative) or a gauge of its own name.
\<close>

theorem innodb_metrics_sent:
  assumes "query_row db 0 infoSchemaInnodbMetricsEnabledColumnQuery [DStr] = Inr [GStr column]"
    and "innodb_metrics_query column = Some query" "db 1 query [] = Inr rs"
  shows "ScrapeInnodbMetrics_Scrape db =
    (concat (map innodb_metrics_spec (good_rows ScrapeInnodbMetrics_dests (rs_rows rs))),
     case first_scan_error ScrapeInnodbMetrics_dests (rs_rows rs) of None \<Rightarrow> Done | Some e \<Rightarrow> Failed e)"
  using assms each_row_sends [of ScrapeInnodbMetrics_row, OF innodb_metrics_row_ok]
  by (simp add: ScrapeInnodbMetrics_Scrape_def with_query_def innodb_metrics_row_spec cong: map_cong)

definition innodb_metrics_db :: database where
  "innodb_metrics_db i q args = Inr \<lparr>rs_cols = Inr [], rs_rows =
     (if i = 0 then [[CBytes ''STATUS'']]
      else [[CBytes ''buffer_page_read_undo_log'', CBytes ''buffer_page_io'', CBytes ''counter'', CBytes ''undo'', CBytes ''3''],
            [CBytes ''buffer_pool_pages_total'', CBytes ''buffer'', CBytes ''value'', CBytes ''all'', CBytes ''9''],
            [CBytes ''lock_deadlocks'', CBytes ''lock'', CBytes ''counter'', CBytes ''deadlocks'', CBytes ''-1'']]),
     rs_err = None\<rparr>"

theorem innodb_metrics_sent_witness:
  "ScrapeInnodbMetrics_Scrape innodb_metrics_db =
    ([ConstMetric infoSchemaBufferPageReadTotalDesc CounterValue (f_of_int 3) [''undo_log''],
      ConstMetric (NewDesc (BuildFQName namespace informationSchema ''innodb_metrics_lock_lock_deadlocks'') ''deadlocks'' [])
        GaugeValue (f_of_int (-1)) []], Done)"
proof -
  have c: "query_row innodb_metrics_db 0 infoSchemaInnodbMetricsEnabledColumnQuery [DStr] = Inr [GStr ''STATUS'']"
    by (simp add: query_row_def innodb_metrics_db_def scan_def)
  have q: "innodb_metrics_query ''STATUS'' = Some (sprintf infoSchemaInnodbMetricsQuery [''status'', ''enabled''])"
    by (simp add: innodb_metrics_query_def)
  let ?rs = "\<lparr>rs_cols = Inr [], rs_rows =
           [[CBytes ''buffer_page_read_undo_log'', CBytes ''buffer_page_io'', CBytes ''counter'', CBytes ''undo'', CBytes ''3''],
            [CBytes ''buffer_pool_pages_total'', CBytes ''buffer'', CBytes ''value'', CBytes ''all'', CBytes ''9''],
            [CBytes ''lock_deadlocks'', CBytes ''lock'', CBytes ''counter'', CBytes ''deadlocks'', CBytes ''-1'']],
            rs_err = None\<rparr> :: rowset"
  have r: "innodb_metrics_db 1 (sprintf infoSchemaInnodbMetricsQuery [''status'', ''enabled'']) [] = Inr ?rs"
    by (simp add: innodb_metrics_db_def)
  have s: "concat (map innodb_metrics_spec (good_rows ScrapeInnodbMetrics_dests (rs_rows ?rs))) =
      [ConstMetric infoSchemaBufferPageReadTotalDesc CounterValue (f_of_int 3) [''undo_log''],
       ConstMetric (NewDesc (BuildFQName namespace informationSchema ''innodb_metrics_lock_lock_deadlocks'') ''deadlocks'' [])
        GaugeValue (f_of_int (-1)) []]"
    "first_scan_error ScrapeInnodbMetrics_dests (rs_rows ?rs) = None"
    by code_simp+
  show ?thesis using innodb_metrics_sent [OF c q r] unfolding s by simp
qed


subsection \<open>info_schema_query_response_time.go\<close>

definition queryResponseCheckQuery :: string where
  "queryResponseCheckQuery = ''SELECT @@query_response_time_stats''"

definition ScrapeQueryResponseTime_Name :: string where "ScrapeQueryResponseTime_Name = ''info_schema.query_response_time''"

definition ScrapeQueryResponseTime_Help :: string where "ScrapeQueryResponseTime_Help = ''Collect query response time distribution if query_response_time_stats is ON.''"

definition ScrapeQueryResponseTime_Version :: float64 where "ScrapeQueryResponseTime_Version = f_lit 55 1"

section \<open>The histograms of query_response_time\<close>

text \<open>The three tables, and the descriptor of each.\<close>

definition queryResponseTimeQueries :: "string list" where
  "queryResponseTimeQueries =
     [''SELECT TIME, COUNT, TOTAL FROM INFORMATION_SCHEMA.QUERY_RESPONSE_TIME'',
      ''SELECT TIME, COUNT, TOTAL FROM INFORMATION_SCHEMA.QUERY_RESPONSE_TIME_READ'',
      ''SELECT TIME, COUNT, TOTAL FROM INFORMATION_SCHEMA.QUERY_RESPONSE_TIME_WRITE'']"

definition infoSchemaQueryResponseTimeCountDescs :: "desc list" where
  "infoSchemaQueryResponseTimeCountDescs =
     [NewDesc (BuildFQName namespace informationSchema ''query_response_time_seconds'')
        ''The number of all queries by duration they took to execute.'' [],
      NewDesc (BuildFQName namespace informationSchema ''read_query_response_time_seconds'')
        ''The number of read queries by duration they took to execute.'' [],
      NewDesc (BuildFQName namespace informationSchema ''write_query_response_time_seconds'')
        ''The number of write queries by duration they took to execute.'' []]"

record response_times =
  histogramCnt :: u64
  histogramSum :: float64
  countBuckets :: bucket

definition response_times_init :: response_times where
  "response_times_init = \<lparr>histogramCnt = 0, histogramSum = f_zero, countBuckets = []\<rparr>"

text \<open>One row. The errors of \<open>ParseFloat\<close> are dropped, so text that is no number reads as zero.\<close>

definition row_length :: "gval list \<Rightarrow> float64" where
  "row_length vs = fst (strconv_ParseFloat (strings_TrimSpace (g_str (vs ! 0))))"

definition row_total :: "gval list \<Rightarrow> float64" where
  "row_total vs = fst (strconv_ParseFloat (strings_TrimSpace (g_str (vs ! 2))))"

definition response_times_row :: "response_times \<Rightarrow> gval list \<Rightarrow> response_times" where
  "response_times_row st vs =
     (let cnt = histogramCnt st + g_u64 (vs ! 1);
          st' = st\<lparr>histogramCnt := cnt, histogramSum := f_add (histogramSum st) (row_total vs)\<rparr>
      in if f_eq (row_length vs) f_zero then st'
         else st'\<lparr>countBuckets := bucket_put (row_length vs) cnt (countBuckets st)\<rparr>)"

definition processQueryResponseTimeTable :: "string \<Rightarrow> nat \<Rightarrow> database \<Rightarrow> scrape_out" where
  "processQueryResponseTimeTable query i db =
     with_query db (i + 1) query [] (\<lambda>rs.
       case row_loop [DStr, DU64, DStr] (\<lambda>st vs. (response_times_row st vs, [], Done)) response_times_init (rs_rows rs) of
         (st, out) \<Rightarrow> and_then out
           (send_all [ConstHistogram (infoSchemaQueryResponseTimeCountDescs ! i)
                        (histogramCnt st) (histogramSum st) (countBuckets st) []]))"

text \<open>An error of one table stops the run of that table; only that of the first is returned.\<close>

definition without_error :: "scrape_out \<Rightarrow> scrape_out" where
  "without_error out = (case out of (ms, Failed e) \<Rightarrow> (ms, Done) | _ \<Rightarrow> out)"

definition ScrapeQueryResponseTime_Scrape :: "database \<Rightarrow> scrape_out" where
  "ScrapeQueryResponseTime_Scrape db =
     (case query_row db 0 queryResponseCheckQuery [DU8] of
        Inl e \<Rightarrow> ([], Done)
      | Inr vs \<Rightarrow>
          if g_u8 (vs ! 0) = 0 then ([], Done)
          else and_then (processQueryResponseTimeTable (queryResponseTimeQueries ! 0) 0 db)
                (and_then (without_error (processQueryResponseTimeTable (queryResponseTimeQueries ! 1) 1 db))
                   (without_error (processQueryResponseTimeTable (queryResponseTimeQueries ! 2) 2 db))))"

lemma response_descs_labels: "i < 3 \<Longrightarrow> var_labels (infoSchemaQueryResponseTimeCountDescs ! i) = []"
  by (auto simp: infoSchemaQueryResponseTimeCountDescs_def less_Suc_eq numeral_3_eq_3)

lemma response_loop:
  "row_loop [DStr, DU64, DStr] (\<lambda>st vs. (response_times_row st vs, [], Done)) st rows =
     (foldl response_times_row st (good_rows [DStr, DU64, DStr] rows), [],
      case first_scan_error [DStr, DU64, DStr] rows of None \<Rightarrow> Done | Some e \<Rightarrow> Failed e)"
  by (subst row_loop_pure [where nxt = response_times_row and emit = "\<lambda>_. []"]) simp_all

lemma response_table_safe: "i < 3 \<Longrightarrow> safe_out (processQueryResponseTimeTable q i db)"
  unfolding processQueryResponseTimeTable_def response_loop
  by (rule safe_run) (auto simp: metric_ok_Const response_descs_labels safe_out_def and_then_cases split: option.splits)

lemma safe_without_error: "safe_out out \<Longrightarrow> safe_out (without_error out)"
  by (auto simp: without_error_def safe_out_def split: prod.splits scrape_end.splits)

interpretation sc_query_response_time: safe_scraper ScrapeQueryResponseTime_Scrape
  unfolding ScrapeQueryResponseTime_Scrape_def
  by (rule safe_scraperI) (auto split: sum.splits intro!: safe_run safe_without_error response_table_safe)

text \<open>What the loop leaves.\<close>

lemma response_counts: "histogramCnt (foldl response_times_row st vss) = histogramCnt st + sum_list (map (\<lambda>vs. g_u64 (vs ! 1)) vss)"
  by (induction vss arbitrary: st) (simp_all add: response_times_row_def Let_def)

lemma response_sums: "histogramSum (foldl response_times_row st vss) = foldl f_add (histogramSum st) (map row_total vss)"
  by (induction vss arbitrary: st) (simp_all add: response_times_row_def Let_def)

lemma response_bucket_other:
  "\<forall>vs \<in> set vss. \<not> f_eq k (row_length vs) \<Longrightarrow>
   bucket_get k (countBuckets (foldl response_times_row st vss)) = bucket_get k (countBuckets st)"
  by (induction vss arbitrary: st) (simp_all add: response_times_row_def Let_def bkt.get_put)


definition response_time_rs :: rowset where
  "response_time_rs = \<lparr>rs_cols = Inr [], rs_rows =
     [[CBytes ''   0.000001'', CBytes ''4'', CBytes ''   0.000003''],
      [CBytes ''   0.000010'', CBytes ''5'', CBytes ''   0.000030''],
      [CBytes ''TOO LONG'', CBytes ''1'', CBytes ''TOO LONG'']], rs_err = None\<rparr>"


end
