(* ===== verification/ProcessList.thy ===== *)
theory ProcessList
  imports GenericBase "HOL-Library.List_Lexorder" "HOL-Library.Char_ord"
begin

text \<open>
  \<open>collector/info_schema_processlist.go\<close>: the threads of the server, counted by command and state,
  by host and by user. The names of commands and states are cleaned by \<open>sanitizeState\<close>, which
  replaces characters in the order Go visits a map in.
\<close>

subsection \<open>info_schema_processlist.go\<close>

definition infoSchemaProcesslistQuery :: string where
  "infoSchemaProcesslistQuery = ''
		  SELECT
		    user,
		    SUBSTRING_INDEX(host, ':', 1) AS host,
		    COALESCE(command, '' @ [CHR 0x27, CHR 0x27] @ '') AS command,
		    COALESCE(state, '' @ [CHR 0x27, CHR 0x27] @ '') AS state,
		    COUNT(*) AS processes,
		    SUM(time) AS seconds
		  FROM information_schema.processlist
		  WHERE ID != connection_id()
		    AND TIME >= %d
		  GROUP BY user, host, command, state
	''"

definition processlistCountDesc :: desc where [desc_def]:
  "processlistCountDesc = NewDesc (BuildFQName namespace informationSchema ''processlist_threads'')
     ''The number of threads split by current state.'' [''command'', ''state'']"

definition processlistTimeDesc :: desc where [desc_def]:
  "processlistTimeDesc = NewDesc (BuildFQName namespace informationSchema ''processlist_seconds'')
     ''The number of seconds threads have used split by current state.'' [''command'', ''state'']"

definition processesByUserDesc :: desc where [desc_def]:
  "processesByUserDesc = NewDesc (BuildFQName namespace informationSchema ''processlist_processes_by_user'')
     ''The number of processes by user.'' [''mysql_user'']"

definition processesByHostDesc :: desc where [desc_def]:
  "processesByHostDesc = NewDesc (BuildFQName namespace informationSchema ''processlist_processes_by_host'')
     ''The number of processes by host.'' [''client_host'']"

lemma arity_info_schema_processlist [simp, desc_arity]:
  "length (var_labels processlistCountDesc) = 2"
  "length (var_labels processlistTimeDesc) = 2"
  "length (var_labels processesByUserDesc) = 1"
  "length (var_labels processesByHostDesc) = 1"
  by (simp_all add: desc_def)

definition ScrapeProcesslist_Name :: string where "ScrapeProcesslist_Name = informationSchema @ ''.processlist''"

definition ScrapeProcesslist_Help :: string where "ScrapeProcesslist_Help = ''Collect current thread state counts from the information_schema.processlist''"

definition ScrapeProcesslist_Version :: float64 where "ScrapeProcesslist_Version = f_lit 51 1"


section \<open>sanitizeState\<close>

definition state_replacements :: "(string \<times> string) list" where
  "state_replacements =
     [('';'', []), ('','', []), ('':'', []), (''.'', []), (''('', []), ('')'', []), ('' '', ''_''), (''-'', ''_'')]"

text \<open>\<open>n\<close> is the number of the visit: Go chooses the order of each \<open>range\<close> anew.\<close>

definition sanitizeState :: "string range_order \<Rightarrow> nat \<Rightarrow> string \<Rightarrow> string" where
  "sanitizeState ord n state =
     replace_all state_replacements (ord n (map fst state_replacements))
       (strings_ToLower (if state = [] then ''unknown'' else state))"

interpretation state_reps: char_replacements state_replacements
  by unfold_locales (auto simp: state_replacements_def)

text \<open>Lower case, without punctuation, blanks and dashes as underscores.\<close>

definition plain_state :: "string \<Rightarrow> string" where
  "plain_state s =
     map (\<lambda>c. if c = CHR '' '' \<or> c = CHR ''-'' then CHR ''_'' else c)
       (filter (\<lambda>c. c \<notin> set '';,:.()'') (strings_ToLower (if s = [] then ''unknown'' else s)))"

lemma state_replaced:
  "state_reps.replaced c =
     (if c \<in> set '';,:.()'' then [] else [if c = CHR '' '' \<or> c = CHR ''-'' then CHR ''_'' else c])"
  by (simp only: state_reps.replaced_def) (simp add: state_replacements_def)

lemma sanitizeState_eq: "is_range_order ord \<Longrightarrow> sanitizeState ord n s = plain_state s"
proof -
  assume ord: "is_range_order ord"
  have "concat (map state_reps.replaced t) =
    map (\<lambda>c. if c = CHR '' '' \<or> c = CHR ''-'' then CHR ''_'' else c) (filter (\<lambda>c. c \<notin> set '';,:.()'') t)" for t
    by (induction t) (auto simp: state_replaced)
  then show ?thesis by (simp only: sanitizeState_def plain_state_def state_reps.replace_all_eq [OF ord])
qed

section \<open>Scraping\<close>

record processlist_maps =
  pl_ranges :: nat    \<comment> \<open>how many times a map of replacements has been visited\<close>
  pl_counts :: nested_map
  pl_times :: nested_map
  pl_hosts :: "(string \<times> u32) list"
  pl_users :: "(string \<times> u32) list"

definition ScrapeProcesslist_dests :: "dest list" where
  "ScrapeProcesslist_dests = [DStr, DStr, DStr, DStr, DU32, DU32]"

text \<open>One row: a missing key is set to zero first, which is what a missing key reads in the model.\<close>

definition ScrapeProcesslist_step ::
    "string range_order \<Rightarrow> processlist_maps \<Rightarrow> gval list \<Rightarrow> processlist_maps \<times> scrape_out" where
  "ScrapeProcesslist_step ord st vs =
     (let user = g_str (vs ! 0);
          host = (if g_str (vs ! 1) = [] then ''unknown'' else g_str (vs ! 1));
          command = sanitizeState ord (pl_ranges st) (g_str (vs ! 2));
          state = sanitizeState ord (Suc (pl_ranges st)) (g_str (vs ! 3));
          count = g_u32 (vs ! 4);
          time = g_u32 (vs ! 5)
      in (\<lparr>pl_ranges = pl_ranges st + 2,
           pl_counts = nested_add (command, state) count (pl_counts st),
           pl_times = nested_add (command, state) time (pl_times st),
           pl_hosts = flat_add host count (pl_hosts st),
           pl_users = flat_add user count (pl_users st)\<rparr>, [], Done))"

text \<open>\<open>slices.Sorted(maps.Keys(m))\<close>\<close>

definition sorted_keys :: "(string \<times> 'v) list \<Rightarrow> string list" where
  "sorted_keys m = sort (map fst m)"

definition ScrapeProcesslist_finish :: "bool \<Rightarrow> bool \<Rightarrow> processlist_maps \<Rightarrow> metric list" where
  "ScrapeProcesslist_finish processesByHost processesByUser st =
     concat (map (\<lambda>command.
       concat (map (\<lambda>state.
         [ConstMetric processlistCountDesc GaugeValue (f_of_u32 (nested_get (command, state) (pl_counts st))) [command, state],
          ConstMetric processlistTimeDesc GaugeValue (f_of_u32 (nested_get (command, state) (pl_times st))) [command, state]])
         (sorted_keys (smap_get [] command (pl_counts st)))))
       (sorted_keys (pl_counts st))) @
     (if processesByHost
      then map (\<lambda>host. ConstMetric processesByHostDesc GaugeValue (f_of_u32 (smap_get 0 host (pl_hosts st))) [host])
             (sorted_keys (pl_hosts st))
      else []) @
     (if processesByUser
      then map (\<lambda>user. ConstMetric processesByUserDesc GaugeValue (f_of_u32 (smap_get 0 user (pl_users st))) [user])
             (sorted_keys (pl_users st))
      else [])"

definition ScrapeProcesslist_Scrape ::
    "int \<Rightarrow> bool \<Rightarrow> bool \<Rightarrow> string range_order \<Rightarrow> database \<Rightarrow> scrape_out" where
  "ScrapeProcesslist_Scrape minTime processesByHost processesByUser ord =
     loop_scrape (sprintf infoSchemaProcesslistQuery [strconv_Itoa minTime]) ScrapeProcesslist_dests
       (ScrapeProcesslist_step ord) \<lparr>pl_ranges = 0, pl_counts = [], pl_times = [], pl_hosts = [], pl_users = []\<rparr>
       (\<lambda>st. send_all (ScrapeProcesslist_finish processesByHost processesByUser st))"

lemma processlist_finish_ok: "list_all metric_ok (ScrapeProcesslist_finish byHost byUser st)"
  by (auto simp: ScrapeProcesslist_finish_def metric_ok_Const list_all_iff)

interpretation fin_processlist: finishing_scraper ScrapeProcesslist_dests "ScrapeProcesslist_step ord" "\<lambda>_. True"
  "sprintf infoSchemaProcesslistQuery [strconv_Itoa minTime]" "\<lparr>pl_ranges = 0, pl_counts = [], pl_times = [], pl_hosts = [], pl_users = []\<rparr>"
  "\<lambda>st. send_all (ScrapeProcesslist_finish byHost byUser st)" for ord minTime byHost byUser
  by unfold_locales (simp_all add: ScrapeProcesslist_step_def Let_def processlist_finish_ok send_all_ok)

section \<open>What is sent\<close>

text \<open>The keys and values of a row.\<close>

definition pl_command :: "gval list \<Rightarrow> string" where "pl_command vs = plain_state (g_str (vs ! 2))"
definition pl_state :: "gval list \<Rightarrow> string" where "pl_state vs = plain_state (g_str (vs ! 3))"
definition pl_host :: "gval list \<Rightarrow> string" where
  "pl_host vs = (if g_str (vs ! 1) = [] then ''unknown'' else g_str (vs ! 1))"
definition pl_user :: "gval list \<Rightarrow> string" where "pl_user vs = g_str (vs ! 0)"

text \<open>The sum of a column over the rows of a group, modulo \<open>2 ^ 32\<close>.\<close>

definition group_sum :: "nat \<Rightarrow> (gval list \<Rightarrow> bool) \<Rightarrow> gval list list \<Rightarrow> u32" where
  "group_sum col P vss = sum_list (map (\<lambda>vs. g_u32 (vs ! col)) (filter P vss))"

definition processlist_spec :: "bool \<Rightarrow> bool \<Rightarrow> gval list list \<Rightarrow> metric list" where
  "processlist_spec byHost byUser vss =
     concat (map (\<lambda>c. concat (map (\<lambda>s.
         (let here = (\<lambda>vs. pl_command vs = c \<and> pl_state vs = s)
          in [ConstMetric processlistCountDesc GaugeValue (f_of_u32 (group_sum 4 here vss)) [c, s],
              ConstMetric processlistTimeDesc GaugeValue (f_of_u32 (group_sum 5 here vss)) [c, s]]))
         (sorted_list_of_set {pl_state vs | vs. vs \<in> set vss \<and> pl_command vs = c})))
       (sorted_list_of_set (pl_command ` set vss))) @
     (if byHost
      then map (\<lambda>h. ConstMetric processesByHostDesc GaugeValue (f_of_u32 (group_sum 4 (\<lambda>vs. pl_host vs = h) vss)) [h])
             (sorted_list_of_set (pl_host ` set vss)) else []) @
     (if byUser
      then map (\<lambda>u. ConstMetric processesByUserDesc GaugeValue (f_of_u32 (group_sum 4 (\<lambda>vs. pl_user vs = u) vss)) [u])
             (sorted_list_of_set (pl_user ` set vss)) else [])"

lemma sorted_keys_eq: "distinct (map fst m) \<Longrightarrow> sorted_keys m = sorted_list_of_set (fst ` set m)"
  unfolding sorted_keys_def by (metis sorted_list_of_set_sort_remdups distinct_remdups_id list.set_map)

definition pl_next :: "processlist_maps \<Rightarrow> gval list \<Rightarrow> processlist_maps" where
  "pl_next st vs =
     \<lparr>pl_ranges = pl_ranges st + 2,
      pl_counts = nested_add (pl_command vs, pl_state vs) (g_u32 (vs ! 4)) (pl_counts st),
      pl_times = nested_add (pl_command vs, pl_state vs) (g_u32 (vs ! 5)) (pl_times st),
      pl_hosts = flat_add (pl_host vs) (g_u32 (vs ! 4)) (pl_hosts st),
      pl_users = flat_add (pl_user vs) (g_u32 (vs ! 4)) (pl_users st)\<rparr>"

lemma step_eq: "is_range_order ord \<Longrightarrow> ScrapeProcesslist_step ord st vs = (pl_next st vs, [], Done)"
  by (simp add: ScrapeProcesslist_step_def pl_next_def Let_def sanitizeState_eq pl_command_def pl_state_def
      pl_host_def pl_user_def)

lemma pl_fold:
  "pl_counts (foldl pl_next st vss) =
     foldl (\<lambda>m vs. nested_add (pl_command vs, pl_state vs) (g_u32 (vs ! 4)) m) (pl_counts st) vss"
  "pl_times (foldl pl_next st vss) =
     foldl (\<lambda>m vs. nested_add (pl_command vs, pl_state vs) (g_u32 (vs ! 5)) m) (pl_times st) vss"
  "pl_hosts (foldl pl_next st vss) = foldl (\<lambda>m vs. flat_add (pl_host vs) (g_u32 (vs ! 4)) m) (pl_hosts st) vss"
  "pl_users (foldl pl_next st vss) = foldl (\<lambda>m vs. flat_add (pl_user vs) (g_u32 (vs ! 4)) m) (pl_users st) vss"
  by (induction vss arbitrary: st) (simp_all add: pl_next_def)

lemma finish_spec:
  "ScrapeProcesslist_finish byHost byUser
     (foldl pl_next \<lparr>pl_ranges = 0, pl_counts = [], pl_times = [], pl_hosts = [], pl_users = []\<rparr> vss) =
   processlist_spec byHost byUser vss"
proof -
  let ?m = "foldl (\<lambda>m vs. nested_add (pl_command vs, pl_state vs) (g_u32 (vs ! 4)) m) [] vss"
  have ok: "nested_ok ?m" by (rule nested_ok_adds) simp
  have keys: "nested_keys ?m = (\<lambda>vs. (pl_command vs, pl_state vs)) ` set vss"
    by (simp add: nested.keys_adds) (simp add: nested_keys_def)
  have outer: "sorted_keys ?m = sorted_list_of_set (pl_command ` set vss)"
  proof -
    have "fst ` set ?m = pl_command ` set vss" by (simp only: nested_ok_outer [OF ok] keys image_image fst_conv)
    moreover have "distinct (map fst ?m)" using ok by (simp only: nested_ok_def)
    ultimately show ?thesis by (simp only: sorted_keys_eq)
  qed
  have inner: "sorted_keys (smap_get [] c ?m) = sorted_list_of_set {pl_state vs | vs. vs \<in> set vss \<and> pl_command vs = c}" for c
  proof -
    have "fst ` set (smap_get [] c ?m) = {s. (c, s) \<in> nested_keys ?m}" by (simp add: nested_keys_def)
    also have "\<dots> = {pl_state vs | vs. vs \<in> set vss \<and> pl_command vs = c}" unfolding keys by auto
    finally show ?thesis using ok by (subst sorted_keys_eq) (simp_all add: nested_ok_def)
  qed
  have flat: "sorted_keys (foldl (\<lambda>m vs. flat_add (f vs) (g_u32 (vs ! 4)) m) [] vss) = sorted_list_of_set (f ` set vss)" for f
    by (subst sorted_keys_eq) (simp_all add: flat_distinct_adds flat.keys_adds)
  have start: "nested_get k [] = 0" for k by (simp add: nested_get_def)
  show ?thesis
    by (simp add: ScrapeProcesslist_finish_def processlist_spec_def pl_fold outer inner flat nested.get_adds flat.get_adds
        start group_sum_def Let_def)
qed

text \<open>
  C21: when every row scans, the scraper sends, sorted by name, the number of threads and their
  seconds for each command and state the rows name after cleaning, and (when enabled) the number
  for each host and user, each the sum over the rows of that group, modulo \<open>2 ^ 32\<close>; what it sends
  does not depend on the order Go visits its maps in.
\<close>

theorem processlist_sent:
  assumes "is_range_order ord" "db 0 (sprintf infoSchemaProcesslistQuery [strconv_Itoa minTime]) [] = Inr rs"
    and "first_scan_error ScrapeProcesslist_dests (rs_rows rs) = None"
  shows "ScrapeProcesslist_Scrape minTime byHost byUser ord db =
    (processlist_spec byHost byUser (good_rows ScrapeProcesslist_dests (rs_rows rs)), Done)"
proof -
  have "ScrapeProcesslist_step ord st vs = (pl_next st vs, [], Done)" for st vs by (rule step_eq [OF assms(1)])
  then show ?thesis
    using assms(2,3) loop_scrape_eq [where db = db and q = "sprintf infoSchemaProcesslistQuery [strconv_Itoa minTime]"
        and rs = rs and ds = ScrapeProcesslist_dests and nxt = pl_next and emit = "\<lambda>_. []"
        and step = "ScrapeProcesslist_step ord"]
    by (simp add: ScrapeProcesslist_Scrape_def finish_spec send_all_ok [OF processlist_finish_ok])
qed

definition processlist_rs :: rowset where
  "processlist_rs = \<lparr>rs_cols = Inr [], rs_rows =
     [[CBytes ''app'', CBytes ''db1'', CBytes ''Query'', CBytes ''Sending data'', CBytes ''2'', CBytes ''10''],
      [CBytes ''app'', CBytes '''', CBytes ''Query'', CBytes ''sending-data.'', CBytes ''1'', CBytes ''5'']], rs_err = None\<rparr>"

theorem processlist_sent_witness:
  "is_range_order (\<lambda>_ ks. ks :: string list) \<and>
   first_scan_error ScrapeProcesslist_dests (rs_rows processlist_rs) = None \<and>
   ScrapeProcesslist_Scrape 0 True False (\<lambda>_ ks. ks) (\<lambda>_ _ _. Inr processlist_rs) =
     (processlist_spec True False (good_rows ScrapeProcesslist_dests (rs_rows processlist_rs)), Done)"
proof -
  have ord: "is_range_order (\<lambda>_ ks. ks :: string list)" by (simp add: is_range_order_def)
  have ok: "first_scan_error ScrapeProcesslist_dests (rs_rows processlist_rs) = None" by code_simp
  show ?thesis
    using ord ok processlist_sent [of "\<lambda>_ ks. ks" "\<lambda>_ _ _. Inr processlist_rs" 0 processlist_rs True False] by simp
qed

end
