(* ===== verification/ServerVariables.thy ===== *)
theory ServerVariables
  imports GenericBase
begin

text \<open>
  \<open>SHOW GLOBAL STATUS\<close> (\<open>collector/global_status.go\<close>) and \<open>SHOW GLOBAL VARIABLES\<close>
  (\<open>collector/global_variables.go\<close>): every value \<open>parseStatus\<close> reads is a metric named after its
  variable, some groups of status variables are one metric with a label, and a few text values
  are kept over the rows and become metrics at the end.
\<close>

section \<open>Names of metrics\<close>

text \<open>
  The length of the first UTF-8 sequence of a text, as \<open>utf8.DecodeRune\<close> finds it; a byte that
  begins no valid sequence counts as one.
\<close>

definition byte_in :: "nat \<Rightarrow> nat \<Rightarrow> string \<Rightarrow> nat \<Rightarrow> bool" where
  "byte_in lo hi s i \<longleftrightarrow> i < length s \<and> lo \<le> of_char (s ! i) \<and> of_char (s ! i) \<le> hi"

definition rune_len :: "string \<Rightarrow> nat" where
  "rune_len s =
     (if byte_in 0xC2 0xDF s 0 \<and> byte_in 0x80 0xBF s 1 then 2
      else if (byte_in 0xE0 0xE0 s 0 \<and> byte_in 0xA0 0xBF s 1 \<or>
               byte_in 0xE1 0xEC s 0 \<and> byte_in 0x80 0xBF s 1 \<or>
               byte_in 0xED 0xED s 0 \<and> byte_in 0x80 0x9F s 1 \<or>
               byte_in 0xEE 0xEF s 0 \<and> byte_in 0x80 0xBF s 1) \<and> byte_in 0x80 0xBF s 2 then 3
      else if (byte_in 0xF0 0xF0 s 0 \<and> byte_in 0x90 0xBF s 1 \<or>
               byte_in 0xF1 0xF3 s 0 \<and> byte_in 0x80 0xBF s 1 \<or>
               byte_in 0xF4 0xF4 s 0 \<and> byte_in 0x80 0x8F s 1) \<and> byte_in 0x80 0xBF s 2 \<and> byte_in 0x80 0xBF s 3 then 4
      else 1)"

text \<open>\<open>promNameRe.ReplaceAllString(s, "_")\<close> for \<open>([^a-zA-Z0-9_])\<close>: every character outside becomes one underscore.\<close>

definition word_char :: "char \<Rightarrow> bool" where
  "word_char c \<longleftrightarrow> is_lower c \<or> is_upper c \<or> is_digit c \<or> c = CHR ''_''"

lemma rune_len_pos: "0 < rune_len s"
  by (simp add: rune_len_def)

function replace_non_word :: "string \<Rightarrow> string" where
  "replace_non_word [] = []"
| "replace_non_word (c # s) =
     (if word_char c then c # replace_non_word s
      else CHR ''_'' # replace_non_word (drop (rune_len (c # s)) (c # s)))"
  by pat_completeness auto
termination
  by (relation "measure length") (auto simp: rune_len_pos)

definition validPrometheusName :: "string \<Rightarrow> string" where
  "validPrometheusName s = strings_ToLower (replace_non_word s)"

section \<open>global_status\<close>

definition globalStatus :: string where "globalStatus = ''global_status''"

subsection \<open>global_status.go\<close>

definition globalStatusQuery :: string where
  "globalStatusQuery = ''SHOW GLOBAL STATUS''"

definition globalCommandsDesc :: desc where [desc_def]:
  "globalCommandsDesc = NewDesc (BuildFQName namespace globalStatus ''commands_total'')
     ''Total number of executed MySQL commands.'' [''command'']"

definition globalHandlerDesc :: desc where [desc_def]:
  "globalHandlerDesc = NewDesc (BuildFQName namespace globalStatus ''handlers_total'')
     ''Total number of executed MySQL handlers.'' [''handler'']"

definition globalConnectionErrorsDesc :: desc where [desc_def]:
  "globalConnectionErrorsDesc = NewDesc (BuildFQName namespace globalStatus ''connection_errors_total'')
     ''Total number of MySQL connection errors.'' [''error'']"

definition globalBufferPoolPagesDesc :: desc where [desc_def]:
  "globalBufferPoolPagesDesc = NewDesc (BuildFQName namespace globalStatus ''buffer_pool_pages'')
     ''Innodb buffer pool pages by state.'' [''state'']"

definition globalBufferPoolDirtyPagesDesc :: desc where [desc_def]:
  "globalBufferPoolDirtyPagesDesc = NewDesc (BuildFQName namespace globalStatus ''buffer_pool_dirty_pages'')
     ''Innodb buffer pool dirty pages.'' []"

definition globalBufferPoolPageChangesDesc :: desc where [desc_def]:
  "globalBufferPoolPageChangesDesc = NewDesc (BuildFQName namespace globalStatus ''buffer_pool_page_changes_total'')
     ''Innodb buffer pool page state changes.'' [''operation'']"

definition globalInnoDBRowOpsDesc :: desc where [desc_def]:
  "globalInnoDBRowOpsDesc = NewDesc (BuildFQName namespace globalStatus ''innodb_row_ops_total'')
     ''Total number of MySQL InnoDB row operations.'' [''operation'']"

definition globalPerformanceSchemaLostDesc :: desc where [desc_def]:
  "globalPerformanceSchemaLostDesc = NewDesc (BuildFQName namespace globalStatus ''performance_schema_lost_total'')
     ''Total number of MySQL instrumentations that could not be loaded or created due to memory constraints.'' [''instrumentation'']"

lemma arity_global_status [simp, desc_arity]:
  "length (var_labels globalCommandsDesc) = 1"
  "length (var_labels globalHandlerDesc) = 1"
  "length (var_labels globalConnectionErrorsDesc) = 1"
  "length (var_labels globalBufferPoolPagesDesc) = 1"
  "length (var_labels globalBufferPoolDirtyPagesDesc) = 0"
  "length (var_labels globalBufferPoolPageChangesDesc) = 1"
  "length (var_labels globalInnoDBRowOpsDesc) = 1"
  "length (var_labels globalPerformanceSchemaLostDesc) = 1"
  by (simp_all add: desc_def)

definition ScrapeGlobalStatus_Name :: string where "ScrapeGlobalStatus_Name = globalStatus"

definition ScrapeGlobalStatus_Help :: string where "ScrapeGlobalStatus_Help = ''Collect from SHOW GLOBAL STATUS''"

definition ScrapeGlobalStatus_Version :: float64 where "ScrapeGlobalStatus_Version = f_lit 51 1"

definition globalStatusRE :: re where
  "globalStatusRE = word_rest_re [] [''com'', ''handler'', ''connection_errors'', ''innodb_buffer_pool_pages'',
     ''innodb_rows'', ''performance_schema'']"

definition global_status_metric :: "string \<Rightarrow> float64 \<Rightarrow> metric list" where
  "global_status_metric key floatVal =
     (case re_find globalStatusRE key of
        None \<Rightarrow>
          [ConstMetric (newDesc globalStatus key ''Generic metric from SHOW GLOBAL STATUS.'') UntypedValue floatVal []]
      | Some m \<Rightarrow>
         (let group = submatch m 1; rest = submatch m 2 in
          if group = ''com'' then [ConstMetric globalCommandsDesc CounterValue floatVal [rest]]
          else if group = ''handler'' then [ConstMetric globalHandlerDesc CounterValue floatVal [rest]]
          else if group = ''connection_errors'' then [ConstMetric globalConnectionErrorsDesc CounterValue floatVal [rest]]
          else if group = ''innodb_buffer_pool_pages'' then
            (if rest \<in> {''data'', ''free'', ''misc'', ''old''}
             then [ConstMetric globalBufferPoolPagesDesc GaugeValue floatVal [rest]]
             else if rest = ''dirty'' then [ConstMetric globalBufferPoolDirtyPagesDesc GaugeValue floatVal []]
             else if rest = ''total'' then []
             else [ConstMetric globalBufferPoolPageChangesDesc CounterValue floatVal [rest]])
          else if group = ''innodb_rows'' then [ConstMetric globalInnoDBRowOpsDesc CounterValue floatVal [rest]]
          else if group = ''performance_schema'' then [ConstMetric globalPerformanceSchemaLostDesc CounterValue floatVal [rest]]
          else []))"

type_synonym text_items = "(string \<times> string) list"

text \<open>\<open>if _, ok := textItems[key]; ok { textItems[key] = string(val) }\<close>\<close>

definition set_text :: "string \<Rightarrow> string \<Rightarrow> text_items \<Rightarrow> text_items" where
  "set_text key val items = (if key \<in> set (map fst items) then smap_put key val items else items)"

definition status_items :: text_items where
  "status_items = [(''wsrep_local_state_uuid'', []), (''wsrep_cluster_state_uuid'', []),
     (''wsrep_provider_version'', []), (''wsrep_evs_repl_latency'', [])]"

definition ScrapeGlobalStatus_dests :: "dest list" where
  "ScrapeGlobalStatus_dests = [DStr, DRaw]"

definition ScrapeGlobalStatus_step :: "zone_db \<Rightarrow> text_items \<Rightarrow> gval list \<Rightarrow> text_items \<times> scrape_out" where
  "ScrapeGlobalStatus_step tz textItems vs =
     (let key = g_str (vs ! 0); val = g_str (vs ! 1) in
      case parseStatus tz val of
        (floatVal, True) \<Rightarrow> (textItems, send_all (global_status_metric (validPrometheusName key) floatVal))
      | (_, False) \<Rightarrow> (set_text key val textItems, ([], Done)))"

definition evsMap :: "(string \<times> string) list" where
  "evsMap =
     [(''min_seconds'', ''PXC/Galera group communication latency. Min value.''),
      (''avg_seconds'', ''PXC/Galera group communication latency. Avg value.''),
      (''max_seconds'', ''PXC/Galera group communication latency. Max value.''),
      (''stdev'', ''PXC/Galera group communication latency. Standard Deviation.''),
      (''sample_size'', ''PXC/Galera group communication latency. Sample Size.'')]"

text \<open>The five latencies are sent together or not at all.\<close>

definition evs_metrics :: "string \<Rightarrow> metric list" where
  "evs_metrics text =
     (let values = strings_Split text ''/''; parsed = map strconv_ParseFloat values in
      if length evsMap = length values \<and> list_all (\<lambda>p. snd p = None) parsed
      then map (\<lambda>((name, help), p).
              ConstMetric (NewDesc (BuildFQName namespace ''galera_evs_repl_latency'' name) help []) GaugeValue (fst p) [])
             (zip evsMap parsed)
      else [])"

definition ScrapeGlobalStatus_finish :: "text_items \<Rightarrow> metric list" where
  "ScrapeGlobalStatus_finish items =
     (if smap_get [] ''wsrep_local_state_uuid'' items \<noteq> []
      then [ConstMetric
              (NewDesc (BuildFQName namespace ''galera'' ''status_info'') ''PXC/Galera status information.''
                 [''wsrep_local_state_uuid'', ''wsrep_cluster_state_uuid'', ''wsrep_provider_version''])
              GaugeValue f_one
              [smap_get [] ''wsrep_local_state_uuid'' items, smap_get [] ''wsrep_cluster_state_uuid'' items,
               smap_get [] ''wsrep_provider_version'' items]]
      else []) @
     (if smap_get [] ''wsrep_evs_repl_latency'' items \<noteq> []
      then evs_metrics (smap_get [] ''wsrep_evs_repl_latency'' items) else [])"

definition ScrapeGlobalStatus_Scrape :: "zone_db \<Rightarrow> database \<Rightarrow> scrape_out" where
  "ScrapeGlobalStatus_Scrape tz =
     loop_scrape globalStatusQuery ScrapeGlobalStatus_dests (ScrapeGlobalStatus_step tz) status_items
       (\<lambda>items. send_all (ScrapeGlobalStatus_finish items))"

lemma global_status_metric_ok: "list_all metric_ok (global_status_metric key x)"
  by (simp add: global_status_metric_def Let_def metric_ok_Const newDesc_def split: option.splits)

lemma evs_metrics_ok: "list_all metric_ok (evs_metrics t)"
  by (auto simp: evs_metrics_def Let_def metric_ok_Const list_all_iff)

lemma global_status_finish_ok: "list_all metric_ok (ScrapeGlobalStatus_finish items)"
  by (simp add: ScrapeGlobalStatus_finish_def metric_ok_Const evs_metrics_ok)

interpretation fin_global_status: finishing_scraper ScrapeGlobalStatus_dests "ScrapeGlobalStatus_step tz" "\<lambda>_. True"
  globalStatusQuery status_items "\<lambda>items. send_all (ScrapeGlobalStatus_finish items)" for tz
  by unfold_locales
    (simp_all add: ScrapeGlobalStatus_step_def Let_def send_all_ok global_status_metric_ok global_status_finish_ok
      split: prod.splits bool.splits)

section \<open>global_variables\<close>

definition globalVariables :: string where "globalVariables = ''global_variables''"

subsection \<open>global_variables.go\<close>

definition globalVariablesQuery :: string where
  "globalVariablesQuery = ''SHOW GLOBAL VARIABLES''"

definition ScrapeGlobalVariables_Name :: string where "ScrapeGlobalVariables_Name = globalVariables"

definition ScrapeGlobalVariables_Help :: string where "ScrapeGlobalVariables_Help = ''Collect from SHOW GLOBAL VARIABLES''"

definition ScrapeGlobalVariables_Version :: float64 where "ScrapeGlobalVariables_Version = f_lit 51 1"

definition globalVariablesHelp :: "(string \<times> string) list" where
  "globalVariablesHelp =
     [(''rocksdb_access_hint_on_compaction_start'', ''File access pattern once a compaction is started, applied to all input files of a compaction.''),
      (''rocksdb_advise_random_on_open'', ''Hint of random access to the filesystem when a data file is opened.''),
      (''rocksdb_allow_concurrent_memtable_write'', ''Allow multi-writers to update memtables in parallel.''),
      (''rocksdb_allow_mmap_reads'', ''Allow the OS to mmap a data file for reads.''),
      (''rocksdb_allow_mmap_writes'', ''Allow the OS to mmap a data file for writes.''),
      (''rocksdb_block_cache_size'', ''Size of the LRU block cache in RocksDB. This memory is reserved for the block cache, which is in addition to any filesystem caching that may occur.''),
      (''rocksdb_block_restart_interval'', ''Number of keys for each set of delta encoded data.''),
      (''rocksdb_block_size_deviation'', ''If the percentage of free space in the current data block (size specified in rocksdb-block-size) is less than this amount, close the block (and write record to new block).''),
      (''rocksdb_block_size'', ''Size of the data block for reading sst files.''),
      (''rocksdb_bulk_load_size'', ''Sets the number of keys to accumulate before committing them to the storage engine during bulk loading.''),
      (''rocksdb_bulk_load'', ''When set, MyRocks will ignore checking keys for uniqueness or acquiring locks during transactions. This option should only be used when the application is certain there are no row conflicts, such as when setting up a new MyRocks instance from an existing MySQL dump.''),
      (''rocksdb_bytes_per_sync'', ''Enables the OS to sync out file writes as data files are created.''),
      (''rocksdb_cache_index_and_filter_blocks'', ''Requests RocksDB to use the block cache for caching the index and bloomfilter data blocks from each data file. If this is not set, RocksDB will allocate additional memory to maintain these data blocks.''),
      (''rocksdb_checksums_pct'', ''Sets the percentage of rows to calculate and set MyRocks checksums.''),
      (''rocksdb_collect_sst_properties'', ''Enables collecting statistics of each data file for improving optimizer behavior.''),
      (''rocksdb_commit_in_the_middle'', ''Commit rows implicitly every rocksdb-bulk-load-size, during bulk load/insert/update/deletes.''),
      (''rocksdb_compaction_readahead_size'', ''When non-zero, bigger reads are performed during compaction. Useful if running RocksDB on spinning disks, compaction will do sequential instead of random reads.''),
      (''rocksdb_compaction_sequential_deletes_count_sd'', ''If enabled, factor in single deletes as part of rocksdb-compaction-sequential-deletes.''),
      (''rocksdb_compaction_sequential_deletes_file_size'', ''Threshold to trigger compaction if the number of sequential keys that are all delete markers exceed this value. While this compaction helps reduce request latency by removing delete markers, it can increase write rates of RocksDB.''),
      (''rocksdb_compaction_sequential_deletes_window'', ''Threshold to trigger compaction if, within a sliding window of keys, there exists this parameter's number of delete marker.''),
      (''rocksdb_compaction_sequential_deletes'', ''Enables triggering of compaction when the number of delete markers in a data file exceeds a certain threshold. Depending on workload patterns, RocksDB can potentially maintain large numbers of delete markers and increase latency of all queries.''),
      (''rocksdb_create_if_missing'', ''Allows creating the RocksDB database if it does not exist.''),
      (''rocksdb_create_missing_column_families'', ''Allows creating new column families if they did not exist.''),
      (''rocksdb_db_write_buffer_size'', ''Size of the memtable used to store writes within RocksDB. This is the size per column family. Once this size is reached, a flush of the memtable to persistent media occurs.''),
      (''rocksdb_deadlock_detect'', ''Enables deadlock detection in RocksDB.''),
      (''rocksdb_debug_optimizer_no_zero_cardinality'', ''Test only to prevent MyRocks from calculating cardinality.''),
      (''rocksdb_delayed_write_rate'', ''When RocksDB hits the soft limits/thresholds for writes, such as soft_pending_compaction_bytes_limit being hit, or level0_slowdown_writes_trigger being hit, RocksDB will slow the write rate down to the value of this parameter as bytes/second.''),
      (''rocksdb_delete_obsolete_files_period_micros'', ''The periodicity of when obsolete files get deleted, but does not affect files removed through compaction.''),
      (''rocksdb_enable_bulk_load_api'', ''Enables using the SSTFileWriter feature in RocksDB, which bypasses the memtable, but this requires keys to be inserted into the table in either ascending or descending order. If disabled, bulk loading uses the normal write path via the memtable and does not keys to be inserted in any order.''),
      (''rocksdb_enable_thread_tracking'', ''Set to allow RocksDB to track the status of threads accessing the database.''),
      (''rocksdb_enable_write_thread_adaptive_yield'', ''Set to allow RocksDB write batch group leader to wait up to the max time allowed before blocking on a mutex, allowing an increase in throughput for concurrent workloads.''),
      (''rocksdb_error_if_exists'', ''If set, reports an error if an existing database already exists.''),
      (''rocksdb_flush_log_at_trx_commit'', ''Sync'ing on transaction commit similar to innodb-flush-log-at-trx-commit: 0 - never sync, 1 - always sync, 2 - sync based on a timer controlled via rocksdb-background-sync''),
      (''rocksdb_flush_memtable_on_analyze'', ''When analyze table is run, determines of the memtable should be flushed so that data in the memtable is also used for calculating stats.''),
      (''rocksdb_force_compute_memtable_stats'', ''When enabled, also include data in the memtables for index statistics calculations used by the query optimizer. Greater accuracy, but requires more cpu.''),
      (''rocksdb_force_flush_memtable_now'', ''Triggers MyRocks to flush the memtables out to the data files.''),
      (''rocksdb_force_index_records_in_range'', ''When force index is used, a non-zero value here will be used as the number of rows to be returned to the query optimizer when trying to determine the estimated number of rows.''),
      (''rocksdb_hash_index_allow_collision'', ''Enables RocksDB to allow hashes to collide (uses less memory). Otherwise, the full prefix is stored to prevent hash collisions.''),
      (''rocksdb_keep_log_file_num'', ''Sets the maximum number of info LOG files to keep around.''),
      (''rocksdb_lock_scanned_rows'', ''If enabled, rows that are scanned during UPDATE remain locked even if they have not been updated.''),
      (''rocksdb_lock_wait_timeout'', ''Sets the number of seconds MyRocks will wait to acquire a row lock before aborting the request.''),
      (''rocksdb_log_file_time_to_roll'', ''Sets the number of seconds a info LOG file captures before rolling to a new LOG file.''),
      (''rocksdb_manifest_preallocation_size'', ''Sets the number of bytes to preallocate for the MANIFEST file in RocksDB and reduce possible random I/O on XFS. MANIFEST files are used to store information about column families, levels, active files, etc.''),
      (''rocksdb_max_open_files'', ''Sets a limit on the maximum number of file handles opened by RocksDB.''),
      (''rocksdb_max_row_locks'', ''Sets a limit on the maximum number of row locks held by a transaction before failing it.''),
      (''rocksdb_max_subcompactions'', ''For each compaction job, the maximum threads that will work on it simultaneously (i.e. subcompactions). A value of 1 means no subcompactions.''),
      (''rocksdb_max_total_wal_size'', ''Sets a limit on the maximum size of WAL files kept around. Once this limit is hit, RocksDB will force the flushing of memtables to reduce the size of WAL files.''),
      (''rocksdb_merge_buf_size'', ''Size (in bytes) of the merge buffers used to accumulate data during secondary key creation. During secondary key creation the data, we avoid updating the new indexes through the memtable and L0 by writing new entries directly to the lowest level in the database. This requires the values to be sorted so we use a merge/sort algorithm. This setting controls how large the merge buffers are. The default is 64Mb.''),
      (''rocksdb_merge_combine_read_size'', ''Size (in bytes) of the merge combine buffer used in the merge/sort algorithm as described in rocksdb-merge-buf-size.''),
      (''rocksdb_new_table_reader_for_compaction_inputs'', ''Indicates whether RocksDB should create a new file descriptor and table reader for each compaction input. Doing so may use more memory but may allow pre-fetch options to be specified for compaction input files without impacting table readers used for user queries.''),
      (''rocksdb_no_block_cache'', ''Disables using the block cache for a column family.''),
      (''rocksdb_paranoid_checks'', ''Forces RocksDB to re-read a data file that was just created to verify correctness.''),
      (''rocksdb_pause_background_work'', ''Test only to start and stop all background compactions within RocksDB.''),
      (''rocksdb_perf_context_level'', ''Sets the level of information to capture via the perf context plugins.''),
      (''rocksdb_persistent_cache_size_mb'', ''The size (in Mb) to allocate to the RocksDB persistent cache if desired.''),
      (''rocksdb_pin_l0_filter_and_index_blocks_in_cache'', ''If rocksdb-cache-index-and-filter-blocks is true then this controls whether RocksDB 'pins' the filter and index blocks in the cache.''),
      (''rocksdb_print_snapshot_conflict_queries'', ''If this is true, MyRocks will log queries that generate snapshot conflicts into the .err log.''),
      (''rocksdb_rate_limiter_bytes_per_sec'', ''Controls the rate at which RocksDB is allowed to write to media via memtable flushes and compaction.''),
      (''rocksdb_records_in_range'', ''Test only to override the value returned by records-in-range.''),
      (''rocksdb_seconds_between_stat_computes'', ''Sets the number of seconds between recomputation of table statistics for the optimizer.''),
      (''rocksdb_signal_drop_index_thread'', ''Test only to signal the MyRocks drop index thread.''),
      (''rocksdb_skip_bloom_filter_on_read'', ''Indicates whether the bloom filters should be skipped on reads.''),
      (''rocksdb_skip_fill_cache'', ''Requests MyRocks to skip caching data on read requests.''),
      (''rocksdb_stats_dump_period_sec'', ''Sets the number of seconds to perform a RocksDB stats dump to the info LOG files.''),
      (''rocksdb_store_row_debug_checksums'', ''Include checksums when writing index/table records.''),
      (''rocksdb_strict_collation_check'', ''Enables MyRocks to check and verify table indexes have the proper collation settings.''),
      (''rocksdb_table_cache_numshardbits'', ''Sets the number of table caches within RocksDB.''),
      (''rocksdb_use_adaptive_mutex'', ''Enables adaptive mutexes in RocksDB which spins in user space before resorting to the kernel.''),
      (''rocksdb_use_direct_reads'', ''Enable direct IO when opening a file for read/write. This means that data will not be cached or buffered.''),
      (''rocksdb_use_fsync'', ''Requires RocksDB to use fsync instead of fdatasync when requesting a sync of a data file.''),
      (''rocksdb_validate_tables'', ''Requires MyRocks to verify all of MySQL's .frm files match tables stored in RocksDB.''),
      (''rocksdb_verify_row_debug_checksums'', ''Verify checksums when reading index/table records.''),
      (''rocksdb_wal_bytes_per_sync'', ''Controls the rate at which RocksDB writes out WAL file data.''),
      (''rocksdb_wal_recovery_mode'', ''Sets RocksDB's level of tolerance when recovering the WAL files after a system crash.''),
      (''rocksdb_wal_size_limit_mb'', ''Maximum size the RocksDB WAL is allow to grow to. When this size is exceeded rocksdb attempts to flush sufficient memtables to allow for the deletion of the oldest log.''),
      (''rocksdb_wal_ttl_seconds'', ''No WAL file older than this value should exist.''),
      (''rocksdb_whole_key_filtering'', ''Enables the bloomfilter to use the whole key for filtering instead of just the prefix. In order for this to be efficient, lookups should use the whole key for matching.''),
      (''rocksdb_write_disable_wal'', ''Disables logging data to the WAL files. Useful for bulk loading.''),
      (''rocksdb_write_ignore_missing_column_families'', ''If 1, then writes to column families that do not exist is ignored by RocksDB.'')]"

definition wsrespGcacheSizeRe :: re where
  \<comment> \<open>\<open>gcache.size = (\d+)([MG]?);\<close>\<close>
  "wsrespGcacheSizeRe = seqs [Lit ''gcache'', DotC, Lit ''size = '', Cap 1 (Plus DigitC),
     Cap 2 (Opt (Cls (\<lambda>c. c = CHR ''M'' \<or> c = CHR ''G''))), Lit '';'']"

definition parseWsrepProviderOptions :: "string \<Rightarrow> float64" where
  "parseWsrepProviderOptions opts =
     (case re_find wsrespGcacheSizeRe opts of
        None \<Rightarrow> f_zero
      | Some data \<Rightarrow>
         (let val = fst (strconv_ParseFloat (submatch data 1)); k = f_of_int 1024 in
          if submatch data 2 = ''M'' then f_mul (f_mul val k) k
          else if submatch data 2 = ''G'' then f_mul (f_mul (f_mul val k) k) k
          else val))"

definition variable_items :: text_items where
  "variable_items = [(''innodb_version'', []), (''version'', []), (''version_comment'', []),
     (''wsrep_cluster_name'', []), (''wsrep_provider_options'', []), (''tx_isolation'', []),
     (''transaction_isolation'', [])]"

definition ScrapeGlobalVariables_dests :: "dest list" where
  "ScrapeGlobalVariables_dests = [DStr, DRaw]"

definition global_variable_metric :: "string \<Rightarrow> float64 \<Rightarrow> metric" where
  "global_variable_metric key floatVal =
     (let known = smap_get [] key globalVariablesHelp;
          help = (if known = [] then ''Generic gauge metric from SHOW GLOBAL VARIABLES.'' else known)
      in ConstMetric (newDesc globalVariables key help) GaugeValue floatVal [])"

definition ScrapeGlobalVariables_step :: "zone_db \<Rightarrow> text_items \<Rightarrow> gval list \<Rightarrow> text_items \<times> scrape_out" where
  "ScrapeGlobalVariables_step tz textItems vs =
     (let key = validPrometheusName (g_str (vs ! 0)); val = g_str (vs ! 1) in
      case parseStatus tz val of
        (floatVal, True) \<Rightarrow> (textItems, send_all [global_variable_metric key floatVal])
      | (_, False) \<Rightarrow> (set_text key val textItems, ([], Done)))"

definition ScrapeGlobalVariables_finish :: "text_items \<Rightarrow> metric list" where
  "ScrapeGlobalVariables_finish items =
     (let text = (\<lambda>k. smap_get [] k items) in
      [ConstMetric
         (NewDesc (BuildFQName namespace ''version'' ''info'') ''MySQL version and distribution.''
            [''innodb_version'', ''version'', ''version_comment''])
         GaugeValue f_one [text ''innodb_version'', text ''version'', text ''version_comment'']] @
      (if text ''wsrep_cluster_name'' \<noteq> []
       then [ConstMetric
               (NewDesc (BuildFQName namespace ''galera'' ''variables_info'') ''PXC/Galera variables information.''
                  [''wsrep_cluster_name'']) GaugeValue f_one [text ''wsrep_cluster_name'']]
       else []) @
      (if text ''wsrep_provider_options'' \<noteq> []
       then [ConstMetric (newDesc ''galera'' ''gcache_size_bytes'' ''PXC/Galera gcache size.'') GaugeValue
               (parseWsrepProviderOptions (text ''wsrep_provider_options'')) []]
       else []) @
      (if text ''transaction_isolation'' \<noteq> [] \<or> text ''tx_isolation'' \<noteq> []
       then (let level = (if text ''transaction_isolation'' = [] then text ''tx_isolation'' else text ''transaction_isolation'')
             in [ConstMetric
                   (NewDesc (BuildFQName namespace ''transaction'' ''isolation'') ''MySQL transaction isolation.'' [''level''])
                   GaugeValue f_one [level]])
       else []))"

definition ScrapeGlobalVariables_Scrape :: "zone_db \<Rightarrow> database \<Rightarrow> scrape_out" where
  "ScrapeGlobalVariables_Scrape tz =
     loop_scrape globalVariablesQuery ScrapeGlobalVariables_dests (ScrapeGlobalVariables_step tz) variable_items
       (\<lambda>items. send_all (ScrapeGlobalVariables_finish items))"

lemma global_variables_finish_ok: "list_all metric_ok (ScrapeGlobalVariables_finish items)"
  by (simp add: ScrapeGlobalVariables_finish_def Let_def metric_ok_Const newDesc_def)

lemma global_variable_metric_ok: "metric_ok (global_variable_metric key x)"
  by (simp add: global_variable_metric_def Let_def metric_ok_Const newDesc_def)

interpretation fin_global_variables: finishing_scraper ScrapeGlobalVariables_dests "ScrapeGlobalVariables_step tz" "\<lambda>_. True"
  globalVariablesQuery variable_items "\<lambda>items. send_all (ScrapeGlobalVariables_finish items)" for tz
  by unfold_locales
    (simp_all add: ScrapeGlobalVariables_step_def Let_def send_all_ok global_variable_metric_ok global_variables_finish_ok
      split: prod.splits bool.splits)

section \<open>Well-formed names\<close>

definition plain_name_char :: "char \<Rightarrow> bool" where
  "plain_name_char c \<longleftrightarrow> is_lower c \<or> is_digit c \<or> c = CHR ''_''"

lemma word_chars: "list_all word_char (replace_non_word s)"
  by (induction s rule: replace_non_word.induct) (simp_all add: word_char_def)

lemma lower_word_char: "word_char c \<Longrightarrow> plain_name_char (lower_char c)"
  by (auto simp: word_char_def plain_name_char_def lower_char_def is_upper_def is_lower_def is_digit_def)

lemma plain_word: "list_all plain_name_char s \<Longrightarrow> replace_non_word s = s"
  by (induction s) (auto simp: word_char_def plain_name_char_def)

lemma plain_lower: "list_all plain_name_char s \<Longrightarrow> strings_ToLower s = s"
  by (induction s)
    (auto simp: strings_ToLower_def plain_name_char_def lower_char_def is_upper_def is_lower_def is_digit_def)

lemma valid_name_plain: "list_all plain_name_char (validPrometheusName s)"
  using word_chars [of s] lower_word_char by (auto simp: validPrometheusName_def strings_ToLower_def list_all_iff)

text \<open>
  C35: the name made of a variable consists of lower-case letters, digits and underscores only,
  whatever bytes the server sends, so its metric name is valid; a name that is already of that
  form is kept, and cleaning a name twice changes nothing.
\<close>

theorem valid_prometheus_name:
  "list_all plain_name_char (validPrometheusName s) \<and>
   (validPrometheusName s = s \<longleftrightarrow> list_all plain_name_char s) \<and>
   validPrometheusName (validPrometheusName s) = validPrometheusName s"
proof -
  have keep: "list_all plain_name_char t \<Longrightarrow> validPrometheusName t = t" for t
    by (simp add: validPrometheusName_def plain_word plain_lower)
  from valid_name_plain [of s] keep [of s] keep [OF valid_name_plain] show ?thesis by metis
qed

lemma valid_name_one_line: "CHR 0x0A \<notin> set (validPrometheusName s)"
  using valid_name_plain [of s]
  by (auto simp: list_all_iff plain_name_char_def is_lower_def is_digit_def)

section \<open>What global_status sends\<close>

text \<open>The groups by the front of the name, and what each makes of the rest.\<close>

definition status_groups :: "(string \<times> (string \<Rightarrow> float64 \<Rightarrow> metric list)) list" where
  "status_groups =
     [(''com_'', \<lambda>c x. [ConstMetric globalCommandsDesc CounterValue x [c]]),
      (''handler_'', \<lambda>h x. [ConstMetric globalHandlerDesc CounterValue x [h]]),
      (''connection_errors_'', \<lambda>e x. [ConstMetric globalConnectionErrorsDesc CounterValue x [e]]),
      (''innodb_buffer_pool_pages_'', \<lambda>s x.
         if s \<in> {''data'', ''free'', ''misc'', ''old''} then [ConstMetric globalBufferPoolPagesDesc GaugeValue x [s]]
         else if s = ''dirty'' then [ConstMetric globalBufferPoolDirtyPagesDesc GaugeValue x []]
         else if s = ''total'' then []
         else [ConstMetric globalBufferPoolPageChangesDesc CounterValue x [s]]),
      (''innodb_rows_'', \<lambda>p x. [ConstMetric globalInnoDBRowOpsDesc CounterValue x [p]]),
      (''performance_schema_'', \<lambda>i x. [ConstMetric globalPerformanceSchemaLostDesc CounterValue x [i]])]"

definition status_spec :: "string \<Rightarrow> float64 \<Rightarrow> metric list" where
  "status_spec key x =
     (case find (\<lambda>(p, f). strings_HasPrefix key p) status_groups of
        Some (p, f) \<Rightarrow> f (drop (length p) key) x
      | None \<Rightarrow> [ConstMetric (newDesc globalStatus key ''Generic metric from SHOW GLOBAL STATUS.'') UntypedValue x []])"

lemma after_prefix_one_line:
  "CHR 0x0A \<notin> set s \<Longrightarrow> after_prefix p s = (if strings_HasPrefix s p then Some (drop (length p) s) else None)"
  by (auto simp: after_prefix_def dest: in_set_dropD)

lemma global_status_metric_spec: "CHR 0x0A \<notin> set key \<Longrightarrow> global_status_metric key x = status_spec key x"
  by (simp add: global_status_metric_def status_spec_def status_groups_def globalStatusRE_def re_find_words
      after_prefix_one_line)

text \<open>The text of a key: that of the last row whose value is no number.\<close>

definition last_text :: "zone_db \<Rightarrow> gval list list \<Rightarrow> string \<Rightarrow> string" where
  "last_text tz vss k =
     (case rev (filter (\<lambda>vs. g_str (vs ! 0) = k \<and> \<not> snd (parseStatus tz (g_str (vs ! 1)))) vss) of
        [] \<Rightarrow> [] | vs # _ \<Rightarrow> g_str (vs ! 1))"

definition status_next :: "zone_db \<Rightarrow> text_items \<Rightarrow> gval list \<Rightarrow> text_items" where
  "status_next tz items vs =
     (if snd (parseStatus tz (g_str (vs ! 1))) then items else set_text (g_str (vs ! 0)) (g_str (vs ! 1)) items)"

definition status_emit :: "zone_db \<Rightarrow> gval list \<Rightarrow> metric list" where
  "status_emit tz vs =
     (case parseStatus tz (g_str (vs ! 1)) of
        (x, True) \<Rightarrow> status_spec (validPrometheusName (g_str (vs ! 0))) x
      | (_, False) \<Rightarrow> [])"

lemma status_step_eq: "ScrapeGlobalStatus_step tz items vs = (status_next tz items vs, status_emit tz vs, Done)"
  using global_status_metric_ok
  by (auto simp: ScrapeGlobalStatus_step_def status_next_def status_emit_def Let_def send_all_ok
      global_status_metric_spec [OF valid_name_one_line, symmetric] split: prod.splits bool.splits)

lemma set_text_keys: "map fst (set_text k v items) = map fst items"
proof -
  have "k \<in> set (map fst items) \<Longrightarrow> map fst (smap_put k v items) = map fst items"
    by (induction k v items rule: smap_put.induct) auto
  then show ?thesis by (simp add: set_text_def)
qed

lemma status_items_after:
  assumes "k \<in> set (map fst items)" "smap_get [] k items = []"
  shows "smap_get [] k (foldl (status_next tz) items vss) = last_text tz vss k \<and>
    map fst (foldl (status_next tz) items vss) = map fst items"
proof (induction vss rule: rev_induct)
  case Nil
  with assms show ?case by (simp add: last_text_def)
next
  case (snoc vs vss)
  with assms show ?case
    by (auto simp: status_next_def last_text_def set_text_keys, auto simp: set_text_def smap.get_put)
qed

lemma status_finish_cong:
  assumes "\<And>k. k \<in> set (map fst status_items) \<Longrightarrow> smap_get [] k items = smap_get [] k items'"
  shows "ScrapeGlobalStatus_finish items = ScrapeGlobalStatus_finish items'"
  using assms by (simp add: ScrapeGlobalStatus_finish_def status_items_def)

text \<open>
  C19: when every row of \<open>SHOW GLOBAL STATUS\<close> scans, each number is sent once: under the metric of
  its group when the cleaned name begins with one of the six group names, with the rest as the
  label and buffer pool pages by state, and under its own name otherwise. Galera's texts follow,
  each the last one of its key that is no number, the latencies only when all five parse.
\<close>

theorem global_status_sent:
  assumes "db 0 globalStatusQuery [] = Inr rs" "first_scan_error [DStr, DRaw] (rs_rows rs) = None"
  shows "ScrapeGlobalStatus_Scrape tz db =
    (let vss = good_rows [DStr, DRaw] (rs_rows rs) in
     (concat (map (status_emit tz) vss) @
      ScrapeGlobalStatus_finish (map (\<lambda>k. (k, last_text tz vss k)) (map fst status_items)), Done))"
proof -
  let ?vss = "good_rows [DStr, DRaw] (rs_rows rs)"
  have "ScrapeGlobalStatus_finish (foldl (status_next tz) status_items ?vss) =
      ScrapeGlobalStatus_finish (map (\<lambda>k. (k, last_text tz ?vss k)) (map fst status_items))"
    by (rule status_finish_cong) (auto simp: status_items_after [THEN conjunct1] status_items_def)
  then show ?thesis
    using assms loop_scrape_eq [where db = db and q = globalStatusQuery and rs = rs and ds = "[DStr, DRaw]"
        and step = "ScrapeGlobalStatus_step tz" and nxt = "status_next tz" and emit = "status_emit tz"]
    by (simp add: ScrapeGlobalStatus_Scrape_def ScrapeGlobalStatus_dests_def status_step_eq send_all_ok
        global_status_finish_ok Let_def)
qed

definition status_rs :: rowset where
  "status_rs = \<lparr>rs_cols = Inr [], rs_rows =
     [[CBytes ''Com_select'', CBytes ''12''], [CBytes ''Innodb_buffer_pool_pages_total'', CBytes ''8''],
      [CBytes ''Uptime'', CBytes ''99''], [CBytes ''wsrep_local_state_uuid'', CBytes ''6c06e583'']], rs_err = None\<rparr>"

theorem global_status_sent_witness:
  "ScrapeGlobalStatus_Scrape (\<lambda>_ _. None) (\<lambda>_ _ _. Inr status_rs) =
    ([ConstMetric globalCommandsDesc CounterValue (f_of_int 12) [''select''],
      ConstMetric (newDesc globalStatus ''uptime'' ''Generic metric from SHOW GLOBAL STATUS.'') UntypedValue (f_of_int 99) [],
      ConstMetric
        (NewDesc (BuildFQName namespace ''galera'' ''status_info'') ''PXC/Galera status information.''
           [''wsrep_local_state_uuid'', ''wsrep_cluster_state_uuid'', ''wsrep_provider_version''])
        GaugeValue f_one [''6c06e583'', [], []]], Done)"
proof -
  have e: "first_scan_error [DStr, DRaw] (rs_rows status_rs) = None" by code_simp
  have v: "(let vss = good_rows [DStr, DRaw] (rs_rows status_rs) in
     (concat (map (status_emit (\<lambda>_ _. None)) vss) @
      ScrapeGlobalStatus_finish (map (\<lambda>k. (k, last_text (\<lambda>_ _. None) vss k)) (map fst status_items)), Done)) =
    ([ConstMetric globalCommandsDesc CounterValue (f_of_int 12) [''select''],
      ConstMetric (newDesc globalStatus ''uptime'' ''Generic metric from SHOW GLOBAL STATUS.'') UntypedValue (f_of_int 99) [],
      ConstMetric
        (NewDesc (BuildFQName namespace ''galera'' ''status_info'') ''PXC/Galera status information.''
           [''wsrep_local_state_uuid'', ''wsrep_cluster_state_uuid'', ''wsrep_provider_version''])
        GaugeValue f_one [''6c06e583'', [], []]], Done)"
    by code_simp
  show ?thesis
    using global_status_sent [of "\<lambda>_ _ _. Inr status_rs" status_rs "\<lambda>_ _. None", OF refl e] unfolding v .
qed

text \<open>The size of the Galera cache, with its unit.\<close>

lemma gcache_size_example:
  "parseWsrepProviderOptions ''base_dir = /d/; gcache.page_size = 64M; gcache.size = 128M; gcs.fc_debug = 0'' =
     f_of_int 134217728"
  by code_simp

end
