(* ===== verification/EngineStatus.thy ===== *)
theory EngineStatus
  imports GenericBase
begin

text \<open>
  \<open>SHOW ENGINE INNODB STATUS\<close> and \<open>SHOW ENGINE TOKUDB STATUS\<close> (\<open>collector/engine_innodb.go\<close>,
  \<open>engine_tokudb.go\<close>) and the heartbeat table (\<open>collector/heartbeat.go\<close>).
\<close>

section \<open>InnoDB\<close>

definition innodb :: string where "innodb = ''engine_innodb''"

subsection \<open>engine_innodb.go\<close>

definition engineInnodbStatusQuery :: string where
  "engineInnodbStatusQuery = ''SHOW ENGINE INNODB STATUS''"

definition ScrapeEngineInnodbStatus_Name :: string where "ScrapeEngineInnodbStatus_Name = ''engine_innodb_status''"

definition ScrapeEngineInnodbStatus_Help :: string where "ScrapeEngineInnodbStatus_Help = ''Collect from SHOW ENGINE INNODB STATUS''"

definition ScrapeEngineInnodbStatus_Version :: float64 where "ScrapeEngineInnodbStatus_Version = f_lit 51 1"

definition queriesRe :: re where
  "queriesRe = seqs [Cap 1 (Plus DigitC), Lit '' queries inside InnoDB, '', Cap 2 (Plus DigitC), Lit '' queries in queue'']"

definition viewsRe :: re where
  "viewsRe = seqs [Cap 1 (Plus DigitC), Lit '' read views open inside InnoDB'']"

definition innodb_line :: "string \<Rightarrow> metric list" where
  "innodb_line line =
     (case re_find queriesRe line of
        Some data \<Rightarrow>
          [ConstMetric (newDesc innodb ''queries_inside_innodb'' ''Queries inside InnoDB.'') GaugeValue
             (fst (strconv_ParseFloat (submatch data 1))) [],
           ConstMetric (newDesc innodb ''queries_in_queue'' ''Queries in queue.'') GaugeValue
             (fst (strconv_ParseFloat (submatch data 2))) []]
      | None \<Rightarrow>
         (case re_find viewsRe line of
            Some data \<Rightarrow>
              [ConstMetric (newDesc innodb ''read_views_open_inside_innodb'' ''Read views open inside InnoDB.'') GaugeValue
                 (fst (strconv_ParseFloat (submatch data 1))) []]
          | None \<Rightarrow> []))"

definition innodb_lines :: "string \<Rightarrow> metric list" where
  "innodb_lines statusCol = concat (map innodb_line (strings_Split statusCol [CHR 0x0A]))"

text \<open>Only the first row is looked at; without one the status is empty.\<close>

definition ScrapeEngineInnodbStatus_Scrape :: "database \<Rightarrow> scrape_out" where
  "ScrapeEngineInnodbStatus_Scrape db =
     with_query db 0 engineInnodbStatusQuery [] (\<lambda>rs.
       case rs_rows rs of
         [] \<Rightarrow> send_all (innodb_lines [])
       | row # _ \<Rightarrow>
          (case scan [DStr, DStr, DStr] row of
             Inl e \<Rightarrow> ([], Failed e)
           | Inr vs \<Rightarrow> send_all (innodb_lines (g_str (vs ! 2)))))"

lemma innodb_line_ok: "list_all metric_ok (innodb_line l)"
  by (simp add: innodb_line_def metric_ok_Const newDesc_def split: option.splits)

lemma innodb_lines_ok: "list_all metric_ok (innodb_lines s)"
  using innodb_line_ok by (auto simp: innodb_lines_def list_all_iff)

interpretation sc_engine_innodb: safe_scraper ScrapeEngineInnodbStatus_Scrape
  unfolding ScrapeEngineInnodbStatus_Scrape_def
  by (rule safe_scraperI) (auto intro!: safe_run innodb_lines_ok split: list.splits sum.splits)

section \<open>TokuDB\<close>

definition tokudb :: string where "tokudb = ''engine_tokudb''"

subsection \<open>engine_tokudb.go\<close>

definition engineTokudbStatusQuery :: string where
  "engineTokudbStatusQuery = ''SHOW ENGINE TOKUDB STATUS''"

definition ScrapeEngineTokudbStatus_Name :: string where "ScrapeEngineTokudbStatus_Name = ''engine_tokudb_status''"

definition ScrapeEngineTokudbStatus_Help :: string where "ScrapeEngineTokudbStatus_Help = ''Collect from SHOW ENGINE TOKUDB STATUS''"

definition ScrapeEngineTokudbStatus_Version :: float64 where "ScrapeEngineTokudbStatus_Version = f_lit 56 1"

definition tokudb_replacements :: "(string \<times> string) list" where
  "tokudb_replacements =
     [(''>'', []), ('','', []), ('':'', []), (''('', []), ('')'', []), ('' '', ''_''), (''-'', ''_''),
      (''+'', ''and''), (''/'', ''and'')]"

definition sanitizeTokudbMetric :: "string range_order \<Rightarrow> nat \<Rightarrow> string \<Rightarrow> string" where
  "sanitizeTokudbMetric ord n metricName =
     replace_all tokudb_replacements (ord n (map fst tokudb_replacements)) metricName"

definition ScrapeEngineTokudbStatus_dests :: "dest list" where
  "ScrapeEngineTokudbStatus_dests = [DStr, DStr, DRaw]"

definition tokudb_metric :: "string \<Rightarrow> float64 \<Rightarrow> metric" where
  "tokudb_metric name floatVal =
     ConstMetric (newDesc tokudb name ''Generic metric from SHOW ENGINE TOKUDB STATUS.'') UntypedValue floatVal []"

text \<open>The state counts how often the map of replacements has been visited.\<close>

definition ScrapeEngineTokudbStatus_step ::
    "zone_db \<Rightarrow> string range_order \<Rightarrow> nat \<Rightarrow> gval list \<Rightarrow> nat \<times> scrape_out" where
  "ScrapeEngineTokudbStatus_step tz ord n vs =
     (let key = strings_ToLower (g_str (vs ! 1)) in
      case parseStatus tz (g_str (vs ! 2)) of
        (floatVal, True) \<Rightarrow> (Suc n, send_all [tokudb_metric (sanitizeTokudbMetric ord n key) floatVal])
      | (_, False) \<Rightarrow> (n, [], Done))"

definition ScrapeEngineTokudbStatus_Scrape :: "zone_db \<Rightarrow> string range_order \<Rightarrow> database \<Rightarrow> scrape_out" where
  "ScrapeEngineTokudbStatus_Scrape tz ord =
     loop_scrape engineTokudbStatusQuery ScrapeEngineTokudbStatus_dests (ScrapeEngineTokudbStatus_step tz ord) 0
       (\<lambda>_. ([], Done))"

lemma tokudb_metric_ok: "metric_ok (tokudb_metric name x)"
  by (simp add: tokudb_metric_def metric_ok_Const newDesc_def)

interpretation fin_engine_tokudb: finishing_scraper ScrapeEngineTokudbStatus_dests "ScrapeEngineTokudbStatus_step tz ord"
  "\<lambda>_. True" engineTokudbStatusQuery 0 "\<lambda>_. ([], Done)" for tz ord
  by unfold_locales
    (simp_all add: ScrapeEngineTokudbStatus_step_def Let_def tokudb_metric_ok split: prod.splits bool.splits)

interpretation tokudb_reps: char_replacements tokudb_replacements
  by unfold_locales (auto simp: tokudb_replacements_def)

text \<open>The name, character by character.\<close>

definition tokudb_char :: "char \<Rightarrow> string" where
  "tokudb_char c =
     (if c \<in> set ''>,:()'' then []
      else if c = CHR '' '' \<or> c = CHR ''-'' then ''_''
      else if c = CHR ''+'' \<or> c = CHR ''/'' then ''and'' else [c])"

lemma tokudb_replaced: "tokudb_reps.replaced c = tokudb_char c"
  by (simp only: tokudb_reps.replaced_def) (simp add: tokudb_replacements_def tokudb_char_def)

lemma sanitizeTokudbMetric_eq:
  "is_range_order ord \<Longrightarrow> sanitizeTokudbMetric ord n s = concat (map tokudb_char s)"
  by (simp only: sanitizeTokudbMetric_def tokudb_reps.replace_all_eq)
    (rule arg_cong [where f = concat], rule map_cong [OF refl], rule tokudb_replaced)

definition tokudb_emit :: "zone_db \<Rightarrow> gval list \<Rightarrow> metric list" where
  "tokudb_emit tz vs =
     (case parseStatus tz (g_str (vs ! 2)) of
        (x, True) \<Rightarrow> [tokudb_metric (concat (map tokudb_char (strings_ToLower (g_str (vs ! 1))))) x]
      | (_, False) \<Rightarrow> [])"

text \<open>
  C36: whatever orders Go visits the map of replacements in, \<open>SHOW ENGINE TOKUDB STATUS\<close> becomes one
  metric per number, named after its key with punctuation dropped, blanks and dashes as
  underscores and \<open>+\<close> and \<open>/\<close> spelled out.
\<close>

theorem tokudb_sent:
  assumes "is_range_order ord" "db 0 engineTokudbStatusQuery [] = Inr rs"
    and "first_scan_error [DStr, DStr, DRaw] (rs_rows rs) = None"
  shows "ScrapeEngineTokudbStatus_Scrape tz ord db =
    (concat (map (tokudb_emit tz) (good_rows [DStr, DStr, DRaw] (rs_rows rs))), Done)"
proof -
  have "ScrapeEngineTokudbStatus_step tz ord n vs =
      ((if snd (parseStatus tz (g_str (vs ! 2))) then Suc n else n), tokudb_emit tz vs, Done)" for n vs
    using assms(1) by (simp add: ScrapeEngineTokudbStatus_step_def tokudb_emit_def Let_def tokudb_metric_ok
        sanitizeTokudbMetric_eq split: prod.splits bool.splits)
  then show ?thesis
    using assms(2,3) loop_scrape_eq [where db = db and q = engineTokudbStatusQuery and rs = rs
        and ds = "[DStr, DStr, DRaw]" and step = "ScrapeEngineTokudbStatus_step tz ord"
        and nxt = "\<lambda>n vs. if snd (parseStatus tz (g_str (vs ! 2))) then Suc n else n" and emit = "tokudb_emit tz"]
    by (simp add: ScrapeEngineTokudbStatus_Scrape_def ScrapeEngineTokudbStatus_dests_def)
qed

definition tokudb_rs :: rowset where
  "tokudb_rs = \<lparr>rs_cols = Inr [], rs_rows =
     [[CBytes ''TokuDB'', CBytes ''cachetable: size currently cloned data for checkpoint'', CBytes ''0''],
      [CBytes ''TokuDB'', CBytes ''ft: flusher/cleaner (I+D)'', CBytes ''7'']], rs_err = None\<rparr>"

theorem tokudb_sent_witness:
  "is_range_order (\<lambda>_ ks. rev ks :: string list) \<and>
   ScrapeEngineTokudbStatus_Scrape (\<lambda>_ _. None) (\<lambda>_ ks. rev ks) (\<lambda>_ _ _. Inr tokudb_rs) =
    ([tokudb_metric ''cachetable_size_currently_cloned_data_for_checkpoint'' f_zero,
      tokudb_metric ''ft_flusherandcleaner_iandd'' (f_of_int 7)], Done)"
proof -
  have o: "is_range_order (\<lambda>_ ks. rev ks :: string list)" by (simp add: is_range_order_def)
  have e: "first_scan_error [DStr, DStr, DRaw] (rs_rows tokudb_rs) = None" by code_simp
  have v: "concat (map (tokudb_emit (\<lambda>_ _. None)) (good_rows [DStr, DStr, DRaw] (rs_rows tokudb_rs))) =
    [tokudb_metric ''cachetable_size_currently_cloned_data_for_checkpoint'' f_zero,
     tokudb_metric ''ft_flusherandcleaner_iandd'' (f_of_int 7)]"
    by code_simp
  show ?thesis
    using o tokudb_sent [of "\<lambda>_ ks. rev ks" "\<lambda>_ _ _. Inr tokudb_rs" tokudb_rs "\<lambda>_ _. None", OF o refl e] unfolding v by simp
qed

section \<open>Heartbeat\<close>

definition heartbeat :: string where "heartbeat = ''heartbeat''"

definition heartbeatQuery :: string where
  "heartbeatQuery = ''SELECT UNIX_TIMESTAMP(ts), UNIX_TIMESTAMP(%s), server_id from `%s`.`%s`''"

subsection \<open>heartbeat.go\<close>

definition HeartbeatStoredDesc :: desc where [desc_def]:
  "HeartbeatStoredDesc = NewDesc (BuildFQName namespace heartbeat ''stored_timestamp_seconds'')
     ''Timestamp stored in the heartbeat table.'' [''server_id'']"

definition HeartbeatNowDesc :: desc where [desc_def]:
  "HeartbeatNowDesc = NewDesc (BuildFQName namespace heartbeat ''now_timestamp_seconds'')
     ''Timestamp of the current server.'' [''server_id'']"

lemma arity_heartbeat [simp, desc_arity]:
  "length (var_labels HeartbeatStoredDesc) = 1"
  "length (var_labels HeartbeatNowDesc) = 1"
  by (simp_all add: desc_def)

definition ScrapeHeartbeat_Name :: string where "ScrapeHeartbeat_Name = ''heartbeat''"

definition ScrapeHeartbeat_Help :: string where "ScrapeHeartbeat_Help = ''Collect from heartbeat''"

definition ScrapeHeartbeat_Version :: float64 where "ScrapeHeartbeat_Version = f_lit 51 1"

record heartbeat_flags =
  collectHeartbeatDatabase :: string
  collectHeartbeatTable :: string
  collectHeartbeatUtc :: bool

definition nowExpr :: "heartbeat_flags \<Rightarrow> string" where
  "nowExpr fl = (if collectHeartbeatUtc fl then ''UTC_TIMESTAMP(6)'' else ''NOW(6)'')"

definition heartbeat_query :: "heartbeat_flags \<Rightarrow> string" where
  "heartbeat_query fl = sprintf heartbeatQuery [nowExpr fl, collectHeartbeatDatabase fl, collectHeartbeatTable fl]"

definition ScrapeHeartbeat_dests :: "dest list" where
  "ScrapeHeartbeat_dests = [DRaw, DRaw, DI64]"

definition ScrapeHeartbeat_row :: "gval list \<Rightarrow> scrape_out" where
  "ScrapeHeartbeat_row vs =
     (case strconv_ParseFloat (g_str (vs ! 0)) of
        (_, Some e) \<Rightarrow> ([], Failed EParse)
      | (tsFloatVal, None) \<Rightarrow>
         (case strconv_ParseFloat (g_str (vs ! 1)) of
            (_, Some e) \<Rightarrow> ([], Failed EParse)
          | (nowFloatVal, None) \<Rightarrow>
             (let serverId = strconv_Itoa (sint (g_i64 (vs ! 2)))
              in send_all [ConstMetric HeartbeatNowDesc GaugeValue nowFloatVal [serverId],
                           ConstMetric HeartbeatStoredDesc GaugeValue tsFloatVal [serverId]])))"

definition ScrapeHeartbeat_Scrape :: "heartbeat_flags \<Rightarrow> database \<Rightarrow> scrape_out" where
  "ScrapeHeartbeat_Scrape fl db =
     with_query db 0 (heartbeat_query fl) [] (\<lambda>rs. for_rows ScrapeHeartbeat_dests ScrapeHeartbeat_row (rs_rows rs))"

lemma safe_heartbeat_row [safe_run]: "safe_out (ScrapeHeartbeat_row vs)"
  by (simp add: ScrapeHeartbeat_row_def Let_def metric_ok_Const split: prod.splits option.splits)

interpretation sc_heartbeat: safe_scraper "ScrapeHeartbeat_Scrape fl" for fl
  unfolding ScrapeHeartbeat_Scrape_def by (rule safe_scraperI) (intro safe_run)

end
