(* ===== verification/Replication.thy ===== *)
theory Replication
  imports GenericBase
begin

text \<open>
  The scrapers of the binary log and of replication: \<open>collector/binlog.go\<close>, \<open>slave_status.go\<close>,
  \<open>slave_hosts.go\<close>, and the table of users (\<open>mysql_user.go\<close>). \<open>uuid.Parse\<close> is the parameter
  \<open>is_uuid\<close>: whether it accepts a text.
\<close>

section \<open>Binary logs\<close>

definition binlog :: string where "binlog = ''binlog''"

subsection \<open>binlog.go\<close>

definition logbinQuery :: string where
  "logbinQuery = ''SELECT @@log_bin''"

definition binlogQuery :: string where
  "binlogQuery = ''SHOW BINARY LOGS''"

definition binlogSizeDesc :: desc where [desc_def]:
  "binlogSizeDesc = NewDesc (BuildFQName namespace binlog ''size_bytes'')
     ''Combined size of all registered binlog files.'' []"

definition binlogFilesDesc :: desc where [desc_def]:
  "binlogFilesDesc = NewDesc (BuildFQName namespace binlog ''files'')
     ''Number of registered binlog files.'' []"

definition binlogFileNumberDesc :: desc where [desc_def]:
  "binlogFileNumberDesc = NewDesc (BuildFQName namespace binlog ''file_number'')
     ''The last binlog file number.'' []"

lemma arity_binlog [simp, desc_arity]:
  "length (var_labels binlogSizeDesc) = 0"
  "length (var_labels binlogFilesDesc) = 0"
  "length (var_labels binlogFileNumberDesc) = 0"
  by (simp_all add: desc_def)

definition ScrapeBinlogSize_Name :: string where "ScrapeBinlogSize_Name = ''binlog_size''"

definition ScrapeBinlogSize_Help :: string where "ScrapeBinlogSize_Help = ''Collect the current size of all registered binlog files''"

definition ScrapeBinlogSize_Version :: float64 where "ScrapeBinlogSize_Version = f_lit 51 1"

record binlog_state =
  bl_size :: u64
  bl_count :: u64
  bl_filename :: string

definition binlog_init :: binlog_state where
  "binlog_init = \<lparr>bl_size = 0, bl_count = 0, bl_filename = []\<rparr>"

definition binlog_add :: "binlog_state \<Rightarrow> gval list \<Rightarrow> binlog_state" where
  "binlog_add st vs =
     \<lparr>bl_size = bl_size st + g_u64 (vs ! 1), bl_count = bl_count st + 1, bl_filename = g_str (vs ! 0)\<rparr>"

definition binlog_dests :: "nat \<Rightarrow> dest list option" where
  "binlog_dests columnCount =
     (if columnCount = 2 then Some [DStr, DU64] else if columnCount = 3 then Some [DStr, DU64, DStr] else None)"

text \<open>The loop: what it returns early with (a row that does not scan returns nil), or its sums.\<close>

fun binlog_rows :: "nat \<Rightarrow> binlog_state \<Rightarrow> cell list list \<Rightarrow> scrape_end + binlog_state" where
  "binlog_rows columnCount st [] = Inr st"
| "binlog_rows columnCount st (r # rs) =
     (case binlog_dests columnCount of
        None \<Rightarrow> Inl (Failed (EMsg ''invalid number of columns''))
      | Some ds \<Rightarrow>
         (case scan ds r of Inl e \<Rightarrow> Inl Done | Inr vs \<Rightarrow> binlog_rows columnCount (binlog_add st vs) rs))"

text \<open>\<open>strings.Split(filename, ".")[1]\<close> panics when there is no dot.\<close>

definition binlog_number :: "string \<Rightarrow> scrape_out" where
  "binlog_number filename =
     (case strings_Split filename ''.'' of
        _ # part # _ \<Rightarrow> send_all [ConstMetric binlogFileNumberDesc GaugeValue (fst (strconv_ParseFloat part)) []]
      | _ \<Rightarrow> ([], Panicked))"

definition ScrapeBinlogSize_Scrape :: "database \<Rightarrow> scrape_out" where
  "ScrapeBinlogSize_Scrape db =
     (case query_row db 0 logbinQuery [DU8] of
        Inl e \<Rightarrow> ([], Failed e)
      | Inr vs \<Rightarrow>
          if g_u8 (vs ! 0) = 0 then ([], Done)
          else with_query db 1 binlogQuery [] (\<lambda>rs. with_columns rs (\<lambda>columns.
            case binlog_rows (length columns) binlog_init (rs_rows rs) of
              Inl result \<Rightarrow> ([], result)
            | Inr st \<Rightarrow>
                and_then
                  (send_all [ConstMetric binlogSizeDesc GaugeValue (f_of_u64 (bl_size st)) [],
                             ConstMetric binlogFilesDesc GaugeValue (f_of_u64 (bl_count st)) []])
                  (binlog_number (bl_filename st)))))"

lemma binlog_rows_eq:
  "binlog_dests n = Some ds \<Longrightarrow> binlog_rows n st rows =
     (case first_scan_error ds rows of None \<Rightarrow> Inr (foldl binlog_add st (good_rows ds rows)) | Some e \<Rightarrow> Inl Done)"
  by (induction rows arbitrary: st) (auto split: sum.splits option.splits)

lemma binlog_sums:
  "bl_size (foldl binlog_add st vss) = bl_size st + sum_list (map (\<lambda>vs. g_u64 (vs ! 1)) vss)"
  "bl_count (foldl binlog_add st vss) = bl_count st + of_nat (length vss)"
  "bl_filename (foldl binlog_add st vss) = (if vss = [] then bl_filename st else g_str (last vss ! 0))"
  by (induction vss arbitrary: st) (simp_all add: binlog_add_def)

lemma Split_dot: "(\<exists>a b cs. strings_Split s ''.'' = a # b # cs) \<longleftrightarrow> CHR ''.'' \<in> set s"
proof
  assume "\<exists>a b cs. strings_Split s ''.'' = a # b # cs"
  then show "CHR ''.'' \<in> set s" using strings_Split_single_none [of "CHR ''.''" s] by force
next
  assume "CHR ''.'' \<in> set s"
  then obtain a b where s: "s = a @ CHR ''.'' # b" "CHR ''.'' \<notin> set a" by (metis split_list_first)
  then have "strings_Split s ''.'' = a # strings_Split b ''.''" by (simp add: strings_Split_single_cons)
  then show "\<exists>a b cs. strings_Split s ''.'' = a # b # cs" by (cases "strings_Split b ''.''") auto
qed

lemma binlog_number_panics: "snd (binlog_number s) = Panicked \<longleftrightarrow> CHR ''.'' \<notin> set s"
  unfolding Split_dot [symmetric] by (auto simp: binlog_number_def metric_ok_Const split: list.splits)

text \<open>
  C29: with the binary log on, the scraper panics, which ends the process, exactly when all rows
  scan and the last file name has no dot; an empty answer counts, since the name is then empty.
\<close>

theorem binlog_panics_iff:
  assumes "query_row db 0 logbinQuery [DU8] = Inr [GU8 on]" "on \<noteq> 0"
    and "db 1 binlogQuery [] = Inr rs" "rs_cols rs = Inr cols" "binlog_dests (length cols) = Some ds"
  shows "snd (ScrapeBinlogSize_Scrape db) = Panicked \<longleftrightarrow>
    first_scan_error ds (rs_rows rs) = None \<and>
    (rs_rows rs = [] \<or> CHR ''.'' \<notin> set (g_str (last (good_rows ds (rs_rows rs)) ! 0)))"
proof (cases "first_scan_error ds (rs_rows rs)")
  case None
  have "good_rows ds (rs_rows rs) = [] \<longleftrightarrow> rs_rows rs = []" using good_rows_all [OF None] by (metis length_0_conv)
  with assms None show ?thesis
    by (auto simp: ScrapeBinlogSize_Scrape_def with_query_def with_columns_def binlog_rows_eq binlog_number_panics
        metric_ok_Const binlog_sums binlog_init_def)
next
  case (Some e)
  with assms show ?thesis
    by (simp add: ScrapeBinlogSize_Scrape_def with_query_def with_columns_def binlog_rows_eq)
qed

definition binlog_db :: "cell list list \<Rightarrow> database" where
  "binlog_db rows i q args =
     (if i = 0 then Inr \<lparr>rs_cols = Inr [''@@log_bin''], rs_rows = [[CBytes ''1'']], rs_err = None\<rparr>
      else Inr \<lparr>rs_cols = Inr [''Log_name'', ''File_size''], rs_rows = rows, rs_err = None\<rparr>)"

lemma binlog_db_on: "query_row (binlog_db rows) 0 logbinQuery [DU8] = Inr [GU8 1]"
proof -
  have "scan [DU8] [CBytes ''1''] = Inr [GU8 1]" by code_simp
  then show ?thesis by (simp add: query_row_def binlog_db_def)
qed

theorem binlog_panics_iff_witness: "snd (ScrapeBinlogSize_Scrape (binlog_db [])) = Panicked"
proof -
  let ?rs = "\<lparr>rs_cols = Inr [''Log_name'', ''File_size''], rs_rows = [], rs_err = None\<rparr> :: rowset"
  have q: "binlog_db [] 1 binlogQuery [] = Inr ?rs" by (simp add: binlog_db_def)
  have d: "binlog_dests (length [''Log_name'', ''File_size'']) = Some [DStr, DU64]" by (simp add: binlog_dests_def)
  show ?thesis
    using binlog_panics_iff [OF binlog_db_on _ q _ d] by simp
qed

text \<open>
  C28: with the binary log on and file names of the form base, dot, number, with no other dot, the
  scraper sends the sum of the sizes (modulo \<open>2 ^ 64\<close>), the number of files, and the number of
  the last one.
\<close>

theorem binlog_sent:
  assumes "query_row db 0 logbinQuery [DU8] = Inr [GU8 on]" "on \<noteq> 0"
    and "db 1 binlogQuery [] = Inr rs" "rs_cols rs = Inr cols" "binlog_dests (length cols) = Some ds"
    and "first_scan_error ds (rs_rows rs) = None" "good_rows ds (rs_rows rs) = vss" "vss \<noteq> []"
    and "g_str (last vss ! 0) = base @ CHR ''.'' # number" "CHR ''.'' \<notin> set base" "CHR ''.'' \<notin> set number"
  shows "ScrapeBinlogSize_Scrape db =
    ([ConstMetric binlogSizeDesc GaugeValue (f_of_u64 (sum_list (map (\<lambda>vs. g_u64 (vs ! 1)) vss))) [],
      ConstMetric binlogFilesDesc GaugeValue (f_of_u64 (of_nat (length vss))) [],
      ConstMetric binlogFileNumberDesc GaugeValue (fst (strconv_ParseFloat number)) []], Done)"
proof -
  have "strings_Split (base @ CHR ''.'' # number) ''.'' = [base, number]"
    using assms(10,11) by (simp add: strings_Split_single_cons strings_Split_single_none)
  with assms show ?thesis
    by (simp add: ScrapeBinlogSize_Scrape_def with_query_def with_columns_def binlog_rows_eq binlog_sums
        binlog_init_def binlog_number_def metric_ok_Const)
qed

theorem binlog_sent_witness:
  "ScrapeBinlogSize_Scrape (binlog_db [[CBytes ''binlog.000007'', CBytes ''180''], [CBytes ''binlog.000008'', CBytes ''20'']]) =
    ([ConstMetric binlogSizeDesc GaugeValue (f_of_int 200) [],
      ConstMetric binlogFilesDesc GaugeValue (f_of_int 2) [],
      ConstMetric binlogFileNumberDesc GaugeValue (f_of_int 8) []], Done)"
proof -
  let ?rows = "[[CBytes ''binlog.000007'', CBytes ''180''], [CBytes ''binlog.000008'', CBytes ''20'']]"
  let ?rs = "\<lparr>rs_cols = Inr [''Log_name'', ''File_size''], rs_rows = ?rows, rs_err = None\<rparr> :: rowset"
  have q: "binlog_db ?rows 1 binlogQuery [] = Inr ?rs" by (simp add: binlog_db_def)
  have d: "binlog_dests (length [''Log_name'', ''File_size'']) = Some [DStr, DU64]" by (simp add: binlog_dests_def)
  have e: "first_scan_error [DStr, DU64] (rs_rows ?rs) = None"
    and g: "good_rows [DStr, DU64] (rs_rows ?rs) = [[GStr ''binlog.000007'', GU64 180], [GStr ''binlog.000008'', GU64 20]]"
    and n: "fst (strconv_ParseFloat ''000008'') = f_of_int 8"
    and s: "f_of_u64 200 = f_of_int 200" "f_of_u64 2 = f_of_int 2"
    by code_simp+
  show ?thesis
    using binlog_sent [OF binlog_db_on _ q _ d e g, where base = "''binlog''" and number = "''000008''"] by (simp add: n s)
qed

text \<open>A dot in the base name moves the number: it is the second part, not the last one.\<close>

lemma binlog_dotted_base:
  "binlog_number ''db1.example-bin.000008'' = ([ConstMetric binlogFileNumberDesc GaugeValue f_zero []], Done)"
proof -
  have s: "strings_Split ''db1.example-bin.000008'' ''.'' = [''db1'', ''example-bin'', ''000008'']"
    and p: "fst (strconv_ParseFloat ''example-bin'') = f_zero"
    by code_simp+
  show ?thesis by (simp add: binlog_number_def s p metric_ok_Const)
qed

section \<open>Slave status\<close>

definition slaveStatus :: string where "slaveStatus = ''slave_status''"

subsection \<open>slave_status.go\<close>

definition ScrapeSlaveStatus_Name :: string where "ScrapeSlaveStatus_Name = slaveStatus"

definition ScrapeSlaveStatus_Help :: string where "ScrapeSlaveStatus_Help = ''Collect from SHOW SLAVE STATUS''"

definition ScrapeSlaveStatus_Version :: float64 where "ScrapeSlaveStatus_Version = f_lit 51 1"

definition slaveStatusQueries :: "string list" where
  "slaveStatusQueries = [''SHOW ALL SLAVES STATUS'', ''SHOW SLAVE STATUS'', ''SHOW REPLICA STATUS'']"

definition slaveStatusQuerySuffixes :: "string list" where
  "slaveStatusQuerySuffixes = ['' NONBLOCKING'', '' NOLOCK'', []]"

text \<open>The two loops over queries and suffixes; \<open>res\<close> is the pair \<open>slaveStatusRows, err\<close> so far.\<close>

fun try_suffixes :: "database \<Rightarrow> nat \<Rightarrow> string \<Rightarrow> string list \<Rightarrow> go_err + rowset \<Rightarrow> nat \<times> (go_err + rowset)" where
  "try_suffixes db i query [] res = (i, res)"
| "try_suffixes db i query (suffix # suffixes) res =
     (case db i (query @ suffix) [] of
        Inr rs \<Rightarrow> (Suc i, Inr rs)
      | Inl e \<Rightarrow> try_suffixes db (Suc i) query suffixes (Inl e))"

fun try_queries :: "database \<Rightarrow> nat \<Rightarrow> string list \<Rightarrow> go_err + rowset \<Rightarrow> go_err + rowset" where
  "try_queries db i [] res = res"
| "try_queries db i (query # queries) res =
     (case db i query [] of
        Inr rs \<Rightarrow> Inr rs
      | Inl e \<Rightarrow>
         (case try_suffixes db (Suc i) query slaveStatusQuerySuffixes (Inl e) of
            (i', res') \<Rightarrow> try_queries db i' queries res'))"

definition slave_status_query :: "database \<Rightarrow> go_err + rowset" where
  "slave_status_query db = try_queries db 0 slaveStatusQueries (Inl ENoRows)"

definition columnIndex :: "string list \<Rightarrow> string \<Rightarrow> int" where
  "columnIndex slaveCols colName =
     (case filter (\<lambda>i. slaveCols ! i = colName) [0..<length slaveCols] of [] \<Rightarrow> -1 | i # _ \<Rightarrow> int i)"

definition columnValue :: "gval list \<Rightarrow> string list \<Rightarrow> string \<Rightarrow> string" where
  "columnValue scanArgs slaveCols colName =
     (let i = columnIndex slaveCols colName in if i = -1 then [] else g_str (scanArgs ! nat i))"

record slave_labels =
  masterHost :: string
  masterUUID :: string
  channelName :: string
  connectionName :: string

definition slave_label_list :: "slave_labels \<Rightarrow> string list" where
  "slave_label_list l = [masterHost l, masterUUID l, channelName l, connectionName l]"

definition slave_row_labels :: "string list \<Rightarrow> gval list \<Rightarrow> slave_labels" where
  "slave_row_labels slaveCols vs =
     (let value = columnValue vs slaveCols in
      \<lparr>masterHost = (if value ''Master_Host'' = [] then value ''Source_Host'' else value ''Master_Host''),
       masterUUID = (if value ''Master_UUID'' = [] then value ''Source_UUID'' else value ''Master_UUID''),
       channelName = value ''Channel_Name'', connectionName = value ''Connection_name''\<rparr>)"

definition gtid_metric :: "string \<Rightarrow> slave_labels \<Rightarrow> string \<Rightarrow> metric list" where
  "gtid_metric name l gtid =
     (case strings_Split gtid ''-'' of
        [domainID, serverID, seq] \<Rightarrow>
          (case strconv_ParseUint seq 64 of
             Inl e \<Rightarrow> []
           | Inr sequence_num \<Rightarrow>
              [ConstMetric
                 (NewDesc (BuildFQName namespace slaveStatus (strings_ToLower name))
                    (sprintf ''%s metric from SHOW SLAVE STATUS.'' [name])
                    [''master_host'', ''master_uuid'', ''channel_name'', ''connection_name'', ''domain_id'', ''server_id''])
                 GaugeValue (f_of_int sequence_num) (slave_label_list l @ [domainID, serverID])])
      | _ \<Rightarrow> [])"

definition parseMariaDBGtid :: "string \<Rightarrow> string \<Rightarrow> slave_labels \<Rightarrow> metric list" where
  "parseMariaDBGtid name value l =
     (if value = [] then [] else concat (map (gtid_metric name l) (strings_Split value '','')))"

definition slave_column_metric :: "zone_db \<Rightarrow> slave_labels \<Rightarrow> string \<Rightarrow> gval \<Rightarrow> metric list" where
  "slave_column_metric tz l col v =
     (case parseStatus tz (g_str v) of
        (value, True) \<Rightarrow>
          [ConstMetric
             (NewDesc (BuildFQName namespace slaveStatus (strings_ToLower col)) ''Generic metric from SHOW SLAVE STATUS.''
                [''master_host'', ''master_uuid'', ''channel_name'', ''connection_name''])
             UntypedValue value (slave_label_list l)]
      | (_, False) \<Rightarrow> [])"

definition ScrapeSlaveStatus_row :: "zone_db \<Rightarrow> string list \<Rightarrow> gval list \<Rightarrow> scrape_out" where
  "ScrapeSlaveStatus_row tz slaveCols vs =
     (let l = slave_row_labels slaveCols vs in
      and_then (col_loop (\<lambda>col v. send_all (slave_column_metric tz l col v)) slaveCols vs)
        (send_all (parseMariaDBGtid ''Gtid_IO_Pos'' (columnValue vs slaveCols ''Gtid_IO_Pos'') l @
                   parseMariaDBGtid ''Gtid_Slave_Pos'' (columnValue vs slaveCols ''Gtid_Slave_Pos'') l)))"

definition ScrapeSlaveStatus_Scrape :: "zone_db \<Rightarrow> database \<Rightarrow> scrape_out" where
  "ScrapeSlaveStatus_Scrape tz db =
     (case slave_status_query db of
        Inl e \<Rightarrow> ([], Failed e)
      | Inr rs \<Rightarrow> with_columns rs (\<lambda>slaveCols.
          for_rows (replicate (length slaveCols) DRaw) (ScrapeSlaveStatus_row tz slaveCols) (rs_rows rs)))"

lemma gtid_metric_ok: "list_all metric_ok (gtid_metric name l t)"
  by (simp add: gtid_metric_def metric_ok_Const slave_label_list_def split: list.splits sum.splits)

lemma parseMariaDBGtid_ok: "list_all metric_ok (parseMariaDBGtid name value l)"
  using gtid_metric_ok by (auto simp: parseMariaDBGtid_def list_all_iff)

lemma slave_column_metric_ok: "list_all metric_ok (slave_column_metric tz l col v)"
  by (simp add: slave_column_metric_def metric_ok_Const slave_label_list_def split: prod.splits bool.splits)

lemma safe_slave_row [safe_run]: "safe_out (ScrapeSlaveStatus_row tz cols vs)"
  unfolding ScrapeSlaveStatus_row_def Let_def
  by (intro safe_run slave_column_metric_ok) (simp add: parseMariaDBGtid_ok)

interpretation sc_slave_status: safe_scraper "ScrapeSlaveStatus_Scrape tz" for tz
  unfolding ScrapeSlaveStatus_Scrape_def
  by (rule safe_scraperI) (auto intro!: safe_run split: sum.splits)

text \<open>
  What a row sends, column by column and then its GTID positions. The label values are those of
  the columns of MySQL before 8.4 or, where these are missing or empty, of the columns that replaced them.
\<close>

definition either_column :: "string list \<Rightarrow> gval list \<Rightarrow> string \<Rightarrow> string \<Rightarrow> string" where
  "either_column cols vs a b = (if columnValue vs cols a \<noteq> [] then columnValue vs cols a else columnValue vs cols b)"

definition slave_values :: "string list \<Rightarrow> gval list \<Rightarrow> string list" where
  "slave_values cols vs =
     [either_column cols vs ''Master_Host'' ''Source_Host'', either_column cols vs ''Master_UUID'' ''Source_UUID'',
      columnValue vs cols ''Channel_Name'', columnValue vs cols ''Connection_name'']"

definition slave_row_spec :: "zone_db \<Rightarrow> string list \<Rightarrow> gval list \<Rightarrow> metric list" where
  "slave_row_spec tz cols vs =
     concat (map (\<lambda>(col, v). case parseStatus tz (g_str v) of (x, ok) \<Rightarrow>
       if ok then [ConstMetric
         (NewDesc (BuildFQName namespace slaveStatus (strings_ToLower col)) ''Generic metric from SHOW SLAVE STATUS.''
            [''master_host'', ''master_uuid'', ''channel_name'', ''connection_name''])
         UntypedValue x (slave_values cols vs)] else []) (zip cols vs)) @
     concat (map (\<lambda>name. parseMariaDBGtid name (columnValue vs cols name) (slave_row_labels cols vs))
       [''Gtid_IO_Pos'', ''Gtid_Slave_Pos''])"

lemma slave_values_eq: "slave_label_list (slave_row_labels cols vs) = slave_values cols vs"
  by (simp add: slave_label_list_def slave_row_labels_def slave_values_def either_column_def Let_def)

lemma slave_columns_eq:
  "slave_column_metric tz (slave_row_labels cols vs) = (\<lambda>col v.
     (case parseStatus tz (g_str v) of (x, ok) \<Rightarrow>
       if ok then [ConstMetric
         (NewDesc (BuildFQName namespace slaveStatus (strings_ToLower col)) ''Generic metric from SHOW SLAVE STATUS.''
            [''master_host'', ''master_uuid'', ''channel_name'', ''connection_name''])
         UntypedValue x (slave_values cols vs)] else []))"
  by (intro ext) (simp add: slave_column_metric_def slave_values_eq split: prod.split bool.split)

lemma slave_row_eq: "ScrapeSlaveStatus_row tz cols vs = (slave_row_spec tz cols vs, Done)"
  by (simp add: ScrapeSlaveStatus_row_def slave_row_spec_def Let_def send_all_ok parseMariaDBGtid_ok
      col_loop_sends [where emit = "slave_column_metric tz l" for l] slave_column_metric_ok slave_columns_eq)

text \<open>
  What the loops answer: the answer of the first query that succeeds without a suffix, and before
  it only failures; an answer to a query with a suffix ends the tries of that query, not the loop.
\<close>

lemma try_suffixes_fail:
  "(\<And>j suffix. \<exists>e. db j (query @ suffix) [] = Inl e) \<Longrightarrow>
   \<exists>e. try_suffixes db i query suffixes (Inl e0) = (i + length suffixes, Inl e)"
proof (induction suffixes arbitrary: i e0)
  case (Cons suffix suffixes)
  obtain e where "db i (query @ suffix) [] = Inl e" using Cons.prems by blast
  then show ?case using Cons.IH [OF Cons.prems, of "Suc i" e] by simp
qed simp

text \<open>
  C20: a server that knows one of the three statements only, without suffix, answers with it: its
  rows are sent one by one, each column that is a number under its lower-cased name, then the GTID
  positions, all with the four labels of the row.
\<close>

theorem slave_status_sent:
  assumes "query \<in> set slaveStatusQueries" "\<And>i. db i query [] = Inr rs"
    and "\<And>i q. q \<noteq> query \<Longrightarrow> \<exists>e. db i q [] = Inl e"
    and "rs_cols rs = Inr cols" "first_scan_error (replicate (length cols) DRaw) (rs_rows rs) = None"
  shows "ScrapeSlaveStatus_Scrape tz db =
    (concat (map (slave_row_spec tz cols) (good_rows (replicate (length cols) DRaw) (rs_rows rs))), Done)"
proof -
  define err where "err i q = projl (db i q [])" for i q
  have "q \<noteq> query \<Longrightarrow> db i q [] = Inl (err i q)" for i q using assms(3) unfolding err_def by (metis sum.sel(1))
  with assms(1,2) have "slave_status_query db = Inr rs"
    by (auto simp: slave_status_query_def slaveStatusQueries_def slaveStatusQuerySuffixes_def)
  with assms(4,5) show ?thesis
    by (simp add: ScrapeSlaveStatus_Scrape_def with_columns_def
        for_rows_sends [where body = "ScrapeSlaveStatus_row tz cols", OF slave_row_eq])
qed

definition replica_rs :: rowset where
  "replica_rs = \<lparr>rs_cols = Inr [''Source_Host'', ''Source_UUID'', ''Seconds_Behind_Source'', ''Channel_Name''], rs_rows =
     [[CBytes ''db1'', CBytes ''u1'', CBytes ''3'', CBytes []], [CBytes ''db2'', CBytes ''u2'', CNull, CBytes ''b'']],
     rs_err = None\<rparr>"

theorem slave_status_sent_witness:
  "ScrapeSlaveStatus_Scrape (\<lambda>_ _. None) (\<lambda>_ q _. if q = ''SHOW REPLICA STATUS'' then Inr replica_rs else Inl ENoRows) =
    ([ConstMetric
        (NewDesc (BuildFQName namespace slaveStatus ''seconds_behind_source'') ''Generic metric from SHOW SLAVE STATUS.''
           [''master_host'', ''master_uuid'', ''channel_name'', ''connection_name''])
        UntypedValue (f_of_int 3) [''db1'', ''u1'', [], []]], Done)"
proof -
  let ?cols = "[''Source_Host'', ''Source_UUID'', ''Seconds_Behind_Source'', ''Channel_Name'']"
  have q: "''SHOW REPLICA STATUS'' \<in> set slaveStatusQueries" by (simp add: slaveStatusQueries_def)
  have c: "rs_cols replica_rs = Inr ?cols" by (simp add: replica_rs_def)
  have e: "first_scan_error (replicate (length ?cols) DRaw) (rs_rows replica_rs) = None" by code_simp
  have v: "concat (map (slave_row_spec (\<lambda>_ _. None) ?cols)
        (good_rows (replicate (length ?cols) DRaw) (rs_rows replica_rs))) =
      [ConstMetric
        (NewDesc (BuildFQName namespace slaveStatus ''seconds_behind_source'') ''Generic metric from SHOW SLAVE STATUS.''
           [''master_host'', ''master_uuid'', ''channel_name'', ''connection_name''])
        UntypedValue (f_of_int 3) [''db1'', ''u1'', [], []]]"
    by code_simp
  show ?thesis
    using slave_status_sent [of "''SHOW REPLICA STATUS''"
        "\<lambda>_ q _. if q = ''SHOW REPLICA STATUS'' then Inr replica_rs else Inl ENoRows" replica_rs ?cols
        "\<lambda>_ _. None", OF q _ _ c e] unfolding v by simp
qed

text \<open>
  C38: when the first try of \<open>SHOW SLAVE STATUS\<close> fails and a later one, with a suffix, succeeds, the
  rows it got are lost: only the loop over the suffixes ends there, the statement a server of that
  kind does not know is tried next, and its error is what the scraper returns.
\<close>

theorem slave_status_retry_lost:
  assumes "db 4 ''SHOW SLAVE STATUS'' [] = Inl e0"
    and "\<And>i q. \<not> strings_HasPrefix q ''SHOW SLAVE STATUS'' \<Longrightarrow> \<exists>e. db i q [] = Inl e"
  shows "\<exists>e. ScrapeSlaveStatus_Scrape tz db = ([], Failed e)"
proof -
  define err where "err i q = projl (db i q [])" for i q
  have "\<not> strings_HasPrefix q ''SHOW SLAVE STATUS'' \<Longrightarrow> db i q [] = Inl (err i q)" for i q
    using assms(2) unfolding err_def by (metis sum.sel(1))
  note fails = this [of "''SHOW ALL SLAVES STATUS''"] this [of "''SHOW ALL SLAVES STATUS NONBLOCKING''"]
    this [of "''SHOW ALL SLAVES STATUS NOLOCK''"] this [of "''SHOW REPLICA STATUS''"]
    this [of "''SHOW REPLICA STATUS NONBLOCKING''"] this [of "''SHOW REPLICA STATUS NOLOCK''"]
  have all: "try_suffixes db i ''SHOW ALL SLAVES STATUS'' slaveStatusQuerySuffixes (Inl e) =
      (Suc (Suc (Suc i)), Inl (err (Suc (Suc i)) ''SHOW ALL SLAVES STATUS''))" for i e
    using fails by (simp add: slaveStatusQuerySuffixes_def strings_HasPrefix_def)
  have "db (Suc (Suc (Suc (Suc 0)))) ''SHOW SLAVE STATUS'' [] = Inl e0" using assms(1) by (simp add: eval_nat_numeral)
  then have "\<exists>i res. slave_status_query db = try_queries db i [''SHOW REPLICA STATUS''] res"
    using fails(1) by (auto simp: slave_status_query_def slaveStatusQueries_def strings_HasPrefix_def all split: prod.splits)
  moreover have "\<exists>e. try_queries db i [''SHOW REPLICA STATUS''] res = Inl e" for i res
    using fails by (simp add: slaveStatusQuerySuffixes_def strings_HasPrefix_def)
  ultimately obtain e where "slave_status_query db = Inl e" by metis
  then show ?thesis by (simp add: ScrapeSlaveStatus_Scrape_def)
qed

theorem slave_status_retry_lost_witness:
  "\<exists>e. ScrapeSlaveStatus_Scrape (\<lambda>_ _. None)
     (\<lambda>i q _. if i \<noteq> 4 \<and> strings_HasPrefix q ''SHOW SLAVE STATUS'' then Inr replica_rs else Inl ENoRows) = ([], Failed e)"
  by (rule slave_status_retry_lost) auto

definition show_gtid :: "string \<times> string \<times> int \<Rightarrow> string" where
  "show_gtid g = (case g of (domain, server, seq) \<Rightarrow> domain @ ''-'' @ server @ ''-'' @ show_uint seq)"

definition plain_part :: "string \<Rightarrow> bool" where
  "plain_part s \<longleftrightarrow> CHR ''-'' \<notin> set s \<and> CHR '','' \<notin> set s"

lemma gtid_split:
  assumes "plain_part d" "plain_part s" "0 \<le> n"
  shows "strings_Split (show_gtid (d, s, n)) ''-'' = [d, s, show_uint n]"
proof -
  have "CHR ''-'' \<notin> set (show_uint n)" using show_uint_digits [OF assms(3)] by (auto simp: list_all_iff is_digit_def)
  with assms show ?thesis
    by (simp add: show_gtid_def plain_part_def strings_Split_single_cons strings_Split_single_none)
qed

text \<open>
  C32: the GTID positions of MariaDB come back: a list of domain, server and sequence number,
  printed with dashes and joined by commas, is sent as one metric for each, with domain and server
  as labels.
\<close>

theorem gtid_roundtrip:
  assumes "gtids \<noteq> []" "\<forall>(d, s, n) \<in> set gtids. plain_part d \<and> plain_part s \<and> 0 \<le> n \<and> n < 2 ^ 64"
  shows "parseMariaDBGtid name (strings_Join (map show_gtid gtids) '','') l =
    map (\<lambda>(d, s, n). ConstMetric
         (NewDesc (BuildFQName namespace slaveStatus (strings_ToLower name)) (name @ '' metric from SHOW SLAVE STATUS.'')
            [''master_host'', ''master_uuid'', ''channel_name'', ''connection_name'', ''domain_id'', ''server_id''])
         GaugeValue (f_of_int n) (slave_label_list l @ [d, s])) gtids"
proof -
  have no_comma: "CHR '','' \<notin> set (show_gtid g)" if "g \<in> set gtids" for g
  proof -
    obtain d s n where g: "g = (d, s, n)" by (cases g)
    with that assms(2) have "plain_part d" "plain_part s" "0 \<le> n" by auto
    then show ?thesis
      using show_uint_digits [of n] by (auto simp: g show_gtid_def plain_part_def list_all_iff is_digit_def)
  qed
  have ne: "strings_Join (map show_gtid gtids) '','' \<noteq> []"
  proof -
    from assms(1) obtain g gs where "gtids = g # gs" by (cases gtids) auto
    moreover have "show_gtid g \<noteq> []" by (simp add: show_gtid_def split: prod.splits)
    ultimately show ?thesis by (cases gs) simp_all
  qed
  have one: "gtid_metric name l (show_gtid (d, s, n)) = [ConstMetric
         (NewDesc (BuildFQName namespace slaveStatus (strings_ToLower name)) (name @ '' metric from SHOW SLAVE STATUS.'')
            [''master_host'', ''master_uuid'', ''channel_name'', ''connection_name'', ''domain_id'', ''server_id''])
         GaugeValue (f_of_int n) (slave_label_list l @ [d, s])]" if "(d, s, n) \<in> set gtids" for d s n
  proof -
    from that assms(2) have "plain_part d" "plain_part s" "0 \<le> n" "n < 2 ^ 64" by auto
    then show ?thesis by (simp add: gtid_metric_def gtid_split ParseUint_show)
  qed
  have "strings_Split (strings_Join (map show_gtid gtids) '','') '','' = map show_gtid gtids"
    using assms(1) no_comma by (intro strings_Split_Join_single) auto
  with ne have "parseMariaDBGtid name (strings_Join (map show_gtid gtids) '','') l =
      concat (map (\<lambda>g. gtid_metric name l (show_gtid g)) gtids)"
    by (simp add: parseMariaDBGtid_def comp_def)
  also have "\<dots> = concat (map (\<lambda>(d, s, n). [ConstMetric
         (NewDesc (BuildFQName namespace slaveStatus (strings_ToLower name)) (name @ '' metric from SHOW SLAVE STATUS.'')
            [''master_host'', ''master_uuid'', ''channel_name'', ''connection_name'', ''domain_id'', ''server_id''])
         GaugeValue (f_of_int n) (slave_label_list l @ [d, s])]) gtids)"
    by (rule arg_cong [where f = concat], rule map_cong [OF refl]) (auto dest: one)
  finally show ?thesis by (simp add: case_prod_unfold concat_map_singleton)
qed

theorem gtid_roundtrip_witness:
  "map metric_labels (parseMariaDBGtid ''Gtid_IO_Pos'' ''0-1-42,5-2-7''
     \<lparr>masterHost = ''db1'', masterUUID = [], channelName = [], connectionName = ''c''\<rparr>) =
    [[''db1'', [], [], ''c'', ''0'', ''1''], [''db1'', [], [], ''c'', ''5'', ''2'']]"
proof -
  have v: "''0-1-42,5-2-7'' = strings_Join (map show_gtid [(''0'', ''1'', 42), (''5'', ''2'', 7)]) '',''"
    by code_simp
  show ?thesis
    unfolding v by (subst gtid_roundtrip) (simp_all add: plain_part_def slave_label_list_def)
qed

text \<open>An entry that has not three parts, or whose sequence number is no 64-bit number, is skipped.\<close>

lemma gtid_skipped:
  "length (strings_Split gtid ''-'') \<noteq> 3 \<Longrightarrow> gtid_metric name l gtid = []"
  "strings_Split gtid ''-'' = [d, s, n] \<Longrightarrow> strconv_ParseUint n 64 = Inl e \<Longrightarrow> gtid_metric name l gtid = []"
  by (auto simp: gtid_metric_def split: list.splits)

end
