(* ===== verification/UsersHosts.thy ===== *)
theory UsersHosts
  imports EngineStatus
begin

text \<open>
  The replicas of a server (\<open>collector/slave_hosts.go\<close>) and the table of users
  (\<open>collector/mysql_user.go\<close>). \<open>uuid.Parse\<close> is the parameter \<open>is_uuid\<close>: whether it accepts a text.
\<close>

section \<open>Slave hosts\<close>

definition slavehosts :: string where "slavehosts = ''slave_hosts''"

definition slaveHostsQuery :: string where "slaveHostsQuery = ''SHOW SLAVE HOSTS''"

definition showReplicasQuery :: string where "showReplicasQuery = ''SHOW REPLICAS''"

subsection \<open>slave_hosts.go\<close>

definition SlaveHostsInfo :: desc where [desc_def]:
  "SlaveHostsInfo = NewDesc (BuildFQName namespace heartbeat ''mysql_slave_hosts_info'')
     ''Information about running slaves'' [''server_id'', ''slave_host'', ''port'', ''master_id'', ''slave_uuid'']"

lemma arity_slave_hosts [simp, desc_arity]:
  "length (var_labels SlaveHostsInfo) = 5"
  by (simp_all add: desc_def)

definition ScrapeSlaveHosts_Name :: string where "ScrapeSlaveHosts_Name = slavehosts"

definition ScrapeSlaveHosts_Help :: string where "ScrapeSlaveHosts_Help = ''Scrape information from 'SHOW SLAVE HOSTS'' @ [CHR 0x27]"

definition ScrapeSlaveHosts_Version :: float64 where "ScrapeSlaveHosts_Version = f_lit 51 1"

text \<open>The second query is asked only when the first one is answered with MySQL error 1064.\<close>

definition slave_hosts_query :: "database \<Rightarrow> go_err + rowset" where
  "slave_hosts_query db =
     (case db 0 slaveHostsQuery [] of
        Inr rs \<Rightarrow> Inr rs
      | Inl (EMySQL number msg) \<Rightarrow>
          if number \<noteq> 1064 then Inl (EMySQL number msg) else db 1 showReplicasQuery []
      | Inl e \<Rightarrow> Inl e)"

definition slave_hosts_dests :: "string list \<Rightarrow> dest list" where
  "slave_hosts_dests columnNames = replicate (if length columnNames = 5 then 5 else 4) DStr"

definition slave_hosts_metric :: "(string \<Rightarrow> bool) \<Rightarrow> string list \<Rightarrow> gval list \<Rightarrow> metric" where
  "slave_hosts_metric is_uuid columnNames vs =
     (let serverId = g_str (vs ! 0); host = g_str (vs ! 1); port = g_str (vs ! 2);
          rrrOrMasterId = g_str (vs ! 3); slaveUuidOrMasterId = g_str (vs ! 4);
          (masterId, slaveUuid) =
            (if length columnNames = 5
             then (if is_uuid slaveUuidOrMasterId then (rrrOrMasterId, slaveUuidOrMasterId) else (slaveUuidOrMasterId, []))
             else (rrrOrMasterId, []))
      in ConstMetric SlaveHostsInfo GaugeValue f_one [serverId, host, port, masterId, slaveUuid])"

definition ScrapeSlaveHosts_Scrape :: "(string \<Rightarrow> bool) \<Rightarrow> database \<Rightarrow> scrape_out" where
  "ScrapeSlaveHosts_Scrape is_uuid db =
     (case slave_hosts_query db of
        Inl e \<Rightarrow> ([], Failed e)
      | Inr rs \<Rightarrow> with_columns rs (\<lambda>columnNames.
          each_row (slave_hosts_dests columnNames) (\<lambda>vs. [slave_hosts_metric is_uuid columnNames vs]) (rs_rows rs)))"

lemma slave_hosts_metric_ok: "metric_ok (slave_hosts_metric is_uuid cols vs)"
  by (simp add: slave_hosts_metric_def Let_def metric_ok_Const)

interpretation sc_slave_hosts: safe_scraper "ScrapeSlaveHosts_Scrape is_uuid" for is_uuid
  unfolding ScrapeSlaveHosts_Scrape_def
  by (rule safe_scraperI) (auto intro!: safe_run simp: slave_hosts_metric_ok split: sum.splits)

text \<open>
  An error of \<open>SHOW SLAVE HOSTS\<close> other than 1064 is returned as it is, whatever the server would
  answer to \<open>SHOW REPLICAS\<close>; after a 1064 the answer to \<open>SHOW REPLICAS\<close> alone decides, and both
  statements' rows are read in the same way.
\<close>

theorem slave_hosts_fallback:
  "(db 0 slaveHostsQuery [] = Inl e \<longrightarrow> (\<forall>msg. e \<noteq> EMySQL 1064 msg) \<longrightarrow>
      ScrapeSlaveHosts_Scrape is_uuid db = ([], Failed e)) \<and>
   (db 0 slaveHostsQuery [] = Inl (EMySQL 1064 msg) \<longrightarrow> db' 0 slaveHostsQuery [] = db 1 showReplicasQuery [] \<longrightarrow>
      (\<forall>msg'. db 1 showReplicasQuery [] \<noteq> Inl (EMySQL 1064 msg')) \<longrightarrow>
      ScrapeSlaveHosts_Scrape is_uuid db = ScrapeSlaveHosts_Scrape is_uuid db')"
  by (auto simp: ScrapeSlaveHosts_Scrape_def slave_hosts_query_def split: sum.splits go_err.splits)

theorem slave_hosts_fallback_witness:
  "ScrapeSlaveHosts_Scrape (\<lambda>_. True) (\<lambda>_ _ _. Inl (EMySQL 1227 ''denied'')) = ([], Failed (EMySQL 1227 ''denied''))"
  using conjunct1 [OF slave_hosts_fallback [of "\<lambda>_ _ _. Inl (EMySQL 1227 ''denied'')" "EMySQL 1227 ''denied''" "\<lambda>_. True"]]
  by simp

section \<open>Users\<close>

definition mysqlSubsystem :: string where "mysqlSubsystem = ''mysql''"

subsection \<open>mysql_user.go\<close>

definition mysqlUserQuery :: string where
  "mysqlUserQuery = ''
		  SELECT
		    user,
		    host,
		    Select_priv,
		    Insert_priv,
		    Update_priv,
		    Delete_priv,
		    Create_priv,
		    Drop_priv,
		    Reload_priv,
		    Shutdown_priv,
		    Process_priv,
		    File_priv,
		    Grant_priv,
		    References_priv,
		    Index_priv,
		    Alter_priv,
		    Show_db_priv,
		    Super_priv,
		    Create_tmp_table_priv,
		    Lock_tables_priv,
		    Execute_priv,
		    Repl_slave_priv,
		    Repl_client_priv,
		    Create_view_priv,
		    Show_view_priv,
		    Create_routine_priv,
		    Alter_routine_priv,
		    Create_user_priv,
		    Event_priv,
		    Trigger_priv,
		    Create_tablespace_priv,
		    max_questions,
		    max_updates,
		    max_connections,
		    max_user_connections
		  FROM mysql.user
		''"

definition labelNames :: "string list" where
  "labelNames = [''mysql_user'', ''hostmask'']"

lemma length_labelNames [simp]: "length labelNames = 2"
  by (simp add: labelNames_def)

definition userMaxQuestionsDesc :: desc where [desc_def]:
  "userMaxQuestionsDesc = NewDesc (BuildFQName namespace mysqlSubsystem ''max_questions'')
     ''The number of max_questions by user.'' labelNames"

definition userMaxUpdatesDesc :: desc where [desc_def]:
  "userMaxUpdatesDesc = NewDesc (BuildFQName namespace mysqlSubsystem ''max_updates'')
     ''The number of max_updates by user.'' labelNames"

definition userMaxConnectionsDesc :: desc where [desc_def]:
  "userMaxConnectionsDesc = NewDesc (BuildFQName namespace mysqlSubsystem ''max_connections'')
     ''The number of max_connections by user.'' labelNames"

definition userMaxUserConnectionsDesc :: desc where [desc_def]:
  "userMaxUserConnectionsDesc = NewDesc (BuildFQName namespace mysqlSubsystem ''max_user_connections'')
     ''The number of max_user_connections by user.'' labelNames"

lemma arity_mysql_user [simp, desc_arity]:
  "length (var_labels userMaxQuestionsDesc) = 2"
  "length (var_labels userMaxUpdatesDesc) = 2"
  "length (var_labels userMaxConnectionsDesc) = 2"
  "length (var_labels userMaxUserConnectionsDesc) = 2"
  by (simp_all add: desc_def)

definition ScrapeUser_Name :: string where "ScrapeUser_Name = mysqlSubsystem @ ''.user''"

definition ScrapeUser_Help :: string where "ScrapeUser_Help = ''Collect data from mysql.user''"

definition ScrapeUser_Version :: float64 where "ScrapeUser_Version = f_lit 51 1"

text \<open>User and host, 29 privileges, four limits.\<close>

definition ScrapeUser_dests :: "dest list" where
  "ScrapeUser_dests = [DStr, DStr] @ replicate 29 DStr @ replicate 4 DU32"

definition privilege_metric :: "string \<Rightarrow> string \<Rightarrow> string \<Rightarrow> gval \<Rightarrow> metric list" where
  "privilege_metric user host col v =
     (case parsePrivilege (g_str v) of
        (value, True) \<Rightarrow>
          [ConstMetric
             (NewDesc (BuildFQName namespace mysqlSubsystem (strings_ToLower col)) (col @ '' by user.'') labelNames)
             GaugeValue value [user, host]]
      | (_, False) \<Rightarrow> [])"

definition user_limits :: "gval list \<Rightarrow> metric list" where
  "user_limits vs =
     (let user = g_str (vs ! 0); host = g_str (vs ! 1) in
      [ConstMetric userMaxQuestionsDesc GaugeValue (f_of_u32 (g_u32 (vs ! 31))) [user, host],
       ConstMetric userMaxUpdatesDesc GaugeValue (f_of_u32 (g_u32 (vs ! 32))) [user, host],
       ConstMetric userMaxConnectionsDesc GaugeValue (f_of_u32 (g_u32 (vs ! 33))) [user, host],
       ConstMetric userMaxUserConnectionsDesc GaugeValue (f_of_u32 (g_u32 (vs ! 34))) [user, host]])"

text \<open>With the flag the row is scanned again, every column of it as bytes.\<close>

definition user_privileges :: "bool \<Rightarrow> go_err + string list \<Rightarrow> cell list \<Rightarrow> gval list \<Rightarrow> scrape_out" where
  "user_privileges privilegesFlag cols row vs =
     (if privilegesFlag then
        (case cols of
           Inl e \<Rightarrow> ([], Failed e)
         | Inr userCols \<Rightarrow>
            (case scan (replicate (length userCols) DRaw) row of
               Inl e \<Rightarrow> ([], Failed e)
             | Inr raw \<Rightarrow> col_loop (\<lambda>col v. send_all (privilege_metric (g_str (vs ! 0)) (g_str (vs ! 1)) col v)) userCols raw))
      else ([], Done))"

fun user_rows :: "bool \<Rightarrow> go_err + string list \<Rightarrow> cell list list \<Rightarrow> scrape_out" where
  "user_rows flag cols [] = ([], Done)"
| "user_rows flag cols (row # rows) =
     (case scan ScrapeUser_dests row of
        Inl e \<Rightarrow> ([], Failed e)
      | Inr vs \<Rightarrow>
          and_then (user_privileges flag cols row vs) (and_then (send_all (user_limits vs)) (user_rows flag cols rows)))"

definition ScrapeUser_Scrape :: "bool \<Rightarrow> database \<Rightarrow> scrape_out" where
  "ScrapeUser_Scrape privilegesFlag db =
     with_query db 0 mysqlUserQuery [] (\<lambda>rs. user_rows privilegesFlag (rs_cols rs) (rs_rows rs))"

lemma privilege_metric_ok: "list_all metric_ok (privilege_metric u h c v)"
  by (simp add: privilege_metric_def metric_ok_Const split: prod.splits bool.splits)

lemma user_limits_ok: "list_all metric_ok (user_limits vs)"
  by (simp add: user_limits_def Let_def metric_ok_Const)

lemma safe_user_privileges: "safe_out (user_privileges flag cols row vs)"
  by (auto simp: user_privileges_def split: sum.splits intro!: safe_run privilege_metric_ok)

lemma safe_user_rows [safe_run]: "safe_out (user_rows flag cols rows)"
  by (induction rows) (auto split: sum.splits intro!: safe_run safe_user_privileges user_limits_ok)

interpretation sc_user: safe_scraper "ScrapeUser_Scrape flag" for flag
  unfolding ScrapeUser_Scrape_def by (rule safe_scraperI) (intro safe_run)

text \<open>
  What the privileges of a row are: every column whose text is \<open>Y\<close> or \<open>N\<close>, under its name, as \<open>1\<close>
  or \<open>0\<close>.
\<close>

definition privilege_columns :: "string list \<Rightarrow> cell list \<Rightarrow> (string \<times> bool) list" where
  "privilege_columns cols row =
     map (\<lambda>(col, c). (col, as_string c = ''Y'')) (filter (\<lambda>(col, c). as_string c \<in> {''Y'', ''N''}) (zip cols row))"

lemma convert_raw: "convert_all (replicate (length row) DRaw) row = Inr (map (\<lambda>c. GRaw (as_string c)) row)"
  by (induction row) simp_all

lemma scan_raw: "scan (replicate (length row) DRaw) row = Inr (map (\<lambda>c. GRaw (as_string c)) row)"
  by (simp add: scan_def convert_raw)

lemma privilege_zip:
  "concat (map (\<lambda>(col, v). privilege_metric u h col v) (zip cols (map (\<lambda>c. GRaw (as_string c)) row))) =
   map (\<lambda>(col, y). ConstMetric
       (NewDesc (BuildFQName namespace mysqlSubsystem (strings_ToLower col)) (col @ '' by user.'') labelNames)
       GaugeValue (if y then f_one else f_zero) [u, h]) (privilege_columns cols row)"
  by (induction cols row rule: list_induct2')
    (auto simp: privilege_columns_def privilege_metric_def parsePrivilege_def)

text \<open>
  With the privileges flag, a row that scans sends one metric for every column whose text is
  \<open>Y\<close> or \<open>N\<close>, and then the four limits, all labelled with user and host. This holds for every
  column, the user and the host included, so a user named \<open>Y\<close> is sent as a privilege too.
\<close>

theorem user_row_sent:
  assumes "scan ScrapeUser_dests row = Inr vs" "length cols = length row"
  shows "user_rows True (Inr cols) [row] =
    (map (\<lambda>(col, y). ConstMetric
       (NewDesc (BuildFQName namespace mysqlSubsystem (strings_ToLower col)) (col @ '' by user.'') labelNames)
       GaugeValue (if y then f_one else f_zero) [g_str (vs ! 0), g_str (vs ! 1)]) (privilege_columns cols row) @
     user_limits vs, Done)"
proof -
  have "user_privileges True (Inr cols) row vs =
      (concat (map (\<lambda>(col, v). privilege_metric (g_str (vs ! 0)) (g_str (vs ! 1)) col v)
         (zip cols (map (\<lambda>c. GRaw (as_string c)) row))), Done)"
    using assms(2) by (simp add: user_privileges_def scan_raw
        col_loop_sends [where emit = "privilege_metric (g_str (vs ! 0)) (g_str (vs ! 1))"] privilege_metric_ok)
  then show ?thesis using assms(1) by (simp add: privilege_zip send_all_ok user_limits_ok)
qed

definition user_row :: "cell list" where
  "user_row = [CBytes ''Y'', CBytes ''%''] @ replicate 29 (CBytes ''N'') @ replicate 4 (CBytes ''0'')"

theorem user_row_sent_witness:
  "hd (fst (user_rows True (Inr (''User'' # replicate 34 ''c'')) [user_row])) =
    ConstMetric (NewDesc (BuildFQName namespace mysqlSubsystem ''user'') ''User by user.'' labelNames)
      GaugeValue f_one [''Y'', ''%'']"
proof -
  let ?vs = "[GStr ''Y'', GStr ''%''] @ replicate 29 (GStr ''N'') @ replicate 4 (GU32 0)"
  have s: "scan ScrapeUser_dests user_row = Inr ?vs" by code_simp
  have l: "length (''User'' # replicate 34 ''c'') = length user_row" by code_simp
  have p: "privilege_columns (''User'' # replicate 34 ''c'') user_row = (''User'', True) # replicate 29 (''c'', False)"
    by code_simp
  have n: "strings_ToLower ''User'' = ''user''" by code_simp
  show ?thesis unfolding user_row_sent [OF s l] p by (simp add: n)
qed

end
