(* ===== verification/AllScrapers.thy ===== *)
theory AllScrapers
  imports Registry PerfTables PerfStatements PerfReplication InfoTables InfoStats InfoMetrics ProcessList
    ServerVariables EngineStatus Replication UsersHosts
begin

text \<open>
  The scrapers that are not about NDB as values of the interface \<open>Scraper\<close>, and what holds of all
  the sixty scrapers of the table of \<open>mysqld_exporter.go\<close> together: which answers of the server
  they survive, and that a collection over them returns.
\<close>

section \<open>The table\<close>

text \<open>The flags of these scrapers, and \<open>uuid.Parse\<close>.\<close>

record server_flags =
  sf_processlistMinTime :: int
  sf_processesByHost :: bool
  sf_processesByUser :: bool
  sf_userPrivileges :: bool
  sf_tableSchemaDatabases :: string
  sf_fileInstancesFilter :: string
  sf_fileInstancesRemovePrefix :: string
  sf_memoryEventsRemovePrefix :: string
  sf_statements :: statements_flags
  sf_heartbeat :: heartbeat_flags
  sf_is_uuid :: "string \<Rightarrow> bool"

definition server_scrapers :: "scraper_env \<Rightarrow> server_flags \<Rightarrow> scraper list" where
  "server_scrapers env fl =
     [\<lparr>sc_name = ScrapeGlobalStatus_Name, sc_help = ScrapeGlobalStatus_Help, sc_version = ScrapeGlobalStatus_Version,
       sc_scrape = (\<lambda>_. ScrapeGlobalStatus_Scrape (se_tz env))\<rparr>,
      \<lparr>sc_name = ScrapeGlobalVariables_Name, sc_help = ScrapeGlobalVariables_Help, sc_version = ScrapeGlobalVariables_Version,
       sc_scrape = (\<lambda>_. ScrapeGlobalVariables_Scrape (se_tz env))\<rparr>,
      \<lparr>sc_name = ScrapeSlaveStatus_Name, sc_help = ScrapeSlaveStatus_Help, sc_version = ScrapeSlaveStatus_Version,
       sc_scrape = (\<lambda>_. ScrapeSlaveStatus_Scrape (se_tz env))\<rparr>,
      \<lparr>sc_name = ScrapeProcesslist_Name, sc_help = ScrapeProcesslist_Help, sc_version = ScrapeProcesslist_Version,
       sc_scrape = (\<lambda>_. ScrapeProcesslist_Scrape (sf_processlistMinTime fl) (sf_processesByHost fl) (sf_processesByUser fl) (se_order env))\<rparr>,
      \<lparr>sc_name = ScrapeUser_Name, sc_help = ScrapeUser_Help, sc_version = ScrapeUser_Version,
       sc_scrape = (\<lambda>_. ScrapeUser_Scrape (sf_userPrivileges fl))\<rparr>,
      \<lparr>sc_name = ScrapeTableSchema_Name, sc_help = ScrapeTableSchema_Help, sc_version = ScrapeTableSchema_Version,
       sc_scrape = (\<lambda>_. ScrapeTableSchema_Scrape (sf_tableSchemaDatabases fl))\<rparr>,
      \<lparr>sc_name = ScrapeInfoSchemaInnodbTablespaces_Name, sc_help = ScrapeInfoSchemaInnodbTablespaces_Help, sc_version = ScrapeInfoSchemaInnodbTablespaces_Version,
       sc_scrape = ScrapeInfoSchemaInnodbTablespaces_Scrape\<rparr>,
      \<lparr>sc_name = ScrapeInnodbMetrics_Name, sc_help = ScrapeInnodbMetrics_Help, sc_version = ScrapeInnodbMetrics_Version,
       sc_scrape = (\<lambda>_. ScrapeInnodbMetrics_Scrape)\<rparr>,
      \<lparr>sc_name = ScrapeAutoIncrementColumns_Name, sc_help = ScrapeAutoIncrementColumns_Help, sc_version = ScrapeAutoIncrementColumns_Version,
       sc_scrape = (\<lambda>_. ScrapeAutoIncrementColumns_Scrape)\<rparr>,
      \<lparr>sc_name = ScrapeBinlogSize_Name, sc_help = ScrapeBinlogSize_Help, sc_version = ScrapeBinlogSize_Version,
       sc_scrape = (\<lambda>_. ScrapeBinlogSize_Scrape)\<rparr>,
      \<lparr>sc_name = ScrapePerfTableIOWaits_Name, sc_help = ScrapePerfTableIOWaits_Help, sc_version = ScrapePerfTableIOWaits_Version,
       sc_scrape = (\<lambda>_. ScrapePerfTableIOWaits_Scrape)\<rparr>,
      \<lparr>sc_name = ScrapePerfIndexIOWaits_Name, sc_help = ScrapePerfIndexIOWaits_Help, sc_version = ScrapePerfIndexIOWaits_Version,
       sc_scrape = (\<lambda>_. ScrapePerfIndexIOWaits_Scrape)\<rparr>,
      \<lparr>sc_name = ScrapePerfTableLockWaits_Name, sc_help = ScrapePerfTableLockWaits_Help, sc_version = ScrapePerfTableLockWaits_Version,
       sc_scrape = (\<lambda>_. ScrapePerfTableLockWaits_Scrape)\<rparr>,
      \<lparr>sc_name = ScrapePerfEventsStatements_Name, sc_help = ScrapePerfEventsStatements_Help, sc_version = ScrapePerfEventsStatements_Version,
       sc_scrape = (ScrapePerfEventsStatements_Scrape (sf_statements fl))\<rparr>,
      \<lparr>sc_name = ScrapePerfEventsStatementsSum_Name, sc_help = ScrapePerfEventsStatementsSum_Help, sc_version = ScrapePerfEventsStatementsSum_Version,
       sc_scrape = (\<lambda>_. ScrapePerfEventsStatementsSum_Scrape)\<rparr>,
      \<lparr>sc_name = ScrapePerfEventsWaits_Name, sc_help = ScrapePerfEventsWaits_Help, sc_version = ScrapePerfEventsWaits_Version,
       sc_scrape = (\<lambda>_. ScrapePerfEventsWaits_Scrape)\<rparr>,
      \<lparr>sc_name = ScrapePerfFileEvents_Name, sc_help = ScrapePerfFileEvents_Help, sc_version = ScrapePerfFileEvents_Version,
       sc_scrape = (\<lambda>_. ScrapePerfFileEvents_Scrape)\<rparr>,
      \<lparr>sc_name = ScrapePerfFileInstances_Name, sc_help = ScrapePerfFileInstances_Help, sc_version = ScrapePerfFileInstances_Version,
       sc_scrape = (\<lambda>_. ScrapePerfFileInstances_Scrape (sf_fileInstancesFilter fl) (sf_fileInstancesRemovePrefix fl))\<rparr>,
      \<lparr>sc_name = ScrapePerfMemoryEvents_Name, sc_help = ScrapePerfMemoryEvents_Help, sc_version = ScrapePerfMemoryEvents_Version,
       sc_scrape = (\<lambda>_. ScrapePerfMemoryEvents_Scrape (sf_memoryEventsRemovePrefix fl))\<rparr>,
      \<lparr>sc_name = ScrapePerfReplicationGroupMembers_Name, sc_help = ScrapePerfReplicationGroupMembers_Help, sc_version = ScrapePerfReplicationGroupMembers_Version,
       sc_scrape = (\<lambda>_. ScrapePerfReplicationGroupMembers_Scrape)\<rparr>,
      \<lparr>sc_name = ScrapePerfReplicationGroupMemberStats_Name, sc_help = ScrapePerfReplicationGroupMemberStats_Help, sc_version = ScrapePerfReplicationGroupMemberStats_Version,
       sc_scrape = (\<lambda>_. ScrapePerfReplicationGroupMemberStats_Scrape)\<rparr>,
      \<lparr>sc_name = ScrapePerfReplicationApplierStatsByWorker_Name, sc_help = ScrapePerfReplicationApplierStatsByWorker_Help, sc_version = ScrapePerfReplicationApplierStatsByWorker_Version,
       sc_scrape = (\<lambda>_. ScrapePerfReplicationApplierStatsByWorker_Scrape)\<rparr>,
      \<lparr>sc_name = ScrapeSysUserSummary_Name, sc_help = ScrapeSysUserSummary_Help, sc_version = ScrapeSysUserSummary_Version,
       sc_scrape = (\<lambda>_. ScrapeSysUserSummary_Scrape)\<rparr>,
      \<lparr>sc_name = ScrapeUserStat_Name, sc_help = ScrapeUserStat_Help, sc_version = ScrapeUserStat_Version,
       sc_scrape = (\<lambda>_. ScrapeUserStat_Scrape)\<rparr>,
      \<lparr>sc_name = ScrapeClientStat_Name, sc_help = ScrapeClientStat_Help, sc_version = ScrapeClientStat_Version,
       sc_scrape = (\<lambda>_. ScrapeClientStat_Scrape)\<rparr>,
      \<lparr>sc_name = ScrapeTableStat_Name, sc_help = ScrapeTableStat_Help, sc_version = ScrapeTableStat_Version,
       sc_scrape = (\<lambda>_. ScrapeTableStat_Scrape)\<rparr>,
      \<lparr>sc_name = ScrapeSchemaStat_Name, sc_help = ScrapeSchemaStat_Help, sc_version = ScrapeSchemaStat_Version,
       sc_scrape = (\<lambda>_. ScrapeSchemaStat_Scrape)\<rparr>,
      \<lparr>sc_name = ScrapeInnodbCmp_Name, sc_help = ScrapeInnodbCmp_Help, sc_version = ScrapeInnodbCmp_Version,
       sc_scrape = (\<lambda>_. ScrapeInnodbCmp_Scrape)\<rparr>,
      \<lparr>sc_name = ScrapeInnodbCmpMem_Name, sc_help = ScrapeInnodbCmpMem_Help, sc_version = ScrapeInnodbCmpMem_Version,
       sc_scrape = (\<lambda>_. ScrapeInnodbCmpMem_Scrape)\<rparr>,
      \<lparr>sc_name = ScrapeQueryResponseTime_Name, sc_help = ScrapeQueryResponseTime_Help, sc_version = ScrapeQueryResponseTime_Version,
       sc_scrape = (\<lambda>_. ScrapeQueryResponseTime_Scrape)\<rparr>,
      \<lparr>sc_name = ScrapeEngineTokudbStatus_Name, sc_help = ScrapeEngineTokudbStatus_Help, sc_version = ScrapeEngineTokudbStatus_Version,
       sc_scrape = (\<lambda>_. ScrapeEngineTokudbStatus_Scrape (se_tz env) (se_order env))\<rparr>,
      \<lparr>sc_name = ScrapeEngineInnodbStatus_Name, sc_help = ScrapeEngineInnodbStatus_Help, sc_version = ScrapeEngineInnodbStatus_Version,
       sc_scrape = (\<lambda>_. ScrapeEngineInnodbStatus_Scrape)\<rparr>,
      \<lparr>sc_name = ScrapeHeartbeat_Name, sc_help = ScrapeHeartbeat_Help, sc_version = ScrapeHeartbeat_Version,
       sc_scrape = (\<lambda>_. ScrapeHeartbeat_Scrape (sf_heartbeat fl))\<rparr>,
      \<lparr>sc_name = ScrapeSlaveHosts_Name, sc_help = ScrapeSlaveHosts_Help, sc_version = ScrapeSlaveHosts_Version,
       sc_scrape = (\<lambda>_. ScrapeSlaveHosts_Scrape (sf_is_uuid fl))\<rparr>,
      \<lparr>sc_name = ScrapeReplicaHost_Name, sc_help = ScrapeReplicaHost_Help, sc_version = ScrapeReplicaHost_Version,
       sc_scrape = (\<lambda>_. ScrapeReplicaHost_Scrape)\<rparr>,
      \<lparr>sc_name = ScrapeRocksDBPerfContext_Name, sc_help = ScrapeRocksDBPerfContext_Help, sc_version = ScrapeRocksDBPerfContext_Version,
       sc_scrape = (\<lambda>_. ScrapeRocksDBPerfContext_Scrape)\<rparr>]"

definition all_scrapers :: "scraper_env \<Rightarrow> server_flags \<Rightarrow> scraper list" where
  "all_scrapers env fl = server_scrapers env fl @ ndb_scrapers env"

section \<open>Safety\<close>

text \<open>
  What the code relies on: the answer to a statement has at least one column. The statistics
  scrapers make a slice of one element less and panic otherwise.
\<close>

definition has_columns :: "database \<Rightarrow> bool" where
  "has_columns db \<longleftrightarrow> (\<forall>i q args rs. db i q args = Inr rs \<longrightarrow> rs_cols rs \<noteq> Inr [])"

lemmas server_safe =
  fin_global_status.safe_scraper_axioms [folded ScrapeGlobalStatus_Scrape_def]
  fin_global_variables.safe_scraper_axioms [folded ScrapeGlobalVariables_Scrape_def]
  sc_slave_status.safe_scraper_axioms
  fin_processlist.safe_scraper_axioms [folded ScrapeProcesslist_Scrape_def]
  sc_user.safe_scraper_axioms
  sc_tables.safe_scraper_axioms
  sc_tablespaces.safe_scraper_axioms
  sc_innodb_metrics.safe_scraper_axioms
  tbl_auto_increment_columns.safe_scraper_axioms [folded ScrapeAutoIncrementColumns_Scrape_def]
  tbl_perf_table_iowaits.safe_scraper_axioms [folded ScrapePerfTableIOWaits_Scrape_def]
  tbl_perf_index_iowaits.safe_scraper_axioms [folded ScrapePerfIndexIOWaits_Scrape_def]
  tbl_perf_table_lock_waits.safe_scraper_axioms [folded ScrapePerfTableLockWaits_Scrape_def]
  sc_events_statements.safe_scraper_axioms
  tbl_perf_events_statements_sum.safe_scraper_axioms [folded ScrapePerfEventsStatementsSum_Scrape_def]
  tbl_perf_events_waits.safe_scraper_axioms [folded ScrapePerfEventsWaits_Scrape_def]
  tbl_perf_file_events.safe_scraper_axioms [folded ScrapePerfFileEvents_Scrape_def]
  sc_perf_file_instances.safe_scraper_axioms
  tbl_perf_memory_events.safe_scraper_axioms [folded ScrapePerfMemoryEvents_Scrape_def]
  sc_group_members.safe_scraper_axioms
  sc_group_member_stats.safe_scraper_axioms
  tbl_perf_replication_applier_stats_by_worker.safe_scraper_axioms [folded ScrapePerfReplicationApplierStatsByWorker_Scrape_def]
  tbl_sys_user_summary.safe_scraper_axioms [folded ScrapeSysUserSummary_Scrape_def]
  sc_tablestat.safe_scraper_axioms
  sc_schemastat.safe_scraper_axioms
  tbl_innodb_cmp.safe_scraper_axioms [folded ScrapeInnodbCmp_Scrape_def]
  tbl_innodb_cmp_mem.safe_scraper_axioms [folded ScrapeInnodbCmpMem_Scrape_def]
  sc_query_response_time.safe_scraper_axioms
  fin_engine_tokudb.safe_scraper_axioms [folded ScrapeEngineTokudbStatus_Scrape_def]
  sc_engine_innodb.safe_scraper_axioms
  sc_heartbeat.safe_scraper_axioms
  sc_slave_hosts.safe_scraper_axioms
  sc_replica_host.safe_scraper_axioms
  tbl_rocksdb.safe_scraper_axioms [folded ScrapeRocksDBPerfContext_Scrape_def]

lemma statistics_scrapers_safe:
  "has_columns db \<Longrightarrow> safe_out (ScrapeClientStat_Scrape db)"
  "has_columns db \<Longrightarrow> safe_out (ScrapeUserStat_Scrape db)"
  by (auto simp: ScrapeClientStat_Scrape_def ScrapeUserStat_Scrape_def has_columns_def
      intro!: client.statistics_safe user.statistics_safe)

lemma server_safe_cases:
  assumes "sc \<in> set (server_scrapers env fl)" "sc_name sc \<noteq> ScrapeBinlogSize_Name" "has_columns db"
  shows "safe_out (sc_scrape sc inst db)"
proof -
  from assms(1,2) have "safe_scraper (sc_scrape sc inst) \<or> sc_scrape sc inst = ScrapeClientStat_Scrape \<or>
      sc_scrape sc inst = ScrapeUserStat_Scrape"
    by (auto simp: server_scrapers_def server_safe)
  with statistics_scrapers_safe [OF assms(3)] show ?thesis by (auto dest: safe_scraper_out)
qed

lemma all_safe:
  assumes "sc \<in> set (all_scrapers env fl)" "sc_name sc \<noteq> ScrapeBinlogSize_Name" "has_columns db"
  shows "safe_out (sc_scrape sc inst db)"
  using assms server_safe_cases ndb_all_safe safe_scraper_out by (auto simp: all_scrapers_def)


section \<open>Properties\<close>


definition sample_server_flags :: server_flags where
  "sample_server_flags = \<lparr>sf_processlistMinTime = 0, sf_processesByHost = True, sf_processesByUser = True,
     sf_userPrivileges = False, sf_tableSchemaDatabases = ''*'', sf_fileInstancesFilter = ''.*'',
     sf_fileInstancesRemovePrefix = ''/var/lib/mysql/'', sf_memoryEventsRemovePrefix = ''memory/'',
     sf_statements = \<lparr>perfEventsStatementsLimit = 250, perfEventsStatementsTimeLimit = 86400,
       perfEventsStatementsDigestTextLimit = 120, perfEventsStatementsExcludeSchemas = []\<rparr>,
     sf_heartbeat = \<lparr>collectHeartbeatDatabase = ''heartbeat'', collectHeartbeatTable = ''heartbeat'',
       collectHeartbeatUtc = False\<rparr>,
     sf_is_uuid = (\<lambda>s. length s = 36)\<rparr>"

lemma failing_has_columns: "has_columns (\<lambda>_ _ _. Inl e)"
  by (simp add: has_columns_def)


lemma all_harmless:
  assumes "set (e_scrapers e) \<subseteq> set (all_scrapers sc_env fl)" "ScrapeBinlogSize_Name \<notin> sc_name ` set (e_scrapers e)"
    and "\<And>i. has_columns (env_db env i)"
  shows "list_all (harmless inst env) (numbered e)"
proof -
  have "harmless inst env (i, sc)" if "(i, sc) \<in> set (numbered e)" for i sc
  proof -
    from that have "sc \<in> set (e_scrapers e)" by (auto simp: numbered_def dest: set_zip_rightD)
    then have "sc \<in> set (all_scrapers sc_env fl)" "sc_name sc \<noteq> ScrapeBinlogSize_Name"
      using assms(1,2) by (blast, metis image_eqI)
    from all_safe [OF this assms(3)] show ?thesis by (simp add: harmless_def safe_out_def)
  qed
  then show ?thesis by (auto simp: list_all_iff)
qed


definition busy_exporter :: exporter where
  "busy_exporter = sample_exporter\<lparr>e_scrapers :=
     filter (\<lambda>sc. sc_name sc \<noteq> ScrapeBinlogSize_Name) (all_scrapers sample_scraper_env sample_server_flags)\<rparr>"


lemma collect_total:
  assumes "\<And>inst. list_all (harmless inst env) (numbered e)"
  shows "\<exists>ms. Collect e env ms"
proof -
  obtain r b where n: "newInstance (env_open env) (env_semver env) (e_dsn e) (e_maxOpenConns e) = (r, b)" by fastforce
  show ?thesis
  proof (cases r)
    case (Inl err)
    then show ?thesis using n Collect.no_connection by blast
  next
    case (Inr inst)
    show ?thesis
    proof (cases "env_ping env")
      case None
      then have "connected e env = Some inst" by (simp add: connected_def n Inr)
      then show ?thesis by (rule collect_exists [OF assms])
    next
      case (Some err)
      then show ?thesis using n Inr Collect.no_ping by blast
    qed
  qed
qed

lemma collect_up: "Collect e env ms \<Longrightarrow> last ms = up_metric (if connected e env = None then f_zero else f_one)"
  by (cases rule: Collect.cases) (auto simp: connected_def)



text \<open>The names in the order of the lists; the table has the NDB synchronisation scrapers among the others.\<close>

definition server_names :: "string list" where
  "server_names = [ScrapeGlobalStatus_Name,
     ScrapeGlobalVariables_Name,
     ScrapeSlaveStatus_Name,
     ScrapeProcesslist_Name,
     ScrapeUser_Name,
     ScrapeTableSchema_Name,
     ScrapeInfoSchemaInnodbTablespaces_Name,
     ScrapeInnodbMetrics_Name,
     ScrapeAutoIncrementColumns_Name,
     ScrapeBinlogSize_Name,
     ScrapePerfTableIOWaits_Name,
     ScrapePerfIndexIOWaits_Name,
     ScrapePerfTableLockWaits_Name,
     ScrapePerfEventsStatements_Name,
     ScrapePerfEventsStatementsSum_Name,
     ScrapePerfEventsWaits_Name,
     ScrapePerfFileEvents_Name,
     ScrapePerfFileInstances_Name,
     ScrapePerfMemoryEvents_Name,
     ScrapePerfReplicationGroupMembers_Name,
     ScrapePerfReplicationGroupMemberStats_Name,
     ScrapePerfReplicationApplierStatsByWorker_Name,
     ScrapeSysUserSummary_Name,
     ScrapeUserStat_Name,
     ScrapeClientStat_Name,
     ScrapeTableStat_Name,
     ScrapeSchemaStat_Name,
     ScrapeInnodbCmp_Name,
     ScrapeInnodbCmpMem_Name,
     ScrapeQueryResponseTime_Name,
     ScrapeEngineTokudbStatus_Name,
     ScrapeEngineInnodbStatus_Name,
     ScrapeHeartbeat_Name,
     ScrapeSlaveHosts_Name,
     ScrapeReplicaHost_Name,
     ScrapeRocksDBPerfContext_Name]"

definition ndb_names :: "string list" where
  "ndb_names = [ScrapePerfNDBSyncExcludedObjects_Name,
     ScrapePerfNDBSyncPendingObjects_Name,
     ScrapeNDBInfoBackupID_Name,
     ScrapeNDBInfoCertificates_Name,
     ScrapeNDBInfoClusterOperations_Name,
     ScrapeNDBInfoClusterTransactions_Name,
     ScrapeNDBInfoConfigValues_Name,
     ScrapeNDBInfoCounters_Name,
     ScrapeNDBInfoDiskPageBuffer_Name,
     ScrapeNDBInfoDiskStat_Name,
     ScrapeNDBInfoDiskWriteSpeed_Name,
     ScrapeNDBInfoFiles_Name,
     ScrapeNDBInfoLogBuffers_Name,
     ScrapeNDBInfoLogSpaces_Name,
     ScrapeNDBInfoMembership_Name,
     ScrapeNDBInfoMemoryUsage_Name,
     ScrapeNDBInfoNodes_Name,
     ScrapeNDBInfoPGMANTimeTrackStats_Name,
     ScrapeNDBInfoPools_Name,
     ScrapeNDBInfoResources_Name,
     ScrapeNDBInfoTableDistribution_Name,
     ScrapeNDBInfoTCTimeTrackStats_Name,
     ScrapeNDBInfoThreadstat_Name,
     ScrapeNDBInfoTransporters_Name]"

lemma server_names_eq: "map sc_name (server_scrapers env fl) = server_names"
  by (simp add: server_scrapers_def server_names_def)

lemma ndb_names_eq: "map sc_name (ndb_scrapers env) = ndb_names"
  by (simp add: ndb_scrapers_def ndb_names_def)

lemma table_names:
  "map fst scraper_defaults = take 19 server_names @ take 2 ndb_names @ drop 19 server_names @ drop 2 ndb_names"
  by code_simp

lemma mset_take_drop: "mset (take n xs) + mset (drop n xs) = mset xs"
  by (simp flip: mset_append)

lemma table_length: "length scraper_defaults = 60"
  by (simp add: scraper_defaults_def)

lemma all_scrapers_names: "mset (map sc_name (all_scrapers env fl)) = mset (map fst scraper_defaults)"
  using mset_take_drop [of 19 server_names] mset_take_drop [of 2 ndb_names]
  by (simp add: all_scrapers_def server_names_eq ndb_names_eq table_names) (metis (no_types) add.assoc add.commute)


end
