(* ===== verification/Names.thy ===== *)
theory Names
  imports AllScrapers
begin

text \<open>
  Which metrics are whose. A scrape is answered with the metrics of all its scrapers together, and
  the Prometheus library refuses the answer as a whole when two metrics of one name disagree or
  coincide, so scrapers must keep out of each other's names. For every scraper there is the list of
  the names of its descriptors, and the prefixes of the names it makes of what the server says.
\<close>

section \<open>Names of a run\<close>

definition names_in :: "(fq_name \<Rightarrow> bool) \<Rightarrow> scrape_out \<Rightarrow> bool" where
  "names_in N r \<longleftrightarrow> list_all (\<lambda>m. N (fq (metric_desc m))) (fst r)"

definition names_ok :: "fq_name list \<Rightarrow> (string \<times> string) list \<Rightarrow> fq_name \<Rightarrow> bool" where
  "names_ok S D q \<longleftrightarrow> q \<in> set S \<or> (\<exists>(sub, pre) \<in> set D. \<exists>n. q = BuildFQName namespace sub (pre @ n))"

named_theorems names_run \<open>rules for the names a run sends\<close>
named_theorems keeps \<open>the names each scraper sends\<close>

abbreviation all_named :: "(fq_name \<Rightarrow> bool) \<Rightarrow> metric list \<Rightarrow> bool" where
  "all_named N \<equiv> list_all (\<lambda>m. N (fq (metric_desc m)))"

lemma names_in_simps [simp]: "names_in N (ms, r) \<longleftrightarrow> all_named N ms"
  by (simp add: names_in_def)

lemma names_send_all [names_run]: "all_named N ms \<Longrightarrow> names_in N (send_all ms)"
  by (induction ms) (auto simp: names_in_def split: prod.splits)

lemma names_and_then [names_run]: "names_in N a \<Longrightarrow> names_in N b \<Longrightarrow> names_in N (and_then a b)"
  by (simp add: and_then_cases names_in_def)

lemma names_with_query [names_run]: "(\<And>rs. names_in N (k rs)) \<Longrightarrow> names_in N (with_query db i q args k)"
  by (simp add: with_query_def split: sum.splits)

lemma names_row_loop:
  assumes "\<And>st vs. names_in N (snd (step st vs))"
  shows "names_in N (snd (row_loop ds step st rows))"
proof (induction rows arbitrary: st)
  case (Cons r rs)
  show ?case
  proof (cases "scan ds r")
    case (Inr vs)
    obtain st' ms res where s: "step st vs = (st', ms, res)" by (cases "step st vs") auto
    with assms [of st vs] Cons.IH [of st'] Inr show ?thesis
      by (cases res) (auto split: prod.splits simp: names_in_def)
  qed simp
qed simp

lemma names_each_row [names_run]: "(\<And>vs. all_named N (emit vs)) \<Longrightarrow> names_in N (each_row ds emit rows)"
  unfolding each_row_def by (rule names_row_loop) (simp add: names_send_all)

lemma names_table [names_run]: "(\<And>vs. all_named N (emit vs)) \<Longrightarrow> names_in N (table_scrape q ds emit db)"
  unfolding table_scrape_def by (intro names_run)

lemma names_for_rows [names_run]: "(\<And>vs. names_in N (body vs)) \<Longrightarrow> names_in N (for_rows ds body rows)"
  unfolding for_rows_def by (rule names_row_loop) (simp add: row_step_def)

lemma names_loop [names_run]:
  assumes "\<And>st vs. names_in N (snd (step st vs))" "\<And>st. names_in N (finish st)"
  shows "names_in N (loop_scrape q ds step st0 finish db)"
proof -
  have "names_in N (case row_loop ds step st0 rows of (st, out) \<Rightarrow> and_then out (finish st))" for rows
    using names_row_loop [where step = step and ds = ds and rows = rows and st = st0, OF assms(1)]
    by (auto split: prod.splits intro: names_and_then assms(2))
  then show ?thesis unfolding loop_scrape_def by (intro names_run)
qed

lemma names_col_loop [names_run]: "(\<And>c v. names_in N (body c v)) \<Longrightarrow> names_in N (col_loop body cs vs)"
  by (induction body cs vs rule: col_loop.induct) (auto intro: names_and_then)

lemma names_with_columns [names_run]: "(\<And>cols. names_in N (k cols)) \<Longrightarrow> names_in N (with_columns rs k)"
  by (simp add: with_columns_def split: sum.splits)

lemma names_userstat_guard [names_run]: "names_in N body \<Longrightarrow> names_in N (userstat_guard db body)"
  by (simp add: userstat_guard_def split: sum.splits)

lemma fq_variable_metric [simp]: "fq (metric_desc (variable_metric d v ls)) = vd_fq d"
  by (simp add: variable_metric_def)

lemma map_of_name: "map_of table k = Some (t, d) \<Longrightarrow> fq d \<in> set (map (\<lambda>(k, t, d). fq d) table)"
  by (force dest: map_of_SomeD)

lemma names_without_error [names_run]: "names_in N out \<Longrightarrow> names_in N (without_error out)"
  by (auto simp: without_error_def names_in_def split: prod.splits scrape_end.splits)

lemma names_tables_loop:
  assumes "\<And>vs. all_named N (ScrapeTableSchema_row vs)"
  shows "names_in N (tables_loop db i ds)"
  by (induction db i ds rule: tables_loop.induct) (auto intro!: names_run assms)

lemma hist_finish_names: "m \<in> set (hist_finish bounds ord n ds ms) \<Longrightarrow> metric_desc m \<in> set ds"
  by (induction bounds ord n ds ms rule: hist_finish.induct) (auto simp: hist_metric_def Let_def)

lemma names_hist: "(\<And>d. d \<in> set ds \<Longrightarrow> N (fq d)) \<Longrightarrow> names_in N (hist_scrape q dests bounds ds ord db)"
  unfolding hist_scrape_def
  by (auto intro!: names_run simp: hist_step_def list_all_iff Let_def) (metis hist_finish_names)

lemma names_response:
  assumes "N (fq (infoSchemaQueryResponseTimeCountDescs ! i))"
  shows "names_in N (processQueryResponseTimeTable query i db)"
proof -
  let ?loop = "\<lambda>rows. row_loop [DStr, DU64, DStr] (\<lambda>st vs. (response_times_row st vs, [], Done)) response_times_init rows"
  have "names_in N (case ?loop rows of (st, out) \<Rightarrow> and_then out (send_all
      [ConstHistogram (infoSchemaQueryResponseTimeCountDescs ! i) (histogramCnt st) (histogramSum st) (countBuckets st) []]))"
    for rows
  proof -
    obtain st out where l: "?loop rows = (st, out)" by (cases "?loop rows")
    have "names_in N (snd (?loop rows))" by (rule names_row_loop) simp
    then have "names_in N out" by (simp add: l)
    then show ?thesis unfolding l prod.case by (rule names_and_then) (rule names_send_all, simp add: assms)
  qed
  then show ?thesis unfolding processQueryResponseTimeTable_def by (intro names_run)
qed

section \<open>The names of each scraper\<close>

definition names_GlobalStatus :: "fq_name list" where
  "names_GlobalStatus =
     [fq globalCommandsDesc, fq globalHandlerDesc, fq globalConnectionErrorsDesc,
      fq globalBufferPoolPagesDesc, fq globalBufferPoolDirtyPagesDesc, fq globalBufferPoolPageChangesDesc,
      fq globalInnoDBRowOpsDesc, fq globalPerformanceSchemaLostDesc, BuildFQName namespace ''galera''
      ''status_info'']"

definition names_GlobalVariables :: "fq_name list" where
  "names_GlobalVariables =
     [BuildFQName namespace ''version'' ''info'', BuildFQName namespace ''galera'' ''variables_info'',
      BuildFQName namespace ''galera'' ''gcache_size_bytes'', BuildFQName namespace ''transaction''
      ''isolation'']"

definition names_SlaveStatus :: "fq_name list" where
  "names_SlaveStatus =
     []"

definition names_Processlist :: "fq_name list" where
  "names_Processlist =
     [fq processlistCountDesc, fq processlistTimeDesc, fq processesByUserDesc, fq processesByHostDesc]"

definition names_User :: "fq_name list" where
  "names_User =
     [fq userMaxQuestionsDesc, fq userMaxUpdatesDesc, fq userMaxConnectionsDesc,
      fq userMaxUserConnectionsDesc]"

definition names_TableSchema :: "fq_name list" where
  "names_TableSchema =
     [fq infoSchemaTablesVersionDesc, fq infoSchemaTablesRowsDesc, fq infoSchemaTablesSizeDesc]"

definition names_InfoSchemaInnodbTablespaces :: "fq_name list" where
  "names_InfoSchemaInnodbTablespaces =
     [fq infoSchemaInnodbTablesspaceInfoDesc, fq infoSchemaInnodbTablesspaceFileSizeDesc,
      fq infoSchemaInnodbTablesspaceAllocatedSizeDesc]"

definition names_InnodbMetrics :: "fq_name list" where
  "names_InnodbMetrics =
     [fq infoSchemaBufferPageReadTotalDesc, fq infoSchemaBufferPageWrittenTotalDesc,
      fq infoSchemaBufferPoolPagesDesc, fq infoSchemaBufferPoolPagesDirtyDesc]"

definition names_AutoIncrementColumns :: "fq_name list" where
  "names_AutoIncrementColumns =
     [fq globalInfoSchemaAutoIncrementDesc, fq globalInfoSchemaAutoIncrementMaxDesc]"

definition names_BinlogSize :: "fq_name list" where
  "names_BinlogSize =
     [fq binlogSizeDesc, fq binlogFilesDesc, fq binlogFileNumberDesc]"

definition names_PerfTableIOWaits :: "fq_name list" where
  "names_PerfTableIOWaits =
     [fq performanceSchemaTableWaitsDesc, fq performanceSchemaTableWaitsTimeDesc]"

definition names_PerfIndexIOWaits :: "fq_name list" where
  "names_PerfIndexIOWaits =
     [fq performanceSchemaIndexWaitsDesc, fq performanceSchemaIndexWaitsTimeDesc]"

definition names_PerfTableLockWaits :: "fq_name list" where
  "names_PerfTableLockWaits =
     [fq performanceSchemaSQLTableLockWaitsDesc, fq performanceSchemaExternalTableLockWaitsDesc,
      fq performanceSchemaSQLTableLockWaitsTimeDesc, fq performanceSchemaExternalTableLockWaitsTimeDesc]"

definition names_PerfEventsStatements :: "fq_name list" where
  "names_PerfEventsStatements =
     [fq performanceSchemaEventsStatementsDesc, fq performanceSchemaEventsStatementsTimeDesc,
      fq performanceSchemaEventsStatementsLockTimeDesc, fq performanceSchemaEventsStatementsCpuTimeDesc,
      fq performanceSchemaEventsStatementsErrorsDesc, fq performanceSchemaEventsStatementsWarningsDesc,
      fq performanceSchemaEventsStatementsRowsAffectedDesc, fq performanceSchemaEventsStatementsRowsSentDesc,
      fq performanceSchemaEventsStatementsRowsExaminedDesc, fq performanceSchemaEventsStatementsTmpTablesDesc,
      fq performanceSchemaEventsStatementsTmpDiskTablesDesc,
      fq performanceSchemaEventsStatementsSortMergePassesDesc,
      fq performanceSchemaEventsStatementsSortRowsDesc, fq performanceSchemaEventsStatementsNoIndexUsedDesc,
      fq performanceSchemaEventsStatementsLatency]"

definition names_PerfEventsStatementsSum :: "fq_name list" where
  "names_PerfEventsStatementsSum =
     [fq performanceSchemaEventsStatementsSumTotalDesc,
      fq performanceSchemaEventsStatementsSumCreatedTmpDiskTablesDesc,
      fq performanceSchemaEventsStatementsSumCreatedTmpTablesDesc,
      fq performanceSchemaEventsStatementsSumErrorsDesc, fq performanceSchemaEventsStatementsSumLockTimeDesc,
      fq performanceSchemaEventsStatementsSumNoGoodIndexUsedDesc,
      fq performanceSchemaEventsStatementsSumNoIndexUsedDesc,
      fq performanceSchemaEventsStatementsSumRowsAffectedDesc,
      fq performanceSchemaEventsStatementsSumRowsExaminedDesc,
      fq performanceSchemaEventsStatementsSumRowsSentDesc,
      fq performanceSchemaEventsStatementsSumSelectFullJoinDesc,
      fq performanceSchemaEventsStatementsSumSelectFullRangeJoinDesc,
      fq performanceSchemaEventsStatementsSumSelectRangeDesc,
      fq performanceSchemaEventsStatementsSumSelectRangeCheckDesc,
      fq performanceSchemaEventsStatementsSumSelectScanDesc,
      fq performanceSchemaEventsStatementsSumSortMergePassesDesc,
      fq performanceSchemaEventsStatementsSumSortRangeDesc,
      fq performanceSchemaEventsStatementsSumSortRowsDesc,
      fq performanceSchemaEventsStatementsSumSortScanDesc,
      fq performanceSchemaEventsStatementsSumTimerWaitDesc,
      fq performanceSchemaEventsStatementsSumWarningsDesc]"

definition names_PerfEventsWaits :: "fq_name list" where
  "names_PerfEventsWaits =
     [fq performanceSchemaEventsWaitsDesc, fq performanceSchemaEventsWaitsTimeDesc]"

definition names_PerfFileEvents :: "fq_name list" where
  "names_PerfFileEvents =
     [fq performanceSchemaFileEventsDesc, fq performanceSchemaFileEventsTimeDesc,
      fq performanceSchemaFileEventsBytesDesc]"

definition names_PerfFileInstances :: "fq_name list" where
  "names_PerfFileInstances =
     [fq performanceSchemaFileInstancesBytesDesc, fq performanceSchemaFileInstancesCountDesc]"

definition names_PerfMemoryEvents :: "fq_name list" where
  "names_PerfMemoryEvents =
     [fq performanceSchemaMemoryBytesAllocDesc, fq performanceSchemaMemoryBytesFreeDesc,
      fq perforanceSchemaMemoryUsedBytesDesc]"

definition names_PerfReplicationGroupMembers :: "fq_name list" where
  "names_PerfReplicationGroupMembers =
     [BuildFQName namespace performanceSchema ''replication_group_member_info'']"

definition names_PerfReplicationGroupMemberStats :: "fq_name list" where
  "names_PerfReplicationGroupMemberStats =
     map (\<lambda>(k, t, d). fq d) perfReplicationGroupMemberStats"

definition names_PerfReplicationApplierStatsByWorker :: "fq_name list" where
  "names_PerfReplicationApplierStatsByWorker =
     [fq performanceSchemaReplicationApplierStatsByWorkerLastAppliedTransactionOriginalCommitSecondDesc,
      fq performanceSchemaReplicationApplierStatsByWorkerLastAppliedTransactionImmediateCommitSecondDesc,
      fq performanceSchemaReplicationApplierStatsByWorkerLastAppliedTransactionStartApplySecondDesc,
      fq performanceSchemaReplicationApplierStatsByWorkerLastAppliedTransactionEndApplySecondDesc,
      fq performanceSchemaReplicationApplierStatsByWorkerApplyingTransactionOriginalCommitSecondDesc,
      fq performanceSchemaReplicationApplierStatsByWorkerApplyingTransactionImmediateCommitSecondDesc,
      fq performanceSchemaReplicationApplierStatsByWorkerApplyingTransactionStartApplySecondDesc]"

definition names_SysUserSummary :: "fq_name list" where
  "names_SysUserSummary =
     [fq sysUserSummaryStatements, fq sysUserSummaryStatementLatency, fq sysUserSummaryTableScans,
      fq sysUserSummaryFileIOs, fq sysUserSummaryFileIOLatency, fq sysUserSummaryCurrentConnections,
      fq sysUserSummaryTotalConnections, fq sysUserSummaryUniqueHosts, fq sysUserSummaryCurrentMemory,
      fq sysUserSummaryTotalMemoryAllocated]"

definition names_UserStat :: "fq_name list" where
  "names_UserStat =
     map (\<lambda>(k, t, d). fq d) informationSchemaUserStatisticsTypes"

definition names_ClientStat :: "fq_name list" where
  "names_ClientStat =
     map (\<lambda>(k, t, d). fq d) informationSchemaClientStatisticsTypes"

definition names_TableStat :: "fq_name list" where
  "names_TableStat =
     [fq infoSchemaTableStatsRowsReadDesc, fq infoSchemaTableStatsRowsChangedDesc,
      fq infoSchemaTableStatsRowsChangedXIndexesDesc]"

definition names_SchemaStat :: "fq_name list" where
  "names_SchemaStat =
     [fq infoSchemaStatsRowsReadDesc, fq infoSchemaStatsRowsChangedDesc,
      fq infoSchemaStatsRowsChangedXIndexesDesc]"

definition names_InnodbCmp :: "fq_name list" where
  "names_InnodbCmp =
     [fq infoSchemaInnodbCmpCompressOps, fq infoSchemaInnodbCmpCompressOpsOk,
      fq infoSchemaInnodbCmpCompressTime, fq infoSchemaInnodbCmpUncompressOps,
      fq infoSchemaInnodbCmpUncompressTime]"

definition names_InnodbCmpMem :: "fq_name list" where
  "names_InnodbCmpMem =
     [fq infoSchemaInnodbCmpMemPagesRead, fq infoSchemaInnodbCmpMemPagesFree,
      fq infoSchemaInnodbCmpMemRelocationOps, fq infoSchemaInnodbCmpMemRelocationTime]"

definition names_QueryResponseTime :: "fq_name list" where
  "names_QueryResponseTime =
     [fq (infoSchemaQueryResponseTimeCountDescs ! 0), fq (infoSchemaQueryResponseTimeCountDescs ! 1), fq
      (infoSchemaQueryResponseTimeCountDescs ! 2)]"

definition names_EngineTokudbStatus :: "fq_name list" where
  "names_EngineTokudbStatus =
     []"

definition names_EngineInnodbStatus :: "fq_name list" where
  "names_EngineInnodbStatus =
     []"

definition names_Heartbeat :: "fq_name list" where
  "names_Heartbeat =
     [fq HeartbeatStoredDesc, fq HeartbeatNowDesc]"

definition names_SlaveHosts :: "fq_name list" where
  "names_SlaveHosts =
     [fq SlaveHostsInfo]"

definition names_ReplicaHost :: "fq_name list" where
  "names_ReplicaHost =
     [fq infoSchemaReplicaHostCpuDesc, fq infoSchemaReplicaHostReplicaLatencyDesc,
      fq infoSchemaReplicaHostLagDesc, fq infoSchemaReplicaHostLogStreamSpeedDesc,
      fq infoSchemaReplicaHostReplayLatencyDesc]"

definition names_RocksDBPerfContext :: "fq_name list" where
  "names_RocksDBPerfContext =
     map (\<lambda>(k, t, d). fq d) informationSchemaRocksDBPerfContextMetrics"

definition names_PerfNDBSyncExcludedObjects :: "fq_name list" where
  "names_PerfNDBSyncExcludedObjects =
     [fq perfNDBSyncExcludedObjectsDescExcludedObjects]"

definition names_PerfNDBSyncPendingObjects :: "fq_name list" where
  "names_PerfNDBSyncPendingObjects =
     [fq perfNDBSyncPendingObjectsDescPendingObjects]"

definition names_NDBInfoBackupID :: "fq_name list" where
  "names_NDBInfoBackupID =
     [fq ndbinfoBackupIDDesc]"

definition names_NDBInfoCertificates :: "fq_name list" where
  "names_NDBInfoCertificates =
     [fq ndbinfoCertificatesDesc]"

definition names_NDBInfoClusterOperations :: "fq_name list" where
  "names_NDBInfoClusterOperations =
     [vd_fq ndbinfoClusterOperationsDescCount]"

definition names_NDBInfoClusterTransactions :: "fq_name list" where
  "names_NDBInfoClusterTransactions =
     [fq ndbinfoClusterTransactionsDescCount, fq ndbinfoClusterTransactionsDescMaxInactivity]"

definition names_NDBInfoConfigValues :: "fq_name list" where
  "names_NDBInfoConfigValues =
     [fq ndbinfoConfigValuesDesc]"

definition names_NDBInfoCounters :: "fq_name list" where
  "names_NDBInfoCounters =
     [vd_fq ndbinfoCountersDesc]"

definition names_NDBInfoDiskPageBuffer :: "fq_name list" where
  "names_NDBInfoDiskPageBuffer =
     [vd_fq ndbinfoDiskPageBufferDescPagesWritten, vd_fq ndbinfoDiskPageBufferDescPagesWrittenLCP,
      vd_fq ndbinfoDiskPageBufferDescPagesRead, vd_fq ndbinfoDiskPageBufferDescLogWaits,
      vd_fq ndbinfoDiskPageBufferDescPageRequestDirectReturn,
      vd_fq ndbinfoDiskPageBufferDescPageRequestWaitQueue, vd_fq ndbinfoDiskPageBufferDescPageRequestWaitIO]"

definition names_NDBInfoDiskStat :: "fq_name list" where
  "names_NDBInfoDiskStat =
     [fq ndbinfoDiskStatDescPagesMadeDirty, fq ndbinfoDiskStatDescReadsIssued,
      fq ndbinfoDiskStatDescReadsCompleted, fq ndbinfoDiskStatDescWritesIssued,
      fq ndbinfoDiskStatDescWritesCompleted, fq ndbinfoDiskStatDescLogWritesIssued,
      fq ndbinfoDiskStatDescLogWritesCompleted, fq ndbinfoDiskStatDescGetPageCallsIssued,
      fq ndbinfoDiskStatDescGetPageReqsIssued, fq ndbinfoDiskStatDescGetPageReqsCompleted]"

definition names_NDBInfoDiskWriteSpeed :: "fq_name list" where
  "names_NDBInfoDiskWriteSpeed =
     [fq ndbinfoDiskWriteSpeedDescBackupLCPSpeed, fq ndbinfoDiskWriteSpeedDescRedoSpeed,
      fq ndbinfoDiskWriteSpeedDescSlowdownsDueToIoLag, fq ndbinfoDiskWriteSpeedDescSlowdownsDueToHighCPU,
      fq ndbinfoDiskWriteSpeedDescDiskWriteSpeedSetToMin,
      fq ndbinfoDiskWriteSpeedDescCurrentTargetDistWriteSpeed]"

definition names_NDBInfoFiles :: "fq_name list" where
  "names_NDBInfoFiles =
     [vd_fq ndbinfoFilesDescFreeExtents, vd_fq ndbinfoFilesDescTotalExtents, vd_fq ndbinfoFilesDescExtentSize,
      vd_fq ndbinfoFilesDescSize, vd_fq ndbinfoFilesDescVersion, vd_fq ndbinfoFilesDescUndoLogBufferSize]"

definition names_NDBInfoLogBuffers :: "fq_name list" where
  "names_NDBInfoLogBuffers =
     [fq ndbinfoLogBuffersDescTotal, fq ndbinfoLogBuffersDescUsed]"

definition names_NDBInfoLogSpaces :: "fq_name list" where
  "names_NDBInfoLogSpaces =
     [fq ndbinfoLogSpacesDescTotal, fq ndbinfoLogSpacesDescUsed]"

definition names_NDBInfoMembership :: "fq_name list" where
  "names_NDBInfoMembership =
     [fq ndbinfoMembershipDescPresident, fq ndbinfoMembershipDescSuccessor,
      fq ndbinfoMembershipDescArbitrator, fq ndbinfoMembershipDescArbTicket, fq ndbinfoMembershipDescArbState,
      fq ndbinfoMembershipDescArbConnected]"

definition names_NDBInfoMemoryUsage :: "fq_name list" where
  "names_NDBInfoMemoryUsage =
     [fq ndbinfoMemoryUsageDescUsed, fq ndbinfoMemoryUsageDescTotal]"

definition names_NDBInfoNodes :: "fq_name list" where
  "names_NDBInfoNodes =
     [fq ndbinfoNodesDescUptime, fq ndbinfoNodesDescStatus, fq ndbinfoNodesDescConfigGeneration]"

definition names_NDBInfoPGMANTimeTrackStats :: "fq_name list" where
  "names_NDBInfoPGMANTimeTrackStats =
     [fq ndbinfoPGMANTimeTrackStatsDescPageReads, fq ndbinfoPGMANTimeTrackStatsDescPageWrites,
      fq ndbinfoPGMANTimeTrackStatsDescLogWaits, fq ndbinfoPGMANTimeTrackStatsDescGetPageCalls]"

definition names_NDBInfoPools :: "fq_name list" where
  "names_NDBInfoPools =
     [vd_fq ndbinfoPoolsDescUsed, vd_fq ndbinfoPoolsDescTotal]"

definition names_NDBInfoResources :: "fq_name list" where
  "names_NDBInfoResources =
     [fq ndbinfoResourcesDescReserved, fq ndbinfoResourcesDescUsed, fq ndbinfoResourcesDescMax]"

definition names_NDBInfoTableDistribution :: "fq_name list" where
  "names_NDBInfoTableDistribution =
     [fq ndbinfoTableDistributionDescCopyStatus, fq ndbinfoTableDistributionDescUpdateStatus,
      fq ndbinfoTableDistributionDescLCPStatus, fq ndbinfoTableDistributionDescStatus,
      fq ndbinfoTableDistributionDescPartitions, fq ndbinfoTableDistributionDescFragments,
      fq ndbinfoTableDistributionDescScansCurrent, fq ndbinfoTableDistributionDescScansWaiting,
      fq ndbinfoTableDistributionDescReorgOngoing]"

definition names_NDBInfoTCTimeTrackStats :: "fq_name list" where
  "names_NDBInfoTCTimeTrackStats =
     [fq ndbinfoTCTimeTrackStatsDescScans, fq ndbinfoTCTimeTrackStatsDescScanErrors,
      fq ndbinfoTCTimeTrackStatsDescScanFragments, fq ndbinfoTCTimeTrackStatsDescScanFragmentErrors,
      fq ndbinfoTCTimeTrackStatsDescTransactions, fq ndbinfoTCTimeTrackStatsDescTransactionErrors,
      fq ndbinfoTCTimeTrackStatsDescReadKeyOps, fq ndbinfoTCTimeTrackStatsDescWriteKeyOps,
      fq ndbinfoTCTimeTrackStatsDescIndexKeyOps, fq ndbinfoTCTimeTrackStatsDescKeyOpErrors]"

definition names_NDBInfoThreadstat :: "fq_name list" where
  "names_NDBInfoThreadstat =
     [fq ndbinfoThreadstatDescLoops, fq ndbinfoThreadstatDescSignalsExec, fq ndbinfoThreadstatDescWaits,
      fq ndbinfoThreadstatDescSignalsSentLocalPrioA, fq ndbinfoThreadstatDescSignalsSentLocalPrioB,
      fq ndbinfoThreadstatDescSignalsSentRemotePrioA, fq ndbinfoThreadstatDescSignalsSentRemotePrioB,
      fq ndbinfoThreadstatDescOsNow, fq ndbinfoThreadstatDescOsUtime, fq ndbinfoThreadstatDescOsStime,
      fq ndbinfoThreadstatDescOsMinflt, fq ndbinfoThreadstatDescOsMajflt, fq ndbinfoThreadstatDescOsNvcsw,
      fq ndbinfoThreadstatDescOsNivcsw]"

definition names_NDBInfoTransporters :: "fq_name list" where
  "names_NDBInfoTransporters =
     [fq ndbinfoTransportersDescStatus, fq ndbinfoTransportersDescBytesSent,
      fq ndbinfoTransportersDescBytesReceived, fq ndbinfoTransportersDescOverloaded,
      fq ndbinfoTransportersDescSlowdown, fq ndbinfoTransportersDescEncrypted]"

text \<open>The scrapers of the table with their names, in the order of \<open>all_scrapers\<close>.\<close>

type_synonym name_entry = "string \<times> fq_name list \<times> (string \<times> string) list"

definition server_name_table :: "name_entry list" where
  "server_name_table =
    [(ScrapeGlobalStatus_Name, names_GlobalStatus, [(globalStatus, []), (''galera_evs_repl_latency'', [])]),
     (ScrapeGlobalVariables_Name, names_GlobalVariables, [(globalVariables, [])]),
     (ScrapeSlaveStatus_Name, names_SlaveStatus, [(slaveStatus, [])]),
     (ScrapeProcesslist_Name, names_Processlist, []),
     (ScrapeUser_Name, names_User, [(mysqlSubsystem, [])]),
     (ScrapeTableSchema_Name, names_TableSchema, []),
     (ScrapeInfoSchemaInnodbTablespaces_Name, names_InfoSchemaInnodbTablespaces, []),
     (ScrapeInnodbMetrics_Name, names_InnodbMetrics, [(informationSchema, ''innodb_metrics_'')]),
     (ScrapeAutoIncrementColumns_Name, names_AutoIncrementColumns, []),
     (ScrapeBinlogSize_Name, names_BinlogSize, []),
     (ScrapePerfTableIOWaits_Name, names_PerfTableIOWaits, []),
     (ScrapePerfIndexIOWaits_Name, names_PerfIndexIOWaits, []),
     (ScrapePerfTableLockWaits_Name, names_PerfTableLockWaits, []),
     (ScrapePerfEventsStatements_Name, names_PerfEventsStatements, []),
     (ScrapePerfEventsStatementsSum_Name, names_PerfEventsStatementsSum, []),
     (ScrapePerfEventsWaits_Name, names_PerfEventsWaits, []),
     (ScrapePerfFileEvents_Name, names_PerfFileEvents, []),
     (ScrapePerfFileInstances_Name, names_PerfFileInstances, []),
     (ScrapePerfMemoryEvents_Name, names_PerfMemoryEvents, []),
     (ScrapePerfReplicationGroupMembers_Name, names_PerfReplicationGroupMembers, []),
     (ScrapePerfReplicationGroupMemberStats_Name, names_PerfReplicationGroupMemberStats, []),
     (ScrapePerfReplicationApplierStatsByWorker_Name, names_PerfReplicationApplierStatsByWorker, []),
     (ScrapeSysUserSummary_Name, names_SysUserSummary, []),
     (ScrapeUserStat_Name, names_UserStat, [(informationSchema, ''user_statistics_'')]),
     (ScrapeClientStat_Name, names_ClientStat, [(informationSchema, ''client_statistics_'')]),
     (ScrapeTableStat_Name, names_TableStat, []),
     (ScrapeSchemaStat_Name, names_SchemaStat, []),
     (ScrapeInnodbCmp_Name, names_InnodbCmp, []),
     (ScrapeInnodbCmpMem_Name, names_InnodbCmpMem, []),
     (ScrapeQueryResponseTime_Name, names_QueryResponseTime, []),
     (ScrapeEngineTokudbStatus_Name, names_EngineTokudbStatus, [(tokudb, [])]),
     (ScrapeEngineInnodbStatus_Name, names_EngineInnodbStatus, [(innodb, [])]),
     (ScrapeHeartbeat_Name, names_Heartbeat, []),
     (ScrapeSlaveHosts_Name, names_SlaveHosts, []),
     (ScrapeReplicaHost_Name, names_ReplicaHost, []),
     (ScrapeRocksDBPerfContext_Name, names_RocksDBPerfContext, [])]"

definition ndb_name_table :: "name_entry list" where
  "ndb_name_table =
    [(ScrapePerfNDBSyncExcludedObjects_Name, names_PerfNDBSyncExcludedObjects, []),
     (ScrapePerfNDBSyncPendingObjects_Name, names_PerfNDBSyncPendingObjects, []),
     (ScrapeNDBInfoBackupID_Name, names_NDBInfoBackupID, []),
     (ScrapeNDBInfoCertificates_Name, names_NDBInfoCertificates, []),
     (ScrapeNDBInfoClusterOperations_Name, names_NDBInfoClusterOperations, []),
     (ScrapeNDBInfoClusterTransactions_Name, names_NDBInfoClusterTransactions, []),
     (ScrapeNDBInfoConfigValues_Name, names_NDBInfoConfigValues, []),
     (ScrapeNDBInfoCounters_Name, names_NDBInfoCounters, []),
     (ScrapeNDBInfoDiskPageBuffer_Name, names_NDBInfoDiskPageBuffer, []),
     (ScrapeNDBInfoDiskStat_Name, names_NDBInfoDiskStat, []),
     (ScrapeNDBInfoDiskWriteSpeed_Name, names_NDBInfoDiskWriteSpeed, []),
     (ScrapeNDBInfoFiles_Name, names_NDBInfoFiles, []),
     (ScrapeNDBInfoLogBuffers_Name, names_NDBInfoLogBuffers, []),
     (ScrapeNDBInfoLogSpaces_Name, names_NDBInfoLogSpaces, []),
     (ScrapeNDBInfoMembership_Name, names_NDBInfoMembership, []),
     (ScrapeNDBInfoMemoryUsage_Name, names_NDBInfoMemoryUsage, []),
     (ScrapeNDBInfoNodes_Name, names_NDBInfoNodes, []),
     (ScrapeNDBInfoPGMANTimeTrackStats_Name, names_NDBInfoPGMANTimeTrackStats, []),
     (ScrapeNDBInfoPools_Name, names_NDBInfoPools, []),
     (ScrapeNDBInfoResources_Name, names_NDBInfoResources, []),
     (ScrapeNDBInfoTableDistribution_Name, names_NDBInfoTableDistribution, []),
     (ScrapeNDBInfoTCTimeTrackStats_Name, names_NDBInfoTCTimeTrackStats, []),
     (ScrapeNDBInfoThreadstat_Name, names_NDBInfoThreadstat, []),
     (ScrapeNDBInfoTransporters_Name, names_NDBInfoTransporters, [])]"

section \<open>Scraper by scraper\<close>

lemma names_user_rows:
  "names_in (names_ok names_User [(mysqlSubsystem, [])]) (user_rows flag cols rows)"
proof (induction flag cols rows rule: user_rows.induct)
  case (2 flag cols row rows)
  have "names_in (names_ok names_User [(mysqlSubsystem, [])]) (user_privileges flag cols row vs)" for vs
    unfolding user_privileges_def privilege_metric_def
    by (auto simp: names_ok_def names_User_def intro!: names_run split: sum.split prod.split bool.split)
  moreover have "names_in (names_ok names_User [(mysqlSubsystem, [])]) (send_all (user_limits vs))" for vs
    unfolding user_limits_def by (auto simp: names_ok_def names_User_def Let_def intro!: names_run)
  ultimately show ?case using 2 by (auto intro!: names_and_then split: sum.split)
qed simp

lemma names_GlobalStatus_ok [keeps]: "names_in (names_ok names_GlobalStatus [(globalStatus, []), (''galera_evs_repl_latency'', [])]) (ScrapeGlobalStatus_Scrape tz' db)"
  unfolding ScrapeGlobalStatus_Scrape_def ScrapeGlobalStatus_step_def global_status_metric_def ScrapeGlobalStatus_finish_def evs_metrics_def newDesc_def
  by (auto simp: names_ok_def Let_def list_all_iff names_GlobalStatus_def 
      intro!: names_run split: sum.split option.split prod.split if_split list.split bool.split)

lemma names_GlobalVariables_ok [keeps]: "names_in (names_ok names_GlobalVariables [(globalVariables, [])]) (ScrapeGlobalVariables_Scrape tz' db)"
  unfolding ScrapeGlobalVariables_Scrape_def ScrapeGlobalVariables_step_def global_variable_metric_def ScrapeGlobalVariables_finish_def newDesc_def
  by (auto simp: names_ok_def Let_def list_all_iff names_GlobalVariables_def 
      intro!: names_run split: sum.split option.split prod.split if_split list.split bool.split)

lemma names_SlaveStatus_ok [keeps]: "names_in (names_ok names_SlaveStatus [(slaveStatus, [])]) (ScrapeSlaveStatus_Scrape tz' db)"
  unfolding ScrapeSlaveStatus_Scrape_def ScrapeSlaveStatus_row_def slave_column_metric_def parseMariaDBGtid_def gtid_metric_def
  by (auto simp: names_ok_def Let_def list_all_iff names_SlaveStatus_def 
      intro!: names_run split: sum.split option.split prod.split if_split list.split bool.split)

lemma names_Processlist_ok [keeps]: "names_in (names_ok names_Processlist []) (ScrapeProcesslist_Scrape processlistMinTime' processesByHost' processesByUser' order' db)"
  unfolding ScrapeProcesslist_Scrape_def ScrapeProcesslist_step_def ScrapeProcesslist_finish_def
  by (auto simp: names_ok_def Let_def list_all_iff names_Processlist_def 
      intro!: names_run split: sum.split option.split prod.split if_split list.split bool.split)

lemma names_User_ok [keeps]: "names_in (names_ok names_User [(mysqlSubsystem, [])]) (ScrapeUser_Scrape userPrivileges' db)"
  unfolding ScrapeUser_Scrape_def
  by (intro names_run names_user_rows)

lemma names_TableSchema_ok [keeps]: "names_in (names_ok names_TableSchema []) (ScrapeTableSchema_Scrape tableSchemaDatabases' db)"
  unfolding ScrapeTableSchema_Scrape_def
  by (auto simp: names_ok_def Let_def names_TableSchema_def ScrapeTableSchema_row_def
      intro!: names_run names_tables_loop split: option.split)

lemma names_InfoSchemaInnodbTablespaces_ok [keeps]: "names_in (names_ok names_InfoSchemaInnodbTablespaces []) (ScrapeInfoSchemaInnodbTablespaces_Scrape inst db)"
  unfolding ScrapeInfoSchemaInnodbTablespaces_Scrape_def
  by (auto simp: names_ok_def Let_def names_InfoSchemaInnodbTablespaces_def ScrapeInfoSchemaInnodbTablespaces_row_def
      intro!: names_run split: sum.split option.split prod.split if_split)

lemma names_InnodbMetrics_ok [keeps]: "names_in (names_ok names_InnodbMetrics [(informationSchema, ''innodb_metrics_'')]) (ScrapeInnodbMetrics_Scrape db)"
  unfolding ScrapeInnodbMetrics_Scrape_def
  by (auto simp: names_ok_def Let_def names_InnodbMetrics_def ScrapeInnodbMetrics_row_def innodb_generic_metric_def
      intro!: names_run split: sum.split option.split prod.split if_split)

lemma names_AutoIncrementColumns_ok [keeps]: "names_in (names_ok names_AutoIncrementColumns []) (ScrapeAutoIncrementColumns_Scrape db)"
  unfolding ScrapeAutoIncrementColumns_Scrape_def
  by (auto simp: names_ok_def Let_def names_AutoIncrementColumns_def ScrapeAutoIncrementColumns_row_def
      intro!: names_run split: sum.split option.split prod.split if_split)

lemma names_BinlogSize_ok [keeps]: "names_in (names_ok names_BinlogSize []) (ScrapeBinlogSize_Scrape db)"
  unfolding ScrapeBinlogSize_Scrape_def binlog_number_def
  by (auto simp: names_ok_def Let_def list_all_iff names_BinlogSize_def 
      intro!: names_run split: sum.split option.split prod.split if_split list.split bool.split)

lemma names_PerfTableIOWaits_ok [keeps]: "names_in (names_ok names_PerfTableIOWaits []) (ScrapePerfTableIOWaits_Scrape db)"
  unfolding ScrapePerfTableIOWaits_Scrape_def
  by (auto simp: names_ok_def Let_def names_PerfTableIOWaits_def ScrapePerfTableIOWaits_row_def
      intro!: names_run split: sum.split option.split prod.split if_split)

lemma names_PerfIndexIOWaits_ok [keeps]: "names_in (names_ok names_PerfIndexIOWaits []) (ScrapePerfIndexIOWaits_Scrape db)"
  unfolding ScrapePerfIndexIOWaits_Scrape_def
  by (auto simp: names_ok_def Let_def names_PerfIndexIOWaits_def ScrapePerfIndexIOWaits_row_def
      intro!: names_run split: sum.split option.split prod.split if_split)

lemma names_PerfTableLockWaits_ok [keeps]: "names_in (names_ok names_PerfTableLockWaits []) (ScrapePerfTableLockWaits_Scrape db)"
  unfolding ScrapePerfTableLockWaits_Scrape_def
  by (auto simp: names_ok_def Let_def names_PerfTableLockWaits_def ScrapePerfTableLockWaits_row_def
      intro!: names_run split: sum.split option.split prod.split if_split)

lemma names_PerfEventsStatements_ok [keeps]: "names_in (names_ok names_PerfEventsStatements []) (ScrapePerfEventsStatements_Scrape statements' inst db)"
  unfolding ScrapePerfEventsStatements_Scrape_def
  by (auto simp: names_ok_def Let_def names_PerfEventsStatements_def statement_metrics_def
      intro!: names_run split: sum.split option.split prod.split if_split)

lemma names_PerfEventsStatementsSum_ok [keeps]: "names_in (names_ok names_PerfEventsStatementsSum []) (ScrapePerfEventsStatementsSum_Scrape db)"
  unfolding ScrapePerfEventsStatementsSum_Scrape_def
  by (auto simp: names_ok_def Let_def names_PerfEventsStatementsSum_def ScrapePerfEventsStatementsSum_row_def
      intro!: names_run split: sum.split option.split prod.split if_split)

lemma names_PerfEventsWaits_ok [keeps]: "names_in (names_ok names_PerfEventsWaits []) (ScrapePerfEventsWaits_Scrape db)"
  unfolding ScrapePerfEventsWaits_Scrape_def
  by (auto simp: names_ok_def Let_def names_PerfEventsWaits_def ScrapePerfEventsWaits_row_def
      intro!: names_run split: sum.split option.split prod.split if_split)

lemma names_PerfFileEvents_ok [keeps]: "names_in (names_ok names_PerfFileEvents []) (ScrapePerfFileEvents_Scrape db)"
  unfolding ScrapePerfFileEvents_Scrape_def
  by (auto simp: names_ok_def Let_def names_PerfFileEvents_def ScrapePerfFileEvents_row_def
      intro!: names_run split: sum.split option.split prod.split if_split)

lemma names_PerfFileInstances_ok [keeps]: "names_in (names_ok names_PerfFileInstances []) (ScrapePerfFileInstances_Scrape fileInstancesFilter' fileInstancesRemovePrefix' db)"
  unfolding ScrapePerfFileInstances_Scrape_def
  by (auto simp: names_ok_def Let_def names_PerfFileInstances_def ScrapePerfFileInstances_row_def
      intro!: names_run split: sum.split option.split prod.split if_split)

lemma names_PerfMemoryEvents_ok [keeps]: "names_in (names_ok names_PerfMemoryEvents []) (ScrapePerfMemoryEvents_Scrape memoryEventsRemovePrefix' db)"
  unfolding ScrapePerfMemoryEvents_Scrape_def
  by (auto simp: names_ok_def Let_def names_PerfMemoryEvents_def ScrapePerfMemoryEvents_row_def
      intro!: names_run split: sum.split option.split prod.split if_split)

lemma names_PerfReplicationGroupMembers_ok [keeps]: "names_in (names_ok names_PerfReplicationGroupMembers []) (ScrapePerfReplicationGroupMembers_Scrape db)"
  unfolding ScrapePerfReplicationGroupMembers_Scrape_def
  by (auto simp: names_ok_def Let_def names_PerfReplicationGroupMembers_def group_member_metric_def
      intro!: names_run split: sum.split option.split prod.split if_split)

lemma names_PerfReplicationGroupMemberStats_ok [keeps]: "names_in (names_ok names_PerfReplicationGroupMemberStats []) (ScrapePerfReplicationGroupMemberStats_Scrape db)"
  unfolding ScrapePerfReplicationGroupMemberStats_Scrape_def member_stats_column_def Let_def
  by (auto simp: names_ok_def names_PerfReplicationGroupMemberStats_def simp del: set_map dest!: map_of_name
      intro!: names_run split: sum.split option.split prod.split if_split list.split bool.split)

lemma names_PerfReplicationApplierStatsByWorker_ok [keeps]: "names_in (names_ok names_PerfReplicationApplierStatsByWorker []) (ScrapePerfReplicationApplierStatsByWorker_Scrape db)"
  unfolding ScrapePerfReplicationApplierStatsByWorker_Scrape_def
  by (auto simp: names_ok_def Let_def names_PerfReplicationApplierStatsByWorker_def ScrapePerfReplicationApplierStatsByWorker_row_def
      intro!: names_run split: sum.split option.split prod.split if_split)

lemma names_SysUserSummary_ok [keeps]: "names_in (names_ok names_SysUserSummary []) (ScrapeSysUserSummary_Scrape db)"
  unfolding ScrapeSysUserSummary_Scrape_def
  by (auto simp: names_ok_def Let_def names_SysUserSummary_def ScrapeSysUserSummary_row_def
      intro!: names_run split: sum.split option.split prod.split if_split)

lemma names_UserStat_ok [keeps]: "names_in (names_ok names_UserStat [(informationSchema, ''user_statistics_'')]) (ScrapeUserStat_Scrape db)"
  unfolding ScrapeUserStat_Scrape_def statistics_scrape_def statistics_row_def statistics_metric_def Let_def
  by (auto simp: names_ok_def names_UserStat_def simp del: set_map dest!: map_of_name
      intro!: names_run split: sum.split option.split prod.split if_split list.split bool.split)

lemma names_ClientStat_ok [keeps]: "names_in (names_ok names_ClientStat [(informationSchema, ''client_statistics_'')]) (ScrapeClientStat_Scrape db)"
  unfolding ScrapeClientStat_Scrape_def statistics_scrape_def statistics_row_def statistics_metric_def Let_def
  by (auto simp: names_ok_def names_ClientStat_def simp del: set_map dest!: map_of_name
      intro!: names_run split: sum.split option.split prod.split if_split list.split bool.split)

lemma names_TableStat_ok [keeps]: "names_in (names_ok names_TableStat []) (ScrapeTableStat_Scrape db)"
  unfolding ScrapeTableStat_Scrape_def
  by (auto simp: names_ok_def Let_def names_TableStat_def ScrapeTableStat_row_def userstat_guard_def
      intro!: names_run split: sum.split option.split prod.split if_split)

lemma names_SchemaStat_ok [keeps]: "names_in (names_ok names_SchemaStat []) (ScrapeSchemaStat_Scrape db)"
  unfolding ScrapeSchemaStat_Scrape_def
  by (auto simp: names_ok_def Let_def names_SchemaStat_def ScrapeSchemaStat_row_def
      intro!: names_run split: sum.split option.split prod.split if_split)

lemma names_InnodbCmp_ok [keeps]: "names_in (names_ok names_InnodbCmp []) (ScrapeInnodbCmp_Scrape db)"
  unfolding ScrapeInnodbCmp_Scrape_def
  by (auto simp: names_ok_def Let_def names_InnodbCmp_def ScrapeInnodbCmp_row_def
      intro!: names_run split: sum.split option.split prod.split if_split)

lemma names_InnodbCmpMem_ok [keeps]: "names_in (names_ok names_InnodbCmpMem []) (ScrapeInnodbCmpMem_Scrape db)"
  unfolding ScrapeInnodbCmpMem_Scrape_def
  by (auto simp: names_ok_def Let_def names_InnodbCmpMem_def ScrapeInnodbCmpMem_row_def
      intro!: names_run split: sum.split option.split prod.split if_split)

lemma names_QueryResponseTime_ok [keeps]: "names_in (names_ok names_QueryResponseTime []) (ScrapeQueryResponseTime_Scrape db)"
  unfolding ScrapeQueryResponseTime_Scrape_def
  by (auto simp: names_ok_def names_QueryResponseTime_def intro!: names_run names_response split: sum.split)

lemma names_EngineTokudbStatus_ok [keeps]: "names_in (names_ok names_EngineTokudbStatus [(tokudb, [])]) (ScrapeEngineTokudbStatus_Scrape tz' order' db)"
  unfolding ScrapeEngineTokudbStatus_Scrape_def ScrapeEngineTokudbStatus_step_def tokudb_metric_def newDesc_def
  by (auto simp: names_ok_def Let_def list_all_iff names_EngineTokudbStatus_def 
      intro!: names_run split: sum.split option.split prod.split if_split list.split bool.split)

lemma names_EngineInnodbStatus_ok [keeps]: "names_in (names_ok names_EngineInnodbStatus [(innodb, [])]) (ScrapeEngineInnodbStatus_Scrape db)"
  unfolding ScrapeEngineInnodbStatus_Scrape_def innodb_lines_def innodb_line_def newDesc_def
  by (auto simp: names_ok_def Let_def list_all_iff names_EngineInnodbStatus_def 
      intro!: names_run split: sum.split option.split prod.split if_split list.split bool.split)

lemma names_Heartbeat_ok [keeps]: "names_in (names_ok names_Heartbeat []) (ScrapeHeartbeat_Scrape heartbeat' db)"
  unfolding ScrapeHeartbeat_Scrape_def
  by (auto simp: names_ok_def Let_def names_Heartbeat_def ScrapeHeartbeat_row_def
      intro!: names_run split: sum.split option.split prod.split if_split)

lemma names_SlaveHosts_ok [keeps]: "names_in (names_ok names_SlaveHosts []) (ScrapeSlaveHosts_Scrape is_uuid' db)"
  unfolding ScrapeSlaveHosts_Scrape_def
  by (auto simp: names_ok_def Let_def names_SlaveHosts_def slave_hosts_metric_def
      intro!: names_run split: sum.split option.split prod.split if_split)

lemma names_ReplicaHost_ok [keeps]: "names_in (names_ok names_ReplicaHost []) (ScrapeReplicaHost_Scrape db)"
  unfolding ScrapeReplicaHost_Scrape_def ScrapeReplicaHost_row_def
  by (auto simp: names_ok_def Let_def list_all_iff names_ReplicaHost_def 
      intro!: names_run split: sum.split option.split prod.split if_split go_err.split)

lemma names_RocksDBPerfContext_ok [keeps]: "names_in (names_ok names_RocksDBPerfContext []) (ScrapeRocksDBPerfContext_Scrape db)"
  unfolding ScrapeRocksDBPerfContext_Scrape_def ScrapeRocksDBPerfContext_row_def Let_def
  by (auto simp: names_ok_def names_RocksDBPerfContext_def simp del: set_map dest!: map_of_name
      intro!: names_run split: sum.split option.split prod.split if_split list.split bool.split)

lemma names_PerfNDBSyncExcludedObjects_ok [keeps]: "names_in (names_ok names_PerfNDBSyncExcludedObjects []) (ScrapePerfNDBSyncExcludedObjects_Scrape db)"
  unfolding ScrapePerfNDBSyncExcludedObjects_Scrape_def
  by (auto simp: names_ok_def Let_def names_PerfNDBSyncExcludedObjects_def ScrapePerfNDBSyncExcludedObjects_row_def
      intro!: names_run split: sum.split option.split prod.split if_split)

lemma names_PerfNDBSyncPendingObjects_ok [keeps]: "names_in (names_ok names_PerfNDBSyncPendingObjects []) (ScrapePerfNDBSyncPendingObjects_Scrape db)"
  unfolding ScrapePerfNDBSyncPendingObjects_Scrape_def
  by (auto simp: names_ok_def Let_def names_PerfNDBSyncPendingObjects_def ScrapePerfNDBSyncPendingObjects_row_def
      intro!: names_run split: sum.split option.split prod.split if_split)

lemma names_NDBInfoBackupID_ok [keeps]: "names_in (names_ok names_NDBInfoBackupID []) (ScrapeNDBInfoBackupID_Scrape db)"
  unfolding ScrapeNDBInfoBackupID_Scrape_def
  by (auto simp: names_ok_def Let_def names_NDBInfoBackupID_def ScrapeNDBInfoBackupID_row_def
      intro!: names_run split: sum.split option.split prod.split if_split)

lemma names_NDBInfoCertificates_ok [keeps]: "names_in (names_ok names_NDBInfoCertificates []) (ScrapeNDBInfoCertificates_Scrape tz' db)"
  unfolding ScrapeNDBInfoCertificates_Scrape_def
  by (auto simp: names_ok_def Let_def names_NDBInfoCertificates_def ScrapeNDBInfoCertificates_step_def
      intro!: names_run split: sum.split option.split prod.split if_split)

lemma names_NDBInfoClusterOperations_ok [keeps]: "names_in (names_ok names_NDBInfoClusterOperations []) (ScrapeNDBInfoClusterOperations_Scrape operations' db)"
  unfolding ScrapeNDBInfoClusterOperations_Scrape_def
  by (auto simp: names_ok_def Let_def names_NDBInfoClusterOperations_def ScrapeNDBInfoClusterOperations_Verbose0_row_def ScrapeNDBInfoClusterOperations_ScrapeVerbose0_def ScrapeNDBInfoClusterOperations_Verbose1_row_def ScrapeNDBInfoClusterOperations_ScrapeVerbose1_def
      intro!: names_run split: sum.split option.split prod.split if_split)

lemma names_NDBInfoClusterTransactions_ok [keeps]: "names_in (names_ok names_NDBInfoClusterTransactions []) (ScrapeNDBInfoClusterTransactions_Scrape db)"
  unfolding ScrapeNDBInfoClusterTransactions_Scrape_def
  by (auto simp: names_ok_def Let_def names_NDBInfoClusterTransactions_def ScrapeNDBInfoClusterTransactions_step_def ScrapeNDBInfoClusterTransactions_finish_def
      intro!: names_run split: sum.split option.split prod.split if_split)

lemma names_NDBInfoConfigValues_ok [keeps]: "names_in (names_ok names_NDBInfoConfigValues []) (ScrapeNDBInfoConfigValues_Scrape db)"
  unfolding ScrapeNDBInfoConfigValues_Scrape_def
  by (auto simp: names_ok_def Let_def names_NDBInfoConfigValues_def ScrapeNDBInfoConfigValues_row_def
      intro!: names_run split: sum.split option.split prod.split if_split)

lemma names_NDBInfoCounters_ok [keeps]: "names_in (names_ok names_NDBInfoCounters []) (ScrapeNDBInfoCounters_Scrape counters' db)"
  unfolding ScrapeNDBInfoCounters_Scrape_def
  by (auto simp: names_ok_def Let_def names_NDBInfoCounters_def ScrapeNDBInfoCounters_Verbose0_row_def ScrapeNDBInfoCounters_ScrapeVerbose0_def ScrapeNDBInfoCounters_Verbose1_row_def ScrapeNDBInfoCounters_ScrapeVerbose1_def
      intro!: names_run split: sum.split option.split prod.split if_split)

lemma names_NDBInfoDiskPageBuffer_ok [keeps]: "names_in (names_ok names_NDBInfoDiskPageBuffer []) (ScrapeNDBInfoDiskPageBuffer_Scrape diskpagebuffer' db)"
  unfolding ScrapeNDBInfoDiskPageBuffer_Scrape_def
  by (auto simp: names_ok_def Let_def names_NDBInfoDiskPageBuffer_def ScrapeNDBInfoDiskPageBuffer_Verbose0_row_def ScrapeNDBInfoDiskPageBuffer_ScrapeVerbose0_def ScrapeNDBInfoDiskPageBuffer_Verbose1_row_def ScrapeNDBInfoDiskPageBuffer_ScrapeVerbose1_def
      intro!: names_run split: sum.split option.split prod.split if_split)

lemma names_NDBInfoDiskStat_ok [keeps]: "names_in (names_ok names_NDBInfoDiskStat []) (ScrapeNDBInfoDiskStat_Scrape db)"
  unfolding ScrapeNDBInfoDiskStat_Scrape_def
  by (auto simp: names_ok_def Let_def names_NDBInfoDiskStat_def ScrapeNDBInfoDiskStat_row_def
      intro!: names_run split: sum.split option.split prod.split if_split)

lemma names_NDBInfoDiskWriteSpeed_ok [keeps]: "names_in (names_ok names_NDBInfoDiskWriteSpeed []) (snd (ScrapeNDBInfoDiskWriteSpeed_Scrape disk_write' lookup_order' disk_write_state' db))"
  unfolding ScrapeNDBInfoDiskWriteSpeed_Scrape_def counter_metrics_def aggregate_row_def
  by (auto simp: names_ok_def Let_def list_all_iff names_NDBInfoDiskWriteSpeed_def 
      intro!: names_run split: sum.split option.split prod.split if_split list.split bool.split)

lemma names_NDBInfoFiles_ok [keeps]: "names_in (names_ok names_NDBInfoFiles []) (ScrapeNDBInfoFiles_Scrape db)"
  unfolding ScrapeNDBInfoFiles_Scrape_def
  by (auto simp: names_ok_def Let_def names_NDBInfoFiles_def ScrapeNDBInfoFiles_step_def
      intro!: names_run split: sum.split option.split prod.split if_split)

lemma names_NDBInfoLogBuffers_ok [keeps]: "names_in (names_ok names_NDBInfoLogBuffers []) (ScrapeNDBInfoLogBuffers_Scrape db)"
  unfolding ScrapeNDBInfoLogBuffers_Scrape_def
  by (auto simp: names_ok_def Let_def names_NDBInfoLogBuffers_def ScrapeNDBInfoLogBuffers_row_def
      intro!: names_run split: sum.split option.split prod.split if_split)

lemma names_NDBInfoLogSpaces_ok [keeps]: "names_in (names_ok names_NDBInfoLogSpaces []) (ScrapeNDBInfoLogSpaces_Scrape db)"
  unfolding ScrapeNDBInfoLogSpaces_Scrape_def
  by (auto simp: names_ok_def Let_def names_NDBInfoLogSpaces_def ScrapeNDBInfoLogSpaces_row_def
      intro!: names_run split: sum.split option.split prod.split if_split)

lemma names_NDBInfoMembership_ok [keeps]: "names_in (names_ok names_NDBInfoMembership []) (ScrapeNDBInfoMembership_Scrape db)"
  unfolding ScrapeNDBInfoMembership_Scrape_def
  by (auto simp: names_ok_def Let_def names_NDBInfoMembership_def ScrapeNDBInfoMembership_row_def
      intro!: names_run split: sum.split option.split prod.split if_split)

lemma names_NDBInfoMemoryUsage_ok [keeps]: "names_in (names_ok names_NDBInfoMemoryUsage []) (ScrapeNDBInfoMemoryUsage_Scrape db)"
  unfolding ScrapeNDBInfoMemoryUsage_Scrape_def
  by (auto simp: names_ok_def Let_def names_NDBInfoMemoryUsage_def ScrapeNDBInfoMemoryUsage_row_def
      intro!: names_run split: sum.split option.split prod.split if_split)

lemma names_NDBInfoNodes_ok [keeps]: "names_in (names_ok names_NDBInfoNodes []) (ScrapeNDBInfoNodes_Scrape db)"
  unfolding ScrapeNDBInfoNodes_Scrape_def
  by (auto simp: names_ok_def Let_def names_NDBInfoNodes_def ScrapeNDBInfoNodes_row_def
      intro!: names_run split: sum.split option.split prod.split if_split)

lemma names_NDBInfoPGMANTimeTrackStats_ok [keeps]: "names_in (names_ok names_NDBInfoPGMANTimeTrackStats []) (ScrapeNDBInfoPGMANTimeTrackStats_Scrape order' db)"
  unfolding ScrapeNDBInfoPGMANTimeTrackStats_Scrape_def
  by (rule names_hist) (auto simp: names_ok_def names_NDBInfoPGMANTimeTrackStats_def ScrapeNDBInfoPGMANTimeTrackStats_descs_def)

lemma names_NDBInfoPools_ok [keeps]: "names_in (names_ok names_NDBInfoPools []) (ScrapeNDBInfoPools_Scrape pools' db)"
  unfolding ScrapeNDBInfoPools_Scrape_def
  by (auto simp: names_ok_def Let_def names_NDBInfoPools_def ScrapeNDBInfoPools_Verbose0_row_def ScrapeNDBInfoPools_ScrapeVerbose0_def ScrapeNDBInfoPools_Verbose1_row_def ScrapeNDBInfoPools_ScrapeVerbose1_def ScrapeNDBInfoPools_Verbose2_row_def ScrapeNDBInfoPools_ScrapeVerbose2_def
      intro!: names_run split: sum.split option.split prod.split if_split)

lemma names_NDBInfoResources_ok [keeps]: "names_in (names_ok names_NDBInfoResources []) (ScrapeNDBInfoResources_Scrape db)"
  unfolding ScrapeNDBInfoResources_Scrape_def
  by (auto simp: names_ok_def Let_def names_NDBInfoResources_def ScrapeNDBInfoResources_row_def
      intro!: names_run split: sum.split option.split prod.split if_split)

lemma names_NDBInfoTableDistribution_ok [keeps]: "names_in (names_ok names_NDBInfoTableDistribution []) (ScrapeNDBInfoTableDistribution_Scrape skip_idle' db)"
  unfolding ScrapeNDBInfoTableDistribution_Scrape_def
  by (auto simp: names_ok_def Let_def names_NDBInfoTableDistribution_def ScrapeNDBInfoTableDistribution_row_def
      intro!: names_run split: sum.split option.split prod.split if_split)

lemma names_NDBInfoTCTimeTrackStats_ok [keeps]: "names_in (names_ok names_NDBInfoTCTimeTrackStats []) (ScrapeNDBInfoTCTimeTrackStats_Scrape order' db)"
  unfolding ScrapeNDBInfoTCTimeTrackStats_Scrape_def
  by (rule names_hist) (auto simp: names_ok_def names_NDBInfoTCTimeTrackStats_def ScrapeNDBInfoTCTimeTrackStats_descs_def)

lemma names_NDBInfoThreadstat_ok [keeps]: "names_in (names_ok names_NDBInfoThreadstat []) (ScrapeNDBInfoThreadstat_Scrape threadstat' db)"
  unfolding ScrapeNDBInfoThreadstat_Scrape_def
  by (auto simp: names_ok_def Let_def names_NDBInfoThreadstat_def ScrapeNDBInfoThreadstat_Verbose0_row_def ScrapeNDBInfoThreadstat_ScrapeVerbose0_def ScrapeNDBInfoThreadstat_Verbose1_row_def ScrapeNDBInfoThreadstat_ScrapeVerbose1_def
      intro!: names_run split: sum.split option.split prod.split if_split)

lemma names_NDBInfoTransporters_ok [keeps]: "names_in (names_ok names_NDBInfoTransporters []) (fst (ScrapeNDBInfoTransporters_Scrape encrypted' db))"
  unfolding ScrapeNDBInfoTransporters_Scrape_def
  by (auto simp: names_ok_def Let_def names_NDBInfoTransporters_def ScrapeNDBInfoTransporters_row_def
      intro!: names_run split: sum.split option.split prod.split if_split)

section \<open>The table\<close>

text \<open>The metrics of the exporter itself stand in the table as those of \<open>exporter\<close>.\<close>

definition exporter_names :: "fq_name list" where
  "exporter_names = [fq mysqlUp, fq mysqlScrapeCollectorSuccess, fq mysqlScrapeDurationSeconds]"

definition name_table :: "name_entry list" where
  "name_table = (exporter_subsystem, exporter_names, []) # server_name_table @ ndb_name_table"

lemma table_follows_scrapers:
  "list_all2 (\<lambda>sc (k, S, D). k = sc_name sc \<and> (\<forall>inst db. names_in (names_ok S D) (sc_scrape sc inst db)))
     (all_scrapers env fl) (server_name_table @ ndb_name_table)"
  unfolding all_scrapers_def server_scrapers_def ndb_scrapers_def server_name_table_def ndb_name_table_def
    append_Cons append_Nil
  apply (simp only: list.rel_inject list.rel_intros(1) prod.case)
  apply (simp only: scraper.select_convs)
  apply (simp only: simp_thms)
  apply (intro conjI)
  apply (simp only: keeps simp_thms)+
  done

lemma list_all2_partner: "list_all2 P xs ys \<Longrightarrow> x \<in> set xs \<Longrightarrow> \<exists>y \<in> set ys. P x y"
  by (induction rule: list_all2_induct) auto

lemma scraper_entry:
  assumes "sc \<in> set (all_scrapers env fl)" "m \<in> set (fst (sc_scrape sc inst db))"
  shows "\<exists>S D. (sc_name sc, S, D) \<in> set name_table \<and> names_ok S D (fq (metric_desc m))"
proof -
  from list_all2_partner [OF table_follows_scrapers assms(1)]
  obtain k S D where e: "(k, S, D) \<in> set (server_name_table @ ndb_name_table)"
    "k = sc_name sc" "\<forall>inst db. names_in (names_ok S D) (sc_scrape sc inst db)" by blast
  from e(3) have "names_in (names_ok S D) (sc_scrape sc inst db)" by blast
  with assms(2) have "names_ok S D (fq (metric_desc m))" by (simp add: names_in_def list_all_iff)
  with e(1,2) show ?thesis unfolding name_table_def by (blast intro: list.set_intros(2))
qed

end
