(* ===== verification/NameTable.thy ===== *)
theory NameTable
  imports Names
begin

text \<open>
  The names of the metrics as they are printed, scraper by scraper, and that no two scrapers share
  one. The fixed names are listed in \<open>catalogue\<close>, which is computed from the descriptors of
  the scrapers; the names made of what the server says begin with a prefix of \<open>prefix_table\<close>.
\<close>

section \<open>Names as they are printed\<close>

text \<open>What \<open>BuildFQName\<close> is documented to return.\<close>

fun joined :: "fq_name \<Rightarrow> string" where
  "joined (BuildFQName ns sub n) = (if n = [] then [] else strings_Join (filter (\<lambda>p. p \<noteq> []) [ns, sub, n]) ''_'')"

definition under :: "string \<Rightarrow> string \<Rightarrow> string" where
  "under sub pre = namespace @ ''_'' @ sub @ ''_'' @ pre"

lemma joined_under:
  "sub \<noteq> [] \<Longrightarrow> joined (BuildFQName namespace sub (pre @ n)) \<noteq> [] \<Longrightarrow> strings_HasPrefix (joined (BuildFQName namespace sub (pre @ n))) (under sub pre)"
  by (auto simp: under_def namespace_def strings_HasPrefix_iff split: if_splits)

lemmas table_descs =
  mysqlUp_def mysqlScrapeCollectorSuccess_def mysqlScrapeDurationSeconds_def globalCommandsDesc_def
  globalHandlerDesc_def globalConnectionErrorsDesc_def globalBufferPoolPagesDesc_def
  globalBufferPoolDirtyPagesDesc_def globalBufferPoolPageChangesDesc_def globalInnoDBRowOpsDesc_def
  globalPerformanceSchemaLostDesc_def processlistCountDesc_def processlistTimeDesc_def processesByUserDesc_def
  processesByHostDesc_def userMaxQuestionsDesc_def userMaxUpdatesDesc_def userMaxConnectionsDesc_def
  userMaxUserConnectionsDesc_def infoSchemaTablesVersionDesc_def infoSchemaTablesRowsDesc_def
  infoSchemaTablesSizeDesc_def infoSchemaInnodbTablesspaceInfoDesc_def
  infoSchemaInnodbTablesspaceFileSizeDesc_def infoSchemaInnodbTablesspaceAllocatedSizeDesc_def
  infoSchemaBufferPageReadTotalDesc_def infoSchemaBufferPageWrittenTotalDesc_def
  infoSchemaBufferPoolPagesDesc_def infoSchemaBufferPoolPagesDirtyDesc_def globalInfoSchemaAutoIncrementDesc_def
  globalInfoSchemaAutoIncrementMaxDesc_def binlogSizeDesc_def binlogFilesDesc_def binlogFileNumberDesc_def
  performanceSchemaTableWaitsDesc_def performanceSchemaTableWaitsTimeDesc_def
  performanceSchemaIndexWaitsDesc_def performanceSchemaIndexWaitsTimeDesc_def
  performanceSchemaSQLTableLockWaitsDesc_def performanceSchemaExternalTableLockWaitsDesc_def
  performanceSchemaSQLTableLockWaitsTimeDesc_def performanceSchemaExternalTableLockWaitsTimeDesc_def
  performanceSchemaEventsStatementsDesc_def performanceSchemaEventsStatementsTimeDesc_def
  performanceSchemaEventsStatementsLockTimeDesc_def performanceSchemaEventsStatementsCpuTimeDesc_def
  performanceSchemaEventsStatementsErrorsDesc_def performanceSchemaEventsStatementsWarningsDesc_def
  performanceSchemaEventsStatementsRowsAffectedDesc_def performanceSchemaEventsStatementsRowsSentDesc_def
  performanceSchemaEventsStatementsRowsExaminedDesc_def performanceSchemaEventsStatementsTmpTablesDesc_def
  performanceSchemaEventsStatementsTmpDiskTablesDesc_def
  performanceSchemaEventsStatementsSortMergePassesDesc_def performanceSchemaEventsStatementsSortRowsDesc_def
  performanceSchemaEventsStatementsNoIndexUsedDesc_def performanceSchemaEventsStatementsLatency_def
  performanceSchemaEventsStatementsSumTotalDesc_def
  performanceSchemaEventsStatementsSumCreatedTmpDiskTablesDesc_def
  performanceSchemaEventsStatementsSumCreatedTmpTablesDesc_def
  performanceSchemaEventsStatementsSumErrorsDesc_def performanceSchemaEventsStatementsSumLockTimeDesc_def
  performanceSchemaEventsStatementsSumNoGoodIndexUsedDesc_def
  performanceSchemaEventsStatementsSumNoIndexUsedDesc_def
  performanceSchemaEventsStatementsSumRowsAffectedDesc_def
  performanceSchemaEventsStatementsSumRowsExaminedDesc_def performanceSchemaEventsStatementsSumRowsSentDesc_def
  performanceSchemaEventsStatementsSumSelectFullJoinDesc_def
  performanceSchemaEventsStatementsSumSelectFullRangeJoinDesc_def
  performanceSchemaEventsStatementsSumSelectRangeDesc_def
  performanceSchemaEventsStatementsSumSelectRangeCheckDesc_def
  performanceSchemaEventsStatementsSumSelectScanDesc_def
  performanceSchemaEventsStatementsSumSortMergePassesDesc_def
  performanceSchemaEventsStatementsSumSortRangeDesc_def performanceSchemaEventsStatementsSumSortRowsDesc_def
  performanceSchemaEventsStatementsSumSortScanDesc_def performanceSchemaEventsStatementsSumTimerWaitDesc_def
  performanceSchemaEventsStatementsSumWarningsDesc_def performanceSchemaEventsWaitsDesc_def
  performanceSchemaEventsWaitsTimeDesc_def performanceSchemaFileEventsDesc_def
  performanceSchemaFileEventsTimeDesc_def performanceSchemaFileEventsBytesDesc_def
  performanceSchemaFileInstancesBytesDesc_def performanceSchemaFileInstancesCountDesc_def
  performanceSchemaMemoryBytesAllocDesc_def performanceSchemaMemoryBytesFreeDesc_def
  perforanceSchemaMemoryUsedBytesDesc_def
  performanceSchemaReplicationApplierStatsByWorkerLastAppliedTransactionOriginalCommitSecondDesc_def
  performanceSchemaReplicationApplierStatsByWorkerLastAppliedTransactionImmediateCommitSecondDesc_def
  performanceSchemaReplicationApplierStatsByWorkerLastAppliedTransactionStartApplySecondDesc_def
  performanceSchemaReplicationApplierStatsByWorkerLastAppliedTransactionEndApplySecondDesc_def
  performanceSchemaReplicationApplierStatsByWorkerApplyingTransactionOriginalCommitSecondDesc_def
  performanceSchemaReplicationApplierStatsByWorkerApplyingTransactionImmediateCommitSecondDesc_def
  performanceSchemaReplicationApplierStatsByWorkerApplyingTransactionStartApplySecondDesc_def
  sysUserSummaryStatements_def sysUserSummaryStatementLatency_def sysUserSummaryTableScans_def
  sysUserSummaryFileIOs_def sysUserSummaryFileIOLatency_def sysUserSummaryCurrentConnections_def
  sysUserSummaryTotalConnections_def sysUserSummaryUniqueHosts_def sysUserSummaryCurrentMemory_def
  sysUserSummaryTotalMemoryAllocated_def infoSchemaTableStatsRowsReadDesc_def
  infoSchemaTableStatsRowsChangedDesc_def infoSchemaTableStatsRowsChangedXIndexesDesc_def
  infoSchemaStatsRowsReadDesc_def infoSchemaStatsRowsChangedDesc_def infoSchemaStatsRowsChangedXIndexesDesc_def
  infoSchemaInnodbCmpCompressOps_def infoSchemaInnodbCmpCompressOpsOk_def infoSchemaInnodbCmpCompressTime_def
  infoSchemaInnodbCmpUncompressOps_def infoSchemaInnodbCmpUncompressTime_def infoSchemaInnodbCmpMemPagesRead_def
  infoSchemaInnodbCmpMemPagesFree_def infoSchemaInnodbCmpMemRelocationOps_def
  infoSchemaInnodbCmpMemRelocationTime_def HeartbeatStoredDesc_def HeartbeatNowDesc_def SlaveHostsInfo_def
  infoSchemaReplicaHostCpuDesc_def infoSchemaReplicaHostReplicaLatencyDesc_def infoSchemaReplicaHostLagDesc_def
  infoSchemaReplicaHostLogStreamSpeedDesc_def infoSchemaReplicaHostReplayLatencyDesc_def
  perfNDBSyncExcludedObjectsDescExcludedObjects_def perfNDBSyncPendingObjectsDescPendingObjects_def
  ndbinfoBackupIDDesc_def ndbinfoCertificatesDesc_def ndbinfoClusterTransactionsDescCount_def
  ndbinfoClusterTransactionsDescMaxInactivity_def ndbinfoConfigValuesDesc_def
  ndbinfoDiskStatDescPagesMadeDirty_def ndbinfoDiskStatDescReadsIssued_def ndbinfoDiskStatDescReadsCompleted_def
  ndbinfoDiskStatDescWritesIssued_def ndbinfoDiskStatDescWritesCompleted_def
  ndbinfoDiskStatDescLogWritesIssued_def ndbinfoDiskStatDescLogWritesCompleted_def
  ndbinfoDiskStatDescGetPageCallsIssued_def ndbinfoDiskStatDescGetPageReqsIssued_def
  ndbinfoDiskStatDescGetPageReqsCompleted_def ndbinfoDiskWriteSpeedDescBackupLCPSpeed_def
  ndbinfoDiskWriteSpeedDescRedoSpeed_def ndbinfoDiskWriteSpeedDescSlowdownsDueToIoLag_def
  ndbinfoDiskWriteSpeedDescSlowdownsDueToHighCPU_def ndbinfoDiskWriteSpeedDescDiskWriteSpeedSetToMin_def
  ndbinfoDiskWriteSpeedDescCurrentTargetDistWriteSpeed_def ndbinfoLogBuffersDescTotal_def
  ndbinfoLogBuffersDescUsed_def ndbinfoLogSpacesDescTotal_def ndbinfoLogSpacesDescUsed_def
  ndbinfoMembershipDescPresident_def ndbinfoMembershipDescSuccessor_def ndbinfoMembershipDescArbitrator_def
  ndbinfoMembershipDescArbTicket_def ndbinfoMembershipDescArbState_def ndbinfoMembershipDescArbConnected_def
  ndbinfoMemoryUsageDescUsed_def ndbinfoMemoryUsageDescTotal_def ndbinfoNodesDescUptime_def
  ndbinfoNodesDescStatus_def ndbinfoNodesDescConfigGeneration_def ndbinfoPGMANTimeTrackStatsDescPageReads_def
  ndbinfoPGMANTimeTrackStatsDescPageWrites_def ndbinfoPGMANTimeTrackStatsDescLogWaits_def
  ndbinfoPGMANTimeTrackStatsDescGetPageCalls_def ndbinfoResourcesDescReserved_def ndbinfoResourcesDescUsed_def
  ndbinfoResourcesDescMax_def ndbinfoTableDistributionDescCopyStatus_def
  ndbinfoTableDistributionDescUpdateStatus_def ndbinfoTableDistributionDescLCPStatus_def
  ndbinfoTableDistributionDescStatus_def ndbinfoTableDistributionDescPartitions_def
  ndbinfoTableDistributionDescFragments_def ndbinfoTableDistributionDescScansCurrent_def
  ndbinfoTableDistributionDescScansWaiting_def ndbinfoTableDistributionDescReorgOngoing_def
  ndbinfoTCTimeTrackStatsDescScans_def ndbinfoTCTimeTrackStatsDescScanErrors_def
  ndbinfoTCTimeTrackStatsDescScanFragments_def ndbinfoTCTimeTrackStatsDescScanFragmentErrors_def
  ndbinfoTCTimeTrackStatsDescTransactions_def ndbinfoTCTimeTrackStatsDescTransactionErrors_def
  ndbinfoTCTimeTrackStatsDescReadKeyOps_def ndbinfoTCTimeTrackStatsDescWriteKeyOps_def
  ndbinfoTCTimeTrackStatsDescIndexKeyOps_def ndbinfoTCTimeTrackStatsDescKeyOpErrors_def
  ndbinfoThreadstatDescLoops_def ndbinfoThreadstatDescSignalsExec_def ndbinfoThreadstatDescWaits_def
  ndbinfoThreadstatDescSignalsSentLocalPrioA_def ndbinfoThreadstatDescSignalsSentLocalPrioB_def
  ndbinfoThreadstatDescSignalsSentRemotePrioA_def ndbinfoThreadstatDescSignalsSentRemotePrioB_def
  ndbinfoThreadstatDescOsNow_def ndbinfoThreadstatDescOsUtime_def ndbinfoThreadstatDescOsStime_def
  ndbinfoThreadstatDescOsMinflt_def ndbinfoThreadstatDescOsMajflt_def ndbinfoThreadstatDescOsNvcsw_def
  ndbinfoThreadstatDescOsNivcsw_def ndbinfoTransportersDescStatus_def ndbinfoTransportersDescBytesSent_def
  ndbinfoTransportersDescBytesReceived_def ndbinfoTransportersDescOverloaded_def
  ndbinfoTransportersDescSlowdown_def ndbinfoTransportersDescEncrypted_def

lemmas table_variable_descs =
  ndbinfoClusterOperationsDescCount_def ndbinfoCountersDesc_def ndbinfoDiskPageBufferDescPagesWritten_def
  ndbinfoDiskPageBufferDescPagesWrittenLCP_def ndbinfoDiskPageBufferDescPagesRead_def
  ndbinfoDiskPageBufferDescLogWaits_def ndbinfoDiskPageBufferDescPageRequestDirectReturn_def
  ndbinfoDiskPageBufferDescPageRequestWaitQueue_def ndbinfoDiskPageBufferDescPageRequestWaitIO_def
  ndbinfoFilesDescFreeExtents_def ndbinfoFilesDescTotalExtents_def ndbinfoFilesDescExtentSize_def
  ndbinfoFilesDescSize_def ndbinfoFilesDescVersion_def ndbinfoFilesDescUndoLogBufferSize_def
  ndbinfoPoolsDescUsed_def ndbinfoPoolsDescTotal_def

lemmas names_defs =
  names_GlobalStatus_def names_GlobalVariables_def names_SlaveStatus_def names_Processlist_def names_User_def
  names_TableSchema_def names_InfoSchemaInnodbTablespaces_def names_InnodbMetrics_def
  names_AutoIncrementColumns_def names_BinlogSize_def names_PerfTableIOWaits_def names_PerfIndexIOWaits_def
  names_PerfTableLockWaits_def names_PerfEventsStatements_def names_PerfEventsStatementsSum_def
  names_PerfEventsWaits_def names_PerfFileEvents_def names_PerfFileInstances_def names_PerfMemoryEvents_def
  names_PerfReplicationGroupMembers_def names_PerfReplicationGroupMemberStats_def
  names_PerfReplicationApplierStatsByWorker_def names_SysUserSummary_def names_UserStat_def names_ClientStat_def
  names_TableStat_def names_SchemaStat_def names_InnodbCmp_def names_InnodbCmpMem_def
  names_QueryResponseTime_def names_EngineTokudbStatus_def names_EngineInnodbStatus_def names_Heartbeat_def
  names_SlaveHosts_def names_ReplicaHost_def names_RocksDBPerfContext_def names_PerfNDBSyncExcludedObjects_def
  names_PerfNDBSyncPendingObjects_def names_NDBInfoBackupID_def names_NDBInfoCertificates_def
  names_NDBInfoClusterOperations_def names_NDBInfoClusterTransactions_def names_NDBInfoConfigValues_def
  names_NDBInfoCounters_def names_NDBInfoDiskPageBuffer_def names_NDBInfoDiskStat_def
  names_NDBInfoDiskWriteSpeed_def names_NDBInfoFiles_def names_NDBInfoLogBuffers_def names_NDBInfoLogSpaces_def
  names_NDBInfoMembership_def names_NDBInfoMemoryUsage_def names_NDBInfoNodes_def
  names_NDBInfoPGMANTimeTrackStats_def names_NDBInfoPools_def names_NDBInfoResources_def
  names_NDBInfoTableDistribution_def names_NDBInfoTCTimeTrackStats_def names_NDBInfoThreadstat_def
  names_NDBInfoTransporters_def

lemmas fq_table = table_descs [THEN arg_cong [where f = fq], unfolded fq_NewDesc]

lemma vd_fq_New: "vd_fq (NewVariablePromDesc n h t ls) = n"
  by (simp add: NewVariablePromDesc_def)

lemmas vd_fq_table = table_variable_descs [THEN arg_cong [where f = vd_fq], unfolded vd_fq_New]

lemma joined_plain: "joined (BuildFQName namespace (c # s) (d # n)) = ''mysql_'' @ (c # s) @ CHR ''_'' # (d # n)"
  by (simp add: namespace_def)

lemma joined_up: "joined (BuildFQName namespace [] (d # n)) = ''mysql_'' @ (d # n)"
  by (simp add: namespace_def)

text \<open>The names as they are printed: the metrics with a fixed name, scraper by scraper.\<close>

definition catalogue :: "(string \<times> string list) list" where
  "catalogue =
    [
     (exporter_subsystem,
      [''mysql_up'', ''mysql_exporter_collector_success'', ''mysql_exporter_collector_duration_seconds'']),
     (ScrapeGlobalStatus_Name,
      [''mysql_global_status_commands_total'', ''mysql_global_status_handlers_total'',
       ''mysql_global_status_connection_errors_total'', ''mysql_global_status_buffer_pool_pages'',
       ''mysql_global_status_buffer_pool_dirty_pages'', ''mysql_global_status_buffer_pool_page_changes_total'',
       ''mysql_global_status_innodb_row_ops_total'', ''mysql_global_status_performance_schema_lost_total'',
       ''mysql_galera_status_info'']),
     (ScrapeGlobalVariables_Name,
      [''mysql_version_info'', ''mysql_galera_variables_info'', ''mysql_galera_gcache_size_bytes'',
       ''mysql_transaction_isolation'']),
     (ScrapeSlaveStatus_Name,
      []),
     (ScrapeProcesslist_Name,
      [''mysql_info_schema_processlist_threads'', ''mysql_info_schema_processlist_seconds'',
       ''mysql_info_schema_processlist_processes_by_user'', ''mysql_info_schema_processlist_processes_by_host'']),
     (ScrapeUser_Name,
      [''mysql_mysql_max_questions'', ''mysql_mysql_max_updates'', ''mysql_mysql_max_connections'',
       ''mysql_mysql_max_user_connections'']),
     (ScrapeTableSchema_Name,
      [''mysql_info_schema_table_version'', ''mysql_info_schema_table_rows'', ''mysql_info_schema_table_size'']),
     (ScrapeInfoSchemaInnodbTablespaces_Name,
      [''mysql_info_schema_innodb_tablespace_space_info'',
       ''mysql_info_schema_innodb_tablespace_file_size_bytes'',
       ''mysql_info_schema_innodb_tablespace_allocated_size_bytes'']),
     (ScrapeInnodbMetrics_Name,
      [''mysql_info_schema_innodb_metrics_buffer_page_read_total'',
       ''mysql_info_schema_innodb_metrics_buffer_page_written_total'',
       ''mysql_info_schema_innodb_metrics_buffer_pool_pages'',
       ''mysql_info_schema_innodb_metrics_buffer_pool_dirty_pages'']),
     (ScrapeAutoIncrementColumns_Name,
      [''mysql_info_schema_auto_increment_column'', ''mysql_info_schema_auto_increment_column_max'']),
     (ScrapeBinlogSize_Name,
      [''mysql_binlog_size_bytes'', ''mysql_binlog_files'', ''mysql_binlog_file_number'']),
     (ScrapePerfTableIOWaits_Name,
      [''mysql_perf_schema_table_io_waits_total'', ''mysql_perf_schema_table_io_waits_seconds_total'']),
     (ScrapePerfIndexIOWaits_Name,
      [''mysql_perf_schema_index_io_waits_total'', ''mysql_perf_schema_index_io_waits_seconds_total'']),
     (ScrapePerfTableLockWaits_Name,
      [''mysql_perf_schema_sql_lock_waits_total'', ''mysql_perf_schema_external_lock_waits_total'',
       ''mysql_perf_schema_sql_lock_waits_seconds_total'',
       ''mysql_perf_schema_external_lock_waits_seconds_total'']),
     (ScrapePerfEventsStatements_Name,
      [''mysql_perf_schema_events_statements_total'', ''mysql_perf_schema_events_statements_seconds_total'',
       ''mysql_perf_schema_events_statements_lock_time_seconds_total'',
       ''mysql_perf_schema_events_statements_cpu_time_seconds_total'',
       ''mysql_perf_schema_events_statements_errors_total'',
       ''mysql_perf_schema_events_statements_warnings_total'',
       ''mysql_perf_schema_events_statements_rows_affected_total'',
       ''mysql_perf_schema_events_statements_rows_sent_total'',
       ''mysql_perf_schema_events_statements_rows_examined_total'',
       ''mysql_perf_schema_events_statements_tmp_tables_total'',
       ''mysql_perf_schema_events_statements_tmp_disk_tables_total'',
       ''mysql_perf_schema_events_statements_sort_merge_passes_total'',
       ''mysql_perf_schema_events_statements_sort_rows_total'',
       ''mysql_perf_schema_events_statements_no_index_used_total'',
       ''mysql_perf_schema_events_statements_latency'']),
     (ScrapePerfEventsStatementsSum_Name,
      [''mysql_perf_schema_events_statements_sum_total'',
       ''mysql_perf_schema_events_statements_sum_created_tmp_disk_tables'',
       ''mysql_perf_schema_events_statements_sum_created_tmp_tables'',
       ''mysql_perf_schema_events_statements_sum_errors'',
       ''mysql_perf_schema_events_statements_sum_lock_time'',
       ''mysql_perf_schema_events_statements_sum_no_good_index_used'',
       ''mysql_perf_schema_events_statements_sum_no_index_used'',
       ''mysql_perf_schema_events_statements_sum_rows_affected'',
       ''mysql_perf_schema_events_statements_sum_rows_examined'',
       ''mysql_perf_schema_events_statements_sum_rows_sent'',
       ''mysql_perf_schema_events_statements_sum_select_full_join'',
       ''mysql_perf_schema_events_statements_sum_select_full_range_join'',
       ''mysql_perf_schema_events_statements_sum_select_range'',
       ''mysql_perf_schema_events_statements_sum_select_range_check'',
       ''mysql_perf_schema_events_statements_sum_select_scan'',
       ''mysql_perf_schema_events_statements_sum_sort_merge_passes'',
       ''mysql_perf_schema_events_statements_sum_sort_range'',
       ''mysql_perf_schema_events_statements_sum_sort_rows'',
       ''mysql_perf_schema_events_statements_sum_sort_scan'',
       ''mysql_perf_schema_events_statements_sum_timer_wait'',
       ''mysql_perf_schema_events_statements_sum_warnings'']),
     (ScrapePerfEventsWaits_Name,
      [''mysql_perf_schema_events_waits_total'', ''mysql_perf_schema_events_waits_seconds_total'']),
     (ScrapePerfFileEvents_Name,
      [''mysql_perf_schema_file_events_total'', ''mysql_perf_schema_file_events_seconds_total'',
       ''mysql_perf_schema_file_events_bytes_total'']),
     (ScrapePerfFileInstances_Name,
      [''mysql_perf_schema_file_instances_bytes'', ''mysql_perf_schema_file_instances_total'']),
     (ScrapePerfMemoryEvents_Name,
      [''mysql_perf_schema_memory_events_alloc_bytes_total'',
       ''mysql_perf_schema_memory_events_free_bytes_total'', ''mysql_perf_schema_memory_events_used_bytes'']),
     (ScrapePerfReplicationGroupMembers_Name,
      [''mysql_perf_schema_replication_group_member_info'']),
     (ScrapePerfReplicationGroupMemberStats_Name,
      [''mysql_perf_schema_transactions_in_queue'', ''mysql_perf_schema_transactions_checked_total'',
       ''mysql_perf_schema_conflicts_detected_total'', ''mysql_perf_schema_transactions_rows_validating_total'',
       ''mysql_perf_schema_transactions_remote_in_applier_queue'',
       ''mysql_perf_schema_transactions_remote_applied_total'',
       ''mysql_perf_schema_transactions_local_proposed_total'',
       ''mysql_perf_schema_transactions_local_rollback_total'']),
     (ScrapePerfReplicationApplierStatsByWorker_Name,
      [''mysql_perf_schema_last_applied_transaction_original_commit_timestamp_seconds'',
       ''mysql_perf_schema_last_applied_transaction_immediate_commit_timestamp_seconds'',
       ''mysql_perf_schema_last_applied_transaction_start_apply_timestamp_seconds'',
       ''mysql_perf_schema_last_applied_transaction_end_apply_timestamp_seconds'',
       ''mysql_perf_schema_applying_transaction_original_commit_timestamp_seconds'',
       ''mysql_perf_schema_applying_transaction_immediate_commit_timestamp_seconds'',
       ''mysql_perf_schema_applying_transaction_start_apply_timestamp_seconds'']),
     (ScrapeSysUserSummary_Name,
      [''mysql_sys_statements_total'', ''mysql_sys_statement_latency'', ''mysql_sys_table_scans_total'',
       ''mysql_sys_file_ios_total'', ''mysql_sys_file_io_seconds_total'', ''mysql_sys_current_connections'',
       ''mysql_sys_connections_total'', ''mysql_sys_unique_hosts_total'', ''mysql_sys_current_memory_bytes'',
       ''mysql_sys_memory_allocated_bytes_total'']),
     (ScrapeUserStat_Name,
      [''mysql_info_schema_user_statistics_total_connections'',
       ''mysql_info_schema_user_statistics_concurrent_connections'',
       ''mysql_info_schema_user_statistics_connected_time_seconds_total'',
       ''mysql_info_schema_user_statistics_busy_seconds_total'',
       ''mysql_info_schema_user_statistics_cpu_time_seconds_total'',
       ''mysql_info_schema_user_statistics_bytes_received_total'',
       ''mysql_info_schema_user_statistics_bytes_sent_total'',
       ''mysql_info_schema_user_statistics_binlog_bytes_written_total'',
       ''mysql_info_schema_user_statistics_rows_read_total'',
       ''mysql_info_schema_user_statistics_rows_sent_total'',
       ''mysql_info_schema_user_statistics_rows_deleted_total'',
       ''mysql_info_schema_user_statistics_rows_inserted_total'',
       ''mysql_info_schema_user_statistics_rows_fetched_total'',
       ''mysql_info_schema_user_statistics_rows_updated_total'',
       ''mysql_info_schema_user_statistics_table_rows_read_total'',
       ''mysql_info_schema_user_statistics_select_commands_total'',
       ''mysql_info_schema_user_statistics_update_commands_total'',
       ''mysql_info_schema_user_statistics_other_commands_total'',
       ''mysql_info_schema_user_statistics_commit_transactions_total'',
       ''mysql_info_schema_user_statistics_rollback_transactions_total'',
       ''mysql_info_schema_user_statistics_denied_connections_total'',
       ''mysql_info_schema_user_statistics_lost_connections_total'',
       ''mysql_info_schema_user_statistics_access_denied_total'',
       ''mysql_info_schema_user_statistics_empty_queries_total'',
       ''mysql_info_schema_user_statistics_total_ssl_connections_total'']),
     (ScrapeClientStat_Name,
      [''mysql_info_schema_client_statistics_total_connections'',
       ''mysql_info_schema_client_statistics_concurrent_connections'',
       ''mysql_info_schema_client_statistics_connected_time_seconds_total'',
       ''mysql_info_schema_client_statistics_busy_seconds_total'',
       ''mysql_info_schema_client_statistics_cpu_time_seconds_total'',
       ''mysql_info_schema_client_statistics_bytes_received_total'',
       ''mysql_info_schema_client_statistics_bytes_sent_total'',
       ''mysql_info_schema_client_statistics_binlog_bytes_written_total'',
       ''mysql_info_schema_client_statistics_rows_read_total'',
       ''mysql_info_schema_client_statistics_rows_sent_total'',
       ''mysql_info_schema_client_statistics_rows_deleted_total'',
       ''mysql_info_schema_client_statistics_rows_inserted_total'',
       ''mysql_info_schema_client_statistics_rows_fetched_total'',
       ''mysql_info_schema_client_statistics_rows_updated_total'',
       ''mysql_info_schema_client_statistics_table_rows_read_total'',
       ''mysql_info_schema_client_statistics_select_commands_total'',
       ''mysql_info_schema_client_statistics_update_commands_total'',
       ''mysql_info_schema_client_statistics_other_commands_total'',
       ''mysql_info_schema_client_statistics_commit_transactions_total'',
       ''mysql_info_schema_client_statistics_rollback_transactions_total'',
       ''mysql_info_schema_client_statistics_denied_connections_total'',
       ''mysql_info_schema_client_statistics_lost_connections_total'',
       ''mysql_info_schema_client_statistics_access_denied_total'',
       ''mysql_info_schema_client_statistics_empty_queries_total'',
       ''mysql_info_schema_client_statistics_total_ssl_connections_total'',
       ''mysql_info_schema_client_statistics_max_statement_time_exceeded_total'']),
     (ScrapeTableStat_Name,
      [''mysql_info_schema_table_statistics_rows_read_total'',
       ''mysql_info_schema_table_statistics_rows_changed_total'',
       ''mysql_info_schema_table_statistics_rows_changed_x_indexes_total'']),
     (ScrapeSchemaStat_Name,
      [''mysql_info_schema_schema_statistics_rows_read_total'',
       ''mysql_info_schema_schema_statistics_rows_changed_total'',
       ''mysql_info_schema_schema_statistics_rows_changed_x_indexes_total'']),
     (ScrapeInnodbCmp_Name,
      [''mysql_info_schema_innodb_cmp_compress_ops_total'',
       ''mysql_info_schema_innodb_cmp_compress_ops_ok_total'',
       ''mysql_info_schema_innodb_cmp_compress_time_seconds_total'',
       ''mysql_info_schema_innodb_cmp_uncompress_ops_total'',
       ''mysql_info_schema_innodb_cmp_uncompress_time_seconds_total'']),
     (ScrapeInnodbCmpMem_Name,
      [''mysql_info_schema_innodb_cmpmem_pages_used_total'',
       ''mysql_info_schema_innodb_cmpmem_pages_free_total'',
       ''mysql_info_schema_innodb_cmpmem_relocation_ops_total'',
       ''mysql_info_schema_innodb_cmpmem_relocation_time_seconds_total'']),
     (ScrapeQueryResponseTime_Name,
      [''mysql_info_schema_query_response_time_seconds'',
       ''mysql_info_schema_read_query_response_time_seconds'',
       ''mysql_info_schema_write_query_response_time_seconds'']),
     (ScrapeEngineTokudbStatus_Name,
      []),
     (ScrapeEngineInnodbStatus_Name,
      []),
     (ScrapeHeartbeat_Name,
      [''mysql_heartbeat_stored_timestamp_seconds'', ''mysql_heartbeat_now_timestamp_seconds'']),
     (ScrapeSlaveHosts_Name,
      [''mysql_heartbeat_mysql_slave_hosts_info'']),
     (ScrapeReplicaHost_Name,
      [''mysql_info_schema_replica_host_cpu_percent'',
       ''mysql_info_schema_replica_host_replica_latency_seconds'',
       ''mysql_info_schema_replica_host_lag_seconds'', ''mysql_info_schema_replica_host_log_stream_speed'',
       ''mysql_info_schema_replica_host_replay_latency_seconds'']),
     (ScrapeRocksDBPerfContext_Name,
      [''mysql_info_schema_rocksdb_perf_context_user_key_comparison_count'',
       ''mysql_info_schema_rocksdb_perf_context_block_cache_hit_count'',
       ''mysql_info_schema_rocksdb_perf_context_block_read_count'',
       ''mysql_info_schema_rocksdb_perf_context_block_read_byte'',
       ''mysql_info_schema_rocksdb_perf_context_get_read_bytes'',
       ''mysql_info_schema_rocksdb_perf_context_multiget_read_bytes'',
       ''mysql_info_schema_rocksdb_perf_context_iter_read_bytes'',
       ''mysql_info_schema_rocksdb_perf_context_internal_key_skipped_count'',
       ''mysql_info_schema_rocksdb_perf_context_internal_delete_skipped_count'',
       ''mysql_info_schema_rocksdb_perf_context_internal_recent_skipped_count'',
       ''mysql_info_schema_rocksdb_perf_context_internal_merge_count'',
       ''mysql_info_schema_rocksdb_perf_context_get_from_memtable_count'',
       ''mysql_info_schema_rocksdb_perf_context_seek_on_memtable_count'',
       ''mysql_info_schema_rocksdb_perf_context_next_on_memtable_count'',
       ''mysql_info_schema_rocksdb_perf_context_prev_on_memtable_count'',
       ''mysql_info_schema_rocksdb_perf_context_seek_child_seek_count'',
       ''mysql_info_schema_rocksdb_perf_context_bloom_memtable_hit_count'',
       ''mysql_info_schema_rocksdb_perf_context_bloom_memtable_miss_count'',
       ''mysql_info_schema_rocksdb_perf_context_bloom_sst_hit_count'',
       ''mysql_info_schema_rocksdb_perf_context_bloom_sst_miss_count'',
       ''mysql_info_schema_rocksdb_perf_context_key_lock_wait_count'',
       ''mysql_info_schema_rocksdb_perf_context_io_bytes_written'',
       ''mysql_info_schema_rocksdb_perf_context_io_bytes_read'']),
     (ScrapePerfNDBSyncExcludedObjects_Name,
      [''mysql_perf_schema_ndb_sync_excluded_objects_count'']),
     (ScrapePerfNDBSyncPendingObjects_Name,
      [''mysql_perf_schema_ndb_sync_pending_objects_count'']),
     (ScrapeNDBInfoBackupID_Name,
      [''mysql_ndbinfo_last_backup_id'']),
     (ScrapeNDBInfoCertificates_Name,
      [''mysql_ndbinfo_certificate_expire_date'']),
     (ScrapeNDBInfoClusterOperations_Name,
      [''mysql_ndbinfo_cluster_operations_count'']),
     (ScrapeNDBInfoClusterTransactions_Name,
      [''mysql_ndbinfo_cluster_transactions_count'', ''mysql_ndbinfo_cluster_transactions_max_inactive_seconds'']),
     (ScrapeNDBInfoConfigValues_Name,
      [''mysql_ndbinfo_config_value'']),
     (ScrapeNDBInfoCounters_Name,
      [''mysql_ndbinfo_counters'']),
     (ScrapeNDBInfoDiskPageBuffer_Name,
      [''mysql_ndbinfo_diskpagebuffer_pages_written'', ''mysql_ndbinfo_diskpagebuffer_pages_written_lcp'',
       ''mysql_ndbinfo_diskpagebuffer_pages_read'', ''mysql_ndbinfo_diskpagebuffer_log_waits'',
       ''mysql_ndbinfo_diskpagebuffer_page_requests_direct_return'',
       ''mysql_ndbinfo_diskpagebuffer_page_requests_wait_queue'',
       ''mysql_ndbinfo_diskpagebuffer_page_requests_wait_io'']),
     (ScrapeNDBInfoDiskStat_Name,
      [''mysql_ndbinfo_diskstat_pages_made_dirty'', ''mysql_ndbinfo_diskstat_reads_issued'',
       ''mysql_ndbinfo_diskstat_reads_completed'', ''mysql_ndbinfo_diskstat_writes_issued'',
       ''mysql_ndbinfo_diskstat_writes_completed'', ''mysql_ndbinfo_diskstat_log_writes_issued'',
       ''mysql_ndbinfo_diskstat_log_writes_completed'', ''mysql_ndbinfo_diskstat_get_page_calls_issued'',
       ''mysql_ndbinfo_diskstat_get_page_reqs_issued'', ''mysql_ndbinfo_diskstat_get_page_reqs_completed'']),
     (ScrapeNDBInfoDiskWriteSpeed_Name,
      [''mysql_ndbinfo_disk_write_speed_backup_lcp_bytes'', ''mysql_ndbinfo_disk_write_speed_redo_bytes'',
       ''mysql_ndbinfo_disk_write_speed_slowdowns_io_lag'',
       ''mysql_ndbinfo_disk_write_speed_slowdowns_high_cpu'', ''mysql_ndbinfo_disk_write_speed_set_to_min'',
       ''mysql_ndbinfo_disk_write_speed_target_speed'']),
     (ScrapeNDBInfoFiles_Name,
      [''mysql_ndbinfo_files_free_extents'', ''mysql_ndbinfo_files_total_extents'',
       ''mysql_ndbinfo_files_extent_size'', ''mysql_ndbinfo_files_size'', ''mysql_ndbinfo_files_version'',
       ''mysql_ndbinfo_files_undo_log_buffer_size'']),
     (ScrapeNDBInfoLogBuffers_Name,
      [''mysql_ndbinfo_logbuffers_bytes_total'', ''mysql_ndbinfo_logbuffers_bytes_used'']),
     (ScrapeNDBInfoLogSpaces_Name,
      [''mysql_ndbinfo_logspaces_bytes_total'', ''mysql_ndbinfo_logspaces_bytes_used'']),
     (ScrapeNDBInfoMembership_Name,
      [''mysql_ndbinfo_membership_president'', ''mysql_ndbinfo_membership_successor'',
       ''mysql_ndbinfo_membership_arbitrator'', ''mysql_ndbinfo_membership_arb_ticket'',
       ''mysql_ndbinfo_membership_arb_state'', ''mysql_ndbinfo_membership_arb_connected'']),
     (ScrapeNDBInfoMemoryUsage_Name,
      [''mysql_ndbinfo_memoryusage_used'', ''mysql_ndbinfo_memoryusage_total'']),
     (ScrapeNDBInfoNodes_Name,
      [''mysql_ndbinfo_nodes_uptime'', ''mysql_ndbinfo_nodes_status'', ''mysql_ndbinfo_nodes_config_generation'']),
     (ScrapeNDBInfoPGMANTimeTrackStats_Name,
      [''mysql_ndbinfo_pgman_time_track_stats_page_reads'',
       ''mysql_ndbinfo_pgman_time_track_stats_page_writes'', ''mysql_ndbinfo_pgman_time_track_stats_log_waits'',
       ''mysql_ndbinfo_pgman_time_track_stats_get_page_calls'']),
     (ScrapeNDBInfoPools_Name,
      [''mysql_ndbinfo_pools_used'', ''mysql_ndbinfo_pools_total'']),
     (ScrapeNDBInfoResources_Name,
      [''mysql_ndbinfo_resources_reserved'', ''mysql_ndbinfo_resources_used'', ''mysql_ndbinfo_resources_max'']),
     (ScrapeNDBInfoTableDistribution_Name,
      [''mysql_ndbinfo_table_distribution_copy_status'', ''mysql_ndbinfo_table_distribution_update_status'',
       ''mysql_ndbinfo_table_distribution_lcp_status'', ''mysql_ndbinfo_table_distribution_status'',
       ''mysql_ndbinfo_table_distribution_partitions'', ''mysql_ndbinfo_table_distribution_fragments'',
       ''mysql_ndbinfo_table_distribution_scans_current'', ''mysql_ndbinfo_table_distribution_scans_waiting'',
       ''mysql_ndbinfo_table_distribution_reorg_ongoing'']),
     (ScrapeNDBInfoTCTimeTrackStats_Name,
      [''mysql_ndbinfo_tc_time_track_stats_scans'', ''mysql_ndbinfo_tc_time_track_stats_scan_errors'',
       ''mysql_ndbinfo_tc_time_track_stats_scan_fragments'',
       ''mysql_ndbinfo_tc_time_track_stats_scan_fragment_errors'',
       ''mysql_ndbinfo_tc_time_track_stats_transactions'',
       ''mysql_ndbinfo_tc_time_track_stats_transaction_errors'',
       ''mysql_ndbinfo_tc_time_track_stats_read_key_ops'', ''mysql_ndbinfo_tc_time_track_stats_write_key_ops'',
       ''mysql_ndbinfo_tc_time_track_stats_index_key_ops'', ''mysql_ndbinfo_tc_time_track_stats_key_op_errors'']),
     (ScrapeNDBInfoThreadstat_Name,
      [''mysql_ndbinfo_threadstat_loops'', ''mysql_ndbinfo_threadstat_signals_exec'',
       ''mysql_ndbinfo_threadstat_waits'', ''mysql_ndbinfo_threadstat_signals_sent_local_prioa'',
       ''mysql_ndbinfo_threadstat_signals_sent_local_priob'',
       ''mysql_ndbinfo_threadstat_signals_sent_remote_prioa'',
       ''mysql_ndbinfo_threadstat_signals_sent_remote_priob'', ''mysql_ndbinfo_threadstat_os_now'',
       ''mysql_ndbinfo_threadstat_os_utime'', ''mysql_ndbinfo_threadstat_os_stime'',
       ''mysql_ndbinfo_threadstat_os_minflt'', ''mysql_ndbinfo_threadstat_os_majflt'',
       ''mysql_ndbinfo_threadstat_os_nvcsw'', ''mysql_ndbinfo_threadstat_os_nivcsw'']),
     (ScrapeNDBInfoTransporters_Name,
      [''mysql_ndbinfo_transporters_status'', ''mysql_ndbinfo_transporters_bytes_sent'',
       ''mysql_ndbinfo_transporters_bytes_received'', ''mysql_ndbinfo_transporters_overloaded'',
       ''mysql_ndbinfo_transporters_slowdown'', ''mysql_ndbinfo_transporters_encrypted''])]"

lemma catalogue_eq: "map (\<lambda>(k, S, D). (k, map joined S)) name_table = catalogue"
  unfolding name_table_def server_name_table_def ndb_name_table_def exporter_names_def names_defs catalogue_def
  by (simp add: fq_table vd_fq_table joined_plain joined_up globalStatus_def mysqlSubsystem_def informationSchema_def performanceSchema_def ndbInfo_def
      sysSchema_def exporter_subsystem_def heartbeat_def binlog_def informationSchemaClientStatisticsTypes_def
      informationSchemaUserStatisticsTypes_def perfReplicationGroupMemberStats_def
      informationSchemaRocksDBPerfContextMetrics_def infoSchemaQueryResponseTimeCountDescs_def del: joined.simps)

text \<open>They are distinct: a checksum tells them apart.\<close>

fun print_sum :: "int \<Rightarrow> int \<Rightarrow> string \<Rightarrow> int" where
  "print_sum a b [] = 10000 * b + a"
| "print_sum a b (c # s) = (let a' = a + of_char c in print_sum a' (b + a') s)"

lemma printed_sums:
  "map (print_sum 0 0) (concat (map snd catalogue)) =
    [40370890, 575723468, 935034423, 639803645, 639223644, 1017914631, 754203946, 1014494597, 1359245298,
     882214301, 1311865230, 322852575, 188201958, 402272852, 490383163, 411482924, 753573957, 753363961,
     1209995049, 1209655048, 357592746, 302992501, 412652930, 576133472, 528493293, 433252978, 433032962,
     1141844819, 1399195372, 1681625893, 1627325779, 1812316148, 1351565281, 1691955932, 831294154, 1007664575,
     298252480, 184541922, 321372551, 786714026, 1145664872, 789194042, 1149424888, 791304051, 1009404582,
     1152254897, 1412835428, 922914400, 1311785246, 1891106292, 1829836195, 1261475164, 1367035368, 1648025867,
     1423685491, 1651265892, 1475515562, 1768096084, 1897096324, 1424755505, 1647335875, 1012924604, 1110034836,
     2153836700, 1829626178, 1159254957, 1312495239, 1831046188, 1532975668, 1534145660, 1535885685, 1314925284,
     1709015985, 2089146605, 1475945548, 1829716153, 1420375444, 1773236117, 1368075364, 1315155298, 1314345260,
     1367055365, 1261295161, 713533856, 1058884702, 670683720, 1005154566, 916154366, 787114030, 787464027,
     1308975233, 1257075128, 967054500, 1201124985, 834364164, 1054614659, 959004442, 1475475561, 1585195755,
     1416085430, 1416095442, 1412595408, 3104598069, 3181078159, 2796047675, 2635237428, 2801487671, 2873987761,
     2508857277, 387072846, 414772935, 409962901, 326912592, 535553323, 476843160, 413842937, 447953069,
     510953284, 804194093, 1421675470, 1711386013, 2085446602, 1478625580, 1708215983, 1590605768, 1368395371,
     1960806440, 1314645249, 1316905279, 1477835564, 1537985699, 1477695560, 1480085580, 1647235864, 1647135868,
     1648005871, 1590665774, 1897746332, 2023486525, 1826016182, 1712646015, 1526215621, 1537315703, 2028406546,
     1526075662, 1825386205, 2210966794, 1584945772, 1822216175, 1700765960, 1470875563, 2082486632, 1415205441,
     1417465471, 1584155756, 1646225891, 1584015752, 1586405772, 1759316056, 1759216060, 1760086063, 1700825966,
     2017506524, 2147086717, 1943856374, 1826646207, 1634455813, 1645555895, 2152006738, 2571237321, 1357895322,
     1522025624, 2141506686, 1411685427, 1578965729, 2208946791, 1197765000, 1353395313, 1692105939, 1303025227,
     1817796166, 1244435066, 1242915051, 1460215515, 2000906454, 1110614816, 1358305323, 1423845466, 879124278,
     754193961, 796654079, 959224452, 1572615705, 957454430, 1197974969, 1519275622, 2212726832, 1934526321,
     1631855813, 1573875696, 1517625608, 1818816163, 1576305724, 2279096915, 2488837213, 2491307227, 1879796267,
     2070666568, 2004446457, 2008856480, 2008606478, 1937516337, 2137166674, 2205896793, 1818306181, 1882106300,
     1816406164, 1637545873, 1463655504, 1296835183, 1244915078, 433012953, 747363904, 796984097, 881834310,
     1650765875, 375122758, 272802375, 959284465, 1148024879, 827634096, 787564030, 1692345958, 1518725637,
     1352585304, 830954139, 674333733, 791634037, 716813876, 838404180, 880004293, 1014104597, 1052604656,
     1008534572, 1151004876, 1198674978, 918314360, 1206575010, 1309765230, 919264361, 1009164559, 562233410,
     600023540, 530843320, 321542561, 404972892, 871804240, 712733852, 674103737, 674393742, 636863627,
     635913629, 636143641, 672183737, 670663703, 634143604, 787474006, 501103218, 534543333, 377122784,
     377072800, 747053917, 1198294961, 1250525104, 1150254895, 1406835376, 323762577, 350792692, 568933438,
     437863007, 407382900, 1056864728, 1153264928, 1008644604, 832764190, 1009924615, 962164481, 1152244916,
     1152064900, 1152954905, 831064146, 1101504795, 1249735093, 1576995742, 1152464915, 1469045564, 1149004879,
     1203005022, 1200365003, 1201415021, 498823220, 751843932, 498713215, 1307355205, 1307365206, 1362655334,
     1362665335, 531813324, 601613532, 601513530, 637193634, 636633622, 601463545, 637653650, 607823598,
     760834010, 930504407, 760863983, 682893815, 720623896]"
  by code_simp

lemma printed_distinct: "distinct (concat (map snd catalogue))"
proof -
  have "distinct (map (print_sum 0 0) (concat (map snd catalogue)))" unfolding printed_sums by simp
  then show ?thesis by (simp only: distinct_map)
qed

lemma table_printed_distinct: "distinct (concat (map (\<lambda>(k, S, D). map joined S) name_table))"
proof -
  have "map snd catalogue = map (\<lambda>(k, S, D). map joined S) name_table"
    unfolding catalogue_eq [symmetric] by (simp add: case_prod_beta)
  then show ?thesis using printed_distinct by simp
qed

text \<open>No prefix of one scraper begins a name or a prefix of another.\<close>

definition prefix_table :: "(string \<times> string) list" where
  "prefix_table =
     [(ScrapeGlobalStatus_Name, ''mysql_global_status_''), (ScrapeGlobalStatus_Name, ''mysql_galera_evs_repl_latency_''),
      (ScrapeGlobalVariables_Name, ''mysql_global_variables_''), (ScrapeSlaveStatus_Name, ''mysql_slave_status_''),
      (ScrapeUser_Name, ''mysql_mysql_''), (ScrapeInnodbMetrics_Name, ''mysql_info_schema_innodb_metrics_''),
      (ScrapeUserStat_Name, ''mysql_info_schema_user_statistics_''),
      (ScrapeClientStat_Name, ''mysql_info_schema_client_statistics_''),
      (ScrapeEngineTokudbStatus_Name, ''mysql_engine_tokudb_''), (ScrapeEngineInnodbStatus_Name, ''mysql_engine_innodb_'')]"

fun begins :: "string \<Rightarrow> string \<Rightarrow> bool" where
  "begins s [] \<longleftrightarrow> True"
| "begins [] (d # p) \<longleftrightarrow> False"
| "begins (c # s) (d # p) \<longleftrightarrow> c = d \<and> begins s p"

lemma begins_iff: "begins s p \<longleftrightarrow> strings_HasPrefix s p"
  by (induction s p rule: begins.induct) (auto simp: strings_HasPrefix_iff)

lemma prefix_table_eq:
  "concat (map (\<lambda>(k, S, D). map (\<lambda>(sub, pre). (k, under sub pre)) D) name_table) = prefix_table"
  "list_all (\<lambda>(k, S, D). list_all (\<lambda>(sub, pre). sub \<noteq> []) D) name_table"
  unfolding name_table_def server_name_table_def ndb_name_table_def prefix_table_def
  by (simp_all add: under_def namespace_def globalStatus_def globalVariables_def slaveStatus_def mysqlSubsystem_def informationSchema_def tokudb_def innodb_def)

lemma catalogue_free:
  "list_all (\<lambda>(k, names). list_all (\<lambda>s. list_all (\<lambda>(k', p). \<not> begins s p \<or> k = k') prefix_table) names) catalogue"
  by code_simp

lemma prefixes_free:
  "list_all (\<lambda>(k, p). list_all (\<lambda>(k', p'). \<not> begins p p' \<or> k = k') prefix_table) prefix_table"
  by code_simp

lemma prefix_in_table: "(k, S, D) \<in> set name_table \<Longrightarrow> (sub, pre) \<in> set D \<Longrightarrow> (k, under sub pre) \<in> set prefix_table \<and> sub \<noteq> []"
  using prefix_table_eq by (force simp: list_all_iff simp flip: prefix_table_eq(1))

lemma name_not_under:
  assumes "(k, S, D) \<in> set name_table" "(k', S', D') \<in> set name_table" "k \<noteq> k'" "q \<in> set S" "(sub, pre) \<in> set D'"
  shows "\<not> strings_HasPrefix (joined q) (under sub pre)"
proof -
  from assms(1) have "(k, map joined S) \<in> set catalogue" by (force simp flip: catalogue_eq)
  with catalogue_free prefix_in_table [OF assms(2,5)] assms(3,4) show ?thesis
    by (fastforce simp: list_all_iff begins_iff)
qed

lemma prefix_not_under:
  assumes "(k, S, D) \<in> set name_table" "(k', S', D') \<in> set name_table" "k \<noteq> k'" "(sub, pre) \<in> set D" "(sub', pre') \<in> set D'"
  shows "\<not> strings_HasPrefix (under sub pre) (under sub' pre')"
  using prefixes_free prefix_in_table [OF assms(1,4)] prefix_in_table [OF assms(2,5)] assms(3)
  by (fastforce simp: list_all_iff begins_iff)

lemma prefixes_comparable:
  "strings_HasPrefix s p \<Longrightarrow> strings_HasPrefix s p' \<Longrightarrow> strings_HasPrefix p p' \<or> strings_HasPrefix p' p"
  by (auto simp: strings_HasPrefix_iff append_eq_append_conv2)

lemma distinct_concat_apart:
  "distinct (concat (map f xs)) \<Longrightarrow> x \<in> set xs \<Longrightarrow> y \<in> set xs \<Longrightarrow> x \<noteq> y \<Longrightarrow> set (f x) \<inter> set (f y) = {}"
  by (induction xs) auto

lemma entries_disjoint:
  assumes e: "(k, S, D) \<in> set name_table" and e': "(k', S', D') \<in> set name_table" and "k \<noteq> k'"
    and q: "names_ok S D q" and q': "names_ok S' D' q'" and "joined q \<noteq> []"
  shows "joined q \<noteq> joined q'"
proof
  assume eq: "joined q = joined q'"
  have split: "r \<in> set E \<or> (\<exists>(sub, pre) \<in> set F. strings_HasPrefix (joined r) (under sub pre))"
    if "(l, E, F) \<in> set name_table" "names_ok E F r" "joined r \<noteq> []" for l E F r
  proof (cases "r \<in> set E")
    case False
    with that(2) obtain a b n where f: "(a, b) \<in> set F" "r = BuildFQName namespace a (b @ n)"
      unfolding names_ok_def by blast
    with joined_under prefix_in_table [OF that(1)] that(3) have "strings_HasPrefix (joined r) (under a b)" by blast
    with f(1) show ?thesis by blast
  qed simp
  have ne': "joined q' \<noteq> []" using eq assms(6) by simp
  consider (static) "q \<in> set S" "q' \<in> set S'"
    | (left) sub pre where "(sub, pre) \<in> set D" "strings_HasPrefix (joined q') (under sub pre)" "q' \<in> set S'"
    | (right) sub pre where "(sub, pre) \<in> set D'" "strings_HasPrefix (joined q) (under sub pre)" "q \<in> set S"
    | (both) sub pre sub' pre' where "(sub, pre) \<in> set D" "strings_HasPrefix (joined q) (under sub pre)"
        "(sub', pre') \<in> set D'" "strings_HasPrefix (joined q) (under sub' pre')"
    using split [OF e q assms(6)] split [OF e' q' ne'] eq by auto
  then show False
  proof cases
    case static
    have "set (map joined S) \<inter> set (map joined S') = {}"
      using distinct_concat_apart [OF table_printed_distinct e e'] assms(3) by auto
    with static eq show False by auto
  next
    case left
    with name_not_under [OF e' e] assms(3) show False by metis
  next
    case right
    with name_not_under [OF e e'] assms(3) show False by metis
  next
    case both
    with prefix_not_under [OF e e'] prefix_not_under [OF e' e] prefixes_comparable [OF both(2,4)] assms(3) show False by metis
  qed
qed

lemma not_exporter: "sc \<in> set (all_scrapers env fl) \<Longrightarrow> sc_name sc \<noteq> exporter_subsystem"
proof -
  assume "sc \<in> set (all_scrapers env fl)"
  then have "sc_name sc \<in> set (map sc_name (all_scrapers env fl))" by simp
  also have "map sc_name (all_scrapers env fl) = server_names @ ndb_names"
    by (simp add: all_scrapers_def server_names_eq ndb_names_eq)
  finally have "sc_name sc \<in> set (server_names @ ndb_names)" .
  moreover have "exporter_subsystem \<notin> set (server_names @ ndb_names)" by code_simp
  ultimately show ?thesis by metis
qed

section \<open>Properties\<close>

text \<open>
  C10: whatever the server answers, no metric of one scraper has the name of a metric of another
  scraper, nor that of one of the exporter's own metrics (up, success and duration): the answers of
  two scrapers never clash when they are gathered. \<open>print\<close> is \<open>BuildFQName\<close>.
\<close>

theorem scrapers_keep_their_names:
  assumes "\<And>q. print q = joined q"
    and "sc \<in> set (all_scrapers env fl)" "sc' \<in> set (all_scrapers env fl)" "sc_name sc \<noteq> sc_name sc'"
    and "m \<in> set (fst (sc_scrape sc inst db))" "m' \<in> set (fst (sc_scrape sc' inst db'))"
    and "print (fq (metric_desc m)) \<noteq> []"
  shows "print (fq (metric_desc m)) \<noteq> print (fq (metric_desc m')) \<and>
    print (fq (metric_desc m)) \<notin> print ` fq ` {mysqlUp, mysqlScrapeCollectorSuccess, mysqlScrapeDurationSeconds}"
proof
  from scraper_entry [OF assms(2,5)] obtain S D where
    e: "(sc_name sc, S, D) \<in> set name_table" "names_ok S D (fq (metric_desc m))" by blast
  from scraper_entry [OF assms(3,6)] obtain S' D' where
    e': "(sc_name sc', S', D') \<in> set name_table" "names_ok S' D' (fq (metric_desc m'))" by blast
  have ne: "joined (fq (metric_desc m)) \<noteq> []" using assms(1,7) by simp
  show "print (fq (metric_desc m)) \<noteq> print (fq (metric_desc m'))"
    using entries_disjoint [OF e(1) e'(1) assms(4) e(2) e'(2) ne] by (simp add: assms(1))
  have x: "(exporter_subsystem, exporter_names, []) \<in> set name_table" by (simp add: name_table_def)
  have k: "sc_name sc \<noteq> exporter_subsystem" using assms(2) not_exporter by blast
  have "joined (fq (metric_desc m)) \<noteq> joined q" if "q \<in> set exporter_names" for q
    using entries_disjoint [OF e(1) x k e(2) _ ne] that by (auto simp: names_ok_def)
  then show "print (fq (metric_desc m)) \<notin> print ` fq ` {mysqlUp, mysqlScrapeCollectorSuccess, mysqlScrapeDurationSeconds}"
    by (auto simp: assms(1) exporter_names_def)
qed

text \<open>Two of the gauges of NDB, on a server that answers every query with one row of one number.\<close>

definition one_row_db :: database where
  "one_row_db i q args = Inr \<lparr>rs_cols = Inr [], rs_rows = [[CBytes ''1'']], rs_err = None\<rparr>"

theorem scrapers_keep_their_names_witness:
  "joined (fq ndbinfoBackupIDDesc) \<noteq> joined (fq perfNDBSyncPendingObjectsDescPendingObjects) \<and>
   joined (fq ndbinfoBackupIDDesc) \<notin> joined ` fq ` {mysqlUp, mysqlScrapeCollectorSuccess, mysqlScrapeDurationSeconds}"
proof -
  let ?all = "all_scrapers sample_scraper_env sample_server_flags"
  let ?sc = "\<lparr>sc_name = ScrapeNDBInfoBackupID_Name, sc_help = ScrapeNDBInfoBackupID_Help,
    sc_version = ScrapeNDBInfoBackupID_Version, sc_scrape = (\<lambda>_. ScrapeNDBInfoBackupID_Scrape)\<rparr>"
  let ?sc' = "\<lparr>sc_name = ScrapePerfNDBSyncPendingObjects_Name, sc_help = ScrapePerfNDBSyncPendingObjects_Help,
    sc_version = ScrapePerfNDBSyncPendingObjects_Version, sc_scrape = (\<lambda>_. ScrapePerfNDBSyncPendingObjects_Scrape)\<rparr>"
  have row: "scan [DU64] [CBytes ''1''] = Inr [GU64 1]" by code_simp
  have in_all: "?sc \<in> set ?all" "?sc' \<in> set ?all" by (simp_all add: all_scrapers_def ndb_scrapers_def)
  have other: "sc_name ?sc \<noteq> sc_name ?sc'" by code_simp
  have m: "ConstMetric ndbinfoBackupIDDesc GaugeValue (f_of_u64 1) [] \<in> set (fst (sc_scrape ?sc sample_inst one_row_db))"
    by (simp add: ScrapeNDBInfoBackupID_Scrape_def table_scrape_def with_query_def one_row_db_def each_row_def
        ScrapeNDBInfoBackupID_dests_def ScrapeNDBInfoBackupID_row_def row wf_emit Let_def)
  have m': "ConstMetric perfNDBSyncPendingObjectsDescPendingObjects GaugeValue (f_of_u64 1) []
      \<in> set (fst (sc_scrape ?sc' sample_inst one_row_db))"
    by (simp add: ScrapePerfNDBSyncPendingObjects_Scrape_def table_scrape_def with_query_def one_row_db_def each_row_def
        ScrapePerfNDBSyncPendingObjects_dests_def ScrapePerfNDBSyncPendingObjects_row_def row wf_emit Let_def)
  have printed: "joined (fq (metric_desc (ConstMetric ndbinfoBackupIDDesc GaugeValue (f_of_u64 1) []))) \<noteq> []"
    by (simp add: ndbinfoBackupIDDesc_def namespace_def)
  from scrapers_keep_their_names [where print = joined, OF refl in_all other m m' printed] show ?thesis by simp
qed

end
