(* ===== verification/Flags.thy ===== *)
theory Flags
  imports AllScrapers
begin

text \<open>
  The command line. The flags of \<open>mysqld_exporter.go\<close> and of the scrapers, each as it is registered:
  its name, help, default and kind; the on/off flag of each scraper; and what the program reads from
  them once \<open>kingpin.Parse\<close> has run. The package \<open>kingpin\<close> itself is a parameter: \<open>given\<close> are the
  texts the command line gives to a flag, \<open>parse\<close> turns texts into a value, and \<open>flag_package\<close> says
  what is relied on of it.
\<close>

section \<open>Flags\<close>

text \<open>The last call of a registration: \<open>String()\<close>, \<open>Int()\<close>, \<open>Float64()\<close>, \<open>Bool()\<close>, \<open>Strings()\<close>, \<open>Enum(...)\<close>.\<close>

datatype flag_kind = KString | KInt | KFloat | KBool | KStrings | KEnum "string list"

datatype flag_value = VString string | VInt int | VFloat float64 | VBool bool | VStrings "string list"

record flag =
  fg_name :: string
  fg_help :: string
  fg_default :: "string option"   \<comment> \<open>\<open>Default(...)\<close>\<close>
  fg_kind :: flag_kind

definition metricsPathFlag :: flag where
  "metricsPathFlag =
     \<lparr>fg_name = ''web.telemetry-path'',
       fg_help = ''Path under which to expose metrics.'',
       fg_default = Some ''/metrics'', fg_kind = KString\<rparr>"

definition timeoutOffsetFlag :: flag where
  "timeoutOffsetFlag =
     \<lparr>fg_name = ''timeout-offset'',
       fg_help = ''Offset to subtract from timeout in seconds.'',
       fg_default = Some ''0.25'', fg_kind = KFloat\<rparr>"

definition configMycnfFlag :: flag where
  "configMycnfFlag =
     \<lparr>fg_name = ''config.my-cnf'',
       fg_help = ''Path to .my.cnf file to read MySQL credentials from.'',
       fg_default = Some ''.my.cnf'', fg_kind = KString\<rparr>"

definition mysqldAddressFlag :: flag where
  "mysqldAddressFlag =
     \<lparr>fg_name = ''mysqld.address'',
       fg_help = ''Address to use for connecting to MySQL'',
       fg_default = Some ''localhost:3306'', fg_kind = KString\<rparr>"

definition mysqldUserFlag :: flag where
  "mysqldUserFlag =
     \<lparr>fg_name = ''mysqld.username'',
       fg_help = ''Hostname to use for connecting to MySQL'',
       fg_default = None, fg_kind = KString\<rparr>"

definition tlsInsecureSkipVerifyFlag :: flag where
  "tlsInsecureSkipVerifyFlag =
     \<lparr>fg_name = ''tls.insecure-skip-verify'',
       fg_help = ''Ignore certificate and server verification when using a tls connection.'',
       fg_default = None, fg_kind = KBool\<rparr>"

definition exporterLockTimeoutFlag :: flag where
  "exporterLockTimeoutFlag =
     \<lparr>fg_name = ''exporter.lock_wait_timeout'',
       fg_help = ''Set a lock_wait_timeout (in seconds) on the connection to avoid long metadata locking.'',
       fg_default = Some ''2'', fg_kind = KInt\<rparr>"

definition enableExporterLockTimeoutFlag :: flag where
  "enableExporterLockTimeoutFlag =
     \<lparr>fg_name = ''exporter.enable_lock_wait_timeout'',
       fg_help = ''Enable the lock_wait_timeout MySQL connection parameter.'',
       fg_default = Some ''true'', fg_kind = KBool\<rparr>"

definition slowLogFilterFlag :: flag where
  "slowLogFilterFlag =
     \<lparr>fg_name = ''exporter.log_slow_filter'',
       fg_help = ''Add a log_slow_filter to avoid slow query logging of scrapes. NOTE: Not supported by Oracle MySQL.'',
       fg_default = Some ''false'', fg_kind = KBool\<rparr>"

definition exporterQueryTimeoutFlag :: flag where
  "exporterQueryTimeoutFlag =
     \<lparr>fg_name = ''exporter.query_timeout'',
       fg_help = ''Per-scraper query timeout (in seconds). 0 disables the timeout.'',
       fg_default = Some ''0'', fg_kind = KInt\<rparr>"

definition exporterMaxOpenConnsFlag :: flag where
  "exporterMaxOpenConnsFlag =
     \<lparr>fg_name = ''exporter.max_open_connections'',
       fg_help = ''Maximum number of open connections to the database per scrape. Must be >= 1.'',
       fg_default = Some ''2'', fg_kind = KInt\<rparr>"

definition collectHeartbeatDatabaseFlag :: flag where
  "collectHeartbeatDatabaseFlag =
     \<lparr>fg_name = ''collect.heartbeat.database'',
       fg_help = ''Database from where to collect heartbeat data'',
       fg_default = Some ''heartbeat'', fg_kind = KString\<rparr>"

definition collectHeartbeatTableFlag :: flag where
  "collectHeartbeatTableFlag =
     \<lparr>fg_name = ''collect.heartbeat.table'',
       fg_help = ''Table from where to collect heartbeat data'',
       fg_default = Some ''heartbeat'', fg_kind = KString\<rparr>"

definition collectHeartbeatUtcFlag :: flag where
  "collectHeartbeatUtcFlag =
     \<lparr>fg_name = ''collect.heartbeat.utc'',
       fg_help = ''Use UTC for timestamps of the current server (`pt-heartbeat` is called with `--utc`)'',
       fg_default = None, fg_kind = KBool\<rparr>"

definition processlistMinTimeFlag :: flag where
  "processlistMinTimeFlag =
     \<lparr>fg_name = ''collect.info_schema.processlist.min_time'',
       fg_help = ''Minimum time a thread must be in each state to be counted'',
       fg_default = Some ''0'', fg_kind = KInt\<rparr>"

definition processesByUserFlag :: flag where
  "processesByUserFlag =
     \<lparr>fg_name = ''collect.info_schema.processlist.processes_by_user'',
       fg_help = ''Enable collecting the number of processes by user'',
       fg_default = Some ''true'', fg_kind = KBool\<rparr>"

definition processesByHostFlag :: flag where
  "processesByHostFlag =
     \<lparr>fg_name = ''collect.info_schema.processlist.processes_by_host'',
       fg_help = ''Enable collecting the number of processes by host'',
       fg_default = Some ''true'', fg_kind = KBool\<rparr>"

definition tableSchemaDatabasesFlag :: flag where
  "tableSchemaDatabasesFlag =
     \<lparr>fg_name = ''collect.info_schema.tables.databases'',
       fg_help = ''The list of databases to collect table stats for, or '*' for all'',
       fg_default = Some ''*'', fg_kind = KString\<rparr>"

definition userPrivilegesFlag :: flag where
  "userPrivilegesFlag =
     \<lparr>fg_name = ''collect.mysql.user.privileges'',
       fg_help = ''Enable collecting user privileges from mysql.user'',
       fg_default = Some ''false'', fg_kind = KBool\<rparr>"

definition ndbinfoClusterOperationsVerbosityFlag :: flag where
  "ndbinfoClusterOperationsVerbosityFlag =
     \<lparr>fg_name = ''collect.'' @ ScrapeNDBInfoClusterOperations_Name @ ''.verbose'',
       fg_help = ''Metrics verbosity'',
       fg_default = Some ''0'', fg_kind = KEnum [''0'', ''1'']\<rparr>"

definition ndbinfoCountersVerbosityFlag :: flag where
  "ndbinfoCountersVerbosityFlag =
     \<lparr>fg_name = ''collect.'' @ ScrapeNDBInfoCounters_Name @ ''.verbose'',
       fg_help = ''Metrics verbosity'',
       fg_default = Some ''0'', fg_kind = KEnum [''0'', ''1'']\<rparr>"

definition ndbinfoDiskWriteSpeedVerbosityFlag :: flag where
  "ndbinfoDiskWriteSpeedVerbosityFlag =
     \<lparr>fg_name = ''collect.'' @ ScrapeNDBInfoDiskWriteSpeed_Name @ ''.verbose'',
       fg_help = ''Metrics verbosity'',
       fg_default = Some ''0'', fg_kind = KEnum [''0'', ''1'']\<rparr>"

definition ndbinfoDiskPageBufferVerbosityFlag :: flag where
  "ndbinfoDiskPageBufferVerbosityFlag =
     \<lparr>fg_name = ''collect.'' @ ScrapeNDBInfoDiskPageBuffer_Name @ ''.verbose'',
       fg_help = ''Metrics verbosity'',
       fg_default = Some ''0'', fg_kind = KEnum [''0'', ''1'']\<rparr>"

definition ndbinfoPoolsVerbosityFlag :: flag where
  "ndbinfoPoolsVerbosityFlag =
     \<lparr>fg_name = ''collect.'' @ ScrapeNDBInfoPools_Name @ ''.verbose'',
       fg_help = ''Metrics verbosity'',
       fg_default = Some ''0'', fg_kind = KEnum [''0'', ''1'', ''2'']\<rparr>"

definition ndbinfoTableDistributionSkipIdleFlag :: flag where
  "ndbinfoTableDistributionSkipIdleFlag =
     \<lparr>fg_name = ''collect.'' @ ScrapeNDBInfoTableDistribution_Name @ ''.skip_idle'',
       fg_help = ''Skip printing metrics if value of metric is `IDLE`'',
       fg_default = Some ''true'', fg_kind = KBool\<rparr>"

definition ndbinfoThreadstatVerbosityFlag :: flag where
  "ndbinfoThreadstatVerbosityFlag =
     \<lparr>fg_name = ''collect.'' @ ScrapeNDBInfoThreadstat_Name @ ''.verbose'',
       fg_help = ''Metrics verbosity'',
       fg_default = Some ''0'', fg_kind = KEnum [''0'', ''1'']\<rparr>"

definition perfEventsStatementsLimitFlag :: flag where
  "perfEventsStatementsLimitFlag =
     \<lparr>fg_name = ''collect.perf_schema.eventsstatements.limit'',
       fg_help = ''Limit the number of events statements digests by response time'',
       fg_default = Some ''250'', fg_kind = KInt\<rparr>"

definition perfEventsStatementsTimeLimitFlag :: flag where
  "perfEventsStatementsTimeLimitFlag =
     \<lparr>fg_name = ''collect.perf_schema.eventsstatements.timelimit'',
       fg_help = ''Limit how old the 'last_seen' events statements can be, in seconds'',
       fg_default = Some ''86400'', fg_kind = KInt\<rparr>"

definition perfEventsStatementsDigestTextLimitFlag :: flag where
  "perfEventsStatementsDigestTextLimitFlag =
     \<lparr>fg_name = ''collect.perf_schema.eventsstatements.digest_text_limit'',
       fg_help = ''Maximum length of the normalized statement text'',
       fg_default = Some ''120'', fg_kind = KInt\<rparr>"

definition perfEventsStatementsExcludeSchemasFlag :: flag where
  "perfEventsStatementsExcludeSchemasFlag =
     \<lparr>fg_name = ''collect.perf_schema.eventsstatements.exclude_schemas'',
       fg_help = ''Additional schema name to exclude (always excludes mysql, performance_schema, information_schema). Repeatable'',
       fg_default = Some [], fg_kind = KStrings\<rparr>"

definition performanceSchemaFileInstancesFilterFlag :: flag where
  "performanceSchemaFileInstancesFilterFlag =
     \<lparr>fg_name = ''collect.perf_schema.file_instances.filter'',
       fg_help = ''RegEx file_name filter for performance_schema.file_summary_by_instance'',
       fg_default = Some ''.*'', fg_kind = KString\<rparr>"

definition performanceSchemaFileInstancesRemovePrefixFlag :: flag where
  "performanceSchemaFileInstancesRemovePrefixFlag =
     \<lparr>fg_name = ''collect.perf_schema.file_instances.remove_prefix'',
       fg_help = ''Remove path prefix in performance_schema.file_summary_by_instance'',
       fg_default = Some ''/var/lib/mysql/'', fg_kind = KString\<rparr>"

definition performanceSchemaMemoryEventsRemovePrefixFlag :: flag where
  "performanceSchemaMemoryEventsRemovePrefixFlag =
     \<lparr>fg_name = ''collect.perf_schema.memory_events.remove_prefix'',
       fg_help = ''Remove instrument prefix in performance_schema.memory_summary_global_by_event_name'',
       fg_default = Some ''memory/'', fg_kind = KString\<rparr>"

definition main_flags :: "flag list" where
  "main_flags =
    [metricsPathFlag, timeoutOffsetFlag, configMycnfFlag, mysqldAddressFlag, mysqldUserFlag,
     tlsInsecureSkipVerifyFlag, exporterLockTimeoutFlag, enableExporterLockTimeoutFlag, slowLogFilterFlag,
     exporterQueryTimeoutFlag, exporterMaxOpenConnsFlag]"

definition collector_flags :: "flag list" where
  "collector_flags =
    [collectHeartbeatDatabaseFlag, collectHeartbeatTableFlag, collectHeartbeatUtcFlag, processlistMinTimeFlag,
     processesByUserFlag, processesByHostFlag, tableSchemaDatabasesFlag, userPrivilegesFlag,
     ndbinfoClusterOperationsVerbosityFlag, ndbinfoCountersVerbosityFlag, ndbinfoDiskWriteSpeedVerbosityFlag,
     ndbinfoDiskPageBufferVerbosityFlag, ndbinfoPoolsVerbosityFlag, ndbinfoTableDistributionSkipIdleFlag,
     ndbinfoThreadstatVerbosityFlag, perfEventsStatementsLimitFlag, perfEventsStatementsTimeLimitFlag,
     perfEventsStatementsDigestTextLimitFlag, perfEventsStatementsExcludeSchemasFlag,
     performanceSchemaFileInstancesFilterFlag, performanceSchemaFileInstancesRemovePrefixFlag,
     performanceSchemaMemoryEventsRemovePrefixFlag]"

lemmas flag_defs =
metricsPathFlag_def timeoutOffsetFlag_def configMycnfFlag_def mysqldAddressFlag_def mysqldUserFlag_def
  tlsInsecureSkipVerifyFlag_def exporterLockTimeoutFlag_def enableExporterLockTimeoutFlag_def
  slowLogFilterFlag_def exporterQueryTimeoutFlag_def exporterMaxOpenConnsFlag_def
  collectHeartbeatDatabaseFlag_def collectHeartbeatTableFlag_def collectHeartbeatUtcFlag_def
  processlistMinTimeFlag_def processesByUserFlag_def processesByHostFlag_def tableSchemaDatabasesFlag_def
  userPrivilegesFlag_def ndbinfoClusterOperationsVerbosityFlag_def ndbinfoCountersVerbosityFlag_def
  ndbinfoDiskWriteSpeedVerbosityFlag_def ndbinfoDiskPageBufferVerbosityFlag_def
  ndbinfoPoolsVerbosityFlag_def ndbinfoTableDistributionSkipIdleFlag_def ndbinfoThreadstatVerbosityFlag_def
  perfEventsStatementsLimitFlag_def perfEventsStatementsTimeLimitFlag_def
  perfEventsStatementsDigestTextLimitFlag_def perfEventsStatementsExcludeSchemasFlag_def
  performanceSchemaFileInstancesFilterFlag_def performanceSchemaFileInstancesRemovePrefixFlag_def
  performanceSchemaMemoryEventsRemovePrefixFlag_def

text \<open>The on/off flags, generated from the table of scrapers.\<close>

definition collect_flag :: "scraper \<Rightarrow> flag" where
  "collect_flag scraper =
     (let defaultOn = (if map_of scraper_defaults (sc_name scraper) = Some True then ''true'' else ''false'')
      in \<lparr>fg_name = ''collect.'' @ sc_name scraper, fg_help = sc_help scraper, fg_default = Some defaultOn, fg_kind = KBool\<rparr>)"

definition all_flags :: "scraper list \<Rightarrow> flag list" where
  "all_flags keys = main_flags @ collector_flags @ map collect_flag (sortedScrapers keys)"

section \<open>Parsing\<close>

definition value_of ::
    "(flag_kind \<Rightarrow> string list \<Rightarrow> flag_value option) \<Rightarrow> (string \<Rightarrow> string list) \<Rightarrow> flag \<Rightarrow> flag_value option" where
  "value_of parse given f =
     parse (fg_kind f)
       (if given (fg_name f) \<noteq> [] then given (fg_name f)
        else (case fg_default f of None \<Rightarrow> [] | Some d \<Rightarrow> [d]))"

text \<open>\<open>kingpin.Parse\<close> ends the process when a flag is registered twice or a text does not parse.\<close>

definition kingpin_Parse ::
    "(flag_kind \<Rightarrow> string list \<Rightarrow> flag_value option) \<Rightarrow> (string \<Rightarrow> string list) \<Rightarrow> flag list \<Rightarrow> (flag \<Rightarrow> flag_value) option" where
  "kingpin_Parse parse given fs =
     (if distinct (map fg_name fs) \<and> list_all (\<lambda>f. value_of parse given f \<noteq> None) fs
      then Some (\<lambda>f. the (value_of parse given f)) else None)"

fun v_string :: "flag_value \<Rightarrow> string" where "v_string (VString s) = s" | "v_string _ = []"
fun v_int :: "flag_value \<Rightarrow> int" where "v_int (VInt i) = i" | "v_int _ = 0"
fun v_float :: "flag_value \<Rightarrow> float64" where "v_float (VFloat x) = x" | "v_float _ = f_zero"
fun v_bool :: "flag_value \<Rightarrow> bool" where "v_bool (VBool b) = b" | "v_bool _ = False"
fun v_strings :: "flag_value \<Rightarrow> string list" where "v_strings (VStrings ss) = ss" | "v_strings _ = []"

text \<open>What the handlers and \<open>main\<close> read.\<close>

definition read_flags :: "(flag \<Rightarrow> flag_value) \<Rightarrow> flags" where
  "read_flags val =
     \<lparr>fl_timeoutOffset = v_float (val timeoutOffsetFlag),
      fl_enableLockTimeout = v_bool (val enableExporterLockTimeoutFlag),
      fl_lockTimeout = v_int (val exporterLockTimeoutFlag),
      fl_slowLogFilter = v_bool (val slowLogFilterFlag),
      fl_queryTimeout = v_int (val exporterQueryTimeoutFlag),
      fl_maxOpenConns = v_int (val exporterMaxOpenConnsFlag)\<rparr>"

definition read_command :: "(flag \<Rightarrow> flag_value) \<Rightarrow> scraper list \<Rightarrow> command" where
  "read_command val keys =
     \<lparr>cmd_file = v_string (val configMycnfFlag),
      cmd_address = v_string (val mysqldAddressFlag),
      cmd_user = v_string (val mysqldUserFlag),
      cmd_insecure = v_bool (val tlsInsecureSkipVerifyFlag),
      cmd_path = v_string (val metricsPathFlag),
      cmd_flags = read_flags val,
      cmd_collect = (\<lambda>n. \<exists>scraper \<in> set keys. sc_name scraper = n \<and> v_bool (val (collect_flag scraper)))\<rparr>"

text \<open>What the scrapers read.\<close>

definition read_server_flags :: "(flag \<Rightarrow> flag_value) \<Rightarrow> (string \<Rightarrow> bool) \<Rightarrow> server_flags" where
  "read_server_flags val is_uuid =
     \<lparr>sf_processlistMinTime = v_int (val processlistMinTimeFlag),
      sf_processesByHost = v_bool (val processesByHostFlag),
      sf_processesByUser = v_bool (val processesByUserFlag),
      sf_userPrivileges = v_bool (val userPrivilegesFlag),
      sf_tableSchemaDatabases = v_string (val tableSchemaDatabasesFlag),
      sf_fileInstancesFilter = v_string (val performanceSchemaFileInstancesFilterFlag),
      sf_fileInstancesRemovePrefix = v_string (val performanceSchemaFileInstancesRemovePrefixFlag),
      sf_memoryEventsRemovePrefix = v_string (val performanceSchemaMemoryEventsRemovePrefixFlag),
      sf_statements =
        \<lparr>perfEventsStatementsLimit = v_int (val perfEventsStatementsLimitFlag),
         perfEventsStatementsTimeLimit = v_int (val perfEventsStatementsTimeLimitFlag),
         perfEventsStatementsDigestTextLimit = v_int (val perfEventsStatementsDigestTextLimitFlag),
         perfEventsStatementsExcludeSchemas = v_strings (val perfEventsStatementsExcludeSchemasFlag)\<rparr>,
      sf_heartbeat =
        \<lparr>collectHeartbeatDatabase = v_string (val collectHeartbeatDatabaseFlag),
         collectHeartbeatTable = v_string (val collectHeartbeatTableFlag),
         collectHeartbeatUtc = v_bool (val collectHeartbeatUtcFlag)\<rparr>,
      sf_is_uuid = is_uuid\<rparr>"

definition read_scraper_env :: "(flag \<Rightarrow> flag_value) \<Rightarrow> scraper_env \<Rightarrow> scraper_env" where
  "read_scraper_env val env =
     env\<lparr>se_counters := v_string (val ndbinfoCountersVerbosityFlag),
         se_operations := v_string (val ndbinfoClusterOperationsVerbosityFlag),
         se_diskpagebuffer := v_string (val ndbinfoDiskPageBufferVerbosityFlag),
         se_pools := v_string (val ndbinfoPoolsVerbosityFlag),
         se_threadstat := v_string (val ndbinfoThreadstatVerbosityFlag),
         se_disk_write := v_string (val ndbinfoDiskWriteSpeedVerbosityFlag),
         se_skip_idle := v_bool (val ndbinfoTableDistributionSkipIdleFlag)\<rparr>"

section \<open>What is relied on of the package\<close>

text \<open>The value of a default, for the defaults that are in use.\<close>

fun plain_value :: "flag_kind \<Rightarrow> string list \<Rightarrow> flag_value option" where
  "plain_value KString [] = Some (VString [])"
| "plain_value KString [s] = Some (VString s)"
| "plain_value KBool [] = Some (VBool False)"
| "plain_value KBool [s] = (if s = ''true'' then Some (VBool True) else if s = ''false'' then Some (VBool False) else None)"
| "plain_value KInt [s] = (case strconv_ParseInt s 64 of Inl e \<Rightarrow> None | Inr i \<Rightarrow>
    if - (2 ^ 63) \<le> i \<and> i < 2 ^ 63 \<and> strconv_Itoa i = s then Some (VInt i) else None)"
| "plain_value KFloat [s] = (case strconv_ParseFloat s of (x, None) \<Rightarrow> Some (VFloat x) | (x, Some e) \<Rightarrow> None)"
| "plain_value KStrings ss = Some (VStrings ss)"
| "plain_value (KEnum os) [s] = (if s \<in> set os then Some (VString s) else None)"
| "plain_value k ss = None"

locale flag_package =
  fixes parse :: "flag_kind \<Rightarrow> string list \<Rightarrow> flag_value option"
  assumes plain_text: "parse KString [] = Some (VString [])" "parse KString [s] = Some (VString s)"
    and switch: "parse KBool [] = Some (VBool False)" "parse KBool [''true''] = Some (VBool True)"
      "parse KBool [''false''] = Some (VBool False)"
    and number: "- (2 ^ 63) \<le> i \<Longrightarrow> i < 2 ^ 63 \<Longrightarrow> parse KInt [strconv_Itoa i] = Some (VInt i)"
    and decimal: "strconv_ParseFloat s = (x, None) \<Longrightarrow> parse KFloat [s] = Some (VFloat x)"
    and texts: "parse KStrings ss = Some (VStrings ss)"
    and choice: "s \<in> set os \<Longrightarrow> parse (KEnum os) [s] = Some (VString s)"
begin

lemma plain: "plain_value k ss = Some v \<Longrightarrow> parse k ss = Some v"
proof (induction k ss rule: plain_value.induct)
  case (5 s)
  then show ?case by (auto intro: number split: sum.splits if_splits)
qed (auto simp: plain_text switch decimal texts choice split: if_splits prod.splits option.splits)

lemma default_value:
  assumes "given (fg_name f) = []" "plain_value (fg_kind f) (case fg_default f of None \<Rightarrow> [] | Some d \<Rightarrow> [d]) = Some v"
  shows "value_of parse given f = Some v"
  using assms by (simp add: value_of_def plain)

lemma collect_default:
  assumes "given (''collect.'' @ sc_name sc) = []"
  shows "value_of parse given (collect_flag sc) = Some (VBool (map_of scraper_defaults (sc_name sc) = Some True))"
  using assms by (intro default_value) (auto simp: collect_flag_def Let_def)

end

text \<open>A package that has these laws.\<close>

interpretation plain: flag_package plain_value
  by unfold_locales (simp_all add: ParseInt_Itoa)

section \<open>Properties\<close>

text \<open>The scrapers that run unless a flag says otherwise.\<close>

definition default_scrapers :: "string list" where
  "default_scrapers = map fst (filter snd scraper_defaults)"

lemma default_scrapers_eq: "default_scrapers =
   [''global_status'', ''global_variables'', ''slave_status'', ''info_schema.innodb_cmp'', ''info_schema.innodb_cmpmem'',
    ''info_schema.query_response_time'', ''ndbinfo.files'', ''ndbinfo.memoryusage'', ''ndbinfo.nodes'', ''ndbinfo.resources'']"
  by code_simp

lemma in_default_scrapers: "map_of scraper_defaults n = Some True \<longleftrightarrow> n \<in> set default_scrapers"
  using table_distinct by (force simp: default_scrapers_def map_of_eq_Some_iff)

lemma default_scrapers_known: "set default_scrapers \<subseteq> set (map fst scraper_defaults)"
  by (auto simp: default_scrapers_def)

lemma names_of_keys:
  assumes "mset keys = mset (all_scrapers env fl)"
  shows "sc_name ` set keys = set (map fst scraper_defaults)" "distinct (map sc_name keys)"
    "set (map sc_name (sortedScrapers keys)) = set (map fst scraper_defaults)" "distinct (map sc_name (sortedScrapers keys))"
proof -
  have m: "mset (map sc_name keys) = mset (map fst scraper_defaults)"
    using arg_cong [OF assms, of "image_mset sc_name"] all_scrapers_names [of env fl] by simp
  then have s: "mset (map sc_name (sortedScrapers keys)) = mset (map fst scraper_defaults)" by (simp add: sortedScrapers_def)
  from m table_distinct show "sc_name ` set keys = set (map fst scraper_defaults)" "distinct (map sc_name keys)"
    by (metis mset_eq_setD list.set_map, metis mset_eq_imp_distinct_iff)
  from s table_distinct show "set (map sc_name (sortedScrapers keys)) = set (map fst scraper_defaults)"
    "distinct (map sc_name (sortedScrapers keys))"
    by (metis mset_eq_setD, metis mset_eq_imp_distinct_iff)
qed

lemma fixed_flags_distinct: "distinct (map fg_name (main_flags @ collector_flags))"
  by code_simp

lemma fixed_flags_apart:
  "list_all (\<lambda>f. list_all (\<lambda>n. fg_name f \<noteq> ''collect.'' @ n) (map fst scraper_defaults)) (main_flags @ collector_flags)"
  by code_simp

lemma collect_flag_name [simp]: "fg_name (collect_flag sc) = ''collect.'' @ sc_name sc"
  by (simp add: collect_flag_def Let_def)

lemma flags_distinct:
  assumes "mset keys = mset (all_scrapers env fl)"
  shows "distinct (map fg_name (all_flags keys))"
proof -
  note n = names_of_keys [OF assms]
  have "distinct (map (\<lambda>sc. ''collect.'' @ sc_name sc) (sortedScrapers keys))"
    using n(4) by (auto simp: distinct_map inj_on_def)
  moreover have "fg_name f \<noteq> ''collect.'' @ sc_name sc"
    if "f \<in> set (main_flags @ collector_flags)" "sc \<in> set (sortedScrapers keys)" for f sc
  proof -
    have "sc_name sc \<in> set (map fst scraper_defaults)" using n(3) that(2) by auto
    with fixed_flags_apart that(1) show ?thesis by (fastforce simp: list_all_iff)
  qed
  ultimately show ?thesis
    using fixed_flags_distinct unfolding all_flags_def
    by (simp only: map_append distinct_append append_assoc [symmetric] map_map o_def collect_flag_name) fastforce
qed

text \<open>The values of the flags when none is given.\<close>

definition default_of :: "flag \<Rightarrow> flag_value option" where
  "default_of f = plain_value (fg_kind f) (case fg_default f of None \<Rightarrow> [] | Some d \<Rightarrow> [d])"

lemma defaults_have_values: "list_all (\<lambda>f. default_of f \<noteq> None) (main_flags @ collector_flags)"
  by code_simp

lemma read_defaults:
  "read_flags (the \<circ> default_of) =
     \<lparr>fl_timeoutOffset = f_lit 25 2, fl_enableLockTimeout = True, fl_lockTimeout = 2,
      fl_slowLogFilter = False, fl_queryTimeout = 0, fl_maxOpenConns = 2\<rparr>"
  "v_string (the (default_of configMycnfFlag)) = ''.my.cnf''"
  "v_string (the (default_of mysqldAddressFlag)) = ''localhost:3306''"
  "v_string (the (default_of mysqldUserFlag)) = []"
  "\<not> v_bool (the (default_of tlsInsecureSkipVerifyFlag))"
  "v_string (the (default_of metricsPathFlag)) = ''/metrics''"
  by code_simp+

lemma read_command_defaults:
  "(read_command (the \<circ> default_of) keys)\<lparr>cmd_collect := on\<rparr> =
      \<lparr>cmd_file = ''.my.cnf'', cmd_address = ''localhost:3306'', cmd_user = [], cmd_insecure = False,
       cmd_path = ''/metrics'',
       cmd_flags = \<lparr>fl_timeoutOffset = f_lit 25 2, fl_enableLockTimeout = True, fl_lockTimeout = 2,
         fl_slowLogFilter = False, fl_queryTimeout = 0, fl_maxOpenConns = 2\<rparr>,
       cmd_collect = on\<rparr>"
  by (simp add: read_command_def read_defaults)

lemma collector_defaults:
  "map default_of collector_flags = map Some
    [VString ''heartbeat'', VString ''heartbeat'', VBool False, VInt 0, VBool True, VBool True, VString ''*'',
     VBool False, VString ''0'', VString ''0'', VString ''0'', VString ''0'', VString ''0'', VBool True,
     VString ''0'', VInt 250, VInt 86400, VInt 120, VStrings [[]], VString ''.*'', VString ''/var/lib/mysql/'',
     VString ''memory/'']"
  by code_simp

lemmas collector_default = collector_defaults [unfolded collector_flags_def list.map list.inject]

lemma read_server_defaults:
  "read_server_flags (the \<circ> default_of) is_uuid =
     \<lparr>sf_processlistMinTime = 0, sf_processesByHost = True, sf_processesByUser = True, sf_userPrivileges = False,
      sf_tableSchemaDatabases = ''*'', sf_fileInstancesFilter = ''.*'', sf_fileInstancesRemovePrefix = ''/var/lib/mysql/'',
      sf_memoryEventsRemovePrefix = ''memory/'',
      sf_statements = \<lparr>perfEventsStatementsLimit = 250, perfEventsStatementsTimeLimit = 86400,
        perfEventsStatementsDigestTextLimit = 120, perfEventsStatementsExcludeSchemas = [[]]\<rparr>,
      sf_heartbeat = \<lparr>collectHeartbeatDatabase = ''heartbeat'', collectHeartbeatTable = ''heartbeat'',
        collectHeartbeatUtc = False\<rparr>,
      sf_is_uuid = is_uuid\<rparr>"
  by (simp add: read_server_flags_def collector_default)

lemma read_scraper_defaults:
  "read_scraper_env (the \<circ> default_of) env =
     env\<lparr>se_counters := ''0'', se_operations := ''0'', se_diskpagebuffer := ''0'', se_pools := ''0'',
         se_threadstat := ''0'', se_disk_write := ''0'', se_skip_idle := True\<rparr>"
  by (simp add: read_scraper_env_def collector_default)

lemma read_agree:
  assumes "\<And>f. f \<in> set (main_flags @ collector_flags) \<Longrightarrow> val f = val' f"
  shows "read_flags val = read_flags val'"
    "read_server_flags val is_uuid = read_server_flags val' is_uuid"
    "read_scraper_env val env = read_scraper_env val' env"
    "read_command val keys = (read_command val' keys)\<lparr>cmd_collect := cmd_collect (read_command val keys)\<rparr>"
proof -
  note a = assms [unfolded main_flags_def collector_flags_def]
  show "read_flags val = read_flags val'" by (simp add: read_flags_def a)
  then show "read_command val keys = (read_command val' keys)\<lparr>cmd_collect := cmd_collect (read_command val keys)\<rparr>"
    by (simp add: read_command_def a)
  show "read_server_flags val is_uuid = read_server_flags val' is_uuid" by (simp add: read_server_flags_def a)
  show "read_scraper_env val env = read_scraper_env val' env" by (simp add: read_scraper_env_def a)
qed

abbreviation no_arguments :: "(flag_kind \<Rightarrow> string list \<Rightarrow> flag_value option) \<Rightarrow> flag \<Rightarrow> flag_value" where
  "no_arguments parse \<equiv> \<lambda>f. the (value_of parse (\<lambda>_. []) f)"

lemma default_parsed:
  assumes "flag_package parse" "f \<in> set (main_flags @ collector_flags)"
  shows "value_of parse (\<lambda>_. []) f = default_of f \<and> default_of f \<noteq> None"
  using defaults_have_values assms(2) flag_package.default_value [OF assms(1), of "\<lambda>_. []" f]
  by (auto simp: list_all_iff default_of_def simp del: set_append)

lemma parse_defaults:
  assumes "flag_package parse" "mset keys = mset (all_scrapers env fl)"
  shows "kingpin_Parse parse (\<lambda>_. []) (all_flags keys) = Some (no_arguments parse)"
    "cmd_collect (read_command (no_arguments parse) keys) = (\<lambda>n. n \<in> set default_scrapers)"
proof -
  note collect = flag_package.collect_default [OF assms(1), of "\<lambda>_. []"]
  show "kingpin_Parse parse (\<lambda>_. []) (all_flags keys) = Some (no_arguments parse)"
    using flags_distinct [OF assms(2)] collect default_parsed [OF assms(1)]
    by (auto simp: kingpin_Parse_def all_flags_def list_all_iff)
  show "cmd_collect (read_command (no_arguments parse) keys) = (\<lambda>n. n \<in> set default_scrapers)"
  proof
    fix n
    have "cmd_collect (read_command (no_arguments parse) keys) n \<longleftrightarrow> n \<in> sc_name ` set keys \<and> n \<in> set default_scrapers"
      by (auto simp: read_command_def collect in_default_scrapers simp del: set_map)
    also have "\<dots> \<longleftrightarrow> n \<in> set default_scrapers"
      unfolding names_of_keys(1) [OF assms(2)] using default_scrapers_known by blast
    finally show "cmd_collect (read_command (no_arguments parse) keys) n \<longleftrightarrow> n \<in> set default_scrapers" .
  qed
qed

lemma read_no_arguments:
  assumes "flag_package parse" "mset keys = mset (all_scrapers env fl)"
  shows "read_command (no_arguments parse) keys =
      (read_command (the \<circ> default_of) keys)\<lparr>cmd_collect := (\<lambda>n. n \<in> set default_scrapers)\<rparr>"
    "read_server_flags (no_arguments parse) is_uuid = read_server_flags (the \<circ> default_of) is_uuid"
    "read_scraper_env (no_arguments parse) env' = read_scraper_env (the \<circ> default_of) env'"
proof -
  note agree = read_agree [where val = "no_arguments parse" and val' = "the \<circ> default_of"]
  show "read_command (no_arguments parse) keys =
      (read_command (the \<circ> default_of) keys)\<lparr>cmd_collect := (\<lambda>n. n \<in> set default_scrapers)\<rparr>"
    unfolding parse_defaults(2) [OF assms, symmetric] by (rule agree) (simp add: default_parsed [OF assms(1)])
  show "read_server_flags (no_arguments parse) is_uuid = read_server_flags (the \<circ> default_of) is_uuid"
    "read_scraper_env (no_arguments parse) env' = read_scraper_env (the \<circ> default_of) env'"
    by (rule agree, simp add: default_parsed [OF assms(1)])+
qed

text \<open>
  C24: started without arguments the flags of the program are accepted: no two have the same name, and
  every default is a text of its kind. Then the configuration is read from \<open>.my.cnf\<close>, for
  \<open>localhost:3306\<close> and without a user, the limits of the exporter are valid ones, the ten scrapers
  listed are on and all others off,
  and the scrapers have the options listed.
\<close>

theorem default_command:
  assumes "flag_package parse" "mset keys = mset (all_scrapers env fl)"
  shows "\<exists>val. kingpin_Parse parse (\<lambda>_. []) (all_flags keys) = Some val \<and>
    read_command val keys =
      \<lparr>cmd_file = ''.my.cnf'', cmd_address = ''localhost:3306'', cmd_user = [], cmd_insecure = False,
       cmd_path = ''/metrics'',
       cmd_flags = \<lparr>fl_timeoutOffset = f_lit 25 2, fl_enableLockTimeout = True, fl_lockTimeout = 2,
         fl_slowLogFilter = False, fl_queryTimeout = 0, fl_maxOpenConns = 2\<rparr>,
       cmd_collect = (\<lambda>n. n \<in> set
         [''global_status'', ''global_variables'', ''slave_status'', ''info_schema.innodb_cmp'', ''info_schema.innodb_cmpmem'',
          ''info_schema.query_response_time'', ''ndbinfo.files'', ''ndbinfo.memoryusage'', ''ndbinfo.nodes'', ''ndbinfo.resources''])\<rparr> \<and>
    read_server_flags val is_uuid =
      \<lparr>sf_processlistMinTime = 0, sf_processesByHost = True, sf_processesByUser = True, sf_userPrivileges = False,
       sf_tableSchemaDatabases = ''*'', sf_fileInstancesFilter = ''.*'', sf_fileInstancesRemovePrefix = ''/var/lib/mysql/'',
       sf_memoryEventsRemovePrefix = ''memory/'',
       sf_statements = \<lparr>perfEventsStatementsLimit = 250, perfEventsStatementsTimeLimit = 86400,
         perfEventsStatementsDigestTextLimit = 120, perfEventsStatementsExcludeSchemas = [[]]\<rparr>,
       sf_heartbeat = \<lparr>collectHeartbeatDatabase = ''heartbeat'', collectHeartbeatTable = ''heartbeat'',
         collectHeartbeatUtc = False\<rparr>,
       sf_is_uuid = is_uuid\<rparr> \<and>
    read_scraper_env val env =
      env\<lparr>se_counters := ''0'', se_operations := ''0'', se_diskpagebuffer := ''0'', se_pools := ''0'',
          se_threadstat := ''0'', se_disk_write := ''0'', se_skip_idle := True\<rparr>"
  by (intro exI [of _ "no_arguments parse"] conjI)
     (simp_all only: parse_defaults(1) [OF assms] read_no_arguments [OF assms] read_command_defaults read_server_defaults
       read_scraper_defaults default_scrapers_eq)

theorem default_command_witness:
  "\<exists>val. kingpin_Parse plain_value (\<lambda>_. []) (all_flags (all_scrapers sample_scraper_env sample_server_flags)) = Some val \<and>
     cmd_path (read_command val (all_scrapers sample_scraper_env sample_server_flags)) = ''/metrics''"
proof -
  from default_command [OF plain.flag_package_axioms refl, where env = sample_scraper_env and fl = sample_server_flags
      and is_uuid = "\<lambda>_. False"]
  obtain val where "kingpin_Parse plain_value (\<lambda>_. []) (all_flags (all_scrapers sample_scraper_env sample_server_flags)) = Some val"
    "cmd_path (read_command val (all_scrapers sample_scraper_env sample_server_flags)) = ''/metrics''"
    by (elim exE conjE) (rule that, assumption, simp only: command.select_convs)
  then show ?thesis by blast
qed

lemma collect_switch:
  assumes "flag_package parse" "kingpin_Parse parse given (all_flags keys) = Some val"
    and "cmd_collect (read_command val keys) n" "given (''collect.'' @ n) = []"
  shows "n \<in> set default_scrapers"
proof -
  from assms(2) have val: "val = (\<lambda>f. the (value_of parse given f))" by (auto simp: kingpin_Parse_def split: if_splits)
  from assms(3) obtain sc where "sc_name sc = n" "v_bool (val (collect_flag sc))" by (auto simp: read_command_def)
  with flag_package.collect_default [OF assms(1)] assms(4) show ?thesis by (auto simp: val in_default_scrapers)
qed



end
