(* ===== verification/Versions.thy ===== *)
theory Versions
  imports AllScrapers
begin

text \<open>
  Which scrapers a server is new enough for. Versions are ordered by their three numbers, as
  \<open>semver\<close> compares them; \<open>exporter.go\<close> compares floats instead, the number \<open>major.minor\<close> of the
  server with that of \<open>Version()\<close>. Here is where the two agree: for minor versions of one digit.
\<close>

section \<open>The order of versions\<close>

instantiation version_ext :: (linorder) linorder
begin

definition less_eq_version_ext :: "'a version_scheme \<Rightarrow> 'a version_scheme \<Rightarrow> bool" where
  "less_eq_version_ext v w \<longleftrightarrow>
     v_major v < v_major w \<or> (v_major v = v_major w \<and>
       (v_minor v < v_minor w \<or> (v_minor v = v_minor w \<and>
         (v_patch v < v_patch w \<or> (v_patch v = v_patch w \<and> version.more v \<le> version.more w)))))"

definition less_version_ext :: "'a version_scheme \<Rightarrow> 'a version_scheme \<Rightarrow> bool" where
  "less_version_ext v w \<longleftrightarrow> v \<le> w \<and> \<not> w \<le> v"

instance
  by standard (auto simp: less_eq_version_ext_def less_version_ext_def)

end

lemma version_GTE_iff: "version_GTE v w \<longleftrightarrow> w \<le> v"
  by (auto simp: version_GTE_def less_eq_version_ext_def)

section \<open>Floats of tenths\<close>

abbreviation tenths :: "int \<Rightarrow> float64" where
  "tenths n \<equiv> round_frac False n 10"

lemma tenths_close:
  assumes "0 \<le> n" "n < 2 ^ 40"
  shows "is_finite (tenths n)" "\<bar>fval (tenths n) - n / 10\<bar> < 1 / 20"
proof -
  have "real_of_int n / real_of_int 10 < 2 powi 40" using assms by simp
  from round_frac_close [OF assms(1) _ this, of False] show "is_finite (tenths n)" "\<bar>fval (tenths n) - n / 10\<bar> < 1 / 20"
    by simp_all
qed

lemma tenths_less:
  assumes "0 \<le> n" "n < 2 ^ 40" "0 \<le> k" "k < 2 ^ 40"
  shows "f_lt (tenths n) (tenths k) \<longleftrightarrow> n < k"
proof -
  note c = tenths_close [OF assms(1,2)] tenths_close [OF assms(3,4)]
  have "f_lt (tenths n) (tenths k) \<longleftrightarrow> fval (tenths n) < fval (tenths k)"
    using c(1,3) by (auto simp: is_finite_def f_lt_Fin split: float64.splits)
  also have "\<dots> \<longleftrightarrow> n < k"
  proof (cases n k rule: linorder_cases)
    case less
    then have "real_of_int n + 1 \<le> real_of_int k" by linarith
    with less c(2,4) show ?thesis by linarith
  next
    case greater
    then have "real_of_int k + 1 \<le> real_of_int n" by linarith
    with greater c(2,4) show ?thesis by linarith
  qed simp
  finally show ?thesis .
qed

lemma ParseFloat_version:
  assumes "0 \<le> v_major v" "v_major v < 2 ^ 32" "0 \<le> v_minor v" "v_minor v < 10"
  shows "strconv_ParseFloat (major_minor_string v) = (tenths (10 * v_major v + v_minor v), None)"
proof (rule ParseFloat_finite)
  have m: "show_uint (v_minor v) = [digit_char (v_minor v)]" using assms(4) by (simp add: show_uint.simps)
  have s: "major_minor_string v = show_uint (v_major v) @ CHR ''.'' # show_uint (v_minor v)"
    using assms by (simp add: major_minor_string_def strconv_Itoa_def)
  show "special_float (major_minor_string v) = None"
    unfolding s using assms(1) by (intro special_digits) (simp_all add: show_uint_digits)
  have d: "is_digit (digit_char (v_minor v))" "digit_val (digit_char (v_minor v)) = v_minor v"
    using show_uint_digits [OF assms(3)] dec_from_show_uint [OF assms(3)] by (simp_all add: m)
  show "parse_number (major_minor_string v) = Some (tenths (10 * v_major v + v_minor v))"
    unfolding s using assms by (subst parse_number_decimal)
      (simp_all add: show_uint_digits dec_from_show_uint d m scale_float_def algebra_simps)
  show "is_finite (tenths (10 * v_major v + v_minor v))"
    using assms by (intro tenths_close) simp_all
qed

section \<open>What the scrapers ask for\<close>

definition asks_for :: "scraper \<Rightarrow> version \<Rightarrow> bool" where
  "asks_for sc v \<longleftrightarrow> v_patch v = 0 \<and> 0 \<le> v_minor v \<and> v_minor v < 10 \<and> 0 \<le> v_major v \<and> v_major v < 2 ^ 32 \<and>
     sc_version sc = f_lit (10 * v_major v + v_minor v) 1"

definition asked_versions :: "version list" where
  "asked_versions = map (\<lambda>(m, n). \<lparr>v_major = m, v_minor = n, v_patch = 0\<rparr>) [(5, 1), (5, 5), (5, 6), (5, 7), (8, 0), (8, 4)]"

lemmas scraper_versions =
  ScrapeEngineInnodbStatus_Version_def ScrapeEngineTokudbStatus_Version_def ScrapeHeartbeat_Version_def
  ScrapeInnodbMetrics_Version_def ScrapeQueryResponseTime_Version_def ScrapeClientStat_Version_def
  ScrapeUserStat_Version_def ScrapeAutoIncrementColumns_Version_def ScrapeInnodbCmp_Version_def
  ScrapeInnodbCmpMem_Version_def ScrapeSchemaStat_Version_def ScrapeTableStat_Version_def
  ScrapeRocksDBPerfContext_Version_def ScrapeInfoSchemaInnodbTablespaces_Version_def
  ScrapeTableSchema_Version_def ScrapeReplicaHost_Version_def ScrapeNDBInfoDiskPageBuffer_Version_def
  ScrapeNDBInfoDiskStat_Version_def ScrapeNDBInfoLogBuffers_Version_def ScrapeNDBInfoLogSpaces_Version_def
  ScrapeNDBInfoMemoryUsage_Version_def ScrapeNDBInfoDiskWriteSpeed_Version_def
  ScrapeNDBInfoCertificates_Version_def ScrapeNDBInfoClusterTransactions_Version_def
  ScrapeNDBInfoFiles_Version_def ScrapeNDBInfoPGMANTimeTrackStats_Version_def
  ScrapeNDBInfoTCTimeTrackStats_Version_def ScrapeNDBInfoBackupID_Version_def
  ScrapeNDBInfoConfigValues_Version_def ScrapeNDBInfoCounters_Version_def
  ScrapeNDBInfoClusterOperations_Version_def ScrapeNDBInfoResources_Version_def ScrapeNDBInfoPools_Version_def
  ScrapeNDBInfoMembership_Version_def ScrapeNDBInfoNodes_Version_def ScrapeNDBInfoTableDistribution_Version_def
  ScrapeNDBInfoTransporters_Version_def ScrapeNDBInfoThreadstat_Version_def
  ScrapePerfNDBSyncExcludedObjects_Version_def ScrapePerfNDBSyncPendingObjects_Version_def
  ScrapePerfReplicationGroupMembers_Version_def ScrapePerfReplicationGroupMemberStats_Version_def
  ScrapePerfReplicationApplierStatsByWorker_Version_def ScrapePerfEventsStatements_Version_def
  ScrapePerfEventsWaits_Version_def ScrapePerfEventsStatementsSum_Version_def ScrapePerfTableIOWaits_Version_def
  ScrapePerfIndexIOWaits_Version_def ScrapePerfTableLockWaits_Version_def ScrapePerfFileEvents_Version_def
  ScrapePerfMemoryEvents_Version_def ScrapePerfFileInstances_Version_def ScrapeSysUserSummary_Version_def
  ScrapeProcesslist_Version_def ScrapeBinlogSize_Version_def ScrapeSlaveStatus_Version_def
  ScrapeGlobalStatus_Version_def ScrapeGlobalVariables_Version_def ScrapeSlaveHosts_Version_def
  ScrapeUser_Version_def

lemma asked: "sc \<in> set (all_scrapers env fl) \<Longrightarrow> \<exists>v \<in> set asked_versions. asks_for sc v"
  unfolding all_scrapers_def server_scrapers_def ndb_scrapers_def
  by (auto simp: asks_for_def asked_versions_def scraper_versions)

lemma gate:
  assumes "asks_for sc w" "0 \<le> v_major v" "v_major v < 2 ^ 32" "0 \<le> v_minor v" "v_minor v < 10" "0 \<le> v_patch v"
  shows "f_lt (fst (strconv_ParseFloat (major_minor_string v))) (sc_version sc) \<longleftrightarrow> v < w"
proof -
  have "sc_version sc = tenths (10 * v_major w + v_minor w)" using assms(1) by (simp add: asks_for_def f_lit_def)
  moreover have "10 * v_major v + v_minor v < 10 * v_major w + v_minor w \<longleftrightarrow> v < w"
    using assms by (auto simp: asks_for_def less_version_ext_def less_eq_version_ext_def)
  ultimately show ?thesis
    using assms tenths_less [of "10 * v_major v + v_minor v" "10 * v_major w + v_minor w"]
    by (simp add: ParseFloat_version asks_for_def)
qed

lemma newInstance_version:
  "newInstance sql_open parse_tolerant dsn n = (Inr inst, b) \<Longrightarrow>
   inst_versionMajorMinor inst = fst (strconv_ParseFloat (major_minor_string (inst_version inst)))"
  by (auto simp: newInstance_def split: sum.splits prod.splits option.splits)

text \<open>
  C12: a collection runs a scraper exactly when the version of the server is at least the one the
  scraper asks for, in the order of versions, provided the minor version of the server has one digit;
  and the questions for MySQL 8.0.28 and MariaDB 10.5.0 are about that order too, for all versions.
\<close>

theorem version_gate_follows_versions:
  assumes "set (e_scrapers e) \<subseteq> set (all_scrapers sc_env fl)" "connected e env = Some inst"
    and "0 \<le> v_major (inst_version inst)" "v_major (inst_version inst) < 2 ^ 32"
    and "0 \<le> v_minor (inst_version inst)" "v_minor (inst_version inst) < 10" "0 \<le> v_patch (inst_version inst)"
  shows "(\<exists>asked. (\<forall>sc \<in> set (e_scrapers e). asks_for sc (asked sc)) \<and>
      eligible inst e = filter (\<lambda>(i, sc). asked sc \<le> inst_version inst) (numbered e)) \<and>
    (mysqlVersion8028 inst \<longleftrightarrow> inst_flavor inst = FlavorMySQL \<and> \<lparr>v_major = 8, v_minor = 0, v_patch = 28\<rparr> \<le> inst_version inst) \<and>
    (tablespaces_mariadb105 inst \<longleftrightarrow>
       inst_flavor inst = FlavorMariaDB \<and> \<lparr>v_major = 10, v_minor = 5, v_patch = 0\<rparr> \<le> inst_version inst)"
proof (intro conjI)
  from asked assms(1) have "\<forall>sc \<in> set (e_scrapers e). \<exists>v. asks_for sc v" by blast
  then obtain asked where a: "\<forall>sc \<in> set (e_scrapers e). asks_for sc (asked sc)" by metis
  from assms(2) have mm: "inst_versionMajorMinor inst = fst (strconv_ParseFloat (major_minor_string (inst_version inst)))"
    by (auto simp: connected_def dest: newInstance_version split: prod.splits sum.splits if_splits)
  have "\<not> f_lt (inst_versionMajorMinor inst) (sc_version (snd x)) \<longleftrightarrow> (\<lambda>(i, sc). asked sc \<le> inst_version inst) x"
    if "x \<in> set (numbered e)" for x
  proof -
    from that have "snd x \<in> set (e_scrapers e)" unfolding numbered_def by (metis prod.collapse set_zip_rightD)
    with a gate [OF _ assms(3-7)] show ?thesis by (auto simp: mm not_less split: prod.splits)
  qed
  then have "eligible inst e = filter (\<lambda>(i, sc). asked sc \<le> inst_version inst) (numbered e)"
    unfolding eligible_def by (rule filter_cong [OF refl])
  with a show "\<exists>asked. (\<forall>sc \<in> set (e_scrapers e). asks_for sc (asked sc)) \<and>
      eligible inst e = filter (\<lambda>(i, sc). asked sc \<le> inst_version inst) (numbered e)" by blast
qed (simp_all add: mysqlVersion8028_def tablespaces_mariadb105_def version_GTE_iff)

theorem version_gate_follows_versions_witness:
  "\<exists>asked. eligible sample_inst busy_exporter = filter (\<lambda>(i, sc). asked sc \<le> inst_version sample_inst) (numbered busy_exporter)"
proof -
  have c: "connected busy_exporter sample_env = Some sample_inst"
    using sample_connected unfolding connected_def busy_exporter_def
    by (auto split: prod.splits sum.splits if_splits)
  have s: "set (e_scrapers busy_exporter) \<subseteq> set (all_scrapers sample_scraper_env sample_server_flags)"
    by (auto simp: busy_exporter_def)
  have v: "inst_version sample_inst = \<lparr>v_major = 8, v_minor = 0, v_patch = 36\<rparr>" by code_simp
  show ?thesis using version_gate_follows_versions [OF s c] by (simp add: v) blast
qed

end
