(* ===== verification/Spec2Isabelle.thy ===== *)
theory Spec2Isabelle
  imports NameTable Flags Versions
begin

text \<open>
  A model of \<open>mysqld_ndb_exporter\<close>, the Prometheus exporter of MySQL servers and NDB
  clusters, and what makes it correct.

  The program. \<open>main\<close> (\<open>mysqld_exporter.go\<close>) reads flags, checks them,
  loads the configuration file and serves three handlers: \<open>/metrics\<close> for the section
  \<open>client\<close>, \<open>/probe\<close> (\<open>probe.go\<close>) for a target and a section
  named in the request, and \<open>/-/reload\<close>, which loads the file again. The first two form
  a DSN from the section (\<open>config/config.go\<close>), make an exporter with the scrapers the
  request asks for (\<open>collector/exporter.go\<close>) and register it. A collection opens the
  server, reads its version (\<open>collector/instance.go\<close>), starts one goroutine per scraper
  that is not too new for it, and forwards what they send. A scraper (\<open>collector/*.go\<close>)
  runs a query and turns rows into metrics.

  How the theories follow the code.

  The language and its library, as far as the code uses them: \<open>Prelude\<close>
  (\<open>strings\<close>), \<open>GoFloat\<close> (\<open>float64\<close> with rounding),
  \<open>GoStrconv\<close>, \<open>GoRegexp\<close>, \<open>GoTime\<close>, \<open>GoMap\<close>
  (maps, with the order of a range statement as an argument), \<open>GoSql\<close> (an answer is
  columns and rows of cells, \<open>Scan\<close> converts them to destinations or fails).

  \<open>Scraper\<close> is the interface: what a scrape sends and how it ends (nil, an error, a
  panic), with the locales \<open>safe_scraper\<close>, \<open>table_scraper\<close> (a query and a
  loop), \<open>loop_scraper\<close> and \<open>finishing_scraper\<close> (a loop with a state, and
  what is sent after it). Every scraper is an interpretation of one of them, and its lemmas come
  from there.

  \<open>Collector\<close> is \<open>collector.go\<close> (\<open>parseStatus\<close>,
  \<open>parsePrivilege\<close>) and \<open>instance.go\<close>; \<open>Exporter\<close> is
  \<open>exporter.go\<close>: the options and the DSN of \<open>New\<close>, and
  \<open>Collect\<close>, once as a result and once as the step relation \<open>collect_step\<close>
  on the threads and the channel; \<open>Config\<close> is \<open>config.go\<close> over the state
  \<open>config_state\<close> (sections, the package variable \<open>err\<close>, the gauges, the
  TLS configurations of the driver); \<open>Handlers\<close> is \<open>mysqld_exporter.go\<close>
  and \<open>probe.go\<close>: one request, and the start of \<open>main\<close>;
  \<open>Server\<close> is the process that then runs, as the step relation
  \<open>process_step\<close> on the configuration and the requests on their way, with the
  specification \<open>spec_step\<close> it refines.

  The scrapers of NDB: \<open>NdbBase\<close> (\<open>ndbinfo.go\<close>, the histogram helper),
  \<open>NdbOperations\<close>, \<open>NdbDisk\<close>, \<open>NdbThreads\<close> and
  \<open>NdbStatus\<close> (one query and one loop each), \<open>NdbFiles\<close> (loops that carry
  a state), \<open>NdbHistogram\<close> (buckets per node), \<open>NdbDiskWrite\<close> (a scraper
  and its background task as the step relation \<open>dw_step\<close> over the package variables);
  \<open>Registry\<close> lists them.

  The other scrapers: \<open>GenericBase\<close> (their contract \<open>safe_out\<close>, loops over
  columns), \<open>PerfTables\<close> and \<open>InfoTables\<close> (one query and one loop each),
  \<open>InfoStats\<close> (statistics by column), \<open>ProcessList\<close>,
  \<open>InfoMetrics\<close> (\<open>innodb_metrics\<close>, response times),
  \<open>PerfStatements\<close> (digests and excluded schemas), \<open>PerfReplication\<close>
  (group replication), \<open>ServerVariables\<close> (\<open>SHOW GLOBAL STATUS\<close> and
  \<open>VARIABLES\<close>), \<open>EngineStatus\<close> (InnoDB, TokuDB, heartbeat),
  \<open>Replication\<close> (binary log, replica status), \<open>UsersHosts\<close>;
  \<open>AllScrapers\<close> lists the sixty scrapers of the table of \<open>main\<close>.

  Over the whole table: \<open>Names\<close> finds which metric names each scraper can send, and
  \<open>NameTable\<close> lists them as they are printed; \<open>Flags\<close> is the command line:
  every flag as it is registered, and what \<open>main\<close>, the handlers and the scrapers read
  from it; \<open>Versions\<close> orders the versions of servers and says when the exporter's
  comparison of floats is that order.

  What the lemmas show. Of a collection: it returns, what it sends does not depend on how its
  goroutines interleave, \<open>up\<close> is last and each eligible scraper has one success metric.
  Of a probe and a reload: when they succeed, what they leave, what a DSN is made of. Of the running
  process: it refines a specification in which a configuration changes as a whole and an answer
  depends on its request only; its sections stay valid; each exporter it answers with can finish a
  collection. Of all scrapers but one: metrics have as many values as labels, and no run ends in a
  panic of the model. Of each scraper with logic of its own: the metrics it sends, as a function of
  the rows. Of maps: that the order they are visited in does not show. Of the scrapers together: no
  two send metrics of one name, and each runs on the servers of its version and later, for minor
  versions of one digit. Of the command line: its flags are accepted, what their defaults are, and
  that a process started from it serves exporters that can finish a collection. Of the disk write
  task: its counter is the sum of its ticks in every interleaving, and which interleavings crash.
  Some theorems state what the code does where it seems not to be meant; they are named in the
  manifest's findings.

  Bounds and fuel. Recursion is structural on rows, columns and strings, or on the digits of a
  number; a repetition in \<open>GoRegexp\<close> gets as many rounds as the text has characters,
  which is enough because each round takes one. \<open>Collect\<close> as a run of goroutines ends
  by a measure on what is left to send. The ticks of the disk write task have no end in the code and
  none in the model: its theorems hold after any number of steps. Integers are words of their width;
  a \<open>float64\<close> is exact with rounding written out.

  Parameters: the parser of \<open>kingpin\<close> (\<open>flag_package\<close> says what is relied
  on), what \<open>BuildFQName\<close> prints (\<open>joined\<close>, as it is documented), what the
  server answers to a query (a function of the number of the query within the scrape, its text and
  its arguments), whether it opens and answers a ping, \<open>semver.ParseTolerant\<close>,
  \<open>uuid.Parse\<close>, the ini file and other files, \<open>FormatDSN\<close> of the driver,
  time zones, and the orders maps are visited in.

  Not modelled. Logging (and \<open>getTargetFromDsn\<close>, used for it only), the landing page
  and the HTTP server, which are calls to libraries. Contexts: a scrape that is cancelled is an
  answer that is an error, from the driver, at whatever query it comes. Closing of rows and of
  connections. What the Prometheus library does with metrics: of its checks only the number of label
  values is (\<open>metric_ok\<close>); it also panics for label values that are not UTF-8 and for
  descriptors with invalid names, which the scrapers that name metrics by columns can make, and
  refuses duplicates when it gathers. Data races: a step of the disk write task, or of a handler
  once it has read its configuration, is atomic in the model. Strings are bytes;
  \<open>strings.ToLower\<close> is modelled for ASCII, and regular expressions match bytes.
  \<open>rows.Err\<close> has no place in the model because the code never calls it: an answer that
  breaks off is a shorter one.
\<close>

end
